(* ===== verification/Prelude.thy ===== *)
theory Prelude
  imports Complex_Main "HOL-Library.AList" "HOL-Library.Word" "HOL-Library.Sublist"
    "HOL-Library.List_Lexorder" "HOL-Library.Char_ord"
begin

text \<open>
  What the components share: the collections of simplification rules, Go's built-in types and
  the parts of Go's standard library that the sources use on strings, slices and maps.

  A Go string is a \<^typ>\<open>string\<close> (a list of bytes).  A Go map with string keys is an association
  list: the order of the list stands for the order in which one \<open>range\<close> over the map visits the
  keys, which Go leaves open; a well-formed map has distinct keys (\<open>gomap_ok\<close>).  A nil map reads
  like an empty one and is the empty list.  An \<open>int32\<close> or \<open>uint32\<close> is a \<^typ>\<open>32 word\<close>, read by
  \<^const>\<open>sint\<close> or \<^const>\<open>unat\<close>.  A \<open>float64\<close> is an exact \<^typ>\<open>real\<close>: rounding, infinities and NaN are
  not modelled.  A function that returns an \<open>error\<close> returns an option, \<^const>\<open>None\<close> for nil; one
  that returns a value and an error returns a sum, \<^const>\<open>Inl\<close> for the error.
\<close>

named_theorems gomap_simps \<open>lookups in Go maps after updates, merges and deletions\<close>
named_theorems str_simps \<open>the strings package\<close>

section \<open>Go maps\<close>

type_synonym 'v gomap = "(string \<times> 'v) list"

definition gomap_ok :: "'v gomap \<Rightarrow> bool" where
  "gomap_ok m = distinct (map fst m)"

text \<open>\<open>v, ok := m[k]\<close>, and \<open>m[k]\<close> on its own, which gives the zero value for a missing key.\<close>

definition gomap_get :: "'v gomap \<Rightarrow> string \<Rightarrow> 'v option" where
  "gomap_get m k = map_of m k"

definition gomap_str :: "string gomap \<Rightarrow> string \<Rightarrow> string" where
  "gomap_str m k = (case gomap_get m k of None \<Rightarrow> '''' | Some v \<Rightarrow> v)"

definition gomap_set :: "'v gomap \<Rightarrow> string \<Rightarrow> 'v \<Rightarrow> 'v gomap" where
  "gomap_set m k v = AList.update k v m"

text \<open>\<open>for k, v := range src { dst[k] = v }\<close>\<close>

fun gomap_copy_into :: "'v gomap \<Rightarrow> 'v gomap \<Rightarrow> 'v gomap" where
  "gomap_copy_into dst [] = dst"
| "gomap_copy_into dst ((k, v) # src) = gomap_copy_into (gomap_set dst k v) src"

lemma gomap_get_set [gomap_simps]:
  "gomap_get (gomap_set m k v) k' = (if k' = k then Some v else gomap_get m k')"
  by (simp add: gomap_get_def gomap_set_def update_conv')

lemma gomap_get_Nil [gomap_simps, simp]: "gomap_get [] k = None"
  by (simp add: gomap_get_def)

lemma gomap_get_Cons [gomap_simps]:
  "gomap_get ((k', v) # m) k = (if k = k' then Some v else gomap_get m k)"
  by (simp add: gomap_get_def)

lemma gomap_ok_set [simp, intro]: "gomap_ok m \<Longrightarrow> gomap_ok (gomap_set m k v)"
  by (simp add: gomap_ok_def gomap_set_def distinct_update)

lemma gomap_ok_copy_into [simp, intro]: "gomap_ok m \<Longrightarrow> gomap_ok (gomap_copy_into m src)"
  by (induction m src rule: gomap_copy_into.induct) auto

lemma gomap_get_copy_into_notin:
  "k \<notin> fst ` set src \<Longrightarrow> gomap_get (gomap_copy_into dst src) k = gomap_get dst k"
  by (induction dst src rule: gomap_copy_into.induct) (auto simp: gomap_simps)

lemma gomap_get_copy_into [gomap_simps]:
  "gomap_ok src \<Longrightarrow>
   gomap_get (gomap_copy_into dst src) k =
     (case gomap_get src k of Some v \<Rightarrow> Some v | None \<Rightarrow> gomap_get dst k)"
proof (induction dst src rule: gomap_copy_into.induct)
  case (1 dst)
  then show ?case by simp
next
  case (2 dst k' v src)
  then have ok: "gomap_ok src" and new: "k' \<notin> fst ` set src"
    by (auto simp: gomap_ok_def)
  show ?case
  proof (cases "k = k'")
    case True
    with new have "gomap_get (gomap_copy_into (gomap_set dst k' v) src) k = Some v"
      by (simp add: gomap_get_copy_into_notin gomap_simps)
    with True show ?thesis by (simp add: gomap_get_Cons)
  next
    case False
    with 2 ok show ?thesis
      by (simp add: gomap_get_set gomap_get_Cons split: option.split)
  qed
qed

section \<open>The strings package\<close>

definition HasPrefix :: "string \<Rightarrow> string \<Rightarrow> bool" where
  "HasPrefix s p = (take (length p) s = p)"

definition HasSuffix :: "string \<Rightarrow> string \<Rightarrow> bool" where
  "HasSuffix s p = (length p \<le> length s \<and> drop (length s - length p) s = p)"

definition TrimPrefix :: "string \<Rightarrow> string \<Rightarrow> string" where
  "TrimPrefix s p = (if HasPrefix s p then drop (length p) s else s)"

definition TrimSuffix :: "string \<Rightarrow> string \<Rightarrow> string" where
  "TrimSuffix s p = (if HasSuffix s p then take (length s - length p) s else s)"

text \<open>\<open>strings.Split\<close> at a one-byte separator and \<open>strings.Join\<close>.\<close>

fun Split :: "char \<Rightarrow> string \<Rightarrow> string list" where
  "Split c [] = [[]]"
| "Split c (x # xs) =
     (if x = c then [] # Split c xs
      else (case Split c xs of [] \<Rightarrow> [[x]] | y # ys \<Rightarrow> (x # y) # ys))"

fun Join :: "string list \<Rightarrow> string \<Rightarrow> string" where
  "Join [] sep = []"
| "Join [s] sep = s"
| "Join (s # t # ss) sep = s @ sep @ Join (t # ss) sep"

text \<open>\<open>strings.Contains\<close>, \<open>strings.Fields\<close> for ASCII text, and \<open>strings.ReplaceAll\<close> for a text that is not empty.\<close>

definition Contains :: "string \<Rightarrow> string \<Rightarrow> bool" where
  "Contains s sub = list_ex (\<lambda>t. HasPrefix t sub) (suffixes s)"

definition field_space :: "char \<Rightarrow> bool" where
  "field_space c \<longleftrightarrow> c \<in> {CHR 0x09, CHR 0x0A, CHR 0x0B, CHR 0x0C, CHR 0x0D, CHR 0x20}"

definition Fields :: "string \<Rightarrow> string list" where
  "Fields s = filter (\<lambda>w. w \<noteq> '''') (Split (CHR 0x20) (map (\<lambda>c. if field_space c then CHR 0x20 else c) s))"

fun ReplaceAll :: "string \<Rightarrow> string \<Rightarrow> string \<Rightarrow> string" where
  "ReplaceAll [] old new = []"
| "ReplaceAll (c # cs) old new =
     (if old \<noteq> [] \<and> HasPrefix (c # cs) old then new @ ReplaceAll (drop (length old - 1) cs) old new
      else c # ReplaceAll cs old new)"

text \<open>\<open>strings.SplitN(s, "/", 2)\<close>: the part before the first slash, and the rest if there is one.\<close>

definition cut_slash :: "string \<Rightarrow> string \<times> string option" where
  "cut_slash s = (takeWhile (\<lambda>c. c \<noteq> CHR ''/'') s,
     case dropWhile (\<lambda>c. c \<noteq> CHR ''/'') s of [] \<Rightarrow> None | _ # rest \<Rightarrow> Some rest)"

text \<open>
  The number of bytes of the first character of a text in UTF-8, one for a byte that starts none:
  a regular expression reads a text by characters.
\<close>

definition byte_in :: "nat \<Rightarrow> nat \<Rightarrow> char \<Rightarrow> bool" where
  "byte_in lo hi c \<longleftrightarrow> lo \<le> of_char c \<and> of_char c \<le> hi"

definition rune_width :: "string \<Rightarrow> nat" where
  "rune_width s =
     (case s of
        c # d # rest \<Rightarrow>
          if byte_in 0xC2 0xDF c \<and> byte_in 0x80 0xBF d then 2
          else (case rest of
                  e # rest' \<Rightarrow>
                    if (byte_in 0xE0 0xE0 c \<and> byte_in 0xA0 0xBF d \<or> byte_in 0xE1 0xEC c \<and> byte_in 0x80 0xBF d \<or>
                        byte_in 0xED 0xED c \<and> byte_in 0x80 0x9F d \<or> byte_in 0xEE 0xEF c \<and> byte_in 0x80 0xBF d) \<and>
                       byte_in 0x80 0xBF e then 3
                    else (case rest' of
                            f # _ \<Rightarrow>
                              if (byte_in 0xF0 0xF0 c \<and> byte_in 0x90 0xBF d \<or> byte_in 0xF1 0xF3 c \<and> byte_in 0x80 0xBF d \<or>
                                  byte_in 0xF4 0xF4 c \<and> byte_in 0x80 0x8F d) \<and> byte_in 0x80 0xBF e \<and> byte_in 0x80 0xBF f then 4 else 1
                          | [] \<Rightarrow> 1)
                | [] \<Rightarrow> 1)
      | _ \<Rightarrow> 1)"

lemma HasPrefix_iff_prefix [str_simps]: "HasPrefix s p \<longleftrightarrow> prefix p s"
  unfolding HasPrefix_def prefix_def by (metis append_eq_conv_conj append_take_drop_id)

lemma HasPrefix_append [simp]: "HasPrefix (p @ s) p"
  by (simp add: HasPrefix_def)

lemma HasPrefix_refl [simp]: "HasPrefix s s"
  by (simp add: HasPrefix_def)

lemma HasPrefix_Nil [simp]: "HasPrefix s ''''"
  by (simp add: HasPrefix_def)

lemma HasPrefix_trans: "HasPrefix s t \<Longrightarrow> HasPrefix t u \<Longrightarrow> HasPrefix s u"
  by (meson HasPrefix_iff_prefix prefix_order.trans)

lemma TrimPrefix_append [simp]: "TrimPrefix (p @ s) p = s"
  by (simp add: TrimPrefix_def)

lemma TrimPrefix_id: "\<not> HasPrefix s p \<Longrightarrow> TrimPrefix s p = s"
  by (simp add: TrimPrefix_def)

lemma Split_not_Nil [simp]: "Split c s \<noteq> []"
  by (induction s) (auto split: list.splits)

lemma Join_Cons: "ss \<noteq> [] \<Longrightarrow> Join (s # ss) sep = s @ sep @ Join ss sep"
  by (cases ss) auto

lemma Join_Split [simp]: "Join (Split c s) [c] = s"
proof (induction s)
  case Nil
  then show ?case by simp
next
  case (Cons x xs)
  then show ?case
    by (cases "Split c xs"; cases "tl (Split c xs)") (auto simp: Join_Cons)
qed

text \<open>\<open>cut_slash\<close> undoes the joining of a bucket and a path.\<close>

lemma cut_slash_join: "CHR ''/'' \<notin> set b \<Longrightarrow> cut_slash (b @ ''/'' @ p) = (b, Some p)"
  by (induction b) (auto simp: cut_slash_def)

lemma Split_no_sep: "c \<notin> set s \<Longrightarrow> Split c s = [s]"
  by (induction s) auto

lemma Split_append: "c \<notin> set s \<Longrightarrow> Split c (s @ c # t) = s # Split c t"
  by (induction s) auto

lemma Split_pieces: "p \<in> set (Split c s) \<Longrightarrow> c \<notin> set p"
proof (induction s arbitrary: p)
  case Nil
  then show ?case by simp
next
  case (Cons x xs)
  then show ?case by (cases "Split c xs") (auto split: if_splits)
qed

lemma Split_Join:
  "ss \<noteq> [] \<Longrightarrow> \<forall>s\<in>set ss. c \<notin> set s \<Longrightarrow> Split c (Join ss [c]) = ss"
proof (induction ss rule: induct_list012)
  case 1
  then show ?case by simp
next
  case (2 x)
  then show ?case by (simp add: Split_no_sep)
next
  case (3 x y zs)
  then show ?case by (simp add: Split_append)
qed

section \<open>Decimal printing of unsigned integers\<close>

definition digit_char :: "nat \<Rightarrow> char" where
  "digit_char n = char_of (48 + n :: nat)"

fun show_nat :: "nat \<Rightarrow> string" where
  "show_nat n = (if n < 10 then [digit_char n] else show_nat (n div 10) @ [digit_char (n mod 10)])"

declare show_nat.simps [simp del]

lemma digit_char_inj: "m < 10 \<Longrightarrow> n < 10 \<Longrightarrow> digit_char m = digit_char n \<Longrightarrow> m = n"
  by (simp add: digit_char_def char_of_eq_iff take_bit_eq_mod)

lemma show_nat_not_Nil [simp]: "show_nat n \<noteq> []"
  by (subst show_nat.simps) simp

lemma show_nat_inj: "show_nat m = show_nat n \<Longrightarrow> m = n"
proof (induction m arbitrary: n rule: show_nat.induct)
  case (1 m)
  show ?case
  proof (cases "m < 10")
    case True
    then have "length (show_nat n) = 1"
      using 1(2) by (subst (asm) show_nat.simps [of m]) (metis One_nat_def length_Cons list.size(3))
    then have "n < 10"
      by (subst (asm) show_nat.simps) (auto split: if_splits)
    with True 1(2) show ?thesis
      by (simp add: show_nat.simps [of m] show_nat.simps [of n] digit_char_inj)
  next
    case False
    then have "length (show_nat m) \<noteq> 1"
      by (subst show_nat.simps) auto
    with 1(2) have n: "\<not> n < 10"
      by (subst (asm) show_nat.simps [of n]) (auto split: if_splits)
    from False n 1(2) have
      d: "show_nat (m div 10) = show_nat (n div 10)" and
      r: "digit_char (m mod 10) = digit_char (n mod 10)"
      by (simp_all add: show_nat.simps [of m] show_nat.simps [of n])
    from 1(1) [OF False d] have "m div 10 = n div 10" .
    moreover from r have "m mod 10 = n mod 10" by (intro digit_char_inj) auto
    ultimately show ?thesis by (metis div_mult_mod_eq)
  qed
qed

definition is_digit :: "char \<Rightarrow> bool" where
  "is_digit c \<longleftrightarrow> CHR ''0'' \<le> c \<and> c \<le> CHR ''9''"

lemma is_digit_digit_char: "n < 10 \<Longrightarrow> is_digit (digit_char n)"
  by (simp add: is_digit_def digit_char_def less_eq_char_def of_char_of take_bit_nat_eq_self)

lemma show_nat_digits: "c \<in> set (show_nat n) \<Longrightarrow> is_digit c"
proof (induction n rule: show_nat.induct)
  case (1 n)
  then show ?case by (cases "n < 10") (auto simp: show_nat.simps [of n] is_digit_digit_char)
qed

lemma not_digit: "\<not> is_digit (CHR 0x0A)" "\<not> is_digit (CHR '' '')"
  by (simp_all add: is_digit_def less_eq_char_def)

lemma span_digits:
  "\<not> is_digit c \<Longrightarrow> takeWhile is_digit (show_nat n @ c # s) = show_nat n \<and> dropWhile is_digit (show_nat n @ c # s) = c # s"
  using show_nat_digits by (simp add: takeWhile_append2 dropWhile_append2)

text \<open>\<open>strconv.Atoi\<close> on a 64-bit machine: an optional sign, digits, and no overflow.\<close>

definition digits_value :: "string \<Rightarrow> nat" where
  "digits_value s = foldl (\<lambda>n c. 10 * n + (of_char c - 48)) 0 s"

definition Atoi :: "string \<Rightarrow> int option" where
  "Atoi s =
     (let neg = (case s of c # _ \<Rightarrow> c = CHR ''-'' | [] \<Rightarrow> False);
          ds = (case s of c # cs \<Rightarrow> if c = CHR ''-'' \<or> c = CHR ''+'' then cs else s | [] \<Rightarrow> s);
          n = int (digits_value ds)
      in if ds = [] \<or> \<not> list_all is_digit ds then None
         else if neg then if n \<le> 2 ^ 63 then Some (- n) else None
         else if n < 2 ^ 63 then Some n else None)"

lemma digits_value_snoc: "digits_value (s @ [c]) = 10 * digits_value s + (of_char c - 48)"
  by (simp add: digits_value_def)

lemma digits_value_show [simp]: "digits_value (show_nat n) = n"
proof (induction n rule: show_nat.induct)
  case (1 n)
  have digit: "(of_char (digit_char m) :: nat) = 48 + m" if "m < 10" for m
    using that by (simp add: digit_char_def of_char_of take_bit_nat_eq_self)
  show ?case
  proof (cases "n < 10")
    case True
    then show ?thesis by (simp add: show_nat.simps [of n] digits_value_def digit)
  next
    case False
    with 1 show ?thesis by (simp add: show_nat.simps [of n] digits_value_snoc digit)
  qed
qed

lemma show_nat_hd_digit: "\<exists>c cs. show_nat n = c # cs \<and> is_digit c"
  using show_nat_digits [of _ n] show_nat_not_Nil [of n] by (cases "show_nat n") auto

lemma Atoi_show: "n < 2 ^ 63 \<Longrightarrow> Atoi (show_nat n) = Some (int n)"
proof -
  assume n: "n < 2 ^ 63"
  obtain c cs where s: "show_nat n = c # cs" "is_digit c" using show_nat_hd_digit by blast
  then have "c \<noteq> CHR ''-'' \<and> c \<noteq> CHR ''+''" by (auto simp: is_digit_def less_eq_char_def)
  moreover have "list_all is_digit (show_nat n)" using show_nat_digits by (auto simp: list_all_iff)
  moreover have "int n < 2 ^ 63" using n by simp
  ultimately show ?thesis using s digits_value_show [of n] by (simp add: Atoi_def)
qed

section \<open>Slices\<close>

text \<open>\<open>x, ok := last(xs)\<close> on a possibly empty slice.\<close>

definition last_opt :: "'a list \<Rightarrow> 'a option" where
  "last_opt xs = (if xs = [] then None else Some (last xs))"

lemma last_opt_simps [simp]: "last_opt [] = None" "last_opt (xs @ [x]) = Some x"
  by (simp_all add: last_opt_def)

text \<open>Writing one element and everything the index does not name stays.\<close>

lemma nth_list_update_if:
  "i < length xs \<Longrightarrow> xs[i := v] ! j = (if j = i then v else xs ! j)"
  by auto

end
