(* ===== verification/Tes_Types.thy ===== *)
theory Tes_Types
  imports Prelude
begin

text \<open>
  The TES data model: the structs and enumerations of \<open>src/tes/tes.pb.go\<close> as records and
  datatypes, with the source's field names behind a short prefix.  A message pointer that the
  sources test against nil (\<open>Task.Resources\<close>) is an option; a nil slice is the empty list.  The
  enumerations have exactly the declared enumerators.
\<close>

section \<open>Enumerations\<close>

datatype State =
    Unknown | Queued | Initializing | Running | Paused | Complete
  | ExecutorError | SystemError | Canceled | Preempted | Canceling

datatype FileType = File | Directory

text \<open>\<open>State.String()\<close>, and \<open>State_value\<close> with the zero value for a missing key.\<close>

fun State_String :: "State \<Rightarrow> string" where
  "State_String Unknown = ''UNKNOWN''"
| "State_String Queued = ''QUEUED''"
| "State_String Initializing = ''INITIALIZING''"
| "State_String Running = ''RUNNING''"
| "State_String Paused = ''PAUSED''"
| "State_String Complete = ''COMPLETE''"
| "State_String ExecutorError = ''EXECUTOR_ERROR''"
| "State_String SystemError = ''SYSTEM_ERROR''"
| "State_String Canceled = ''CANCELED''"
| "State_String Preempted = ''PREEMPTED''"
| "State_String Canceling = ''CANCELING''"

definition all_states :: "State list" where
  "all_states = [Unknown, Queued, Initializing, Running, Paused, Complete,
     ExecutorError, SystemError, Canceled, Preempted, Canceling]"

definition State_value :: "string \<Rightarrow> State option" where
  "State_value s = map_of (map (\<lambda>st. (State_String st, st)) all_states) s"

lemma all_states_complete [simp]: "set all_states = UNIV"
  by (auto simp: all_states_def intro: State.exhaust)

lemma State_value_String [simp]: "State_value (State_String s) = Some s"
  by (cases s) (simp_all add: State_value_def all_states_def)

lemma State_String_inj [simp]: "State_String s = State_String t \<longleftrightarrow> s = t"
  by (metis State_value_String option.inject)

text \<open>The views of a task: \<open>View.String()\<close>.\<close>

datatype View = Minimal | Basic | Full

fun View_String :: "View \<Rightarrow> string" where
  "View_String Minimal = ''MINIMAL''"
| "View_String Basic = ''BASIC''"
| "View_String Full = ''FULL''"

definition View_value :: "string \<Rightarrow> View option" where
  "View_value s = map_of (map (\<lambda>v. (View_String v, v)) [Minimal, Basic, Full]) s"

lemma View_value_String [simp]: "View_value (View_String v) = Some v"
  by (cases v) (simp_all add: View_value_def)

section \<open>Messages\<close>

record Executor =
  ex_Command :: "string list"
  ex_Env :: "string gomap"
  ex_IgnoreError :: bool
  ex_Image :: string
  ex_Stderr :: string
  ex_Stdin :: string
  ex_Stdout :: string
  ex_Workdir :: string

record ExecutorLog =
  el_EndTime :: string
  el_ExitCode :: "32 word"
  el_StartTime :: string
  el_Stderr :: string
  el_Stdout :: string

record Input =
  in_Content :: string
  in_Description :: string
  in_Name :: string
  in_Path :: string
  in_Streamable :: bool
  in_Type :: FileType
  in_Url :: string

record Output =
  out_Description :: string
  out_Name :: string
  out_Path :: string
  out_PathPrefix :: string
  out_Type :: FileType
  out_Url :: string

record OutputFileLog =
  ofl_Path :: string
  ofl_SizeBytes :: string
  ofl_Url :: string

record Resources =
  res_BackendParameters :: "string gomap"
  res_BackendParametersStrict :: bool
  res_CpuCores :: "32 word"
  res_DiskGb :: real
  res_Preemptible :: bool
  res_RamGb :: real
  res_Zones :: "string list"

record TaskLog =
  tl_EndTime :: string
  tl_Logs :: "ExecutorLog list"
  tl_Metadata :: "string gomap"
  tl_Outputs :: "OutputFileLog list"
  tl_StartTime :: string
  tl_SystemLogs :: "string list"

record Task =
  t_CreationTime :: string
  t_Description :: string
  t_Executors :: "Executor list"
  t_Id :: string
  t_Inputs :: "Input list"
  t_Logs :: "TaskLog list"
  t_Name :: string
  t_Outputs :: "Output list"
  t_Resources :: "Resources option"
  t_State :: State
  t_Tags :: "string gomap"
  t_Volumes :: "string list"

record GetTaskRequest =
  gt_Id :: string
  gt_View :: string

record ListTasksRequest =
  lt_NamePrefix :: string
  lt_State :: State
  lt_TagKey :: "string list"
  lt_TagValue :: "string list"
  lt_PageSize :: "32 word"
  lt_PageToken :: string
  lt_View :: string

record ListTasksResponse =
  ltr_NextPageToken :: string
  ltr_Tasks :: "Task list"

text \<open>The zero values \<open>&ExecutorLog{}\<close>, \<open>&TaskLog{}\<close>, \<open>&Resources{}\<close>, \<open>&Task{}\<close> and their like.\<close>

definition empty_executor :: Executor where
  "empty_executor = \<lparr>ex_Command = [], ex_Env = [], ex_IgnoreError = False, ex_Image = '''',
     ex_Stderr = '''', ex_Stdin = '''', ex_Stdout = '''', ex_Workdir = ''''\<rparr>"

definition empty_executorlog :: ExecutorLog where
  "empty_executorlog = \<lparr>el_EndTime = '''', el_ExitCode = 0, el_StartTime = '''',
     el_Stderr = '''', el_Stdout = ''''\<rparr>"

definition empty_input :: Input where
  "empty_input = \<lparr>in_Content = '''', in_Description = '''', in_Name = '''', in_Path = '''',
     in_Streamable = False, in_Type = File, in_Url = ''''\<rparr>"

definition empty_output :: Output where
  "empty_output = \<lparr>out_Description = '''', out_Name = '''', out_Path = '''',
     out_PathPrefix = '''', out_Type = File, out_Url = ''''\<rparr>"

definition empty_resources :: Resources where
  "empty_resources = \<lparr>res_BackendParameters = [], res_BackendParametersStrict = False,
     res_CpuCores = 0, res_DiskGb = 0, res_Preemptible = False, res_RamGb = 0, res_Zones = []\<rparr>"

definition empty_tasklog :: TaskLog where
  "empty_tasklog = \<lparr>tl_EndTime = '''', tl_Logs = [], tl_Metadata = [], tl_Outputs = [],
     tl_StartTime = '''', tl_SystemLogs = []\<rparr>"

definition empty_task :: Task where
  "empty_task = \<lparr>t_CreationTime = '''', t_Description = '''', t_Executors = [], t_Id = '''',
     t_Inputs = [], t_Logs = [], t_Name = '''', t_Outputs = [], t_Resources = None,
     t_State = Unknown, t_Tags = [], t_Volumes = []\<rparr>"

text \<open>The generated getters on a possibly nil \<open>*Resources\<close>.\<close>

definition GetResources_or_zero :: "Resources option \<Rightarrow> Resources" where
  "GetResources_or_zero r = (case r of None \<Rightarrow> empty_resources | Some x \<Rightarrow> x)"

lemma GetResources_or_zero_simps [simp]:
  "GetResources_or_zero None = empty_resources"
  "GetResources_or_zero (Some r) = r"
  by (simp_all add: GetResources_or_zero_def)

section \<open>Errors\<close>

text \<open>
  The values of Go's \<open>error\<close> interface that the sources tell apart: the sentinels of
  \<open>src/tes/utils.go\<close>, the \<open>*TransitionError\<close> of \<open>src/tes/states.go\<close>, a gRPC status with its
  code, and any other error with its message.  A run-time panic (and \<open>os.Exit\<close>) is \<open>Panic\<close>: the
  call does not return, and no caller that recovers from it is modelled unless it says so.
\<close>

datatype grpc_code = InvalidArgument | NotFound | PermissionDenied | Unauthenticated | OtherCode string

datatype go_error =
    ErrNotFound
  | ErrNotPermitted
  | ErrConcurrentStateChange
  | TransitionError State State
  | StatusError grpc_code string
  | Errorf string
  | SwiftError string string go_error
  | Panic string

end
