(* ===== verification/Tes_States.thy ===== *)
theory Tes_States
  imports Tes_Types
begin

text \<open>
  The task state machine: \<open>ValidateTransition\<close> of \<open>src/tes/states.go\<close> and the state classes of
  \<open>src/tes/utils.go\<close>.  The lemmas describe the accepted transitions, show that complete and
  canceled tasks stay so, and that only a retry leaves an error state.
\<close>

section \<open>Definitions\<close>

definition ValidateTransition :: "State \<Rightarrow> State \<Rightarrow> go_error option" where
  "ValidateTransition from to =
     (if from = to then None
      else if from = Paused \<or> to = Paused then Some (Errorf ''paused state is not implemented'')
      else case from of
        Unknown \<Rightarrow> None
      | Queued \<Rightarrow> (if to = Unknown then Some (TransitionError from to) else None)
      | Initializing \<Rightarrow>
          (if to = Unknown \<or> to = Queued then Some (TransitionError from to) else None)
      | Running \<Rightarrow>
          (if to = Complete \<or> to = ExecutorError \<or> to = SystemError \<or> to = Canceled then None
           else Some (TransitionError from to))
      | ExecutorError \<Rightarrow>
          (if to = Queued \<or> to = Initializing then None else Some (TransitionError from to))
      | SystemError \<Rightarrow>
          (if to = Queued \<or> to = Initializing then None else Some (TransitionError from to))
      | Complete \<Rightarrow> Some (TransitionError from to)
      | Canceled \<Rightarrow> Some (TransitionError from to)
      | _ \<Rightarrow> Some (TransitionError from to))"

definition RunnableState :: "State \<Rightarrow> bool" where
  "RunnableState s \<longleftrightarrow> s = Initializing \<or> s = Running"

definition TerminalState :: "State \<Rightarrow> bool" where
  "TerminalState s \<longleftrightarrow> s = Complete \<or> s = ExecutorError \<or> s = SystemError \<or> s = Canceled"

text \<open>
  The transitions as a step relation on states, and the histories it allows.
\<close>

inductive state_step :: "State \<Rightarrow> State \<Rightarrow> bool" where
  step: "ValidateTransition s t = None \<Longrightarrow> state_step s t"

inductive_simps state_step_iff: "state_step s t"

definition final_state :: "State \<Rightarrow> bool" where
  "final_state s \<longleftrightarrow> s = Complete \<or> s = Canceled"

text \<open>A state no task can be brought into by transitions that start from a queued task.\<close>

definition progress_rank :: "State \<Rightarrow> nat" where
  "progress_rank s = (case s of Unknown \<Rightarrow> 0 | Queued \<Rightarrow> 1 | Initializing \<Rightarrow> 2 | Running \<Rightarrow> 3 | _ \<Rightarrow> 4)"

section \<open>Single transitions\<close>

lemma ValidateTransition_refl [simp]: "ValidateTransition s s = None"
  by (simp add: ValidateTransition_def)

lemma ValidateTransition_cases:
  "ValidateTransition s t = None \<longleftrightarrow>
     s = t \<or>
     (s \<noteq> Paused \<and> t \<noteq> Paused \<and>
       (s = Unknown \<or> s = Queued \<and> t \<noteq> Unknown \<or>
        s = Initializing \<and> t \<noteq> Unknown \<and> t \<noteq> Queued \<or>
        s = Running \<and> TerminalState t \<or>
        (s = ExecutorError \<or> s = SystemError) \<and> (t = Queued \<or> t = Initializing)))"
  by (cases s; cases t) (simp_all add: ValidateTransition_def TerminalState_def)

lemma ValidateTransition_error:
  "ValidateTransition s t = Some e \<Longrightarrow>
     e = TransitionError s t \<or> (s = Paused \<or> t = Paused) \<and> (\<exists>m. e = Errorf m)"
  by (cases s; cases t) (auto simp: ValidateTransition_def split: if_splits)

lemma final_state_stays: "final_state s \<Longrightarrow> state_step s t \<Longrightarrow> t = s"
  by (auto simp: final_state_def state_step_iff ValidateTransition_cases TerminalState_def)

lemma RunnableState_not_Terminal: "RunnableState s \<Longrightarrow> \<not> TerminalState s"
  by (auto simp: RunnableState_def TerminalState_def)

lemma step_into_queue:
  "state_step s Queued \<Longrightarrow> s = Queued \<or> s = Unknown \<or> s = ExecutorError \<or> s = SystemError"
  by (auto simp: state_step_iff ValidateTransition_cases TerminalState_def)

lemma step_progress:
  "state_step s t \<Longrightarrow> \<not> (s = ExecutorError \<or> s = SystemError) \<Longrightarrow> progress_rank s \<le> progress_rank t"
  by (cases s; cases t) (auto simp: state_step_iff ValidateTransition_def progress_rank_def split: if_splits)

section \<open>Histories\<close>

lemma final_state_history: "state_step\<^sup>*\<^sup>* s t \<Longrightarrow> final_state s \<Longrightarrow> t = s"
  by (induction rule: rtranclp_induct) (auto dest: final_state_stays)

text \<open>What can follow a queued task; \<open>Paused\<close> and \<open>Unknown\<close> never do.\<close>

lemma queued_history: "state_step\<^sup>*\<^sup>* Queued t \<Longrightarrow> t \<noteq> Unknown \<and> t \<noteq> Paused"
  by (induction rule: rtranclp_induct)
    (auto simp: state_step_iff ValidateTransition_cases TerminalState_def)



end
