(* ===== verification/Tes_Validate.thy ===== *)
theory Tes_Validate
  imports Tes_Types
begin

text \<open>
  Task validation, \<open>src/tes/validate.go\<close>.  \<open>Validate\<close> collects one message per violated rule, in
  the order of the source; \<open>valid_task\<close> says the same rules as a predicate, and the lemmas show
  that the error list is empty exactly for valid tasks.
\<close>

section \<open>Definitions\<close>

text \<open>\<open>ValidationError\<close> is a slice of errors, kept here as their messages; \<open>add\<close> appends.\<close>

type_synonym ValidationError = "string list"

definition add_if :: "bool \<Rightarrow> string \<Rightarrow> ValidationError \<Rightarrow> ValidationError" where
  "add_if b msg errs = (if b then errs @ [msg] else errs)"

text \<open>\<open>Error()\<close> joins the messages with a newline after each (\<open>fmt.Sprintln\<close>).\<close>

definition ValidationError_Error :: "ValidationError \<Rightarrow> string" where
  "ValidationError_Error v = concat (map (\<lambda>e. e @ [CHR 0x0A]) v)"

definition at_index :: "string \<Rightarrow> nat \<Rightarrow> string \<Rightarrow> string" where
  "at_index pre i post = pre @ ''['' @ show_nat i @ '']'' @ post"

definition not_absolute :: "string \<Rightarrow> bool" where
  "not_absolute p = (p \<noteq> '''' \<and> \<not> HasPrefix p ''/'')"

definition validate_executor :: "nat \<Rightarrow> Executor \<Rightarrow> ValidationError \<Rightarrow> ValidationError" where
  "validate_executor i ex errs =
     (let errs = add_if (ex_Image ex = '''') (at_index ''Task.Executors'' i ''.Image: required, but empty'') errs;
          errs = add_if (ex_Command ex = []) (at_index ''Task.Executors'' i ''.Command: required, but empty'') errs;
          errs = add_if (not_absolute (ex_Workdir ex)) (at_index ''Task.Executors'' i ''.Workdir: must be an absolute path'') errs;
          errs = add_if (not_absolute (ex_Stdin ex)) (at_index ''Task.Executors'' i ''.Stdin: must be an absolute path'') errs;
          errs = add_if (not_absolute (ex_Stdout ex)) (at_index ''Task.Executors'' i ''.Stdout: must be an absolute path'') errs
      in add_if (not_absolute (ex_Stderr ex)) (at_index ''Task.Executors'' i ''.Stderr: must be an absolute path'') errs)"

definition validate_input :: "nat \<Rightarrow> Input \<Rightarrow> ValidationError \<Rightarrow> ValidationError" where
  "validate_input i inp errs =
     (let errs = (if in_Content inp \<noteq> '''' \<and> in_Url inp \<noteq> ''''
                  then errs @ [at_index ''Task.Inputs'' i ''.Content: Url is non-empty'']
                  else add_if (in_Url inp = '''' \<and> in_Content inp = '''')
                         (at_index ''Task.Inputs'' i ''.Url: required, but empty'') errs);
          errs = add_if (in_Path inp = '''') (at_index ''Task.Inputs'' i ''.Path: required, but empty'') errs
      in add_if (not_absolute (in_Path inp)) (at_index ''task.Inputs'' i ''.Path: must be an absolute path'') errs)"

definition validate_output :: "nat \<Rightarrow> Output \<Rightarrow> ValidationError \<Rightarrow> ValidationError" where
  "validate_output i out errs =
     (let errs = add_if (out_Url out = '''') (at_index ''Task.Outputs'' i ''.Url: required, but empty'') errs;
          errs = add_if (out_Path out = '''') (at_index ''Task.Outputs'' i ''.Path: required, but empty'') errs
      in add_if (not_absolute (out_Path out)) (at_index ''task.Outputs'' i ''.Path: must be an absolute path'') errs)"

definition validate_volume :: "nat \<Rightarrow> string \<Rightarrow> ValidationError \<Rightarrow> ValidationError" where
  "validate_volume i vol errs =
     add_if (\<not> HasPrefix vol ''/'') (at_index ''Task.Volumes'' i '': must be an absolute path'') errs"

definition validate_tag :: "string \<times> string \<Rightarrow> ValidationError \<Rightarrow> ValidationError" where
  "validate_tag kv errs =
     add_if (fst kv = '''')
       (''Task.Tags['' @ [CHR 0x22, CHR 0x22] @ '']='' @ snd kv @ '': empty key'') errs"

text \<open>\<open>for i, x := range xs\<close> with the error list threaded through.\<close>

fun range_errs :: "(nat \<Rightarrow> 'a \<Rightarrow> ValidationError \<Rightarrow> ValidationError) \<Rightarrow> nat \<Rightarrow> 'a list \<Rightarrow>
    ValidationError \<Rightarrow> ValidationError" where
  "range_errs f i [] errs = errs"
| "range_errs f i (x # xs) errs = range_errs f (Suc i) xs (f i x errs)"

definition Validate :: "Task \<Rightarrow> ValidationError" where
  "Validate t =
     (let errs = add_if (t_Executors t = []) ''Task.Executors: at least one executor is required'' [];
          errs = range_errs validate_executor 0 (t_Executors t) errs;
          errs = range_errs validate_input 0 (t_Inputs t) errs;
          errs = range_errs validate_output 0 (t_Outputs t) errs;
          errs = range_errs validate_volume 0 (t_Volumes t) errs
      in range_errs (\<lambda>_. validate_tag) 0 (t_Tags t) errs)"

section \<open>The rules as a predicate\<close>

definition optional_absolute :: "string \<Rightarrow> bool" where
  "optional_absolute p \<longleftrightarrow> p = '''' \<or> HasPrefix p ''/''"

definition valid_executor :: "Executor \<Rightarrow> bool" where
  "valid_executor ex \<longleftrightarrow> ex_Image ex \<noteq> '''' \<and> ex_Command ex \<noteq> [] \<and>
     optional_absolute (ex_Workdir ex) \<and> optional_absolute (ex_Stdin ex) \<and>
     optional_absolute (ex_Stdout ex) \<and> optional_absolute (ex_Stderr ex)"

definition valid_input :: "Input \<Rightarrow> bool" where
  "valid_input inp \<longleftrightarrow> (in_Content inp = '''') \<noteq> (in_Url inp = '''') \<and> HasPrefix (in_Path inp) ''/''"

definition valid_output :: "Output \<Rightarrow> bool" where
  "valid_output out \<longleftrightarrow> out_Url out \<noteq> '''' \<and> HasPrefix (out_Path out) ''/''"

definition valid_task :: "Task \<Rightarrow> bool" where
  "valid_task t \<longleftrightarrow> t_Executors t \<noteq> [] \<and>
     list_all valid_executor (t_Executors t) \<and> list_all valid_input (t_Inputs t) \<and>
     list_all valid_output (t_Outputs t) \<and> list_all (\<lambda>v. HasPrefix v ''/'') (t_Volumes t) \<and>
     list_all (\<lambda>kv. fst kv \<noteq> '''') (t_Tags t)"

section \<open>Lemmas\<close>

lemma add_if_Nil_iff [simp]: "add_if b m errs = [] \<longleftrightarrow> \<not> b \<and> errs = []"
  by (simp add: add_if_def)

lemma not_absolute_iff: "not_absolute p \<longleftrightarrow> \<not> optional_absolute p"
  by (auto simp: not_absolute_def optional_absolute_def)

lemma range_errs_Nil_iff:
  assumes "\<And>i x errs. f i x errs = [] \<longleftrightarrow> P x \<and> errs = []"
  shows "range_errs f i xs errs = [] \<longleftrightarrow> list_all P xs \<and> errs = []"
  by (induction xs arbitrary: i errs) (auto simp: assms)

lemma validate_executor_Nil_iff: "validate_executor i ex errs = [] \<longleftrightarrow> valid_executor ex \<and> errs = []"
  by (auto simp: validate_executor_def valid_executor_def Let_def not_absolute_iff)

lemma HasPrefix_slash_nonempty: "HasPrefix p ''/'' \<Longrightarrow> p \<noteq> ''''"
  by (auto simp: HasPrefix_def)

lemma validate_input_Nil_iff: "validate_input i inp errs = [] \<longleftrightarrow> valid_input inp \<and> errs = []"
  by (auto simp: validate_input_def valid_input_def Let_def not_absolute_iff optional_absolute_def
      dest: HasPrefix_slash_nonempty)

lemma validate_output_Nil_iff: "validate_output i out errs = [] \<longleftrightarrow> valid_output out \<and> errs = []"
  by (auto simp: validate_output_def valid_output_def Let_def not_absolute_iff optional_absolute_def
      dest: HasPrefix_slash_nonempty)

lemma validate_volume_Nil_iff: "validate_volume i v errs = [] \<longleftrightarrow> HasPrefix v ''/'' \<and> errs = []"
  by (simp add: validate_volume_def)

lemma validate_tag_Nil_iff: "validate_tag kv errs = [] \<longleftrightarrow> fst kv \<noteq> '''' \<and> errs = []"
  by (simp add: validate_tag_def)

lemmas validate_Nil_iffs =
  range_errs_Nil_iff [where f = validate_executor, OF validate_executor_Nil_iff]
  range_errs_Nil_iff [where f = validate_input, OF validate_input_Nil_iff]
  range_errs_Nil_iff [where f = validate_output, OF validate_output_Nil_iff]
  range_errs_Nil_iff [where f = validate_volume, OF validate_volume_Nil_iff]
  range_errs_Nil_iff [where f = "\<lambda>_. validate_tag", OF validate_tag_Nil_iff]

lemma Validate_complete: "Validate t = [] \<longleftrightarrow> valid_task t"
  by (auto simp: Validate_def valid_task_def Let_def validate_Nil_iffs)

text \<open>
  C10: \<open>Validate\<close> reports no error exactly for the tasks that have at least one executor, an image
  and a command in each, absolute paths wherever a path is given, exactly one of content and URL
  in each input, a URL in each output, absolute volumes and no empty tag key.
\<close>

theorem Validate_sound_complete: "Validate t = [] \<longleftrightarrow> valid_task t"
  by (rule Validate_complete)

text \<open>The message of a failed validation is never empty.\<close>

lemma ValidationError_Error_Nil_iff [simp]: "ValidationError_Error v = '''' \<longleftrightarrow> v = []"
  by (simp add: ValidationError_Error_def)

end
