(* ===== verification/Tes_Utils.thy ===== *)
theory Tes_Utils
  imports Tes_States Tes_Validate
begin

text \<open>
  The helpers of \<open>src/tes/utils.go\<close>, \<open>src/tes/extra_methods.go\<close> and \<open>src/tes/hash.go\<close>: task
  initialisation, the views, the log slots that grow on demand, the page size, the tags of a list
  request, and the task hash.

  What the code takes from elsewhere is an argument: the fresh identifier (\<open>xid.New\<close>), the
  formatted clock reading, and for the hash the digest and \<open>binary.Write\<close>.  \<open>deepcopy.Copy\<close> copies
  a value, which is the identity here.
\<close>

section \<open>Task initialisation\<close>

text \<open>
  \<open>InitTask\<close> modifies the task it is given also when it then reports an error, so the result is
  the task and the error.
\<close>

definition InitTask :: "string \<Rightarrow> string \<Rightarrow> Task \<Rightarrow> bool \<Rightarrow> Task \<times> go_error option" where
  "InitTask freshId now task overwrite =
     (let task = (if overwrite \<or> t_Id task = '''' then task\<lparr>t_Id := freshId\<rparr> else task);
          task = (if overwrite \<or> t_State task = Unknown then task\<lparr>t_State := Queued\<rparr> else task);
          task = (if overwrite \<or> t_CreationTime task = '''' then task\<lparr>t_CreationTime := now\<rparr> else task);
          err = Validate task
      in (task, if err \<noteq> []
                then Some (Errorf (''invalid task message:'' @ [CHR 0x0A] @ ValidationError_Error err))
                else None))"

section \<open>Views\<close>

definition basic_executorlog :: "ExecutorLog \<Rightarrow> ExecutorLog" where
  "basic_executorlog el = el\<lparr>el_Stdout := '''', el_Stderr := ''''\<rparr>"

definition basic_tasklog :: "TaskLog \<Rightarrow> TaskLog" where
  "basic_tasklog l = l\<lparr>tl_SystemLogs := [], tl_Logs := map basic_executorlog (tl_Logs l)\<rparr>"

definition GetBasicView :: "Task \<Rightarrow> Task" where
  "GetBasicView task =
     task\<lparr>t_Inputs := map (\<lambda>v. v\<lparr>in_Content := ''''\<rparr>) (t_Inputs task),
          t_Logs := map basic_tasklog (t_Logs task)\<rparr>"

definition GetMinimalView :: "Task \<Rightarrow> Task" where
  "GetMinimalView task = empty_task\<lparr>t_Id := t_Id task, t_State := t_State task\<rparr>"

section \<open>Log slots\<close>

text \<open>\<open>for j := len(xs); j <= i; j++ { xs = append(xs, z) }\<close>\<close>

function grow_to :: "'a \<Rightarrow> 'a list \<Rightarrow> nat \<Rightarrow> 'a list" where
  "grow_to z xs i = (if length xs \<le> i then grow_to z (xs @ [z]) i else xs)"
  by pat_completeness auto
termination
  by (relation "measure (\<lambda>(z, xs, i). Suc i - length xs)") auto

declare grow_to.simps [simp del]

text \<open>
  \<open>GetTaskLog(i)\<close> grows the slice and hands out a pointer to entry \<open>i\<close>, through which the callers
  assign; the model grows the slice and applies the caller's assignment \<open>f\<close> to the entry.
\<close>

definition GetTaskLog :: "Task \<Rightarrow> nat \<Rightarrow> (TaskLog \<Rightarrow> TaskLog) \<Rightarrow> Task" where
  "GetTaskLog task i f =
     (let logs = grow_to empty_tasklog (t_Logs task) i
      in task\<lparr>t_Logs := logs[i := f (logs ! i)]\<rparr>)"

definition GetExecLog :: "Task \<Rightarrow> nat \<Rightarrow> nat \<Rightarrow> (ExecutorLog \<Rightarrow> ExecutorLog) \<Rightarrow> Task" where
  "GetExecLog task attempt i f =
     GetTaskLog task attempt (\<lambda>tl.
       let logs = grow_to empty_executorlog (tl_Logs tl) i
       in tl\<lparr>tl_Logs := logs[i := f (logs ! i)]\<rparr>)"

text \<open>Reading an entry, with the zero value where the slot is not there yet.\<close>

definition tasklog_at :: "Task \<Rightarrow> nat \<Rightarrow> TaskLog" where
  "tasklog_at task i = (if i < length (t_Logs task) then t_Logs task ! i else empty_tasklog)"

definition execlog_at :: "Task \<Rightarrow> nat \<Rightarrow> nat \<Rightarrow> ExecutorLog" where
  "execlog_at task a i =
     (let logs = tl_Logs (tasklog_at task a)
      in if i < length logs then logs ! i else empty_executorlog)"

section \<open>Requests\<close>

definition GetPageSize :: "32 word \<Rightarrow> int" where
  "GetPageSize reqSize =
     (if sint reqSize > 0 then (if sint reqSize > 2048 then 2048 else sint reqSize) else 256)"

fun tags_loop :: "string list \<Rightarrow> string list \<Rightarrow> string gomap \<Rightarrow> string gomap" where
  "tags_loop [] _ out = out"
| "tags_loop (k # ks) [] out = tags_loop ks [] (gomap_set out k '''')"
| "tags_loop (k # ks) (v # vs) out = tags_loop ks vs (gomap_set out k v)"

text \<open>\<open>GetTags\<close>; \<^const>\<open>None\<close> is the nil map it returns for a request without tag keys.\<close>

definition GetTags :: "ListTasksRequest \<Rightarrow> string gomap option" where
  "GetTags x = (if lt_TagKey x = [] then None else Some (tags_loop (lt_TagKey x) (lt_TagValue x) []))"

section \<open>The task hash\<close>

text \<open>
  \<open>Hash\<close> writes the fields into a digest; \<open>write\<close> calls \<open>binary.Write\<close> only when \<open>err\<close> is already
  set.  The fields written are a list of tagged values; \<open>bwrite\<close> is \<open>binary.Write\<close> on the digest
  state \<open>h\<close>, and \<open>digest\<close> the printed digest.
\<close>

datatype hash_datum = HStr string | HType FileType | HInt "32 word" | HBool bool | HFloat real

definition hash_write ::
    "(hash_datum \<Rightarrow> 'h \<Rightarrow> 'h \<times> go_error option) \<Rightarrow> hash_datum \<Rightarrow>
     'h \<times> go_error option \<Rightarrow> 'h \<times> go_error option" where
  "hash_write bwrite d st = (case st of (h, err) \<Rightarrow> if err \<noteq> None then bwrite d h else (h, err))"

definition hash_fields :: "Task \<Rightarrow> hash_datum list" where
  "hash_fields task =
     concat (map (\<lambda>i. [HStr (in_Url i), HStr (in_Path i), HType (in_Type i), HStr (in_Content i)]) (t_Inputs task))
   @ concat (map (\<lambda>x. [HStr (out_Url x), HStr (out_Path x), HType (out_Type x)]) (t_Outputs task))
   @ concat (map (\<lambda>e. [HStr (ex_Image e)] @ map HStr (ex_Command e)
        @ [HStr (ex_Workdir e), HStr (ex_Stdin e), HStr (ex_Stdout e), HStr (ex_Stderr e)]
        @ concat (map (\<lambda>(k, v). [HStr k, HStr v]) (ex_Env e))) (t_Executors task))
   @ (case t_Resources task of None \<Rightarrow> []
      | Some r \<Rightarrow> [HInt (res_CpuCores r), HBool (res_Preemptible r), HFloat (res_RamGb r), HFloat (res_DiskGb r)]
                  @ map HStr (res_Zones r))
   @ map HStr (t_Volumes task)"

definition Hash ::
    "'h \<Rightarrow> (hash_datum \<Rightarrow> 'h \<Rightarrow> 'h \<times> go_error option) \<Rightarrow> ('h \<Rightarrow> string) \<Rightarrow> Task \<Rightarrow>
     string \<times> go_error option" where
  "Hash new bwrite digest task =
     (case fold (hash_write bwrite) (hash_fields task) (new, None) of (h, err) \<Rightarrow> (digest h, err))"

section \<open>Lemmas: initialisation and views\<close>

lemma InitTask_overwrite:
  "InitTask i now t True = (t', err) \<Longrightarrow>
     t_Id t' = i \<and> t_State t' = Queued \<and> t_CreationTime t' = now \<and> (err = None \<longleftrightarrow> valid_task t')"
  by (auto simp: InitTask_def Let_def Validate_complete split: if_splits)

lemma InitTask_keeps:
  "InitTask i now t ov = (t', err) \<Longrightarrow>
     t_Executors t' = t_Executors t \<and> t_Inputs t' = t_Inputs t \<and> t_Outputs t' = t_Outputs t \<and>
     t_Volumes t' = t_Volumes t \<and> t_Tags t' = t_Tags t \<and> t_Resources t' = t_Resources t \<and>
     t_Logs t' = t_Logs t"
  by (auto simp: InitTask_def Let_def)

lemma valid_task_frame:
  "t_Executors t' = t_Executors t \<Longrightarrow> t_Inputs t' = t_Inputs t \<Longrightarrow> t_Outputs t' = t_Outputs t \<Longrightarrow>
   t_Volumes t' = t_Volumes t \<Longrightarrow> t_Tags t' = t_Tags t \<Longrightarrow> valid_task t' \<longleftrightarrow> valid_task t"
  by (simp add: valid_task_def)

lemma basic_executorlog_idem [simp]: "basic_executorlog (basic_executorlog e) = basic_executorlog e"
  by (simp add: basic_executorlog_def)

lemma basic_tasklog_idem [simp]: "basic_tasklog (basic_tasklog l) = basic_tasklog l"
  by (simp add: basic_tasklog_def comp_def)

lemma GetBasicView_idem [simp]: "GetBasicView (GetBasicView t) = GetBasicView t"
  by (simp add: GetBasicView_def comp_def)

lemma GetMinimalView_Basic [simp]: "GetMinimalView (GetBasicView t) = GetMinimalView t"
  by (simp add: GetMinimalView_def GetBasicView_def)

lemma GetMinimalView_simps [simp]:
  "t_Id (GetMinimalView t) = t_Id t" "t_State (GetMinimalView t) = t_State t"
  "t_Logs (GetMinimalView t) = []"
  by (simp_all add: GetMinimalView_def empty_task_def)

lemma GetBasicView_simps [simp]:
  "t_Id (GetBasicView t) = t_Id t" "t_State (GetBasicView t) = t_State t"
  "t_Name (GetBasicView t) = t_Name t" "t_Tags (GetBasicView t) = t_Tags t"
  "t_Resources (GetBasicView t) = t_Resources t" "t_Executors (GetBasicView t) = t_Executors t"
  by (simp_all add: GetBasicView_def)

section \<open>Lemmas: log slots\<close>

lemma grow_to_eq: "grow_to z xs i = xs @ replicate (Suc i - length xs) z"
proof (induction z xs i rule: grow_to.induct)
  case (1 z xs i)
  show ?case
  proof (cases "length xs \<le> i")
    case True
    with 1 have "grow_to z (xs @ [z]) i = (xs @ [z]) @ replicate (i - length xs) z" by simp
    moreover have "replicate (Suc i - length xs) z = z # replicate (i - length xs) z"
      using True by (simp add: Suc_diff_le)
    ultimately show ?thesis using True by (simp add: grow_to.simps [of z xs i])
  next
    case False
    then show ?thesis by (simp add: grow_to.simps [of z xs i])
  qed
qed

lemma length_grow_to [simp]: "length (grow_to z xs i) = max (length xs) (Suc i)"
  by (simp add: grow_to_eq)

lemma nth_grow_to: "j < max (length xs) (Suc i) \<Longrightarrow>
    grow_to z xs i ! j = (if j < length xs then xs ! j else z)"
  by (auto simp: grow_to_eq nth_append)

lemma tasklog_at_GetTaskLog:
  "tasklog_at (GetTaskLog t i f) j = (if j = i then f (tasklog_at t i) else tasklog_at t j)"
  by (auto simp: tasklog_at_def GetTaskLog_def Let_def nth_grow_to nth_list_update_if)

lemma execlog_at_GetExecLog:
  "execlog_at (GetExecLog t a i f) a' j =
     (if a' = a \<and> j = i then f (execlog_at t a i) else execlog_at t a' j)"
  by (auto simp: execlog_at_def GetExecLog_def Let_def tasklog_at_GetTaskLog nth_grow_to nth_list_update_if)

lemma GetTaskLog_frame [simp]:
  "t_Id (GetTaskLog t i f) = t_Id t" "t_State (GetTaskLog t i f) = t_State t"
  "t_Resources (GetTaskLog t i f) = t_Resources t" "t_Tags (GetTaskLog t i f) = t_Tags t"
  "t_Name (GetTaskLog t i f) = t_Name t" "t_Executors (GetTaskLog t i f) = t_Executors t"
  by (simp_all add: GetTaskLog_def Let_def)

lemma GetExecLog_frame [simp]:
  "t_Id (GetExecLog t a i f) = t_Id t" "t_State (GetExecLog t a i f) = t_State t"
  "t_Resources (GetExecLog t a i f) = t_Resources t" "t_Tags (GetExecLog t a i f) = t_Tags t"
  "t_Name (GetExecLog t a i f) = t_Name t" "t_Executors (GetExecLog t a i f) = t_Executors t"
  by (simp_all add: GetExecLog_def)

lemma length_Logs_GetTaskLog: "length (t_Logs (GetTaskLog t i f)) = max (length (t_Logs t)) (Suc i)"
  by (simp add: GetTaskLog_def Let_def)

text \<open>
  C20: a write through \<open>GetTaskLog\<close> or \<open>GetExecLog\<close> changes exactly the addressed slot.  Growing the
  slice on demand never disturbs an existing entry, a slot that was not there before starts from
  the empty log, and slots other than the addressed one read as before.
\<close>

theorem log_slots_exact:
  "tasklog_at (GetTaskLog t i f) j = (if j = i then f (tasklog_at t i) else tasklog_at t j) \<and>
   execlog_at (GetExecLog t a k g) b l =
     (if b = a \<and> l = k then g (execlog_at t a k) else execlog_at t b l) \<and>
   length (t_Logs (GetTaskLog t i f)) = max (length (t_Logs t)) (Suc i)"
  by (simp only: tasklog_at_GetTaskLog execlog_at_GetExecLog length_Logs_GetTaskLog simp_thms)

section \<open>Lemmas: requests\<close>

lemma GetPageSize_bounds: "1 \<le> GetPageSize n \<and> GetPageSize n \<le> 2048"
  by (simp add: GetPageSize_def)

lemma GetPageSize_in_range: "0 < sint n \<Longrightarrow> sint n \<le> 2048 \<Longrightarrow> GetPageSize n = sint n"
  by (simp add: GetPageSize_def)

lemma tags_loop_get:
  "distinct ks \<Longrightarrow> i < length ks \<Longrightarrow>
   gomap_get (tags_loop ks vs out) (ks ! i) = Some (if i < length vs then vs ! i else '''')"
proof (induction ks vs out arbitrary: i rule: tags_loop.induct)
  case (2 k ks out)
  show ?case
  proof (cases i)
    case 0
    have "gomap_get (tags_loop ks [] m) k = gomap_get m k" if "k \<notin> set ks" for m
      using that by (induction ks "[] :: string list" m rule: tags_loop.induct) (auto simp: gomap_simps)
    with 0 2 show ?thesis by (simp add: gomap_simps)
  next
    case (Suc j)
    with 2 show ?thesis by simp
  qed
next
  case (3 k ks v vs out)
  show ?case
  proof (cases i)
    case 0
    have "gomap_get (tags_loop ks ws m) k = gomap_get m k" if "k \<notin> set ks" for ws m
      using that by (induction ks ws m rule: tags_loop.induct) (auto simp: gomap_simps)
    with 0 3 show ?thesis by (simp add: gomap_simps)
  next
    case (Suc j)
    with 3 show ?thesis by simp
  qed
qed simp

section \<open>Lemmas: the hash\<close>

lemma hash_never_writes: "fold (hash_write bwrite) ds (h, None) = (h, None)"
  by (induction ds) (simp_all add: hash_write_def)

text \<open>
  The task hash does not depend on the task.  The guard of \<open>write\<close> is inverted (it calls
  \<open>binary.Write\<close> only once an error has occurred), so nothing ever reaches the digest and \<open>Hash\<close>
  returns the digest of the empty input, without error, for every task.
\<close>

theorem Hash_ignores_task: "Hash new bwrite digest task = (digest new, None)"
  by (simp add: Hash_def hash_never_writes)

end
