(* ===== verification/Base64.thy ===== *)
theory Base64
  imports Prelude
begin

text \<open>
  \<open>base64.StdEncoding\<close> of Go's standard library, as \<open>src/server/auth.go\<close> and \<open>src/tes/utils.go\<close>
  use it: three bytes give four characters of the standard alphabet, with \<open>=\<close> padding.  The
  decoder accepts the padded form the encoder writes.  The lemmas show the round trip.
\<close>

section \<open>Definitions\<close>

definition alphabet :: string where
  "alphabet = ''ABCDEFGHIJKLMNOPQRSTUVWXYZabcdefghijklmnopqrstuvwxyz0123456789+/''"

definition enc6 :: "nat \<Rightarrow> char" where
  "enc6 n = alphabet ! n"

fun index_of :: "char \<Rightarrow> char list \<Rightarrow> nat option" where
  "index_of c [] = None"
| "index_of c (x # xs) = (if c = x then Some 0 else map_option Suc (index_of c xs))"

definition dec6 :: "char \<Rightarrow> nat option" where
  "dec6 c = index_of c alphabet"

definition byte :: "char \<Rightarrow> nat" where
  "byte c = of_char c"

fun EncodeToString :: "string \<Rightarrow> string" where
  "EncodeToString [] = []"
| "EncodeToString [a] =
     [enc6 (byte a div 4), enc6 (byte a mod 4 * 16), CHR ''='', CHR ''='']"
| "EncodeToString [a, b] =
     [enc6 (byte a div 4), enc6 (byte a mod 4 * 16 + byte b div 16),
      enc6 (byte b mod 16 * 4), CHR ''='']"
| "EncodeToString (a # b # c # s) =
     [enc6 (byte a div 4), enc6 (byte a mod 4 * 16 + byte b div 16),
      enc6 (byte b mod 16 * 4 + byte c div 64), enc6 (byte c mod 64)] @ EncodeToString s"

definition three :: "nat \<Rightarrow> nat \<Rightarrow> nat \<Rightarrow> nat \<Rightarrow> string" where
  "three p q r s =
     [char_of (p * 4 + q div 16), char_of (q mod 16 * 16 + r div 4), char_of (r mod 4 * 64 + s)]"

fun DecodeString :: "string \<Rightarrow> string option" where
  "DecodeString [] = Some []"
| "DecodeString (p # q # r # s # cs) =
     (if s = CHR ''='' then
        if cs \<noteq> [] then None
        else if r = CHR ''='' then
          (case (dec6 p, dec6 q) of
            (Some x, Some y) \<Rightarrow> Some (take 1 (three x y 0 0)) | _ \<Rightarrow> None)
        else
          (case (dec6 p, dec6 q, dec6 r) of
            (Some x, Some y, Some z) \<Rightarrow> Some (take 2 (three x y z 0)) | _ \<Rightarrow> None)
      else
        (case (dec6 p, dec6 q, dec6 r, dec6 s, DecodeString cs) of
          (Some x, Some y, Some z, Some w, Some t) \<Rightarrow> Some (three x y z w @ t) | _ \<Rightarrow> None))"
| "DecodeString _ = None"

section \<open>Lemmas\<close>

lemma length_alphabet [simp]: "length alphabet = 64"
  by (simp add: alphabet_def)

lemma distinct_alphabet: "distinct alphabet"
  by (simp add: alphabet_def)

lemma index_of_nth: "distinct xs \<Longrightarrow> i < length xs \<Longrightarrow> index_of (xs ! i) xs = Some i"
  by (induction xs arbitrary: i) (auto simp: nth_Cons split: nat.split)

lemma dec6_enc6 [simp]: "n < 64 \<Longrightarrow> dec6 (enc6 n) = Some n"
  by (simp add: dec6_def enc6_def index_of_nth distinct_alphabet)

lemma pad_notin_alphabet: "CHR ''='' \<notin> set alphabet"
  by (simp add: alphabet_def)

lemma enc6_not_pad [simp]: "n < 64 \<Longrightarrow> enc6 n \<noteq> CHR ''=''"
  by (metis enc6_def length_alphabet nth_mem pad_notin_alphabet)

lemma byte_less [simp]: "byte c < 256"
  by (simp add: byte_def)

lemma char_of_byte [simp]: "char_of (byte c) = c"
  by (simp add: byte_def)

lemma six_bits [simp]:
  "byte a div 4 < 64" "byte a mod 4 * 16 < 64" "byte a mod 4 * 16 + byte b div 16 < 64"
  "byte b mod 16 * 4 < 64" "byte b mod 16 * 4 + byte c div 64 < 64" "byte c mod 64 < 64"
  using byte_less [of a] byte_less [of b] byte_less [of c] by (simp; linarith)+

lemma regroup1: "(b::nat) < 256 \<Longrightarrow> a div 4 * 4 + (a mod 4 * 16 + b div 16) div 16 = a"
  by simp

lemma regroup2:
  "(b::nat) < 256 \<Longrightarrow> c < 256 \<Longrightarrow>
   (a mod 4 * 16 + b div 16) mod 16 * 16 + (b mod 16 * 4 + c div 64) div 4 = b"
proof -
  assume b: "b < 256" and c: "c < 256"
  from b have "(a mod 4 * 16 + b div 16) mod 16 = b div 16" by simp
  moreover from c have "(b mod 16 * 4 + c div 64) div 4 = b mod 16" by simp
  ultimately show ?thesis by simp
qed

lemma regroup3: "(c::nat) < 256 \<Longrightarrow> (b mod 16 * 4 + c div 64) mod 4 * 64 + c mod 64 = c"
  by simp

lemma three_bytes [simp]:
  "three (byte a div 4) (byte a mod 4 * 16 + byte b div 16)
     (byte b mod 16 * 4 + byte c div 64) (byte c mod 64) = [a, b, c]"
  unfolding three_def by (simp only: regroup1 regroup2 regroup3 byte_less char_of_byte)

lemma two_bytes [simp]:
  "take 2 (three (byte a div 4) (byte a mod 4 * 16 + byte b div 16) (byte b mod 16 * 4) 0) = [a, b]"
proof -
  have "(byte a mod 4 * 16 + byte b div 16) mod 16 * 16 + (byte b mod 16 * 4) div 4 = byte b"
    using regroup2 [of "byte b" 0 "byte a"] by simp
  then show ?thesis unfolding three_def by (simp only: regroup1 byte_less char_of_byte) simp
qed

lemma one_byte [simp]: "take (Suc 0) (three (byte a div 4) (byte a mod 4 * 16) 0 0) = [a]"
proof -
  have "byte a div 4 * 4 + (byte a mod 4 * 16) div 16 = byte a"
    using regroup1 [of 0 "byte a"] by simp
  then show ?thesis unfolding three_def by (simp only: char_of_byte) simp
qed

lemma Decode_Encode [simp]: "DecodeString (EncodeToString s) = Some s"
  by (induction s rule: EncodeToString.induct) simp_all

lemma EncodeToString_inj [simp]: "EncodeToString s = EncodeToString t \<longleftrightarrow> s = t"
  by (metis Decode_Encode option.inject)

end
