(* ===== verification/Auth.thy ===== *)
theory Auth
  imports Tes_Types Base64
begin

text \<open>
  Authentication and task access, \<open>src/server/auth.go\<close> and the token checks of
  \<open>src/server/auth_oidc.go\<close>.  The package variable \<open>accessMode\<close> is an argument of the two access
  checks and a result of \<open>NewAuthentication\<close>.  A request context carries at most one \<open>UserInfo\<close>.
  What the OIDC code gets from its JWT library and from the introspection endpoint is an argument:
  the key set, the verified token, the outcome of each HTTP attempt.
\<close>

section \<open>Users and access modes\<close>

record UserInfo =
  IsPublic :: bool
  IsAdmin :: bool
  Username :: string
  Token :: string

text \<open>What a Go context holds under \<open>UserInfoKey\<close>.\<close>

type_synonym go_ctx = "UserInfo option"

definition AccessAll :: string where "AccessAll = ''All''"
definition AccessOwner :: string where "AccessOwner = ''Owner''"
definition AccessOwnerOrAdmin :: string where "AccessOwnerOrAdmin = ''OwnerOrAdmin''"

definition publicUserInfo :: UserInfo where
  "publicUserInfo = \<lparr>IsPublic = True, IsAdmin = False, Username = '''', Token = ''''\<rparr>"

definition systemUserInfo :: UserInfo where
  "systemUserInfo = \<lparr>IsPublic = False, IsAdmin = True, Username = ''SYSTEM'', Token = ''''\<rparr>"

definition GetUser :: "go_ctx \<Rightarrow> UserInfo" where
  "GetUser ctx = (case ctx of Some u \<Rightarrow> u | None \<Rightarrow> systemUserInfo)"

definition GetUsername :: "go_ctx \<Rightarrow> string" where
  "GetUsername ctx = Username (GetUser ctx)"

definition IsAccessible :: "string \<Rightarrow> UserInfo \<Rightarrow> string \<Rightarrow> bool" where
  "IsAccessible accessMode u dataOwner =
     (if u = systemUserInfo \<or> accessMode = AccessAll then True
      else let isOwner = (Username u = dataOwner)
           in if accessMode = AccessOwner then isOwner
              else if accessMode = AccessOwnerOrAdmin then isOwner \<or> IsAdmin u
              else False)"

definition CanSeeAllTasks :: "string \<Rightarrow> UserInfo \<Rightarrow> bool" where
  "CanSeeAllTasks accessMode u =
     (u = systemUserInfo \<or> accessMode = AccessAll \<or> accessMode = AccessOwnerOrAdmin \<and> IsAdmin u)"

section \<open>OIDC tokens\<close>

record OidcConfig =
  oc_admins :: "bool gomap"
  oc_RequireAudience :: string
  oc_RequireScope :: string
  oc_JwksURI :: string
  oc_Issuer :: string
  oc_IntrospectionEndpoint :: string

datatype claim = ClaimString string | ClaimOther

record jwt =
  jwt_Subject :: string
  jwt_Audience :: "string list"
  jwt_scope :: "claim option"

text \<open>
  One attempt at the introspection endpoint: the request cannot be built, the call fails, or a
  response arrives with its status, content type and body (\<^const>\<open>None\<close> when reading it fails).
\<close>

datatype introspection = RequestError | CallError | HttpResponse int string "string option"

text \<open>The OIDC library and the network, as \<open>ParseJwtSubject\<close> sees them.\<close>

record oidc_env =
  env_jwks :: "string \<Rightarrow> bool"
  env_parse :: "string \<Rightarrow> string \<Rightarrow> jwt option"
  env_introspect :: "string \<Rightarrow> nat \<Rightarrow> introspection"
  env_active :: "string \<Rightarrow> bool"

text \<open>\<open>isJwtValid\<close>: the type assertion \<open>value.(string)\<close> on the scope claim can panic.\<close>

definition isJwtValid :: "OidcConfig \<Rightarrow> jwt \<Rightarrow> go_error + bool" where
  "isJwtValid c token =
     (if oc_RequireAudience c \<noteq> '''' \<and> oc_RequireAudience c \<notin> set (jwt_Audience token) then Inr False
      else if oc_RequireScope c \<noteq> '''' then
        (case jwt_scope token of
          None \<Rightarrow> Inr False
        | Some ClaimOther \<Rightarrow> Inl (Panic ''interface conversion'')
        | Some (ClaimString s) \<Rightarrow> Inr (oc_RequireScope c \<in> set (Split (CHR '' '') s)))
      else Inr True)"

text \<open>The loop of \<open>isJwtActive\<close>; the first argument is \<open>attemptsCount\<close>.\<close>

fun introspect_loop :: "oidc_env \<Rightarrow> nat \<Rightarrow> string \<Rightarrow> bool" where
  "introspect_loop env 0 token = False"
| "introspect_loop env (Suc n) token =
     (case env_introspect env token (Suc n) of
       RequestError \<Rightarrow> False
     | CallError \<Rightarrow> introspect_loop env n token
     | HttpResponse status ctype body \<Rightarrow>
         if status \<noteq> 200 then False
         else (case body of
           None \<Rightarrow> False
         | Some b \<Rightarrow>
             if \<not> HasPrefix ctype ''application/json'' then False
             else if b = '''' then False
             else env_active env b))"

definition isJwtActive :: "OidcConfig \<Rightarrow> oidc_env \<Rightarrow> string \<Rightarrow> bool" where
  "isJwtActive c env token =
     (if oc_IntrospectionEndpoint c = '''' then True else introspect_loop env 3 token)"

definition ParseJwtSubject :: "OidcConfig \<Rightarrow> oidc_env \<Rightarrow> string \<Rightarrow> go_error + string" where
  "ParseJwtSubject c env jwtString =
     (if \<not> env_jwks env (oc_JwksURI c) then Inr ''''
      else case env_parse env (oc_Issuer c) jwtString of
        None \<Rightarrow> Inr ''''
      | Some token \<Rightarrow>
          (case isJwtValid c token of
            Inl e \<Rightarrow> Inl e
          | Inr valid \<Rightarrow>
              if \<not> valid \<or> \<not> isJwtActive c env jwtString then Inr ''''
              else Inr (jwt_Subject token)))"

definition Authorize :: "OidcConfig \<Rightarrow> oidc_env \<Rightarrow> string \<Rightarrow> go_error + UserInfo option" where
  "Authorize c env authorization =
     (let jwtString = TrimPrefix authorization ''Bearer ''
      in case ParseJwtSubject c env jwtString of
           Inl e \<Rightarrow> Inl e
         | Inr subject \<Rightarrow>
             (let isAdmin = (gomap_get (oc_admins c) subject = Some True)
              in if subject = '''' then Inr None
                 else Inr (Some \<lparr>IsPublic = False, IsAdmin = isAdmin, Username = subject, Token = jwtString\<rparr>)))"

section \<open>Authentication\<close>

record BasicCredential =
  cred_User :: string
  cred_Password :: string
  cred_Admin :: bool

record Authentication =
  admins :: "bool gomap"
  basic :: "string gomap"
  oidc :: "OidcConfig option"

definition basic_token :: "string \<Rightarrow> string \<Rightarrow> string" where
  "basic_token user password = ''Basic '' @ EncodeToString (user @ '':'' @ password)"

fun add_credentials ::
    "BasicCredential list \<Rightarrow> string gomap \<Rightarrow> bool gomap \<Rightarrow> string gomap \<times> bool gomap" where
  "add_credentials [] basicCreds adminUsers = (basicCreds, adminUsers)"
| "add_credentials (cred # creds) basicCreds adminUsers =
     (let fullValue = basic_token (cred_User cred) (cred_Password cred);
          basicCreds = gomap_set basicCreds fullValue (cred_User cred);
          adminUsers = (if cred_Admin cred then gomap_set adminUsers (cred_User cred) True else adminUsers)
      in add_credentials creds basicCreds adminUsers)"

text \<open>
  \<open>NewAuthentication\<close> returns the new access mode with the authentication; a bad mode ends the
  process.  \<open>oidcConfig\<close> is what \<open>initOidcConfig\<close> returned.
\<close>

definition NewAuthentication ::
    "BasicCredential list \<Rightarrow> OidcConfig option \<Rightarrow> string \<Rightarrow> go_error + (Authentication \<times> string)" where
  "NewAuthentication creds oidcConfig taskAccess =
     (case add_credentials creds [] [] of (basicCreds, adminUsers) \<Rightarrow>
        let auth = \<lparr>admins = adminUsers, basic = basicCreds, oidc = oidcConfig\<rparr>
        in if taskAccess = AccessAll \<or> taskAccess = AccessOwner \<or> taskAccess = AccessOwnerOrAdmin
           then Inr (auth, taskAccess)
           else if taskAccess = '''' then Inr (auth, AccessAll)
           else Inl (Panic ''os.Exit(1)''))"

definition errMissingMetadata :: go_error where
  "errMissingMetadata = StatusError InvalidArgument ''Missing metadata in the context''"
definition errTokenRequired :: go_error where
  "errTokenRequired = StatusError Unauthenticated ''Basic/Bearer authorization token missing''"
definition errInvalidBasicToken :: go_error where
  "errInvalidBasicToken = StatusError Unauthenticated ''Basic-authentication failed''"
definition errInvalidBearerToken :: go_error where
  "errInvalidBearerToken = StatusError Unauthenticated ''Bearer authorization token not accepted''"

text \<open>
  \<open>Interceptor\<close>: the context with which it calls the handler, or the error with which it refuses
  the call.  \<open>md\<close> is the incoming metadata, \<^const>\<open>None\<close> when the context has none.
\<close>

definition Interceptor ::
    "Authentication \<Rightarrow> oidc_env \<Rightarrow> (string \<Rightarrow> string list) option \<Rightarrow> go_error + go_ctx" where
  "Interceptor a env md =
     (if basic a = [] \<and> oidc a = None then Inr (Some publicUserInfo)
      else case md of
        None \<Rightarrow> Inl errMissingMetadata
      | Some m \<Rightarrow>
          (case m ''authorization'' of
            [] \<Rightarrow> Inl errTokenRequired
          | authorization # _ \<Rightarrow>
              if HasPrefix authorization ''Basic '' then
                (let username = gomap_str (basic a) authorization
                 in if username \<noteq> ''''
                    then Inr (Some \<lparr>IsPublic = False,
                                    IsAdmin = (gomap_get (admins a) username = Some True),
                                    Username = username, Token = ''''\<rparr>)
                    else Inl errInvalidBasicToken)
              else (case oidc a of
                None \<Rightarrow> Inl errTokenRequired
              | Some c \<Rightarrow>
                  if HasPrefix authorization ''Bearer '' then
                    (case Authorize c env authorization of
                      Inl e \<Rightarrow> Inl e
                    | Inr (Some u) \<Rightarrow> Inr (Some u)
                    | Inr None \<Rightarrow> Inl errInvalidBearerToken)
                  else Inl errTokenRequired)))"

section \<open>The login endpoint\<close>

text \<open>
  What a handler writes to its \<open>http.ResponseWriter\<close>, in order.  \<open>OidcFlow\<close> stands for the OIDC
  code flow (\<open>HandleAuthCode\<close>), which is not modelled.
\<close>

datatype http_action = HttpError int string | Redirect string int | SetHeader string string | OidcFlow

definition handleBasicAuth :: "Authentication \<Rightarrow> string \<Rightarrow> http_action list" where
  "handleBasicAuth a authorizationHeader =
     (if gomap_str (basic a) authorizationHeader = ''''
      then [Redirect ''/'' 303]
      else [SetHeader ''WWW-Authenticate'' ''Basic realm=Funnel'',
            HttpError 401 ''User authentication is required (Basic authentication with username and password)''])"

definition LoginHandler :: "Authentication \<Rightarrow> string \<Rightarrow> string \<Rightarrow> http_action list" where
  "LoginHandler a httpMethod authorizationHeader =
     (if httpMethod \<noteq> ''GET'' then [HttpError 405 ''Only GET method is supported.''] else []) @
     (if oidc a \<noteq> None then [OidcFlow]
      else if basic a \<noteq> [] then handleBasicAuth a authorizationHeader
      else [Redirect ''/'' 303])"

section \<open>Lemmas: access\<close>

lemma mode_distinct [simp]:
  "AccessAll \<noteq> AccessOwner" "AccessOwner \<noteq> AccessAll"
  "AccessAll \<noteq> AccessOwnerOrAdmin" "AccessOwnerOrAdmin \<noteq> AccessAll"
  "AccessOwner \<noteq> AccessOwnerOrAdmin" "AccessOwnerOrAdmin \<noteq> AccessOwner"
  by (simp_all add: AccessAll_def AccessOwner_def AccessOwnerOrAdmin_def)

lemma CanSeeAllTasks_accessible: "CanSeeAllTasks m u \<Longrightarrow> IsAccessible m u owner"
  by (auto simp: CanSeeAllTasks_def IsAccessible_def Let_def)

lemma IsAccessible_limited:
  "\<not> CanSeeAllTasks m u \<Longrightarrow>
   IsAccessible m u owner \<longleftrightarrow> owner = Username u \<and> (m = AccessOwner \<or> m = AccessOwnerOrAdmin)"
  by (auto simp: CanSeeAllTasks_def IsAccessible_def Let_def)

lemma IsAccessible_system [simp]: "IsAccessible m systemUserInfo owner"
  by (simp add: IsAccessible_def)

lemma GetUser_None [simp]: "GetUser None = systemUserInfo"
  by (simp add: GetUser_def)

lemma GetUser_Some [simp]: "GetUser (Some u) = u"
  by (simp add: GetUser_def)

text \<open>
  C14: the two access checks agree.  A user for whom \<open>CanSeeAllTasks\<close> holds may access every task;
  any other user may access exactly the tasks owned under his name, and those only in the two
  owner-based modes (so an unknown mode denies everything).
\<close>

theorem access_checks_agree:
  "IsAccessible m u owner \<longleftrightarrow>
     CanSeeAllTasks m u \<or> owner = Username u \<and> (m = AccessOwner \<or> m = AccessOwnerOrAdmin)"
  using CanSeeAllTasks_accessible IsAccessible_limited by blast

section \<open>Lemmas: credentials\<close>

lemma basic_token_prefix [simp]: "HasPrefix (basic_token u p) ''Basic ''"
  unfolding basic_token_def by (rule HasPrefix_append)

lemma basic_token_inj: "basic_token u p = basic_token u' p' \<longleftrightarrow> u @ '':'' @ p = u' @ '':'' @ p'"
  by (simp add: basic_token_def)

lemma colon_split:
  "(c :: char) \<notin> set u \<Longrightarrow> c \<notin> set u' \<Longrightarrow> u @ [c] @ p = u' @ [c] @ p' \<Longrightarrow> u = u' \<and> p = p'"
proof -
  assume u: "c \<notin> set u" and u': "c \<notin> set u'" and eq: "u @ [c] @ p = u' @ [c] @ p'"
  from eq have "Split c (u @ c # p) = Split c (u' @ c # p')" by simp
  then have "u = u'" using u u' by (simp add: Split_append)
  with eq show ?thesis by simp
qed

lemma add_credentials_other:
  "t \<notin> (\<lambda>c. basic_token (cred_User c) (cred_Password c)) ` set creds \<Longrightarrow>
   gomap_get (fst (add_credentials creds b ad)) t = gomap_get b t"
  by (induction creds b ad rule: add_credentials.induct) (auto simp: Let_def gomap_simps)

lemma add_credentials_basic:
  "gomap_get (fst (add_credentials creds b ad)) t = Some u \<Longrightarrow>
   gomap_get b t = Some u \<or>
   (\<exists>c\<in>set creds. cred_User c = u \<and> t = basic_token (cred_User c) (cred_Password c))"
proof (induction creds b ad rule: add_credentials.induct)
  case (1 b ad)
  then show ?case by simp
next
  case (2 cred creds b ad)
  from "2.IH" [OF refl refl refl] "2.prems" show ?case
    by (auto simp: Let_def gomap_simps split: if_splits)
qed

lemma add_credentials_admin:
  "gomap_get (snd (add_credentials creds b ad)) u = Some True \<longleftrightarrow>
   gomap_get ad u = Some True \<or> (\<exists>c\<in>set creds. cred_Admin c \<and> cred_User c = u)"
  by (induction creds b ad rule: add_credentials.induct) (auto simp: Let_def gomap_simps)

lemma add_credentials_nonempty: "creds \<noteq> [] \<Longrightarrow> fst (add_credentials creds b ad) \<noteq> []"
proof (induction creds b ad rule: add_credentials.induct)
  case (2 cred creds b ad)
  show ?case
  proof (cases creds)
    case Nil
    then show ?thesis by (cases b) (auto simp: Let_def gomap_set_def)
  next
    case Cons
    with 2 show ?thesis by (simp add: Let_def)
  qed
qed simp

lemma NewAuthentication_fields:
  assumes "NewAuthentication creds oc acc = Inr (a, mode)"
  shows "basic a = fst (add_credentials creds [] [])"
    and "admins a = snd (add_credentials creds [] [])"
    and "oidc a = oc"
  using assms by (auto simp: NewAuthentication_def Let_def split: prod.splits if_splits)

text \<open>
  C18: Basic authentication lets in exactly the configured credentials.  When authentication is
  configured with Basic credentials whose user names are nonempty and contain no colon, a request
  that carries a Basic token is passed to its handler only if the token belongs to a configured
  credential; the user in the handler's context is the user of that credential, and is an admin
  exactly when a credential of that user is marked as one.
\<close>

theorem Interceptor_basic_sound:
  assumes auth: "NewAuthentication creds oc acc = Inr (a, mode)" and "creds \<noteq> []"
    and md: "md = Some m" "m ''authorization'' = basic_token u p # rest" "CHR '':'' \<notin> set u"
    and users: "\<forall>c\<in>set creds. cred_User c \<noteq> '''' \<and> CHR '':'' \<notin> set (cred_User c)"
    and ok: "Interceptor a env md = Inr ctx"
  shows "(\<exists>c\<in>set creds. cred_User c = u \<and> cred_Password c = p) \<and>
    ctx = Some \<lparr>IsPublic = False, IsAdmin = (\<exists>c\<in>set creds. cred_Admin c \<and> cred_User c = u),
                Username = u, Token = ''''\<rparr>"
proof -
  note f = NewAuthentication_fields [OF auth]
  have ne: "basic a \<noteq> []" using f(1) add_credentials_nonempty [OF \<open>creds \<noteq> []\<close>] by simp
  let ?t = "basic_token u p"
  from ok ne md have name: "gomap_str (basic a) ?t \<noteq> ''''" and
    ctx: "ctx = Some \<lparr>IsPublic = False, IsAdmin = (gomap_get (admins a) (gomap_str (basic a) ?t) = Some True),
       Username = gomap_str (basic a) ?t, Token = ''''\<rparr>"
    by (auto simp: Interceptor_def Let_def split: if_splits)
  from name obtain v where v: "gomap_get (basic a) ?t = Some v" "gomap_str (basic a) ?t = v"
    by (auto simp: gomap_str_def split: option.splits)
  from v(1) f(1) obtain c where c: "c \<in> set creds" "cred_User c = v"
      "?t = basic_token (cred_User c) (cred_Password c)"
    using add_credentials_basic [of creds "[]" "[]" ?t v] by auto
  from c(1,3) users md(3) have "u = cred_User c \<and> p = cred_Password c"
    unfolding basic_token_inj by (intro colon_split [where c = "CHR '':''"]) auto
  with c v(2) ctx f(2) show ?thesis
    by (auto simp: add_credentials_admin)
qed

definition auth_example :: "BasicCredential list" where
  "auth_example = [\<lparr>cred_User = ''ann'', cred_Password = ''pw'', cred_Admin = True\<rparr>]"

theorem Interceptor_basic_sound_witness:
  "(\<exists>c\<in>set auth_example. cred_User c = ''ann'' \<and> cred_Password c = ''pw'')"
proof -
  define a where "a = \<lparr>admins = [(''ann'', True)], basic = [(basic_token ''ann'' ''pw'', ''ann'')],
     oidc = None :: OidcConfig option\<rparr>"
  define ctx where "ctx = Some \<lparr>IsPublic = False, IsAdmin = True, Username = ''ann'', Token = ''''\<rparr>"
  define env where "env = \<lparr>env_jwks = (\<lambda>_. False), env_parse = (\<lambda>_ _. None),
     env_introspect = (\<lambda>_ _. CallError), env_active = (\<lambda>_. False)\<rparr>"
  have auth: "NewAuthentication auth_example None ''Owner'' = Inr (a, ''Owner'')"
    by (simp add: NewAuthentication_def auth_example_def a_def AccessAll_def AccessOwner_def
        AccessOwnerOrAdmin_def gomap_set_def Let_def)
  have ok: "Interceptor a env (Some (\<lambda>_. [basic_token ''ann'' ''pw''])) = Inr ctx"
    by (simp add: Interceptor_def a_def ctx_def gomap_str_def gomap_get_def)
  show ?thesis
    using Interceptor_basic_sound [OF auth _ refl _ _ _ ok, of "''ann''" "''pw''" "[]"]
    by (simp add: auth_example_def)
qed

text \<open>
  C19: a request without a valid token never reaches a handler once authentication is required.
  If any Basic credential or an OIDC service is configured, the interceptor passes a call on only
  with a user that has a nonempty name and is not the public user; that user either holds a
  configured Basic token or was accepted by the OIDC service.
\<close>

theorem Interceptor_authenticated:
  assumes req: "basic a \<noteq> [] \<or> oidc a \<noteq> None" and ok: "Interceptor a env md = Inr ctx"
  shows "\<exists>u. ctx = Some u \<and> Username u \<noteq> '''' \<and> \<not> IsPublic u \<and>
    (\<exists>m tok rest. md = Some m \<and> m ''authorization'' = tok # rest \<and>
      (gomap_get (basic a) tok = Some (Username u) \<or>
       (\<exists>c. oidc a = Some c \<and> Authorize c env tok = Inr (Some u))))"
proof -
  from req ok obtain m tok rest where m: "md = Some m" "m ''authorization'' = tok # rest"
    by (auto simp: Interceptor_def split: option.splits list.splits)
  show ?thesis
  proof (cases "HasPrefix tok ''Basic ''")
    case True
    with req ok m have "gomap_str (basic a) tok \<noteq> ''''"
        "ctx = Some \<lparr>IsPublic = False, IsAdmin = (gomap_get (admins a) (gomap_str (basic a) tok) = Some True),
           Username = gomap_str (basic a) tok, Token = ''''\<rparr>"
      by (auto simp: Interceptor_def Let_def split: if_splits)
    with m show ?thesis by (auto simp: gomap_str_def split: option.splits)
  next
    case False
    with req ok m obtain c u where cu: "oidc a = Some c" "Authorize c env tok = Inr (Some u)" "ctx = Some u"
      by (auto simp: Interceptor_def Let_def split: if_splits option.splits sum.splits)
    from cu(2) have "Username u \<noteq> '''' \<and> \<not> IsPublic u"
      by (auto simp: Authorize_def Let_def split: sum.splits if_splits)
    with cu m show ?thesis by blast
  qed
qed

theorem Interceptor_authenticated_witness:
  "\<exists>u. Some \<lparr>IsPublic = False, IsAdmin = True, Username = ''ann'', Token = ''''\<rparr> = Some u \<and> \<not> IsPublic u"
proof -
  let ?a = "\<lparr>admins = [(''ann'', True)], basic = [(basic_token ''ann'' ''pw'', ''ann'')],
     oidc = None :: OidcConfig option\<rparr>"
  let ?env = "\<lparr>env_jwks = (\<lambda>_. False), env_parse = (\<lambda>_ _. None),
     env_introspect = (\<lambda>_ _. CallError), env_active = (\<lambda>_. False)\<rparr>"
  have ok: "Interceptor ?a ?env (Some (\<lambda>_. [basic_token ''ann'' ''pw''])) =
      Inr (Some \<lparr>IsPublic = False, IsAdmin = True, Username = ''ann'', Token = ''''\<rparr>)"
    by (simp add: Interceptor_def gomap_str_def gomap_get_def)
  show ?thesis using Interceptor_authenticated [OF _ ok] by auto
qed

section \<open>Lemmas: tokens\<close>

text \<open>The introspection loop makes at most three attempts; a token is active only if one of them says so.\<close>

lemma introspect_loop_active:
  "introspect_loop env n token \<Longrightarrow>
   \<exists>k ctype b. 0 < k \<and> k \<le> n \<and> env_introspect env token k = HttpResponse 200 ctype (Some b) \<and>
     HasPrefix ctype ''application/json'' \<and> env_active env b \<and>
     (\<forall>j. k < j \<and> j \<le> n \<longrightarrow> env_introspect env token j = CallError)"
proof (induction env n token rule: introspect_loop.induct)
  case (1 env token)
  then show ?case by simp
next
  case (2 env n token)
  show ?case
  proof (cases "env_introspect env token (Suc n)")
    case CallError
    with 2 obtain k ctype b where "0 < k" "k \<le> n" "env_introspect env token k = HttpResponse 200 ctype (Some b)"
      "HasPrefix ctype ''application/json''" "env_active env b"
      "\<forall>j. k < j \<and> j \<le> n \<longrightarrow> env_introspect env token j = CallError"
      by auto
    with CallError show ?thesis
      by (intro exI [of _ k] exI [of _ ctype] exI [of _ b]) (auto simp: le_Suc_eq)
  next
    case (HttpResponse s ctype body)
    with "2.prems" obtain b where "s = 200" "body = Some b" "HasPrefix ctype ''application/json''" "env_active env b"
      by (auto split: if_splits option.splits)
    with HttpResponse show ?thesis by (intro exI [of _ "Suc n"] exI [of _ ctype] exI [of _ b]) auto
  qed (use "2.prems" in auto)
qed

text \<open>
  A user accepted by OIDC carries the subject of a token that the library verified against the
  issuer, that has the required audience and scope, and that is active.
\<close>

lemma Authorize_sound:
  assumes "Authorize c env auth = Inr (Some u)"
  obtains token where "env_parse env (oc_Issuer c) (TrimPrefix auth ''Bearer '') = Some token"
    "jwt_Subject token = Username u" "isJwtValid c token = Inr True"
    "isJwtActive c env (TrimPrefix auth ''Bearer '')"
    "IsAdmin u \<longleftrightarrow> gomap_get (oc_admins c) (Username u) = Some True"
  using assms
  by (auto simp: Authorize_def ParseJwtSubject_def Let_def split: sum.splits if_splits option.splits)

text \<open>
  The system identity can be taken by a configured user.  The access checks compare the user
  with \<open>systemUserInfo\<close> by value, so a Basic credential for an admin user called \<open>SYSTEM\<close> gives a
  request that passes every owner check even in the mode that reserves tasks for their owners.
\<close>

theorem system_identity_forgeable:
  "\<exists>creds a ctx. NewAuthentication creds None AccessOwner = Inr (a, AccessOwner) \<and>
     Interceptor a env (Some (\<lambda>_. [basic_token ''SYSTEM'' ''pw''])) = Inr ctx \<and>
     (\<forall>owner. IsAccessible AccessOwner (GetUser ctx) owner)"
proof -
  define creds where "creds = [\<lparr>cred_User = ''SYSTEM'', cred_Password = ''pw'', cred_Admin = True\<rparr>]"
  define a where "a = \<lparr>admins = [(''SYSTEM'', True)], basic = [(basic_token ''SYSTEM'' ''pw'', ''SYSTEM'')],
     oidc = None :: OidcConfig option\<rparr>"
  have "NewAuthentication creds None AccessOwner = Inr (a, AccessOwner)"
    by (simp add: NewAuthentication_def creds_def a_def gomap_set_def Let_def)
  moreover have "Interceptor a env (Some (\<lambda>_. [basic_token ''SYSTEM'' ''pw''])) = Inr (Some systemUserInfo)"
    by (simp add: Interceptor_def a_def gomap_str_def gomap_get_def systemUserInfo_def)
  ultimately show ?thesis
    by (intro exI [of _ creds] exI [of _ a] exI [of _ "Some systemUserInfo"]) simp
qed

text \<open>
  The login endpoint answers Basic authentication the wrong way round.  A request whose
  credentials are configured gets a 401 challenge, and one whose credentials are not is redirected
  to the start page.
\<close>

theorem handleBasicAuth_inverted:
  "oidc a = None \<Longrightarrow> basic a \<noteq> [] \<Longrightarrow>
   (gomap_str (basic a) hdr \<noteq> '''' \<longleftrightarrow> (\<exists>msg. HttpError 401 msg \<in> set (LoginHandler a ''GET'' hdr))) \<and>
   (gomap_str (basic a) hdr = '''' \<longleftrightarrow> LoginHandler a ''GET'' hdr = [Redirect ''/'' 303])"
  by (auto simp: LoginHandler_def handleBasicAuth_def)

theorem handleBasicAuth_inverted_witness:
  "LoginHandler \<lparr>admins = [], basic = [(''tok'', ''ann'')], oidc = None\<rparr> ''GET'' ''bad'' = [Redirect ''/'' 303]"
  using handleBasicAuth_inverted [of "\<lparr>admins = [], basic = [(''tok'', ''ann'')], oidc = None\<rparr>" "''bad''"]
  by (simp add: gomap_str_def gomap_get_def)

end
