(* ===== verification/Events.thy ===== *)
theory Events
  imports Tes_Utils Auth
begin

text \<open>
  Events and their writers: \<open>src/events/new.go\<close>, \<open>task.go\<close>, \<open>executor.go\<close>, \<open>systemlog.go\<close>,
  \<open>systemlogfilter.go\<close>, \<open>writer.go\<close>, \<open>computer.go\<close>, and \<open>src/util/log.go\<close>.

  A writer is a state transformer: from the context, the event and the state it writes to, to the
  new state and the error.  Every constructor takes the formatted clock reading \<open>now\<close> that the
  source gets from \<open>time.Now\<close>.
\<close>

section \<open>Event messages\<close>

datatype EventType =
    Type_UNKNOWN | Type_TASK_STATE | Type_TASK_START_TIME | Type_TASK_END_TIME | Type_TASK_OUTPUTS
  | Type_TASK_METADATA | Type_EXECUTOR_START_TIME | Type_EXECUTOR_END_TIME | Type_EXECUTOR_EXIT_CODE
  | Type_EXECUTOR_STDOUT | Type_EXECUTOR_STDERR | Type_SYSTEM_LOG | Type_TASK_CREATED
  | Type_TASK_RESOURCES

record SystemLog =
  sl_Msg :: string
  sl_Level :: string
  sl_Fields :: "string gomap"

record EvResources =
  er_CpuCores :: "32 word"
  er_RamGb :: real
  er_DiskGb :: real
  er_Preemptible :: bool
  er_BackendParameters :: "string gomap"
  er_Zones :: "string list"

datatype EventData =
    NoData
  | Event_State State
  | Event_StartTime string
  | Event_EndTime string
  | Event_Outputs "OutputFileLog list"
  | Event_Metadata "string gomap"
  | Event_ExitCode "32 word"
  | Event_Stdout string
  | Event_Stderr string
  | Event_SystemLog SystemLog
  | Event_Task Task
  | Event_Resources EvResources

record Event =
  ev_Id :: string
  ev_Timestamp :: string
  ev_Data :: EventData
  ev_Attempt :: "32 word"
  ev_Index :: "32 word"
  ev_Type :: EventType

text \<open>
  The generated getters.  Those of scalar fields give the zero value on a mismatch; those of
  message fields give nil, and the sources then read a field through it, which panics.
\<close>

definition GetState :: "Event \<Rightarrow> State" where
  "GetState ev = (case ev_Data ev of Event_State s \<Rightarrow> s | _ \<Rightarrow> Unknown)"
definition GetStartTime :: "Event \<Rightarrow> string" where
  "GetStartTime ev = (case ev_Data ev of Event_StartTime s \<Rightarrow> s | _ \<Rightarrow> '''')"
definition GetEndTime :: "Event \<Rightarrow> string" where
  "GetEndTime ev = (case ev_Data ev of Event_EndTime s \<Rightarrow> s | _ \<Rightarrow> '''')"
definition GetExitCode :: "Event \<Rightarrow> 32 word" where
  "GetExitCode ev = (case ev_Data ev of Event_ExitCode x \<Rightarrow> x | _ \<Rightarrow> 0)"
definition GetStdout :: "Event \<Rightarrow> string" where
  "GetStdout ev = (case ev_Data ev of Event_Stdout s \<Rightarrow> s | _ \<Rightarrow> '''')"
definition GetStderr :: "Event \<Rightarrow> string" where
  "GetStderr ev = (case ev_Data ev of Event_Stderr s \<Rightarrow> s | _ \<Rightarrow> '''')"

definition nil_deref :: go_error where
  "nil_deref = Panic ''nil pointer dereference''"

definition GetOutputs_Value :: "Event \<Rightarrow> go_error + OutputFileLog list" where
  "GetOutputs_Value ev = (case ev_Data ev of Event_Outputs v \<Rightarrow> Inr v | _ \<Rightarrow> Inl nil_deref)"
definition GetMetadata_Value :: "Event \<Rightarrow> go_error + string gomap" where
  "GetMetadata_Value ev = (case ev_Data ev of Event_Metadata v \<Rightarrow> Inr v | _ \<Rightarrow> Inl nil_deref)"
definition GetSystemLog :: "Event \<Rightarrow> go_error + SystemLog" where
  "GetSystemLog ev = (case ev_Data ev of Event_SystemLog v \<Rightarrow> Inr v | _ \<Rightarrow> Inl nil_deref)"
definition GetTask_of :: "Event \<Rightarrow> go_error + Task" where
  "GetTask_of ev = (case ev_Data ev of Event_Task t \<Rightarrow> Inr t | _ \<Rightarrow> Inl nil_deref)"
definition GetResources_of :: "Event \<Rightarrow> go_error + EvResources" where
  "GetResources_of ev = (case ev_Data ev of Event_Resources r \<Rightarrow> Inr r | _ \<Rightarrow> Inl nil_deref)"

section \<open>Constructors\<close>

definition NewTaskCreated :: "string \<Rightarrow> Task \<Rightarrow> Event" where
  "NewTaskCreated now task = \<lparr>ev_Id = t_Id task, ev_Timestamp = now, ev_Data = Event_Task task,
     ev_Attempt = 0, ev_Index = 0, ev_Type = Type_TASK_CREATED\<rparr>"

definition NewState :: "string \<Rightarrow> string \<Rightarrow> State \<Rightarrow> Event" where
  "NewState now taskID s = \<lparr>ev_Id = taskID, ev_Timestamp = now, ev_Data = Event_State s,
     ev_Attempt = 0, ev_Index = 0, ev_Type = Type_TASK_STATE\<rparr>"

definition NewStartTime :: "string \<Rightarrow> string \<Rightarrow> 32 word \<Rightarrow> string \<Rightarrow> Event" where
  "NewStartTime now taskID attempt t = \<lparr>ev_Id = taskID, ev_Timestamp = now, ev_Data = Event_StartTime t,
     ev_Attempt = attempt, ev_Index = 0, ev_Type = Type_TASK_START_TIME\<rparr>"

definition NewEndTime :: "string \<Rightarrow> string \<Rightarrow> 32 word \<Rightarrow> string \<Rightarrow> Event" where
  "NewEndTime now taskID attempt t = \<lparr>ev_Id = taskID, ev_Timestamp = now, ev_Data = Event_EndTime t,
     ev_Attempt = attempt, ev_Index = 0, ev_Type = Type_TASK_END_TIME\<rparr>"

definition NewOutputs :: "string \<Rightarrow> string \<Rightarrow> 32 word \<Rightarrow> OutputFileLog list \<Rightarrow> Event" where
  "NewOutputs now taskID attempt f = \<lparr>ev_Id = taskID, ev_Timestamp = now, ev_Data = Event_Outputs f,
     ev_Attempt = attempt, ev_Index = 0, ev_Type = Type_TASK_OUTPUTS\<rparr>"

definition NewMetadata :: "string \<Rightarrow> string \<Rightarrow> 32 word \<Rightarrow> string gomap \<Rightarrow> Event" where
  "NewMetadata now taskID attempt m = \<lparr>ev_Id = taskID, ev_Timestamp = now, ev_Data = Event_Metadata m,
     ev_Attempt = attempt, ev_Index = 0, ev_Type = Type_TASK_METADATA\<rparr>"

definition NewExecutorStartTime :: "string \<Rightarrow> string \<Rightarrow> 32 word \<Rightarrow> 32 word \<Rightarrow> string \<Rightarrow> Event" where
  "NewExecutorStartTime now taskID attempt index t = \<lparr>ev_Id = taskID, ev_Timestamp = now,
     ev_Data = Event_StartTime t, ev_Attempt = attempt, ev_Index = index, ev_Type = Type_EXECUTOR_START_TIME\<rparr>"

definition NewExecutorEndTime :: "string \<Rightarrow> string \<Rightarrow> 32 word \<Rightarrow> 32 word \<Rightarrow> string \<Rightarrow> Event" where
  "NewExecutorEndTime now taskID attempt index t = \<lparr>ev_Id = taskID, ev_Timestamp = now,
     ev_Data = Event_EndTime t, ev_Attempt = attempt, ev_Index = index, ev_Type = Type_EXECUTOR_END_TIME\<rparr>"

definition NewExitCode :: "string \<Rightarrow> string \<Rightarrow> 32 word \<Rightarrow> 32 word \<Rightarrow> 32 word \<Rightarrow> Event" where
  "NewExitCode now taskID attempt index x = \<lparr>ev_Id = taskID, ev_Timestamp = now,
     ev_Data = Event_ExitCode x, ev_Attempt = attempt, ev_Index = index, ev_Type = Type_EXECUTOR_EXIT_CODE\<rparr>"

definition NewStdout :: "string \<Rightarrow> string \<Rightarrow> 32 word \<Rightarrow> 32 word \<Rightarrow> string \<Rightarrow> Event" where
  "NewStdout now taskID attempt index s = \<lparr>ev_Id = taskID, ev_Timestamp = now,
     ev_Data = Event_Stdout s, ev_Attempt = attempt, ev_Index = index, ev_Type = Type_EXECUTOR_STDOUT\<rparr>"

definition NewStderr :: "string \<Rightarrow> string \<Rightarrow> 32 word \<Rightarrow> 32 word \<Rightarrow> string \<Rightarrow> Event" where
  "NewStderr now taskID attempt index s = \<lparr>ev_Id = taskID, ev_Timestamp = now,
     ev_Data = Event_Stderr s, ev_Attempt = attempt, ev_Index = index, ev_Type = Type_EXECUTOR_STDERR\<rparr>"

definition NewSystemLog ::
    "string \<Rightarrow> string \<Rightarrow> 32 word \<Rightarrow> 32 word \<Rightarrow> string \<Rightarrow> string \<Rightarrow> string gomap \<Rightarrow> Event" where
  "NewSystemLog now taskID attempt index lvl msg flds = \<lparr>ev_Id = taskID, ev_Timestamp = now,
     ev_Data = Event_SystemLog \<lparr>sl_Msg = msg, sl_Level = lvl, sl_Fields = flds\<rparr>,
     ev_Attempt = attempt, ev_Index = index, ev_Type = Type_SYSTEM_LOG\<rparr>"

definition NewResources :: "string \<Rightarrow> string \<Rightarrow> Resources option \<Rightarrow> Event" where
  "NewResources now taskID ro =
     (let r = (case ro of None \<Rightarrow> empty_resources | Some r \<Rightarrow> r)
      in \<lparr>ev_Id = taskID, ev_Timestamp = now,
          ev_Data = Event_Resources \<lparr>er_CpuCores = res_CpuCores r, er_RamGb = res_RamGb r,
            er_DiskGb = res_DiskGb r, er_Preemptible = res_Preemptible r,
            er_BackendParameters = res_BackendParameters r, er_Zones = res_Zones r\<rparr>,
          ev_Attempt = 0, ev_Index = 0, ev_Type = Type_TASK_RESOURCES\<rparr>)"

lemmas event_constructor_defs =
  NewTaskCreated_def NewState_def NewStartTime_def NewEndTime_def NewOutputs_def NewMetadata_def
  NewExecutorStartTime_def NewExecutorEndTime_def NewExitCode_def NewStdout_def NewStderr_def
  NewSystemLog_def NewResources_def

lemmas event_getter_defs =
  GetState_def GetStartTime_def GetEndTime_def GetExitCode_def GetStdout_def GetStderr_def
  GetOutputs_Value_def GetMetadata_Value_def GetSystemLog_def GetTask_of_def GetResources_of_def

section \<open>System logs\<close>

text \<open>The dynamic values passed as log arguments, with their \<open>%v\<close> form.\<close>

datatype goval = GStr string | GInt int | GErr go_error

definition show_int :: "int \<Rightarrow> string" where
  "show_int i = (if i < 0 then CHR ''-'' # show_nat (nat (- i)) else show_nat (nat i))"

text \<open>The verb \<open>%q\<close>, for texts whose characters beyond ASCII are all printable.\<close>

definition hex_digit :: "nat \<Rightarrow> char" where
  "hex_digit d = ''0123456789abcdef'' ! d"

definition q_char :: "char \<Rightarrow> string" where
  "q_char c =
     (let n = of_char c :: nat in
      if c = CHR 0x22 \<or> c = CHR 0x5C then [CHR 0x5C, c]
      else if n < 32 \<or> n = 127
      then (case map_of [(7, CHR ''a''), (8, CHR ''b''), (9, CHR ''t''), (10, CHR ''n''), (11, CHR ''v''), (12, CHR ''f''), (13, CHR ''r'')] n of
              Some x \<Rightarrow> [CHR 0x5C, x]
            | None \<Rightarrow> [CHR 0x5C, CHR ''x'', hex_digit (n div 16), hex_digit (n mod 16)])
      else [c])"

definition fmt_q :: "string \<Rightarrow> string" where
  "fmt_q s = [CHR 0x22] @ concat (map q_char s) @ [CHR 0x22]"

fun error_string :: "go_error \<Rightarrow> string" where
  "error_string ErrNotFound = ''task not found''"
| "error_string ErrNotPermitted = ''permission denied''"
| "error_string ErrConcurrentStateChange = ''Concurrent stage change''"
| "error_string (TransitionError s t) =
     ''invalid state transition from '' @ State_String s @ '' to '' @ State_String t"
| "error_string (StatusError _ m) = m"
| "error_string (Errorf m) = m"
| "error_string (SwiftError m u e) = ''swift: '' @ m @ '' for URL '' @ fmt_q u @ '': '' @ error_string e"
| "error_string (Panic m) = m"

definition errorf_v :: "string \<Rightarrow> go_error \<Rightarrow> go_error" where
  "errorf_v msg err = Errorf (msg @ error_string err)"

fun fmt_v :: "goval \<Rightarrow> string" where
  "fmt_v (GStr s) = s"
| "fmt_v (GInt i) = show_int i"
| "fmt_v (GErr e) = error_string e"

text \<open>\<open>ArgListToMap\<close> of \<open>src/util/log.go\<close>, and \<open>fields\<close> (\<open>log_fields\<close> here) of \<open>systemlog.go\<close>.\<close>

fun arg_pairs :: "goval list \<Rightarrow> goval gomap \<Rightarrow> goval gomap" where
  "arg_pairs (k # v # args) f = arg_pairs args (gomap_set f (fmt_v k) v)"
| "arg_pairs _ f = f"

definition ArgListToMap :: "goval list \<Rightarrow> goval gomap" where
  "ArgListToMap args =
     (if length args = 1 then gomap_set [] ''unknown'' (hd args)
      else if length args mod 2 \<noteq> 0
        then arg_pairs (butlast args) (gomap_set [] ''unknown'' (last args))
      else arg_pairs args [])"

fun print_fields :: "goval gomap \<Rightarrow> string gomap \<Rightarrow> string gomap" where
  "print_fields [] ss = ss"
| "print_fields ((k, v) # si) ss = print_fields si (gomap_set ss k (fmt_v v))"

definition log_fields :: "goval list \<Rightarrow> string gomap" where
  "log_fields args = print_fields (ArgListToMap args) []"

definition quote_char :: char where "quote_char = CHR 0x27"
definition backslash :: char where "backslash = CHR 0x5C"

fun escape :: "string \<Rightarrow> string" where
  "escape [] = []"
| "escape (c # s) = (if c = quote_char then backslash # quote_char # escape s else c # escape s)"

text \<open>\<open>safeKey\<close> replaces every maximal run of white space by one underscore.\<close>

definition is_space :: "char \<Rightarrow> bool" where
  "is_space c = (c \<in> {CHR 0x09, CHR 0x0A, CHR 0x0C, CHR 0x0D, CHR 0x20})"

fun safeKey :: "string \<Rightarrow> string" where
  "safeKey [] = []"
| "safeKey [c] = (if is_space c then ''_'' else [c])"
| "safeKey (c # d # s) =
     (if is_space c then (if is_space d then safeKey (d # s) else CHR ''_'' # safeKey (d # s))
      else c # safeKey (d # s))"

definition quoted :: "string \<Rightarrow> string \<Rightarrow> string" where
  "quoted k v = k @ ''='' @ [quote_char] @ v @ [quote_char]"

definition SysLogString :: "Event \<Rightarrow> go_error + string" where
  "SysLogString s =
     (if ev_Type s \<noteq> Type_SYSTEM_LOG then Inr ''''
      else case GetSystemLog s of
        Inl e \<Rightarrow> Inl e
      | Inr l \<Rightarrow> Inr (Join
          ([quoted ''level'' (sl_Level l), quoted ''msg'' (escape (sl_Msg l)),
            quoted ''timestamp'' (ev_Timestamp s), quoted ''task_attempt'' (show_nat (unat (ev_Attempt s))),
            quoted ''executor_index'' (show_nat (unat (ev_Index s)))]
           @ map (\<lambda>(k, v). quoted (safeKey k) (escape v)) (sl_Fields l)) '' ''))"

section \<open>Generators\<close>

record SystemLogGenerator =
  slg_taskID :: string
  slg_attempt :: "32 word"
  slg_index :: "32 word"

definition syslog_event :: "string \<Rightarrow> string \<Rightarrow> SystemLogGenerator \<Rightarrow> string \<Rightarrow> goval list \<Rightarrow> Event" where
  "syslog_event lvl now g msg args =
     NewSystemLog now (slg_taskID g) (slg_attempt g) (slg_index g) lvl msg (log_fields args)"

definition SystemLogGenerator_Info :: "string \<Rightarrow> SystemLogGenerator \<Rightarrow> string \<Rightarrow> goval list \<Rightarrow> Event" where
  "SystemLogGenerator_Info = syslog_event ''info''"
definition SystemLogGenerator_Debug :: "string \<Rightarrow> SystemLogGenerator \<Rightarrow> string \<Rightarrow> goval list \<Rightarrow> Event" where
  "SystemLogGenerator_Debug = syslog_event ''debug''"
definition SystemLogGenerator_Error :: "string \<Rightarrow> SystemLogGenerator \<Rightarrow> string \<Rightarrow> goval list \<Rightarrow> Event" where
  "SystemLogGenerator_Error = syslog_event ''error''"
definition SystemLogGenerator_Warn :: "string \<Rightarrow> SystemLogGenerator \<Rightarrow> string \<Rightarrow> goval list \<Rightarrow> Event" where
  "SystemLogGenerator_Warn = syslog_event ''warning''"

lemmas syslog_generator_defs =
  SystemLogGenerator_Info_def SystemLogGenerator_Debug_def SystemLogGenerator_Error_def
  SystemLogGenerator_Warn_def syslog_event_def

section \<open>Writers\<close>

type_synonym 's writer = "go_ctx \<Rightarrow> Event \<Rightarrow> 's \<Rightarrow> 's \<times> go_error option"

text \<open>\<open>MultiWriter\<close> stops at the first error.  The writers share one state.\<close>

fun MultiWriter_WriteEvent :: "'s writer list \<Rightarrow> 's writer" where
  "MultiWriter_WriteEvent [] ctx ev s = (s, None)"
| "MultiWriter_WriteEvent (w # ws) ctx ev s =
     (case w ctx ev s of
        (s', Some err) \<Rightarrow> (s', Some err)
      | (s', None) \<Rightarrow> MultiWriter_WriteEvent ws ctx ev s')"

definition Noop_WriteEvent :: "'s writer" where
  "Noop_WriteEvent ctx ev s = (s, None)"

definition filter_passes :: "string \<Rightarrow> string \<Rightarrow> bool" where
  "filter_passes level lvl \<longleftrightarrow>
     level = ''debug'' \<or>
     level = ''info'' \<and> lvl \<noteq> ''debug'' \<or>
     level = ''warn'' \<and> lvl \<noteq> ''debug'' \<and> lvl \<noteq> ''info'' \<or>
     level = ''error'' \<and> lvl \<noteq> ''debug'' \<and> lvl \<noteq> ''info'' \<and> lvl \<noteq> ''warn''"

definition SystemLogFilter_WriteEvent :: "'s writer \<Rightarrow> string \<Rightarrow> 's writer" where
  "SystemLogFilter_WriteEvent w level ctx ev s =
     (if ev_Type ev = Type_SYSTEM_LOG then
        (case GetSystemLog ev of
           Inl e \<Rightarrow> (s, Some e)
         | Inr l \<Rightarrow> if filter_passes level (sl_Level l) then w ctx ev s else (s, None))
      else w ctx ev s)"

text \<open>\<open>TaskWriter\<close> and \<open>ExecutorWriter\<close>: the event each method writes, in a background context.\<close>

record TaskWriter =
  tw_taskID :: string
  tw_attempt :: "32 word"

definition tw_sys :: "TaskWriter \<Rightarrow> SystemLogGenerator" where
  "tw_sys w = \<lparr>slg_taskID = tw_taskID w, slg_attempt = tw_attempt w, slg_index = 0\<rparr>"

definition TaskWriter_State :: "'s writer \<Rightarrow> string \<Rightarrow> TaskWriter \<Rightarrow> State \<Rightarrow> 's \<Rightarrow> 's \<times> go_error option" where
  "TaskWriter_State out now w st = out None (NewState now (tw_taskID w) st)"
definition TaskWriter_StartTime :: "'s writer \<Rightarrow> string \<Rightarrow> TaskWriter \<Rightarrow> string \<Rightarrow> 's \<Rightarrow> 's \<times> go_error option" where
  "TaskWriter_StartTime out now w t = out None (NewStartTime now (tw_taskID w) (tw_attempt w) t)"
definition TaskWriter_EndTime :: "'s writer \<Rightarrow> string \<Rightarrow> TaskWriter \<Rightarrow> string \<Rightarrow> 's \<Rightarrow> 's \<times> go_error option" where
  "TaskWriter_EndTime out now w t = out None (NewEndTime now (tw_taskID w) (tw_attempt w) t)"
definition TaskWriter_Outputs :: "'s writer \<Rightarrow> string \<Rightarrow> TaskWriter \<Rightarrow> OutputFileLog list \<Rightarrow> 's \<Rightarrow> 's \<times> go_error option" where
  "TaskWriter_Outputs out now w f = out None (NewOutputs now (tw_taskID w) (tw_attempt w) f)"
definition TaskWriter_Metadata :: "'s writer \<Rightarrow> string \<Rightarrow> TaskWriter \<Rightarrow> string gomap \<Rightarrow> 's \<Rightarrow> 's \<times> go_error option" where
  "TaskWriter_Metadata out now w m = out None (NewMetadata now (tw_taskID w) (tw_attempt w) m)"
definition TaskWriter_Info :: "'s writer \<Rightarrow> string \<Rightarrow> TaskWriter \<Rightarrow> string \<Rightarrow> goval list \<Rightarrow> 's \<Rightarrow> 's \<times> go_error option" where
  "TaskWriter_Info out now w msg args = out None (SystemLogGenerator_Info now (tw_sys w) msg args)"
definition TaskWriter_Error :: "'s writer \<Rightarrow> string \<Rightarrow> TaskWriter \<Rightarrow> string \<Rightarrow> goval list \<Rightarrow> 's \<Rightarrow> 's \<times> go_error option" where
  "TaskWriter_Error out now w msg args = out None (SystemLogGenerator_Error now (tw_sys w) msg args)"
definition TaskWriter_Warn :: "'s writer \<Rightarrow> string \<Rightarrow> TaskWriter \<Rightarrow> string \<Rightarrow> goval list \<Rightarrow> 's \<Rightarrow> 's \<times> go_error option" where
  "TaskWriter_Warn out now w msg args = out None (SystemLogGenerator_Warn now (tw_sys w) msg args)"

record ExecutorWriter =
  ew_taskID :: string
  ew_attempt :: "32 word"
  ew_index :: "32 word"

definition NewExecutorWriter :: "TaskWriter \<Rightarrow> 32 word \<Rightarrow> ExecutorWriter" where
  "NewExecutorWriter w index = \<lparr>ew_taskID = tw_taskID w, ew_attempt = tw_attempt w, ew_index = index\<rparr>"

definition ew_sys :: "ExecutorWriter \<Rightarrow> SystemLogGenerator" where
  "ew_sys w = \<lparr>slg_taskID = ew_taskID w, slg_attempt = ew_attempt w, slg_index = ew_index w\<rparr>"

definition ExecutorWriter_StartTime :: "'s writer \<Rightarrow> string \<Rightarrow> ExecutorWriter \<Rightarrow> string \<Rightarrow> 's \<Rightarrow> 's \<times> go_error option" where
  "ExecutorWriter_StartTime out now w t = out None (NewExecutorStartTime now (ew_taskID w) (ew_attempt w) (ew_index w) t)"
definition ExecutorWriter_EndTime :: "'s writer \<Rightarrow> string \<Rightarrow> ExecutorWriter \<Rightarrow> string \<Rightarrow> 's \<Rightarrow> 's \<times> go_error option" where
  "ExecutorWriter_EndTime out now w t = out None (NewExecutorEndTime now (ew_taskID w) (ew_attempt w) (ew_index w) t)"
definition ExecutorWriter_ExitCode :: "'s writer \<Rightarrow> string \<Rightarrow> ExecutorWriter \<Rightarrow> int \<Rightarrow> 's \<Rightarrow> 's \<times> go_error option" where
  "ExecutorWriter_ExitCode out now w x = out None (NewExitCode now (ew_taskID w) (ew_attempt w) (ew_index w) (word_of_int x))"
definition ExecutorWriter_Stdout :: "'s writer \<Rightarrow> string \<Rightarrow> ExecutorWriter \<Rightarrow> string \<Rightarrow> 's \<Rightarrow> 's \<times> go_error option" where
  "ExecutorWriter_Stdout out now w s = out None (NewStdout now (ew_taskID w) (ew_attempt w) (ew_index w) s)"
definition ExecutorWriter_Stderr :: "'s writer \<Rightarrow> string \<Rightarrow> ExecutorWriter \<Rightarrow> string \<Rightarrow> 's \<Rightarrow> 's \<times> go_error option" where
  "ExecutorWriter_Stderr out now w s = out None (NewStderr now (ew_taskID w) (ew_attempt w) (ew_index w) s)"
definition ExecutorWriter_Error :: "'s writer \<Rightarrow> string \<Rightarrow> ExecutorWriter \<Rightarrow> string \<Rightarrow> goval list \<Rightarrow> 's \<Rightarrow> 's \<times> go_error option" where
  "ExecutorWriter_Error out now w msg args = out None (SystemLogGenerator_Error now (ew_sys w) msg args)"

section \<open>Compute backends\<close>

text \<open>\<open>Backend.CheckBackendParameterSupport\<close> of \<open>computer.go\<close>: the first key, in iteration order,
  that the backend does not know is refused.\<close>

fun check_params :: "'v gomap \<Rightarrow> string gomap \<Rightarrow> go_error option" where
  "check_params known [] = None"
| "check_params known ((k, v) # ps) =
     (case gomap_get known k of
        None \<Rightarrow> Some (StatusError InvalidArgument (''backend parameters not supported: '' @ k))
      | Some _ \<Rightarrow> check_params known ps)"

definition CheckBackendParameterSupport :: "bool gomap \<Rightarrow> Task \<Rightarrow> go_error option" where
  "CheckBackendParameterSupport known task =
     check_params known (res_BackendParameters (GetResources_or_zero (t_Resources task)))"

section \<open>Lemmas\<close>

lemma check_params_None_iff:
  "check_params known ps = None \<longleftrightarrow> (\<forall>k\<in>fst ` set ps. gomap_get known k \<noteq> None)"
  by (induction known ps rule: check_params.induct) (auto split: option.splits)

lemma MultiWriter_append:
  "MultiWriter_WriteEvent (ws @ vs) ctx ev s =
     (case MultiWriter_WriteEvent ws ctx ev s of
        (s', Some e) \<Rightarrow> (s', Some e)
      | (s', None) \<Rightarrow> MultiWriter_WriteEvent vs ctx ev s')"
  by (induction ws arbitrary: s) (auto split: prod.splits option.splits)

lemma MultiWriter_errorD:
  "MultiWriter_WriteEvent ws ctx ev s = (s', Some e) \<Longrightarrow>
     \<exists>pre w post m. ws = pre @ w # post \<and> MultiWriter_WriteEvent pre ctx ev s = (m, None) \<and>
        w ctx ev m = (s', Some e)"
proof (induction ws arbitrary: s)
  case Nil
  then show ?case by simp
next
  case (Cons v ws)
  obtain t r where v: "v ctx ev s = (t, r)" by force
  show ?case
  proof (cases r)
    case Some
    with v Cons.prems show ?thesis by (intro exI [of _ "[]"]) auto
  next
    case None
    with v Cons obtain pre w post m where "ws = pre @ w # post"
      "MultiWriter_WriteEvent pre ctx ev t = (m, None)" "w ctx ev m = (s', Some e)" by fastforce
    with v None show ?thesis by (intro exI [of _ "v # pre"] exI [of _ w] exI [of _ post]) auto
  qed
qed

text \<open>Removing the escapes again.\<close>

fun unescape :: "string \<Rightarrow> string" where
  "unescape [] = []"
| "unescape [c] = [c]"
| "unescape (c # d # s) = (if c = backslash \<and> d = quote_char then quote_char # unescape s else c # unescape (d # s))"

lemma quote_neq_backslash [simp]: "quote_char \<noteq> backslash" "backslash \<noteq> quote_char"
  by (simp_all add: quote_char_def backslash_def)

lemma escape_eq_Cons_quote: "escape s \<noteq> quote_char # t"
  by (cases s) auto

lemma unescape_escape [simp]: "unescape (escape s) = s"
proof (induction s)
  case Nil
  then show ?case by simp
next
  case (Cons c s)
  show ?case
  proof (cases "c = quote_char")
    case True
    with Cons show ?thesis by simp
  next
    case False
    then show ?thesis
      using Cons escape_eq_Cons_quote [of s] by (cases "escape s") auto
  qed
qed

lemma escape_inj: "escape s = escape t \<longleftrightarrow> s = t"
  by (metis unescape_escape)

lemma safeKey_no_space: "c \<in> set (safeKey s) \<Longrightarrow> \<not> is_space c"
  by (induction s rule: safeKey.induct) (auto simp: is_space_def split: if_splits)

text \<open>
  The level filter keeps what it should at the levels \<open>debug\<close>, \<open>info\<close> and \<open>warn\<close>, but at level
  \<open>error\<close> it also lets every warning through.  \<open>Warn\<close> writes its events at level \<open>warning\<close>, while
  the filter excludes a level called \<open>warn\<close>; so a filter set to errors forwards warnings.
\<close>

theorem filter_error_passes_warnings:
  "SystemLogFilter_WriteEvent w ''error'' ctx (SystemLogGenerator_Warn now g msg args) s =
     w ctx (SystemLogGenerator_Warn now g msg args) s \<and>
   SystemLogFilter_WriteEvent w ''error'' ctx (SystemLogGenerator_Info now g msg args) s = (s, None) \<and>
   SystemLogFilter_WriteEvent w ''error'' ctx (SystemLogGenerator_Debug now g msg args) s = (s, None)"
  by (simp add: SystemLogFilter_WriteEvent_def filter_passes_def syslog_generator_defs NewSystemLog_def
      GetSystemLog_def)

text \<open>
  A multi-writer delivers an event to its writers in order and stops at the first failure.
  It succeeds exactly when it has run every writer without error; when it fails, the writers
  before some position have accepted the event, the one at that position reported the error, and
  no later writer has seen the event.
\<close>

theorem MultiWriter_stops_at_first_error:
  "MultiWriter_WriteEvent ws ctx ev s = (s', Some e) \<longleftrightarrow>
     (\<exists>pre w post m. ws = pre @ w # post \<and> MultiWriter_WriteEvent pre ctx ev s = (m, None) \<and>
        w ctx ev m = (s', Some e))"
proof (rule iffI)
  assume "MultiWriter_WriteEvent ws ctx ev s = (s', Some e)"
  then show "\<exists>pre w post m. ws = pre @ w # post \<and> MultiWriter_WriteEvent pre ctx ev s = (m, None) \<and>
        w ctx ev m = (s', Some e)"
    by (rule MultiWriter_errorD)
qed (auto simp: MultiWriter_append)

end
