(* ===== verification/Task_Builder.thy ===== *)
theory Task_Builder
  imports Events
begin

text \<open>
  \<open>TaskBuilder\<close> of \<open>src/events/task_builder.go\<close>, which aggregates events into a task in memory, and
  the effect of one event on a task's logs, which the database backends that store whole tasks
  apply in the same way.
\<close>

section \<open>Definitions\<close>

text \<open>The index pair of an event: \<open>int(ev.Attempt)\<close> and \<open>int(ev.Index)\<close>.\<close>

abbreviation ev_attempt :: "Event \<Rightarrow> nat" where
  "ev_attempt ev \<equiv> unat (ev_Attempt ev)"

abbreviation ev_index :: "Event \<Rightarrow> nat" where
  "ev_index ev \<equiv> unat (ev_Index ev)"

text \<open>\<open>tl.SystemLogs = append(tl.SystemLogs, s)\<close> and the merge of metadata.\<close>

definition append_syslog :: "string \<Rightarrow> TaskLog \<Rightarrow> TaskLog" where
  "append_syslog s l = l\<lparr>tl_SystemLogs := tl_SystemLogs l @ [s]\<rparr>"

definition merge_metadata :: "string gomap \<Rightarrow> TaskLog \<Rightarrow> TaskLog" where
  "merge_metadata m l = l\<lparr>tl_Metadata := gomap_copy_into (tl_Metadata l) m\<rparr>"

definition TaskBuilder_WriteEvent :: "Event \<Rightarrow> Task \<Rightarrow> Task \<times> go_error option" where
  "TaskBuilder_WriteEvent ev t0 =
     (let t = t0\<lparr>t_Id := ev_Id ev\<rparr>; attempt = ev_attempt ev; index = ev_index ev
      in case ev_Type ev of
           Type_TASK_STATE \<Rightarrow>
             (case ValidateTransition (t_State t) (GetState ev) of
                Some err \<Rightarrow> (t, Some err)
              | None \<Rightarrow> (t\<lparr>t_State := GetState ev\<rparr>, None))
         | Type_SYSTEM_LOG \<Rightarrow>
             (case SysLogString ev of
                Inl e \<Rightarrow> (t, Some e)
              | Inr s \<Rightarrow> (GetTaskLog t attempt (append_syslog s), None))
         | Type_TASK_START_TIME \<Rightarrow>
             (GetTaskLog t attempt (\<lambda>l. l\<lparr>tl_StartTime := GetStartTime ev\<rparr>), None)
         | Type_TASK_END_TIME \<Rightarrow>
             (GetTaskLog t attempt (\<lambda>l. l\<lparr>tl_EndTime := GetEndTime ev\<rparr>), None)
         | Type_TASK_OUTPUTS \<Rightarrow>
             (case GetOutputs_Value ev of
                Inl e \<Rightarrow> (t, Some e)
              | Inr v \<Rightarrow> (GetTaskLog t attempt (\<lambda>l. l\<lparr>tl_Outputs := v\<rparr>), None))
         | Type_TASK_METADATA \<Rightarrow>
             (case GetMetadata_Value ev of
                Inl e \<Rightarrow> (t, Some e)
              | Inr m \<Rightarrow> (GetTaskLog t attempt (merge_metadata m), None))
         | Type_EXECUTOR_START_TIME \<Rightarrow>
             (GetExecLog t attempt index (\<lambda>l. l\<lparr>el_StartTime := GetStartTime ev\<rparr>), None)
         | Type_EXECUTOR_END_TIME \<Rightarrow>
             (GetExecLog t attempt index (\<lambda>l. l\<lparr>el_EndTime := GetEndTime ev\<rparr>), None)
         | Type_EXECUTOR_EXIT_CODE \<Rightarrow>
             (GetExecLog t attempt index (\<lambda>l. l\<lparr>el_ExitCode := GetExitCode ev\<rparr>), None)
         | Type_EXECUTOR_STDOUT \<Rightarrow>
             (GetExecLog t attempt index (\<lambda>l. l\<lparr>el_Stdout := GetStdout ev\<rparr>), None)
         | Type_EXECUTOR_STDERR \<Rightarrow>
             (GetExecLog t attempt index (\<lambda>l. l\<lparr>el_Stderr := GetStderr ev\<rparr>), None)
         | _ \<Rightarrow> (t, None))"

text \<open>A sequence of events, each error left behind (the callers ignore it).\<close>

fun build_all :: "Event list \<Rightarrow> Task \<Rightarrow> Task" where
  "build_all [] t = t"
| "build_all (ev # evs) t = build_all evs (fst (TaskBuilder_WriteEvent ev t))"

section \<open>Lemmas\<close>

lemma builder_state:
  "state_step (t_State t) (t_State (fst (TaskBuilder_WriteEvent ev t)))"
  by (auto simp: TaskBuilder_WriteEvent_def Let_def state_step_iff
      split: EventType.splits option.splits sum.splits)

lemma builder_state_only_by_state_events:
  "ev_Type ev \<noteq> Type_TASK_STATE \<Longrightarrow> t_State (fst (TaskBuilder_WriteEvent ev t)) = t_State t"
  by (auto simp: TaskBuilder_WriteEvent_def Let_def split: EventType.splits option.splits sum.splits)

lemma builder_keeps_request:
  "t_Executors (fst (TaskBuilder_WriteEvent ev t)) = t_Executors t"
  "t_Resources (fst (TaskBuilder_WriteEvent ev t)) = t_Resources t"
  "t_Tags (fst (TaskBuilder_WriteEvent ev t)) = t_Tags t"
  "t_Name (fst (TaskBuilder_WriteEvent ev t)) = t_Name t"
  by (auto simp: TaskBuilder_WriteEvent_def Let_def split: EventType.splits option.splits sum.splits)

lemma build_all_state: "state_step\<^sup>*\<^sup>* (t_State t) (t_State (build_all evs t))"
proof (induction evs arbitrary: t)
  case Nil
  then show ?case by simp
next
  case (Cons ev evs)
  have "state_step (t_State t) (t_State (fst (TaskBuilder_WriteEvent ev t)))" by (rule builder_state)
  with Cons.IH [of "fst (TaskBuilder_WriteEvent ev t)"] show ?case
    by (simp add: converse_rtranclp_into_rtranclp)
qed

lemma builder_log_frame:
  "a \<noteq> ev_attempt ev \<Longrightarrow> tasklog_at (fst (TaskBuilder_WriteEvent ev t)) a = tasklog_at t a"
  by (auto simp: TaskBuilder_WriteEvent_def Let_def tasklog_at_GetTaskLog GetExecLog_def tasklog_at_def [of "_\<lparr>t_Id := _\<rparr>"]
      tasklog_at_def [of "_\<lparr>t_Id := _, t_State := _\<rparr>"] tasklog_at_def [of t]
      split: EventType.splits option.splits sum.splits)

text \<open>
  C7: building a task from events follows the state machine.  After any sequence of events, in any
  order and with any number of rejected ones among them, the state of the built task is reached
  from its first state by accepted transitions only; in particular a task that was complete or
  canceled at some point is so at the end.
\<close>

theorem build_all_sound:
  "state_step\<^sup>*\<^sup>* (t_State t) (t_State (build_all evs t)) \<and>
   t_State (build_all (pre @ post) t) \<in>
     (if final_state (t_State (build_all pre t)) then {t_State (build_all pre t)} else UNIV)"
proof -
  have "build_all (pre @ post) t = build_all post (build_all pre t)"
    by (induction pre arbitrary: t) simp_all
  with build_all_state [of t evs] build_all_state [of "build_all pre t" post] show ?thesis
    by (auto dest: final_state_history)
qed

text \<open>
  Each executor event changes exactly its own field of its own executor log.  After a stdout
  event with index \<open>i\<close> of attempt \<open>a\<close>, the log of executor \<open>i\<close> in attempt \<open>a\<close> has the new stdout and
  is otherwise unchanged, and every other executor log is as before; the same for the exit code.
\<close>

theorem builder_executor_event_exact:
  "execlog_at (fst (TaskBuilder_WriteEvent (NewStdout now i a k s) t)) b l =
     (if b = unat a \<and> l = unat k then (execlog_at t b l)\<lparr>el_Stdout := s\<rparr> else execlog_at t b l) \<and>
   execlog_at (fst (TaskBuilder_WriteEvent (NewExitCode now i a k x) t)) b l =
     (if b = unat a \<and> l = unat k then (execlog_at t b l)\<lparr>el_ExitCode := x\<rparr> else execlog_at t b l)"
proof -
  have id: "execlog_at (t\<lparr>t_Id := i\<rparr>) b l = execlog_at t b l" for b l
    by (simp add: execlog_at_def tasklog_at_def)
  show ?thesis
    by (auto simp: TaskBuilder_WriteEvent_def Let_def NewStdout_def NewExitCode_def GetStdout_def
        GetExitCode_def execlog_at_GetExecLog id)
qed

end
