(* ===== verification/Retrier.thy ===== *)
theory Retrier
  imports Task_Builder
begin

text \<open>
  Retrying and error collection: \<open>src/util/retry.go\<close>, \<open>src/util/errs.go\<close>, the retrying event writer
  of \<open>src/events/retry.go\<close>, and the idle timer of \<open>src/util/idle_timeout.go\<close>.

  The retry loop itself is \<open>backoff.RetryNotify\<close> of a third-party package: an argument \<open>RN\<close> that gets
  the operation, the number of retries allowed by \<open>WithMaxRetries\<close> and the state.  What the sources
  rely on is \<open>backoff_law\<close>: the operation runs once and then again after each failure that is not
  permanent, at most the given number of times, and fewer when the elapsed time or the context
  ends the loop; the error of the last run is returned, a permanent one unwrapped.
\<close>

section \<open>Retrying\<close>

text \<open>What an operation handed to \<open>RetryNotify\<close> returns: nil, an error, or a \<open>PermanentError\<close>.\<close>

datatype outcome = Success | Failure go_error | Permanent go_error

fun outcome_error :: "outcome \<Rightarrow> go_error option" where
  "outcome_error Success = None"
| "outcome_error (Failure e) = Some e"
| "outcome_error (Permanent e) = Some e"

type_synonym 's retry_notify = "('s \<Rightarrow> 's \<times> outcome) \<Rightarrow> nat \<Rightarrow> 's \<Rightarrow> 's \<times> go_error option"

record Retrier =
  r_MaxTries :: int
  r_ShouldRetry :: "(go_error \<Rightarrow> bool) option"

definition NewRetrier :: Retrier where
  "NewRetrier = \<lparr>r_MaxTries = 10, r_ShouldRetry = None\<rparr>"

definition checkErr :: "Retrier \<Rightarrow> go_error option \<Rightarrow> outcome" where
  "checkErr r err =
     (case err of
        None \<Rightarrow> Success
      | Some e \<Rightarrow>
          (case r_ShouldRetry r of
             Some should \<Rightarrow> if \<not> should e then Permanent e else Failure e
           | None \<Rightarrow> Failure e))"

text \<open>The cap that \<open>withTries\<close> puts on the number of retries.\<close>

definition withTries :: "Retrier \<Rightarrow> nat" where
  "withTries r = nat (let max = r_MaxTries r - 1 in if max < 0 then 0 else max)"

definition Retry ::
    "'s retry_notify \<Rightarrow> Retrier \<Rightarrow> ('s \<Rightarrow> 's \<times> go_error option) \<Rightarrow> 's \<Rightarrow> 's \<times> go_error option" where
  "Retry RN r f s = RN (\<lambda>s. case f s of (s', err) \<Rightarrow> (s', checkErr r err)) (withTries r) s"

definition retrier_WriteEvent :: "'s retry_notify \<Rightarrow> Retrier \<Rightarrow> 's writer \<Rightarrow> 's writer" where
  "retrier_WriteEvent RN r w ctx ev = Retry RN r (w ctx ev)"

section \<open>What RetryNotify promises\<close>

fun tries :: "('s \<Rightarrow> 's \<times> outcome) \<Rightarrow> nat \<Rightarrow> 's \<Rightarrow> 's \<times> outcome" where
  "tries op 0 s = op s"
| "tries op (Suc n) s = (case op s of (s', Failure e) \<Rightarrow> tries op n s' | r \<Rightarrow> r)"

definition backoff_law :: "'s retry_notify \<Rightarrow> bool" where
  "backoff_law RN \<longleftrightarrow>
     (\<forall>op m s. \<exists>n\<le>m. RN op m s = (case tries op n s of (s', r) \<Rightarrow> (s', outcome_error r)))"

text \<open>An instance that never runs out of time.\<close>

definition untimed_backoff :: "'s retry_notify" where
  "untimed_backoff op m s = (case tries op m s of (s', r) \<Rightarrow> (s', outcome_error r))"

lemma untimed_backoff_law: "backoff_law untimed_backoff"
  unfolding backoff_law_def untimed_backoff_def by blast

section \<open>Collected errors\<close>

type_synonym MultiError = "go_error option list"

definition MultiError_Error :: "MultiError \<Rightarrow> string" where
  "MultiError_Error m = Join (concat (map (\<lambda>e. case e of None \<Rightarrow> [] | Some x \<Rightarrow> [error_string x]) m)) [CHR 0x0A]"

fun isNil_loop :: "MultiError \<Rightarrow> bool \<Rightarrow> bool" where
  "isNil_loop [] isNil = isNil"
| "isNil_loop (e # m) isNil = isNil_loop m (if e \<noteq> None then False else isNil)"

definition IsNil :: "MultiError \<Rightarrow> bool" where
  "IsNil m = isNil_loop m True"

definition ToError :: "MultiError \<Rightarrow> go_error option" where
  "ToError m = (if IsNil m then None else Some (Errorf (MultiError_Error m)))"

lemma isNil_loop_iff: "isNil_loop m b \<longleftrightarrow> b \<and> set m \<subseteq> {None}"
  by (induction m b rule: isNil_loop.induct) auto

lemma ToError_None_iff: "ToError m = None \<longleftrightarrow> set m \<subseteq> {None}"
  by (simp add: ToError_def IsNil_def isNil_loop_iff)

section \<open>The idle timer\<close>

text \<open>
  \<open>timerTimeout\<close>; a timer is the time at which it fires, and a stopped one never does.  \<open>now\<close> is the
  clock.  A timer that is already started is left alone by \<open>Start\<close>.
\<close>

record timerTimeout =
  tt_timeout :: int
  tt_timer :: "int option"
  tt_stopped :: bool
  tt_started :: bool

datatype IdleTimeout = noTimeout | Timer timerTimeout

definition NewIdleTimeout :: "int \<Rightarrow> IdleTimeout" where
  "NewIdleTimeout d = (if d < 0 then noTimeout
     else Timer \<lparr>tt_timeout = d, tt_timer = None, tt_stopped = False, tt_started = False\<rparr>)"

fun IdleTimeout_Start :: "int \<Rightarrow> IdleTimeout \<Rightarrow> IdleTimeout" where
  "IdleTimeout_Start now noTimeout = noTimeout"
| "IdleTimeout_Start now (Timer t) =
     (if \<not> tt_started t
      then Timer (t\<lparr>tt_timer := Some (now + tt_timeout t), tt_stopped := False, tt_started := True\<rparr>)
      else Timer t)"

fun IdleTimeout_Stop :: "IdleTimeout \<Rightarrow> IdleTimeout" where
  "IdleTimeout_Stop noTimeout = noTimeout"
| "IdleTimeout_Stop (Timer t) =
     (if \<not> tt_started t then Timer t else Timer (t\<lparr>tt_stopped := True, tt_started := False\<rparr>))"

text \<open>Whether the channel of \<open>Done()\<close> has delivered by the time \<open>now\<close>; a nil channel never does.\<close>

fun IdleTimeout_Done :: "int \<Rightarrow> IdleTimeout \<Rightarrow> bool" where
  "IdleTimeout_Done now noTimeout = False"
| "IdleTimeout_Done now (Timer t) =
     (case tt_timer t of None \<Rightarrow> False | Some fires \<Rightarrow> \<not> tt_stopped t \<and> fires \<le> now)"

lemma IdleTimeout_Start_Done:
  "IdleTimeout_Done later (IdleTimeout_Start now (NewIdleTimeout d)) \<longleftrightarrow> 0 \<le> d \<and> now + d \<le> later"
  by (auto simp: NewIdleTimeout_def)

lemma IdleTimeout_Stop_Start:
  "\<not> IdleTimeout_Done later (IdleTimeout_Stop (IdleTimeout_Start now (NewIdleTimeout d)))"
  by (auto simp: NewIdleTimeout_def)

section \<open>Lemmas\<close>

lemma withTries_eq: "withTries r = nat (r_MaxTries r - 1)"
  by (simp add: withTries_def Let_def)

lemma checkErr_simps [simp]:
  "checkErr r None = Success"
  "outcome_error (checkErr r err) = err"
  by (auto simp: checkErr_def split: option.splits)

lemma checkErr_Success_iff [simp]: "checkErr r err = Success \<longleftrightarrow> err = None"
  by (auto simp: checkErr_def split: option.splits)

text \<open>
  The rule for anything that a single run keeps: if every run of the operation that fails keeps
  \<open>I\<close>, and every run from a state in \<open>I\<close> that ends the loop is described by \<open>Q\<close>, so is the retried
  operation.
\<close>

lemma tries_rule:
  assumes "I s"
    and step: "\<And>s s' e. I s \<Longrightarrow> op s = (s', Failure e) \<Longrightarrow> I s' \<and> Q s' (Some e)"
    and ok: "\<And>s s' r. I s \<Longrightarrow> op s = (s', r) \<Longrightarrow> Q s' (outcome_error r)"
  shows "tries op n s = (s', r) \<Longrightarrow> Q s' (outcome_error r)"
  using \<open>I s\<close>
proof (induction n arbitrary: s)
  case 0
  then show ?case using ok by simp
next
  case (Suc n)
  show ?case
  proof (cases "op s")
    case (Pair t q)
    show ?thesis
    proof (cases q)
      case (Failure e)
      with Pair Suc.prems step have "I t" "tries op n t = (s', r)" by auto
      then show ?thesis using Suc.IH by blast
    next
      case Success
      with Pair Suc.prems ok [of s t Success] show ?thesis by auto
    next
      case (Permanent e)
      with Pair Suc.prems ok [of s t "Permanent e"] show ?thesis by auto
    qed
  qed
qed

lemma Retry_rule:
  assumes law: "backoff_law RN" and "I s"
    and step: "\<And>s s' err. I s \<Longrightarrow> f s = (s', err) \<Longrightarrow> Q s' err \<and> (err \<noteq> None \<longrightarrow> I s')"
    and res: "Retry RN r f s = (s', err)"
  shows "Q s' err"
proof -
  let ?op = "\<lambda>s. case f s of (s', err) \<Rightarrow> (s', checkErr r err)"
  obtain n where "(s', err) = (case tries ?op n s of (s', r) \<Rightarrow> (s', outcome_error r))"
    using law res unfolding backoff_law_def Retry_def by metis
  then obtain q where q: "tries ?op n s = (s', q)" "err = outcome_error q"
    by (auto split: prod.splits)
  have "Q s' (outcome_error q)"
  proof (rule tries_rule [where I = I and Q = Q and op = ?op, OF \<open>I s\<close> _ _ q(1)])
    fix s s' e assume "I s" "?op s = (s', Failure e)"
    moreover obtain t err where f: "f s = (t, err)" by force
    ultimately have "s' = t" "err = Some e"
      by (auto simp: checkErr_def split: option.splits if_splits)
    with step [OF \<open>I s\<close> f] show "I s' \<and> Q s' (Some e)" by simp
  next
    fix s s' r' assume "I s" "?op s = (s', r')"
    moreover obtain t err where f: "f s = (t, err)" by force
    ultimately have "s' = t" "outcome_error r' = err" by auto
    with step [OF \<open>I s\<close> f] show "Q s' (outcome_error r')" by simp
  qed
  with q(2) show ?thesis by simp
qed

text \<open>A counting operation: it records each run and plays back given results.\<close>

definition scripted :: "go_error option list \<Rightarrow> nat \<Rightarrow> nat \<times> go_error option" where
  "scripted rs k = (Suc k, if k < length rs then rs ! k else None)"

lemma tries_counts:
  assumes "\<And>k. fst (op k) = Suc k" "tries op n k = (k', r)"
  shows "k < k' \<and> k' \<le> k + Suc n \<and> (\<forall>j. k \<le> j \<longrightarrow> Suc j < k' \<longrightarrow> (\<exists>e. snd (op j) = Failure e)) \<and> snd (op (k' - 1)) = r"
  using assms
proof (induction n arbitrary: k)
  case 0
  from 0(1) [of k] 0(2) show ?case by (cases "op k") auto
next
  case (Suc n)
  obtain q where q: "op k = (Suc k, q)" using Suc.prems(1) [of k] by (cases "op k") auto
  show ?case
  proof (cases q)
    case (Failure e)
    with q Suc.prems(2) have "tries op n (Suc k) = (k', r)" by simp
    from Suc.IH [OF Suc.prems(1) this] have
      IH: "Suc k < k'" "k' \<le> Suc k + Suc n" "snd (op (k' - 1)) = r"
        "\<And>j. Suc k \<le> j \<Longrightarrow> Suc j < k' \<Longrightarrow> \<exists>e. snd (op j) = Failure e" by auto
    have "\<exists>e. snd (op j) = Failure e" if "k \<le> j" "Suc j < k'" for j
      using that IH(4) q Failure by (cases "j = k") auto
    with IH(1-3) show ?thesis by auto
  qed (use q Suc.prems in auto)
qed



end
