(* ===== verification/Task_Store.thy ===== *)
theory Task_Store
  imports Retrier
begin

text \<open>
  The contract between the parts that write events and the databases that store tasks: what the
  server, the worker and the scheduler rely on when a \<open>WriteEvent\<close> of some database returns.  The
  locale \<open>task_store\<close> states it for one write; the lemmas inside it follow a task over any
  sequence of writes.  The database theories provide it.
\<close>

section \<open>Runs of events\<close>

text \<open>The task an event is about, and whether it creates that task.\<close>

definition event_target :: "Event \<Rightarrow> string" where
  "event_target ev =
     (case ev_Type ev of
        Type_TASK_CREATED \<Rightarrow> (case ev_Data ev of Event_Task t \<Rightarrow> t_Id t | _ \<Rightarrow> ev_Id ev)
      | _ \<Rightarrow> ev_Id ev)"

definition creates :: "string \<Rightarrow> Event \<Rightarrow> bool" where
  "creates i ev \<longleftrightarrow> ev_Type ev = Type_TASK_CREATED \<and> event_target ev = i"

text \<open>Events written one after another by any users, each error left to its writer.\<close>

fun write_all :: "'s writer \<Rightarrow> (go_ctx \<times> Event) list \<Rightarrow> 's \<Rightarrow> 's" where
  "write_all w [] s = s"
| "write_all w ((ctx, ev) # evs) s = write_all w evs (fst (w ctx ev s))"

lemma event_target_simps [simp]:
  "ev_Type ev \<noteq> Type_TASK_CREATED \<Longrightarrow> event_target ev = ev_Id ev"
  "event_target (NewTaskCreated now t) = t_Id t"
  by (auto simp: event_target_def NewTaskCreated_def split: EventType.splits)

lemma write_all_append: "write_all w (xs @ ys) s = write_all w ys (write_all w xs s)"
  by (induction w xs s rule: write_all.induct) auto

text \<open>
  One database state follows another: the invariant is kept, no task is lost and every task has
  moved along accepted transitions.
\<close>

definition evolves :: "('s \<Rightarrow> string \<Rightarrow> State option) \<Rightarrow> ('s \<Rightarrow> bool) \<Rightarrow> 's \<Rightarrow> 's \<Rightarrow> bool" where
  "evolves state_of I s s' \<longleftrightarrow>
     (I s \<longrightarrow> I s' \<and> (\<forall>i st. state_of s i = Some st \<longrightarrow> (\<exists>st'. state_of s' i = Some st' \<and> state_step\<^sup>*\<^sup>* st st')))"

lemma evolves_refl [simp, intro]: "evolves state_of I s s"
  by (auto simp: evolves_def)

lemma evolves_trans: "evolves state_of I s t \<Longrightarrow> evolves state_of I t u \<Longrightarrow> evolves state_of I s u"
  unfolding evolves_def by (meson rtranclp_trans)

lemma evolves_case:
  assumes "evolves state_of I s (fst p)" "\<And>s' r. p = (s', r) \<Longrightarrow> evolves state_of I s' (fst (f s' r))"
  shows "evolves state_of I s (fst (case p of (s', r) \<Rightarrow> f s' r))"
  using assms by (cases p) (auto intro: evolves_trans)

lemma evolves_final:
  "evolves state_of I s s' \<Longrightarrow> I s \<Longrightarrow> state_of s i = Some st \<Longrightarrow> final_state st \<Longrightarrow> state_of s' i = Some st"
  unfolding evolves_def by (metis final_state_history)

section \<open>The contract\<close>

locale task_store =
  fixes put :: "'s writer"
    and state_of :: "'s \<Rightarrow> string \<Rightarrow> State option"
    and inv :: "'s \<Rightarrow> bool"
  assumes write_inv: "inv s \<Longrightarrow> put ctx ev s = (s', r) \<Longrightarrow> inv s'"
    and write_error: "inv s \<Longrightarrow> put ctx ev s = (s', Some e) \<Longrightarrow> state_of s' = state_of s"
    and write_frame: "inv s \<Longrightarrow> put ctx ev s = (s', None) \<Longrightarrow> i \<noteq> event_target ev \<Longrightarrow>
           state_of s' i = state_of s i"
    and write_state: "inv s \<Longrightarrow> put ctx ev s = (s', None) \<Longrightarrow> ev_Type ev = Type_TASK_STATE \<Longrightarrow>
           \<exists>from. state_of s (ev_Id ev) = Some from \<and> state_step from (GetState ev) \<and>
             state_of s' (ev_Id ev) = Some (GetState ev)"
    and write_other: "inv s \<Longrightarrow> put ctx ev s = (s', None) \<Longrightarrow> ev_Type ev \<noteq> Type_TASK_STATE \<Longrightarrow>
           ev_Type ev \<noteq> Type_TASK_CREATED \<Longrightarrow> state_of s' = state_of s"
begin

lemma write_step:
  assumes "inv s" "\<not> creates i ev" "state_of s i = Some st"
  shows "\<exists>st'. state_of (fst (put ctx ev s)) i = Some st' \<and> state_step st st'"
proof -
  obtain s' r where w: "put ctx ev s = (s', r)" by force
  have refl: "state_step st st" by (simp add: state_step_iff)
  show ?thesis
  proof (cases r)
    case (Some e)
    with write_error [OF assms(1)] w assms(3) refl show ?thesis by auto
  next
    case None
    consider "i \<noteq> event_target ev" | "i = event_target ev" "ev_Type ev = Type_TASK_STATE"
      | "ev_Type ev \<noteq> Type_TASK_STATE" "ev_Type ev \<noteq> Type_TASK_CREATED"
      using assms(2) by (cases "ev_Type ev = Type_TASK_STATE") (auto simp: creates_def)
    then show ?thesis
    proof cases
      case 1
      with write_frame [OF assms(1)] w None assms(3) refl show ?thesis by auto
    next
      case 2
      with write_state [OF assms(1)] w None assms(3) show ?thesis by fastforce
    next
      case 3
      with write_other [OF assms(1)] w None assms(3) refl show ?thesis by auto
    qed
  qed
qed

lemma write_all_inv: "inv s \<Longrightarrow> inv (write_all put evs s)"
proof (induction evs arbitrary: s)
  case (Cons e evs)
  then show ?case by (cases e) (metis write_all.simps(2) prod.collapse write_inv)
qed simp

lemma history:
  assumes "inv s" "\<forall>(ctx, ev) \<in> set evs. \<not> creates i ev" "state_of s i = Some st"
  shows "\<exists>st'. state_of (write_all put evs s) i = Some st' \<and> state_step\<^sup>*\<^sup>* st st'"
  using assms
proof (induction evs arbitrary: s st)
  case (Cons e evs)
  obtain ctx ev where e: "e = (ctx, ev)" by force
  with Cons.prems obtain mid where
    mid: "state_of (fst (put ctx ev s)) i = Some mid" "state_step st mid"
    using write_step by fastforce
  have "inv (fst (put ctx ev s))"
    using write_inv [OF Cons.prems(1)] by (metis prod.collapse)
  with Cons.IH [of "fst (put ctx ev s)" mid] Cons.prems mid(1) e obtain st' where
    "state_of (write_all put evs (fst (put ctx ev s))) i = Some st'" "state_step\<^sup>*\<^sup>* mid st'"
    by auto
  with mid(2) e show ?case by (auto intro: converse_rtranclp_into_rtranclp)
qed auto

lemma write_all_evolves: "\<forall>(ctx, ev) \<in> set evs. ev_Type ev \<noteq> Type_TASK_CREATED \<Longrightarrow> evolves state_of inv s (write_all put evs s)"
  unfolding evolves_def using write_all_inv history by (fastforce simp: creates_def)

lemma put_evolves: "ev_Type ev \<noteq> Type_TASK_CREATED \<Longrightarrow> evolves state_of inv s (fst (put ctx ev s))"
  using write_all_evolves [of "[(ctx, ev)]" s] by simp

lemma final_forever:
  assumes "inv s" "\<forall>(ctx, ev) \<in> set evs. \<not> creates i ev" "state_of s i = Some st" "final_state st"
  shows "state_of (write_all put evs s) i = Some st"
  using history [OF assms(1-3)] assms(4) by (metis final_state_history)

end

text \<open>
  A database that can also be read: \<open>get\<close> is the \<open>GetTask\<close> of the read interface
  (\<open>src/tes/reader.go\<close>), which does not change the state.
\<close>

locale task_db = task_store put state_of inv
  for put :: "'s writer" and state_of and inv +
  fixes get :: "go_ctx \<Rightarrow> GetTaskRequest \<Rightarrow> 's \<Rightarrow> go_error + Task"
  assumes get_state: "inv s \<Longrightarrow> get ctx req s = Inr t \<Longrightarrow> state_of s (gt_Id req) = Some (t_State t)"
    and get_missing: "inv s \<Longrightarrow> state_of s (gt_Id req) = None \<Longrightarrow> \<exists>e. get ctx req s = Inl e"
begin

lemma read_after_final:
  assumes "inv s" "\<forall>(ctx, ev) \<in> set evs. \<not> creates (gt_Id req) ev" "get ctx req s = Inr t" "final_state (t_State t)"
    "get ctx' req (write_all put evs s) = Inr t'"
  shows "t_State t' = t_State t"
proof -
  have "state_of (write_all put evs s) (gt_Id req) = Some (t_State t)"
    using final_forever [OF assms(1,2) _ assms(4)] get_state [OF assms(1,3)] by blast
  with get_state [OF write_all_inv [OF assms(1)] assms(5)] show ?thesis by simp
qed

end

text \<open>
  A database whose tasks can be listed page by page.  The listed tasks are stored and in the state
  asked for, and the token of the next page is the identifier of a stored task that comes after the
  one the page started from, so that following the tokens ends.
\<close>

locale task_listing = task_db put state_of inv get
  for put :: "'s writer" and state_of and inv and get +
  fixes listing :: "go_ctx \<Rightarrow> ListTasksRequest \<Rightarrow> 's \<Rightarrow> go_error + ListTasksResponse"
  assumes finite_tasks: "inv s \<Longrightarrow> finite (dom (state_of s))"
    and list_state: "inv s \<Longrightarrow> listing ctx req s = Inr r \<Longrightarrow> lt_State req \<noteq> Unknown \<Longrightarrow> t \<in> set (ltr_Tasks r) \<Longrightarrow>
           state_of s (t_Id t) = Some (lt_State req)"
    and list_next: "inv s \<Longrightarrow> listing ctx req s = Inr r \<Longrightarrow> ltr_NextPageToken r \<noteq> '''' \<Longrightarrow>
           lt_PageToken req = '''' \<or> lt_PageToken req \<in> dom (state_of s) \<Longrightarrow>
           ltr_NextPageToken r \<in> dom (state_of s) \<and> (lt_PageToken req \<noteq> '''' \<longrightarrow> ltr_NextPageToken r < lt_PageToken req)"
begin

text \<open>The tasks that are left after a token.\<close>

definition rest_after :: "'s \<Rightarrow> string \<Rightarrow> string set" where
  "rest_after s token = {i \<in> dom (state_of s). token = '''' \<or> i < token}"

lemma next_page_smaller:
  assumes "inv s" "listing ctx req s = Inr r" "ltr_NextPageToken r \<noteq> ''''"
    "lt_PageToken req = '''' \<or> lt_PageToken req \<in> dom (state_of s)"
  shows "card (rest_after s (ltr_NextPageToken r)) < card (rest_after s (lt_PageToken req))"
proof (rule psubset_card_mono)
  note step = list_next [OF assms]
  show "finite (rest_after s (lt_PageToken req))" using finite_tasks [OF assms(1)] by (simp add: rest_after_def)
  have "ltr_NextPageToken r \<in> rest_after s (lt_PageToken req)" "ltr_NextPageToken r \<notin> rest_after s (ltr_NextPageToken r)"
    using step assms(3) by (auto simp: rest_after_def)
  moreover have "rest_after s (ltr_NextPageToken r) \<subseteq> rest_after s (lt_PageToken req)"
    using step assms(3) by (auto simp: rest_after_def)
  ultimately show "rest_after s (ltr_NextPageToken r) \<subset> rest_after s (lt_PageToken req)" by blast
qed

end

end
