(* ===== verification/Scheduler.thy ===== *)
theory Scheduler
  imports Task_Store
begin

text \<open>
  The built-in scheduler's data and decisions: \<open>src/compute/scheduler/predicates.go\<close>,
  \<open>scores.go\<close>, \<open>offer.go\<close>, \<open>default.go\<close>, \<open>node_util.go\<close> and \<open>runset.go\<close>.

  Times are integers (nanoseconds); \<open>now\<close> is the clock.  \<open>sort.Sort\<close> on the sorter is insertion
  sort, which is what Go runs for up to twelve offers; every call compares equal values only, as
  the lemma on it shows, and then any sort leaves the order alone.
\<close>

section \<open>Nodes\<close>

datatype NodeState =
    UNINITIALIZED | ALIVE | DEAD | GONE | INITIALIZING | DRAIN

record NodeResources =
  nr_Cpus :: "32 word"
  nr_RamGb :: real
  nr_DiskGb :: real

record Node =
  n_Id :: string
  n_Resources :: "NodeResources option"
  n_Available :: "NodeResources option"
  n_State :: NodeState
  n_Preemptible :: bool
  n_Zone :: string
  n_Hostname :: string
  n_Version :: int
  n_Metadata :: "string gomap"
  n_TaskIds :: "string list"
  n_LastPing :: int

definition zero_node_resources :: NodeResources where
  "zero_node_resources = \<lparr>nr_Cpus = 0, nr_RamGb = 0, nr_DiskGb = 0\<rparr>"

definition empty_node :: Node where
  "empty_node = \<lparr>n_Id = '''', n_Resources = None, n_Available = None, n_State = UNINITIALIZED,
     n_Preemptible = False, n_Zone = '''', n_Hostname = '''', n_Version = 0, n_Metadata = [],
     n_TaskIds = [], n_LastPing = 0\<rparr>"

text \<open>The nil-safe getters: a nil \<open>*Resources\<close> reads as zeros.\<close>

definition res_or_zero :: "NodeResources option \<Rightarrow> NodeResources" where
  "res_or_zero r = (case r of None \<Rightarrow> zero_node_resources | Some x \<Rightarrow> x)"

lemma res_or_zero_simps [simp]:
  "res_or_zero None = zero_node_resources" "res_or_zero (Some r) = r"
  by (simp_all add: res_or_zero_def)

definition task_res :: "Task \<Rightarrow> Resources" where
  "task_res t = GetResources_or_zero (t_Resources t)"

section \<open>Predicates\<close>

type_synonym Predicate = "Task \<Rightarrow> Node \<Rightarrow> go_error option"

text \<open>
  \<open>ResourcesFit\<close>; the numbers in three of its messages are left out.  \<open>uint32(req.GetCpuCores())\<close> is
  the same word read without a sign.
\<close>

definition ResourcesFit :: Predicate where
  "ResourcesFit t n =
     (let req = task_res t; avail = res_or_zero (n_Available n)
      in if n_Preemptible n \<and> \<not> res_Preemptible req then Some (Errorf ''Fail preemptible'')
         else if nr_Cpus avail \<le> 0 then Some (Errorf ''Fail zero cpus available'')
         else if nr_RamGb avail \<le> 0 then Some (Errorf ''Fail zero ram available'')
         else if nr_DiskGb avail \<le> 0 then Some (Errorf ''Fail zero disk available'')
         else if nr_Cpus avail < res_CpuCores req then Some (Errorf ''Fail cpus'')
         else if nr_RamGb avail < res_RamGb req then Some (Errorf ''Fail ram'')
         else if nr_DiskGb avail < res_DiskGb req then Some (Errorf ''Fail disk'')
         else None)"

fun zone_loop :: "string list \<Rightarrow> string \<Rightarrow> go_error option" where
  "zone_loop [] zone = Some (Errorf ''Failed zones'')"
| "zone_loop (z # zs) zone = (if z = zone then None else zone_loop zs zone)"

definition ZonesFit :: Predicate where
  "ZonesFit t n =
     (if n_Zone n = '''' then None
      else if length (res_Zones (task_res t)) = 0 then None
      else zone_loop (res_Zones (task_res t)) (n_Zone n))"

definition NotDead :: Predicate where
  "NotDead j n = (if n_State n \<noteq> DEAD \<and> n_State n \<noteq> GONE then None else Some (Errorf ''Fail not dead''))"

definition Alive :: Predicate where
  "Alive j n = (if n_State n \<noteq> ALIVE then Some (Errorf ''Fail not alive'') else None)"

definition NodeHasTag :: "string \<Rightarrow> Predicate" where
  "NodeHasTag tag j n =
     (case gomap_get (n_Metadata n) tag of
        None \<Rightarrow> Some (Errorf (''fail node has tag: '' @ tag))
      | Some _ \<Rightarrow> None)"

fun Match :: "Node \<Rightarrow> Task \<Rightarrow> Predicate list \<Rightarrow> bool" where
  "Match node task [] = True"
| "Match node task (pred # predicates) =
     (if pred task node \<noteq> None then False else Match node task predicates)"

definition DefaultPredicates :: "Predicate list" where
  "DefaultPredicates = [ResourcesFit, ZonesFit, NotDead, Alive]"

section \<open>Scores and offers\<close>

type_synonym Scores = "real gomap"

definition Average :: "Scores \<Rightarrow> real" where
  "Average s = sum_list (map snd s) / real (length s)"

fun weighted_loop :: "Scores \<Rightarrow> real gomap \<Rightarrow> Scores \<Rightarrow> Scores" where
  "weighted_loop [] w out = out"
| "weighted_loop ((k, v) # s) w out =
     weighted_loop s w (gomap_set out k (v * (case gomap_get w k of None \<Rightarrow> 0 | Some x \<Rightarrow> x)))"

definition Weighted :: "Scores \<Rightarrow> real gomap \<Rightarrow> Scores" where
  "Weighted s w = weighted_loop s w []"

text \<open>The sum of CPUs is an \<open>int32\<close> addition, which wraps; in the RAM score only the request is divided.\<close>

definition DefaultScores :: "Node \<Rightarrow> Task \<Rightarrow> Scores" where
  "DefaultScores w t =
     (let req = task_res t; tot = res_or_zero (n_Resources w); avail = res_or_zero (n_Available w)
      in gomap_set
           (gomap_set [] ''cpu'' (real_of_int (sint (nr_Cpus avail + res_CpuCores req)) / real (unat (nr_Cpus tot))))
           ''ram'' (nr_RamGb avail + res_RamGb req / nr_RamGb tot))"

record Offer =
  of_TaskID :: string
  of_Node :: Node
  of_Scores :: Scores

definition NewOffer :: "Node \<Rightarrow> Task \<Rightarrow> Scores \<Rightarrow> Offer" where
  "NewOffer n t s = \<lparr>of_TaskID = t_Id t, of_Node = n, of_Scores = s\<rparr>"

text \<open>
  The \<open>sorter\<close>: two slices and the comparison of their positions.  \<open>insert_back\<close> moves position
  \<open>j\<close> down while it is less than its predecessor, as \<open>sort.insertionSort\<close> does.
\<close>

record sorter =
  so_offers :: "Offer list"
  so_averages :: "real list"

definition so_Len :: "sorter \<Rightarrow> nat" where
  "so_Len s = length (so_offers s)"

definition so_Swap :: "sorter \<Rightarrow> nat \<Rightarrow> nat \<Rightarrow> sorter" where
  "so_Swap s i j =
     \<lparr>so_offers = (so_offers s)[i := so_offers s ! j, j := so_offers s ! i],
      so_averages = (so_averages s)[i := so_averages s ! j, j := so_averages s ! i]\<rparr>"

definition so_Less :: "sorter \<Rightarrow> nat \<Rightarrow> nat \<Rightarrow> bool" where
  "so_Less s i j \<longleftrightarrow> so_averages s ! i < so_averages s ! j"

fun insert_back :: "nat \<Rightarrow> sorter \<Rightarrow> sorter" where
  "insert_back 0 s = s"
| "insert_back (Suc j) s = (if so_Less s (Suc j) j then insert_back j (so_Swap s (Suc j) j) else s)"

definition sort_Sort :: "sorter \<Rightarrow> sorter" where
  "sort_Sort s = fold insert_back [1..<so_Len s] s"

text \<open>\<open>make([]float32, len(offers))\<close> has that many zeros, and the averages are appended after them.\<close>

definition offer_averages :: "Offer list \<Rightarrow> real list" where
  "offer_averages offers = replicate (length offers) 0 @ map (\<lambda>x. Average (of_Scores x)) offers"

definition SortByAverageScore :: "Offer list \<Rightarrow> Offer list" where
  "SortByAverageScore offers =
     so_offers (sort_Sort \<lparr>so_offers = offers, so_averages = offer_averages offers\<rparr>)"

fun make_offers :: "Task \<Rightarrow> Node list \<Rightarrow> real gomap \<Rightarrow> Offer list \<Rightarrow> Offer list" where
  "make_offers j [] weights offers = offers"
| "make_offers j (n # nodes) weights offers =
     (if \<not> Match n j DefaultPredicates then make_offers j nodes weights offers
      else make_offers j nodes weights (offers @ [NewOffer n j (Weighted (DefaultScores n j) weights)]))"

definition DefaultScheduleAlgorithm :: "Task \<Rightarrow> Node list \<Rightarrow> real gomap \<Rightarrow> Offer option" where
  "DefaultScheduleAlgorithm j nodes weights =
     (let offers = make_offers j nodes weights []
      in if length offers = 0 then None else Some (hd (SortByAverageScore offers)))"

section \<open>Node updates\<close>

definition SubtractResources :: "Task \<Rightarrow> NodeResources \<Rightarrow> NodeResources" where
  "SubtractResources t inp =
     (let tres = task_res t;
          rcpus = res_CpuCores tres;
          cpus = (if rcpus \<ge> nr_Cpus inp then 0 else nr_Cpus inp - rcpus);
          ram = nr_RamGb inp - res_RamGb tres;
          disk = nr_DiskGb inp - res_DiskGb tres
      in \<lparr>nr_Cpus = cpus, nr_RamGb = (if ram < 0 then 0 else ram), nr_DiskGb = (if disk < 0 then 0 else disk)\<rparr>)"

definition AvailableResources :: "Task list \<Rightarrow> NodeResources option \<Rightarrow> NodeResources" where
  "AvailableResources tasks res = fold SubtractResources tasks (res_or_zero res)"

text \<open>
  \<open>UpdateNode\<close>; \<open>get\<close> is the read interface's \<open>GetTask\<close> on the database at hand.  The loop keeps the
  tasks that can be read and have not ended.
\<close>

definition live_tasks :: "(GetTaskRequest \<Rightarrow> go_error + Task) \<Rightarrow> string list \<Rightarrow> Task list" where
  "live_tasks get ids =
     concat (map (\<lambda>i. case get \<lparr>gt_Id = i, gt_View = View_String Basic\<rparr> of
                        Inl _ \<Rightarrow> []
                      | Inr task \<Rightarrow> if \<not> TerminalState (t_State task) then [task] else []) ids)"

definition UpdateNode :: "(GetTaskRequest \<Rightarrow> go_error + Task) \<Rightarrow> int \<Rightarrow> Node \<Rightarrow> Node \<Rightarrow> Node" where
  "UpdateNode get now node existing =
     node\<lparr>n_Available := Some (AvailableResources (live_tasks get (n_TaskIds node)) (n_Resources node)),
          n_LastPing := now,
          n_Metadata := gomap_copy_into (gomap_copy_into [] (n_Metadata existing)) (n_Metadata node)\<rparr>"

record SchedulerConf =
  sc_NodeInitTimeout :: int
  sc_NodeDeadTimeout :: int
  sc_NodePingTimeout :: int
  sc_ScheduleChunk :: int

definition next_node_state :: "SchedulerConf \<Rightarrow> int \<Rightarrow> Node \<Rightarrow> NodeState" where
  "next_node_state conf now node =
     (let d = now - n_LastPing node
      in if n_State node = UNINITIALIZED \<or> n_State node = INITIALIZING
         then (if d > sc_NodeInitTimeout conf then DEAD else n_State node)
         else if n_State node = DEAD \<and> d > sc_NodeDeadTimeout conf then GONE
         else if d > sc_NodePingTimeout conf then DEAD
         else n_State node)"

fun UpdateNodeState :: "SchedulerConf \<Rightarrow> int \<Rightarrow> Node list \<Rightarrow> Node list" where
  "UpdateNodeState conf now [] = []"
| "UpdateNodeState conf now (node # nodes) =
     (if n_State node = GONE then node # UpdateNodeState conf now nodes
      else if n_LastPing node = 0 then UpdateNodeState conf now nodes
      else let node' = node\<lparr>n_State := next_node_state conf now node\<rparr>
           in if n_State node \<noteq> n_State node' then node' # UpdateNodeState conf now nodes
              else UpdateNodeState conf now nodes)"

section \<open>The set of running workers\<close>

text \<open>\<open>rs_wg\<close> is the counter of the wait group; a negative counter is a panic.\<close>

record runSet =
  rs_wg :: int
  rs_runners :: "string list"

definition newRunSet :: runSet where
  "newRunSet = \<lparr>rs_wg = 0, rs_runners = []\<rparr>"

definition runSet_Add :: "string \<Rightarrow> runSet \<Rightarrow> runSet \<times> bool" where
  "runSet_Add i r =
     (if i \<notin> set (rs_runners r) then (\<lparr>rs_wg = rs_wg r + 1, rs_runners = rs_runners r @ [i]\<rparr>, True)
      else (r, False))"

definition runSet_Remove :: "string \<Rightarrow> runSet \<Rightarrow> runSet" where
  "runSet_Remove i r =
     (if i \<in> set (rs_runners r) then \<lparr>rs_wg = rs_wg r - 1, rs_runners = remove1 i (rs_runners r)\<rparr> else r)"

definition runSet_Count :: "runSet \<Rightarrow> nat" where
  "runSet_Count r = length (rs_runners r)"

definition runSet_ok :: "runSet \<Rightarrow> bool" where
  "runSet_ok r \<longleftrightarrow> distinct (rs_runners r) \<and> rs_wg r = int (length (rs_runners r))"

section \<open>Lemmas: predicates and offers\<close>

lemma zone_loop_None_iff: "zone_loop zs zone = None \<longleftrightarrow> zone \<in> set zs"
  by (induction zs zone rule: zone_loop.induct) auto

lemma Match_iff: "Match n t ps \<longleftrightarrow> (\<forall>p\<in>set ps. p t n = None)"
  by (induction n t ps rule: Match.induct) auto

definition node_fits :: "Task \<Rightarrow> Node \<Rightarrow> bool" where
  "node_fits t n \<longleftrightarrow>
     n_State n = ALIVE \<and>
     (n_Preemptible n \<longrightarrow> res_Preemptible (task_res t)) \<and>
     (n_Zone n = '''' \<or> res_Zones (task_res t) = [] \<or> n_Zone n \<in> set (res_Zones (task_res t))) \<and>
     0 < nr_Cpus (res_or_zero (n_Available n)) \<and> res_CpuCores (task_res t) \<le> nr_Cpus (res_or_zero (n_Available n)) \<and>
     0 < nr_RamGb (res_or_zero (n_Available n)) \<and> res_RamGb (task_res t) \<le> nr_RamGb (res_or_zero (n_Available n)) \<and>
     0 < nr_DiskGb (res_or_zero (n_Available n)) \<and> res_DiskGb (task_res t) \<le> nr_DiskGb (res_or_zero (n_Available n))"

lemma Match_Default: "Match n t DefaultPredicates \<longleftrightarrow> node_fits t n"
  by (auto simp: Match_iff DefaultPredicates_def ResourcesFit_def ZonesFit_def NotDead_def Alive_def
      node_fits_def Let_def zone_loop_None_iff not_le not_less word_neq_0_conv split: if_splits)

lemma make_offers_eq:
  "make_offers j nodes w offers =
     offers @ map (\<lambda>n. NewOffer n j (Weighted (DefaultScores n j) w)) (filter (node_fits j) nodes)"
  by (induction j nodes w offers rule: make_offers.induct) (auto simp: Match_Default)

lemma insert_back_equal:
  assumes "\<forall>i\<le>j. \<forall>k\<le>j. so_averages s ! i = so_averages s ! k"
  shows "insert_back j s = s"
proof (cases j)
  case (Suc n)
  with assms have "so_averages s ! Suc n = so_averages s ! n" by auto
  with Suc show ?thesis by (simp add: so_Less_def)
qed simp

lemma SortByAverageScore_id: "SortByAverageScore offers = offers"
proof -
  let ?s = "\<lparr>so_offers = offers, so_averages = offer_averages offers\<rparr>"
  have "insert_back j ?s = ?s" if "j < length offers" for j
    using that by (intro insert_back_equal) (auto simp: offer_averages_def nth_append)
  then have "fold insert_back js ?s = ?s" if "set js \<subseteq> {..<length offers}" for js
    using that by (induction js) auto
  moreover have "set [1..<length offers] \<subseteq> {..<length offers}" by auto
  ultimately have "fold insert_back [1..<length offers] ?s = ?s" by blast
  then show ?thesis by (simp add: SortByAverageScore_def sort_Sort_def so_Len_def)
qed

lemma DefaultScheduleAlgorithm_SomeD:
  assumes "DefaultScheduleAlgorithm j nodes w = Some offer"
  shows "of_Node offer \<in> set nodes \<and> node_fits j (of_Node offer)"
proof -
  let ?fit = "filter (node_fits j) nodes"
  from assms have "?fit \<noteq> []" "of_Node offer = hd ?fit"
    by (auto simp: DefaultScheduleAlgorithm_def make_offers_eq SortByAverageScore_id Let_def list.map_sel
        NewOffer_def split: if_splits)
  then have "of_Node offer \<in> set ?fit" by (metis list.set_sel(1))
  then show ?thesis by simp
qed

section \<open>Lemmas: resources\<close>

lemma unat_SubtractResources:
  "unat (nr_Cpus (SubtractResources t r)) = unat (nr_Cpus r) - unat (res_CpuCores (task_res t))"
  by (auto simp: SubtractResources_def Let_def not_le unat_sub word_le_nat_alt word_less_nat_alt)

definition sum_cpus :: "Task list \<Rightarrow> nat" where
  "sum_cpus ts = sum_list (map (\<lambda>t. unat (res_CpuCores (task_res t))) ts)"
definition sum_ram :: "Task list \<Rightarrow> real" where
  "sum_ram ts = sum_list (map (\<lambda>t. res_RamGb (task_res t)) ts)"
definition sum_disk :: "Task list \<Rightarrow> real" where
  "sum_disk ts = sum_list (map (\<lambda>t. res_DiskGb (task_res t)) ts)"

text \<open>No task asks for a negative amount of memory or disk.\<close>

definition sane_request :: "Task \<Rightarrow> bool" where
  "sane_request t \<longleftrightarrow> 0 \<le> res_RamGb (task_res t) \<and> 0 \<le> res_DiskGb (task_res t)"

lemma fold_Subtract_cpus:
  "unat (nr_Cpus (fold SubtractResources ts r)) = unat (nr_Cpus r) - sum_cpus ts"
  by (induction ts arbitrary: r) (simp_all add: unat_SubtractResources sum_cpus_def)

lemma fold_Subtract_ram:
  "list_all sane_request ts \<Longrightarrow> 0 \<le> nr_RamGb r \<Longrightarrow>
     nr_RamGb (fold SubtractResources ts r) = max 0 (nr_RamGb r - sum_ram ts) \<and> 0 \<le> sum_ram ts"
  by (induction ts arbitrary: r) (auto simp: SubtractResources_def Let_def sum_ram_def sane_request_def max_def)

lemma fold_Subtract_disk:
  "list_all sane_request ts \<Longrightarrow> 0 \<le> nr_DiskGb r \<Longrightarrow>
     nr_DiskGb (fold SubtractResources ts r) = max 0 (nr_DiskGb r - sum_disk ts) \<and> 0 \<le> sum_disk ts"
  by (induction ts arbitrary: r) (auto simp: SubtractResources_def Let_def sum_disk_def sane_request_def max_def)

section \<open>Lemmas: workers\<close>

lemma runSet_ok_simps [simp]:
  "runSet_ok newRunSet"
  "runSet_ok r \<Longrightarrow> runSet_ok (fst (runSet_Add i r))"
  "runSet_ok r \<Longrightarrow> runSet_ok (runSet_Remove i r)"
  by (auto simp: runSet_ok_def newRunSet_def runSet_Add_def runSet_Remove_def length_remove1 of_nat_diff
      Suc_le_eq dest: length_pos_if_in_set)

section \<open>Properties\<close>

text \<open>
  C22: the scheduling algorithm offers exactly the first listed node that fits.  It makes an offer
  if and only if some node is alive, in an acceptable zone, not preemptible against the task's
  wish, and has free CPUs, memory and disk for the request; the offered node is the first such
  node in the order of the list.  The scores have no influence, since the list that is sorted by
  them starts with one zero for every offer.
\<close>

theorem schedule_first_fit:
  "DefaultScheduleAlgorithm j nodes w =
     (case filter (node_fits j) nodes of
        [] \<Rightarrow> None
      | n # _ \<Rightarrow> Some (NewOffer n j (Weighted (DefaultScores n j) w)))"
  by (simp add: DefaultScheduleAlgorithm_def make_offers_eq SortByAverageScore_id Let_def split: list.split)

text \<open>
  C24: a node is never given more than it has.  If the available resources of a node were computed
  by \<open>AvailableResources\<close> from the tasks on it, and a further task matches the node, then all these
  tasks together ask for no more CPUs, memory and disk than the node has in total; no sum wraps
  around.
\<close>

theorem schedule_no_overcommit:
  assumes "Match n t DefaultPredicates"
    and "n_Available n = Some (AvailableResources ts (n_Resources n))"
    and "n_Resources n = Some cap" "0 \<le> nr_RamGb cap" "0 \<le> nr_DiskGb cap"
    and "list_all sane_request ts"
  shows "sum_cpus (t # ts) \<le> unat (nr_Cpus cap) \<and> sum_ram (t # ts) \<le> nr_RamGb cap \<and>
    sum_disk (t # ts) \<le> nr_DiskGb cap"
proof -
  let ?a = "fold SubtractResources ts cap"
  have avail: "res_or_zero (n_Available n) = ?a" using assms(2,3) by (simp add: AvailableResources_def)
  from assms(1) avail have fit: "0 < nr_Cpus ?a" "res_CpuCores (task_res t) \<le> nr_Cpus ?a"
    "0 < nr_RamGb ?a" "res_RamGb (task_res t) \<le> nr_RamGb ?a" "0 < nr_DiskGb ?a" "res_DiskGb (task_res t) \<le> nr_DiskGb ?a"
    by (auto simp: Match_Default node_fits_def)
  have cpus: "sum_cpus (t # ts) \<le> unat (nr_Cpus cap)"
    using fit(1,2) fold_Subtract_cpus [of ts cap]
    by (simp add: sum_cpus_def word_less_nat_alt word_le_nat_alt)
  have ram: "sum_ram (t # ts) \<le> nr_RamGb cap"
    using fit(3,4) fold_Subtract_ram [OF assms(6,4)] by (simp add: sum_ram_def max_def split: if_splits)
  have disk: "sum_disk (t # ts) \<le> nr_DiskGb cap"
    using fit(5,6) fold_Subtract_disk [OF assms(6,5)] by (simp add: sum_disk_def max_def split: if_splits)
  from cpus ram disk show ?thesis by blast
qed

definition sample_resources :: "32 word \<Rightarrow> real \<Rightarrow> real \<Rightarrow> Task" where
  "sample_resources c r d =
     empty_task\<lparr>t_Resources := Some (empty_resources\<lparr>res_CpuCores := c, res_RamGb := r, res_DiskGb := d\<rparr>)\<rparr>"

definition sample_node :: Node where
  "sample_node = (let cap = \<lparr>nr_Cpus = 8, nr_RamGb = 16, nr_DiskGb = 100\<rparr>
     in empty_node\<lparr>n_Id := ''n1'', n_State := ALIVE, n_Resources := Some cap,
          n_Available := Some (AvailableResources [sample_resources 4 8 50] (Some cap))\<rparr>)"

theorem schedule_no_overcommit_witness:
  "Match sample_node (sample_resources 4 8 10) DefaultPredicates \<and>
   sum_cpus [sample_resources 4 8 10, sample_resources 4 8 50] \<le> unat (8 :: 32 word)"
proof -
  have m: "Match sample_node (sample_resources 4 8 10) DefaultPredicates"
    by (simp add: Match_Default node_fits_def sample_node_def sample_resources_def empty_node_def empty_task_def
        empty_resources_def task_res_def AvailableResources_def SubtractResources_def Let_def)
  have "sum_cpus [sample_resources 4 8 10, sample_resources 4 8 50] \<le> unat (nr_Cpus \<lparr>nr_Cpus = 8, nr_RamGb = 16, nr_DiskGb = 100\<rparr>)"
    using schedule_no_overcommit [OF m, of "[sample_resources 4 8 50]" "\<lparr>nr_Cpus = 8, nr_RamGb = 16, nr_DiskGb = 100\<rparr>"]
    by (simp add: sample_node_def empty_node_def Let_def sane_request_def sample_resources_def task_res_def
        empty_task_def empty_resources_def)
  with m show ?thesis by simp
qed

text \<open>
  C36: the worker set runs a task at most once at a time and its wait group cannot go negative.
  After any sequence of additions and removals the identifiers are distinct and the wait group
  counts them, and an addition reports success exactly when the identifier was not yet running.
\<close>

fun runSet_ops :: "(bool \<times> string) list \<Rightarrow> runSet \<Rightarrow> runSet" where
  "runSet_ops [] r = r"
| "runSet_ops ((add, i) # cs) r = runSet_ops cs (if add then fst (runSet_Add i r) else runSet_Remove i r)"

theorem runSet_exclusive:
  "runSet_ok (runSet_ops cs newRunSet) \<and> 0 \<le> rs_wg (runSet_ops cs newRunSet) \<and>
   snd (runSet_Add i (runSet_ops cs newRunSet)) = (i \<notin> set (rs_runners (runSet_ops cs newRunSet))) \<and>
   i \<notin> set (rs_runners (runSet_Remove i (runSet_ops cs newRunSet)))"
proof -
  have ok: "runSet_ok r \<Longrightarrow> runSet_ok (runSet_ops cs r)" for r
    by (induction cs r rule: runSet_ops.induct) auto
  from ok [of newRunSet] have "runSet_ok (runSet_ops cs newRunSet)" by simp
  then show ?thesis by (auto simp: runSet_ok_def runSet_Add_def runSet_Remove_def)
qed

end
