(* ===== verification/Schedule_Loop.thy ===== *)
theory Schedule_Loop
  imports Scheduler
begin

text \<open>
  One scheduling iteration (\<open>src/compute/scheduler/scheduler.go\<close>) and the node process
  (\<open>src/compute/scheduler/node.go\<close>, \<open>util.go\<close>).

  The scheduler reaches the database through three interfaces, which are the arguments in the
  record \<open>sched_env\<close>: the node service, the task queue and the event writer, all acting on one
  state.  The locale \<open>node_store\<close> states what the node service promises; its provider is the Bolt
  database.
\<close>

section \<open>The scheduler\<close>

record 's sched_env =
  se_ListNodes :: "'s \<Rightarrow> go_error + Node list"
  se_PutNode :: "Node \<Rightarrow> 's \<Rightarrow> 's \<times> go_error option"
  se_DeleteNode :: "Node \<Rightarrow> 's \<Rightarrow> 's \<times> go_error option"
  se_ReadQueue :: "int \<Rightarrow> 's \<Rightarrow> Task list"
  se_Event :: "'s writer"

text \<open>The errors of event writes are dropped.\<close>

definition emit :: "'s sched_env \<Rightarrow> go_ctx \<Rightarrow> Event \<Rightarrow> 's \<Rightarrow> 's" where
  "emit E ctx ev s = fst (se_Event E ctx ev s)"

fun fail_tasks :: "'s sched_env \<Rightarrow> string \<Rightarrow> string \<Rightarrow> string list \<Rightarrow> 's \<Rightarrow> 's" where
  "fail_tasks E now nodeID [] s = s"
| "fail_tasks E now nodeID (tid # tids) s =
     fail_tasks E now nodeID tids
       (emit E None (NewSystemLog now tid 0 0 ''info'' ''Cleaning up Task assigned to dead/gone node'' [(''nodeID'', nodeID)])
         (emit E None (NewState now tid SystemError) s))"

fun check_updated :: "'s sched_env \<Rightarrow> string \<Rightarrow> Node list \<Rightarrow> 's \<Rightarrow> 's \<times> go_error option" where
  "check_updated E now [] s = (s, None)"
| "check_updated E now (node # nodes) s =
     (case (if n_State node = GONE
            then se_DeleteNode E node (fail_tasks E now (n_Id node) (n_TaskIds node) s)
            else se_PutNode E node s) of
        (s', Some err) \<Rightarrow> (s', Some err)
      | (s', None) \<Rightarrow> check_updated E now nodes s')"

definition CheckNodes :: "'s sched_env \<Rightarrow> SchedulerConf \<Rightarrow> string \<Rightarrow> int \<Rightarrow> 's \<Rightarrow> 's \<times> go_error option" where
  "CheckNodes E conf now clock s =
     (case se_ListNodes E s of
        Inl err \<Rightarrow> (s, Some err)
      | Inr nodes \<Rightarrow> check_updated E now (UpdateNodeState conf clock nodes) s)"

definition GetOffer :: "'s sched_env \<Rightarrow> Task \<Rightarrow> 's \<Rightarrow> Offer option" where
  "GetOffer E j s =
     DefaultScheduleAlgorithm j (case se_ListNodes E s of Inl _ \<Rightarrow> [] | Inr nodes \<Rightarrow> nodes) []"

text \<open>The body of the loop of \<open>Schedule\<close> for one queued task.\<close>

definition schedule_task :: "'s sched_env \<Rightarrow> string \<Rightarrow> go_ctx \<Rightarrow> Task \<Rightarrow> 's \<Rightarrow> 's" where
  "schedule_task E now ctx task s =
     (case GetOffer E task s of
        None \<Rightarrow> s
      | Some offer \<Rightarrow>
          (let node = of_Node offer;
               s = emit E ctx (NewSystemLog now (t_Id task) 0 0 ''info'' ''Assigning task to node'' [(''nodeID'', n_Id node)]) s;
               node = node\<lparr>n_TaskIds := n_TaskIds node @ [t_Id task]\<rparr>
           in case se_PutNode E node s of
                (s', Some err) \<Rightarrow>
                  emit E ctx (NewSystemLog now (t_Id task) 0 0 ''error'' ''Error in AssignTask''
                    [(''error'', error_string err), (''nodeID'', n_Id node)]) s'
              | (s', None) \<Rightarrow> emit E ctx (NewState now (t_Id task) Initializing) s'))"

fun schedule_all :: "'s sched_env \<Rightarrow> string \<Rightarrow> go_ctx \<Rightarrow> Task list \<Rightarrow> 's \<Rightarrow> 's" where
  "schedule_all E now ctx [] s = s"
| "schedule_all E now ctx (t # ts) s = schedule_all E now ctx ts (schedule_task E now ctx t s)"

definition Schedule :: "'s sched_env \<Rightarrow> SchedulerConf \<Rightarrow> string \<Rightarrow> int \<Rightarrow> go_ctx \<Rightarrow> 's \<Rightarrow> 's \<times> go_error option" where
  "Schedule E conf now clock ctx s =
     (let s1 = fst (CheckNodes E conf now clock s)
      in (schedule_all E now ctx (se_ReadQueue E (sc_ScheduleChunk conf) s1) s1, None))"

section \<open>The node process\<close>

text \<open>
  \<open>np_drained\<close> is whether the channel is closed.  The client's \<open>GetNode\<close> and \<open>PutNode\<close>, the detected
  resources and the host name are arguments.
\<close>

record NodeProcess =
  np_ID :: string
  np_Metadata :: "string gomap"
  np_resources :: NodeResources
  np_workers :: runSet
  np_timeout :: IdleTimeout
  np_state :: NodeState
  np_drained :: bool

fun start_workers :: "string list \<Rightarrow> runSet \<Rightarrow> runSet \<times> string list" where
  "start_workers [] r = (r, [])"
| "start_workers (i # ids) r =
     (case runSet_Add i r of
        (r', added) \<Rightarrow> (case start_workers ids r' of (r'', started) \<Rightarrow> (r'', if added then i # started else started)))"

text \<open>The result of \<open>sync\<close>: the process, the workers it starts, and the node it sends to the server.\<close>

definition sync ::
    "(string \<Rightarrow> go_error + Node) \<Rightarrow> NodeResources \<Rightarrow> string \<Rightarrow> NodeProcess \<Rightarrow>
     NodeProcess \<times> string list \<times> Node option" where
  "sync getNode detected host n =
     (case (case getNode (np_ID n) of
              Inr r \<Rightarrow> Some r
            | Inl (StatusError NotFound _) \<Rightarrow> Some (empty_node\<lparr>n_Id := np_ID n\<rparr>)
            | Inl _ \<Rightarrow> None) of
        None \<Rightarrow> (n, [], None)
      | Some r \<Rightarrow>
          (case start_workers (n_TaskIds r) (np_workers n) of
             (workers, started) \<Rightarrow>
               (n\<lparr>np_workers := workers, np_resources := detected\<rparr>, started,
                Some (empty_node\<lparr>n_Id := np_ID n, n_Resources := Some detected, n_State := np_state n,
                        n_Version := n_Version r,
                        n_Metadata := gomap_copy_into (gomap_copy_into [] (np_Metadata n)) (n_Metadata r),
                        n_Hostname := host, n_TaskIds := n_TaskIds r\<rparr>))))"

text \<open>
  One tick of the loop in which a finished \<open>runTask\<close> removes its identifier; the loop ends when it
  returns true, and only then the identifier leaves the worker set.
\<close>

definition forget_task ::
    "(string \<Rightarrow> 's \<Rightarrow> go_error + Node) \<Rightarrow> (Node \<Rightarrow> 's \<Rightarrow> 's \<times> go_error option) \<Rightarrow> string \<Rightarrow> string \<Rightarrow> 's \<Rightarrow> 's \<times> bool" where
  "forget_task getNode putNode nodeID i s =
     (case getNode nodeID s of
        Inl _ \<Rightarrow> (s, False)
      | Inr r \<Rightarrow>
          (case putNode (r\<lparr>n_TaskIds := filter (\<lambda>tid. tid \<noteq> i) (n_TaskIds r)\<rparr>) s of
             (s', Some _) \<Rightarrow> (s', False)
           | (s', None) \<Rightarrow> (s', True)))"

definition checkIdleTimer :: "int \<Rightarrow> NodeProcess \<Rightarrow> NodeProcess" where
  "checkIdleTimer now n =
     (let idle = (runSet_Count (np_workers n) = 0 \<and> np_state n = ALIVE)
      in if idle then n\<lparr>np_timeout := IdleTimeout_Start now (np_timeout n)\<rparr>
         else n\<lparr>np_timeout := IdleTimeout_Stop (np_timeout n)\<rparr>)"

text \<open>Closing a closed channel panics.\<close>

definition checkDrain :: "NodeProcess \<Rightarrow> go_error + NodeProcess" where
  "checkDrain n =
     (if runSet_Count (np_workers n) = 0 \<and> np_state n = DRAIN
      then (if np_drained n then Inl (Panic ''close of closed channel'') else Inr (n\<lparr>np_drained := True\<rparr>))
      else Inr n)"

definition Drain :: "NodeProcess \<Rightarrow> NodeProcess" where
  "Drain n = n\<lparr>np_state := DRAIN\<rparr>"

text \<open>\<open>detectResources\<close>: the host's figures are arguments, each with its error.\<close>

definition detectResources ::
    "NodeResources \<Rightarrow> go_error + 32 word list \<Rightarrow> go_error + real \<Rightarrow> go_error + real \<Rightarrow>
     NodeResources \<times> go_error option" where
  "detectResources conf cpuinfo vmem disk =
     (case cpuinfo of
        Inl e \<Rightarrow> (conf, Some (Errorf (''Error detecting cpu cores: '' @ error_string e)))
      | Inr cores \<Rightarrow>
        (case vmem of
           Inl e \<Rightarrow> (conf, Some (Errorf (''Error detecting memory: '' @ error_string e)))
         | Inr mem \<Rightarrow>
           (case disk of
              Inl e \<Rightarrow> (conf, Some (Errorf (''Error detecting available disk: '' @ error_string e)))
            | Inr free \<Rightarrow>
                (\<lparr>nr_Cpus = (if nr_Cpus conf = 0 then fold (\<lambda>c acc. acc + c) cores (nr_Cpus conf) else nr_Cpus conf),
                  nr_RamGb = (if nr_RamGb conf = 0 then mem / 1000 ^ 3 else nr_RamGb conf),
                  nr_DiskGb = (if nr_DiskGb conf = 0 then free / 1000 ^ 3 else nr_DiskGb conf)\<rparr>, None))))"

section \<open>The node service\<close>

locale node_store =
  fixes E :: "'s sched_env"
    and node_of :: "'s \<Rightarrow> string \<Rightarrow> Node option"
    and inv :: "'s \<Rightarrow> bool"
  assumes list_nodes: "inv s \<Longrightarrow> se_ListNodes E s = Inr ns \<Longrightarrow> n \<in> set ns \<Longrightarrow> node_of s (n_Id n) = Some n"
    and list_distinct: "inv s \<Longrightarrow> se_ListNodes E s = Inr ns \<Longrightarrow> distinct (map n_Id ns)"
    and put_error: "inv s \<Longrightarrow> se_PutNode E n s = (s', Some e) \<Longrightarrow> inv s' \<and> node_of s' = node_of s"
    and put_node: "inv s \<Longrightarrow> se_PutNode E n s = (s', None) \<Longrightarrow>
      inv s' \<and> (\<exists>n'. node_of s' = (node_of s)(n_Id n \<mapsto> n') \<and> n_Id n' = n_Id n \<and> n_TaskIds n' = n_TaskIds n)"
    and delete_node: "inv s \<Longrightarrow> se_DeleteNode E n s = (s', r) \<Longrightarrow>
      inv s' \<and> (node_of s' = node_of s \<or> node_of s' = (node_of s)(n_Id n := None))"
    and event_frame: "inv s \<Longrightarrow> se_Event E ctx ev s = (s', r) \<Longrightarrow> inv s' \<and> node_of s' = node_of s"
begin

text \<open>The nodes a task is assigned to.\<close>

definition assigned :: "'s \<Rightarrow> string \<Rightarrow> string set" where
  "assigned s tid = {i. \<exists>n. node_of s i = Some n \<and> tid \<in> set (n_TaskIds n)}"

lemma emit_frame: "inv s \<Longrightarrow> inv (emit E ctx ev s) \<and> node_of (emit E ctx ev s) = node_of s"
  unfolding emit_def by (metis event_frame prod.collapse)

lemma fail_tasks_frame:
  "inv s \<Longrightarrow> inv (fail_tasks E now nid tids s) \<and> node_of (fail_tasks E now nid tids s) = node_of s"
  by (induction tids arbitrary: s) (simp_all add: emit_frame)

lemma put_assigned:
  assumes "inv s" "se_PutNode E n s = (s', r)"
    "\<And>m. node_of s (n_Id n) = Some m \<Longrightarrow> set (n_TaskIds n) \<subseteq> set (n_TaskIds m) \<union> T"
    "node_of s (n_Id n) \<noteq> None"
  shows "inv s' \<and> (\<forall>tid. assigned s' tid \<subseteq> (if tid \<in> T then assigned s tid \<union> {n_Id n} else assigned s tid))"
proof (cases r)
  case (Some e)
  with put_error assms(1,2) show ?thesis by (auto simp: assigned_def)
next
  case None
  with put_node [OF assms(1)] assms(2) obtain n' where
    *: "inv s'" "node_of s' = (node_of s)(n_Id n \<mapsto> n')" "n_TaskIds n' = n_TaskIds n" by blast
  with assms(3,4) show ?thesis by (fastforce simp: assigned_def split: if_splits)
qed

lemma UpdateNodeState_source:
  "n \<in> set (UpdateNodeState conf now ns) \<Longrightarrow> \<exists>m\<in>set ns. n_Id m = n_Id n \<and> n_TaskIds m = n_TaskIds n"
  by (induction conf now ns rule: UpdateNodeState.induct) (auto simp: Let_def split: if_splits)

lemma UpdateNodeState_distinct:
  "distinct (map n_Id ns) \<Longrightarrow> distinct (map n_Id (UpdateNodeState conf now ns))"
proof (induction conf now ns rule: UpdateNodeState.induct)
  case (2 conf now node nodes)
  have "n_Id node \<notin> n_Id ` set (UpdateNodeState conf now nodes)"
    using "2.prems" UpdateNodeState_source by (fastforce simp: image_iff)
  with 2 show ?case by (auto simp: Let_def)
qed simp

text \<open>Writing a listed node back, or deleting it, assigns nothing new.\<close>

lemma check_updated_assigned:
  assumes "inv s" "distinct (map n_Id ns)"
    "\<forall>n\<in>set ns. \<exists>m. node_of s (n_Id n) = Some m \<and> n_TaskIds n = n_TaskIds m"
  shows "inv (fst (check_updated E now ns s)) \<and> (\<forall>tid. assigned (fst (check_updated E now ns s)) tid \<subseteq> assigned s tid)"
  using assms
proof (induction ns arbitrary: s)
  case (Cons n ns)
  obtain s1 r where step: "(if n_State n = GONE
            then se_DeleteNode E n (fail_tasks E now (n_Id n) (n_TaskIds n) s)
            else se_PutNode E n s) = (s1, r)" by force
  from Cons.prems(3) obtain m where m: "node_of s (n_Id n) = Some m" "n_TaskIds n = n_TaskIds m" by auto
  have "inv s1 \<and> (\<exists>v. node_of s1 = (node_of s)(n_Id n := v) \<and> (\<forall>n'. v = Some n' \<longrightarrow> n_TaskIds n' = n_TaskIds m))"
  proof (cases "n_State n = GONE")
    case True
    with step fail_tasks_frame [OF Cons.prems(1), of now "n_Id n" "n_TaskIds n"] delete_node have
      "inv s1 \<and> (node_of s1 = node_of s \<or> node_of s1 = (node_of s)(n_Id n := None))" by fastforce
    moreover have "node_of s = (node_of s)(n_Id n := Some m)" using m(1) by auto
    ultimately show ?thesis by (metis option.distinct(1) option.inject)
  next
    case False
    with step have put: "se_PutNode E n s = (s1, r)" by simp
    show ?thesis
    proof (cases r)
      case None
      with put_node [OF Cons.prems(1)] put m(2) show ?thesis by (metis option.inject)
    next
      case (Some e)
      with put_error [OF Cons.prems(1)] put have "inv s1" "node_of s1 = node_of s" by auto
      moreover have "node_of s = (node_of s)(n_Id n := Some m)" using m(1) by auto
      ultimately show ?thesis by (metis option.inject)
    qed
  qed
  then obtain v where s1: "inv s1" "node_of s1 = (node_of s)(n_Id n := v)"
    "\<And>n'. v = Some n' \<Longrightarrow> n_TaskIds n' = n_TaskIds m" by blast
  have sub: "assigned s1 tid \<subseteq> assigned s tid" for tid
    using s1(2,3) m(1) by (auto simp: assigned_def split: if_splits)
  show ?case
  proof (cases r)
    case (Some e)
    with step s1(1) sub show ?thesis by simp
  next
    case None
    have "\<forall>k\<in>set ns. \<exists>m. node_of s1 (n_Id k) = Some m \<and> n_TaskIds k = n_TaskIds m"
      using Cons.prems(2,3) s1(2) by (force simp: image_iff)
    with Cons.IH [OF s1(1)] Cons.prems(2) sub step None show ?thesis by fastforce
  qed
qed simp

lemma CheckNodes_assigned:
  assumes "inv s"
  shows "inv (fst (CheckNodes E conf now clock s)) \<and>
    (\<forall>tid. assigned (fst (CheckNodes E conf now clock s)) tid \<subseteq> assigned s tid)"
proof (cases "se_ListNodes E s")
  case (Inl e)
  with assms show ?thesis by (simp add: CheckNodes_def)
next
  case (Inr ns)
  have "\<forall>n\<in>set (UpdateNodeState conf clock ns). \<exists>m. node_of s (n_Id n) = Some m \<and> n_TaskIds n = n_TaskIds m"
    using UpdateNodeState_source list_nodes [OF assms Inr] by metis
  with check_updated_assigned [OF assms UpdateNodeState_distinct [OF list_distinct [OF assms Inr]]] Inr
  show ?thesis by (simp add: CheckNodes_def)
qed

lemma GetOffer_stored:
  assumes "inv s" "GetOffer E t s = Some offer"
  shows "node_of s (n_Id (of_Node offer)) = Some (of_Node offer)"
proof (cases "se_ListNodes E s")
  case (Inl e)
  with assms(2) DefaultScheduleAlgorithm_SomeD [of t "[]" "[]" offer] show ?thesis by (simp add: GetOffer_def)
next
  case (Inr ns)
  with assms(2) DefaultScheduleAlgorithm_SomeD [of t ns "[]" offer] have "of_Node offer \<in> set ns"
    by (simp add: GetOffer_def)
  with list_nodes [OF assms(1) Inr] show ?thesis by blast
qed

lemma schedule_task_assigned:
  assumes "inv s"
  shows "inv (schedule_task E now ctx t s) \<and>
    (\<forall>tid. tid \<noteq> t_Id t \<longrightarrow> assigned (schedule_task E now ctx t s) tid \<subseteq> assigned s tid) \<and>
    (\<exists>i. assigned (schedule_task E now ctx t s) (t_Id t) \<subseteq> assigned s (t_Id t) \<union> {i})"
proof (cases "GetOffer E t s")
  case None
  with assms show ?thesis by (auto simp: schedule_task_def)
next
  case (Some offer)
  let ?n = "of_Node offer"
  have stored: "node_of s (n_Id ?n) = Some ?n" by (rule GetOffer_stored [OF assms Some])
  define s1 where "s1 = emit E ctx (NewSystemLog now (t_Id t) 0 0 ''info'' ''Assigning task to node'' [(''nodeID'', n_Id ?n)]) s"
  define n1 where "n1 = ?n\<lparr>n_TaskIds := n_TaskIds ?n @ [t_Id t]\<rparr>"
  have n1: "n_Id n1 = n_Id ?n" "set (n_TaskIds n1) = set (n_TaskIds ?n) \<union> {t_Id t}" by (auto simp: n1_def)
  obtain s2 r where put: "se_PutNode E n1 s1 = (s2, r)" by force
  from emit_frame [OF assms] have s1: "inv s1" "node_of s1 = node_of s" by (auto simp: s1_def)
  have same: "assigned s1 = assigned s" using s1(2) by (simp add: assigned_def fun_eq_iff)
  have "inv s2 \<and> (\<forall>tid. assigned s2 tid \<subseteq> (if tid \<in> {t_Id t} then assigned s1 tid \<union> {n_Id n1} else assigned s1 tid))"
    by (rule put_assigned [OF s1(1) put]) (use stored s1(2) n1 in auto)
  then have s2: "inv s2" "\<And>tid. assigned s2 tid \<subseteq> (if tid = t_Id t then assigned s tid \<union> {n_Id ?n} else assigned s tid)"
    unfolding same n1 by auto
  have "\<exists>ev. schedule_task E now ctx t s = emit E ctx ev s2"
    using Some put by (auto simp: schedule_task_def Let_def s1_def n1_def split: option.split)
  then obtain ev where fin: "schedule_task E now ctx t s = emit E ctx ev s2" by blast
  have "assigned (emit E ctx ev s2) = assigned s2" "inv (emit E ctx ev s2)"
    using emit_frame [OF s2(1)] by (auto simp: assigned_def fun_eq_iff)
  moreover have "assigned s2 tid \<subseteq> assigned s tid" if "tid \<noteq> t_Id t" for tid
    using s2(2) [of tid] that by simp
  moreover have "assigned s2 (t_Id t) \<subseteq> assigned s (t_Id t) \<union> {n_Id ?n}" using s2(2) [of "t_Id t"] by simp
  ultimately show ?thesis using fin by metis
qed

lemma schedule_all_assigned:
  assumes "inv s" "distinct (map t_Id ts)" "\<forall>t\<in>set ts. assigned s (t_Id t) = {}"
  shows "inv (schedule_all E now ctx ts s) \<and>
    (\<forall>tid. tid \<notin> t_Id ` set ts \<longrightarrow> assigned (schedule_all E now ctx ts s) tid \<subseteq> assigned s tid) \<and>
    (\<forall>t\<in>set ts. \<exists>i. assigned (schedule_all E now ctx ts s) (t_Id t) \<subseteq> {i})"
  using assms
proof (induction ts arbitrary: s)
  case (Cons t ts)
  let ?s = "schedule_task E now ctx t s"
  from schedule_task_assigned [OF Cons.prems(1), of now ctx t] obtain i where
    step: "inv ?s" "\<And>tid. tid \<noteq> t_Id t \<Longrightarrow> assigned ?s tid \<subseteq> assigned s tid"
      "assigned ?s (t_Id t) \<subseteq> assigned s (t_Id t) \<union> {i}" by blast
  have "\<forall>u\<in>set ts. assigned ?s (t_Id u) = {}"
    using Cons.prems(2,3) step(2) by (metis distinct.simps(2) empty_subsetI image_eqI list.set_intros(2) list.simps(9) list.set_map subset_antisym)
  with Cons.IH [OF step(1)] Cons.prems(2) have IH: "inv (schedule_all E now ctx ts ?s)"
    "\<And>tid. tid \<notin> t_Id ` set ts \<Longrightarrow> assigned (schedule_all E now ctx ts ?s) tid \<subseteq> assigned ?s tid"
    "\<And>u. u \<in> set ts \<Longrightarrow> \<exists>i. assigned (schedule_all E now ctx ts ?s) (t_Id u) \<subseteq> {i}" by auto
  have "assigned (schedule_all E now ctx ts ?s) (t_Id t) \<subseteq> {i}"
    using IH(2) [of "t_Id t"] Cons.prems(2,3) step(3) by auto
  moreover have "assigned (schedule_all E now ctx ts ?s) tid \<subseteq> assigned s tid" if "tid \<notin> t_Id ` set (t # ts)" for tid
    using IH(2) [of tid] step(2) [of tid] that by auto
  ultimately show ?case using IH(1,3) by auto
qed simp

text \<open>One iteration assigns every queued task to at most one node.\<close>

lemma Schedule_assigns_once:
  assumes "inv s" "s1 = fst (CheckNodes E conf now clock s)"
    "distinct (map t_Id (se_ReadQueue E (sc_ScheduleChunk conf) s1))"
    "\<forall>t\<in>set (se_ReadQueue E (sc_ScheduleChunk conf) s1). assigned s (t_Id t) = {}"
  shows "inv (fst (Schedule E conf now clock ctx s)) \<and>
    (\<forall>t\<in>set (se_ReadQueue E (sc_ScheduleChunk conf) s1). \<exists>i. assigned (fst (Schedule E conf now clock ctx s)) (t_Id t) \<subseteq> {i})"
proof -
  from CheckNodes_assigned [OF assms(1), of conf now clock] have
    s1: "inv s1" "\<And>tid. assigned s1 tid \<subseteq> assigned s tid" by (auto simp: assms(2))
  with assms(4) have "\<forall>t\<in>set (se_ReadQueue E (sc_ScheduleChunk conf) s1). assigned s1 (t_Id t) = {}" by blast
  from schedule_all_assigned [OF s1(1) assms(3) this] show ?thesis
    by (simp add: Schedule_def Let_def assms(2) [symmetric])
qed

end

section \<open>Properties of the node process\<close>

lemma start_workers_spec:
  "start_workers ids r = (r', started) \<Longrightarrow> runSet_ok r \<Longrightarrow>
     runSet_ok r' \<and> set (rs_runners r') = set (rs_runners r) \<union> set ids \<and>
     distinct started \<and> set started = set ids - set (rs_runners r)"
proof (induction ids arbitrary: r r' started)
  case (Cons i ids)
  obtain r1 added where add: "runSet_Add i r = (r1, added)" by force
  obtain r2 rest where rest: "start_workers ids r1 = (r2, rest)" by force
  have "runSet_ok r1" using add Cons.prems(2) by (metis fst_conv runSet_ok_simps(2))
  from Cons.IH [OF rest this] Cons.prems add rest show ?case
    by (auto simp: runSet_Add_def split: if_splits)
qed simp

text \<open>
  A synchronisation starts exactly one worker for every task assigned to the node that has
  none, and none for the others; two synchronisations in a row start nothing the second time.  The
  assignments are sent back to the server unchanged, with the node's own state.
\<close>

theorem sync_starts_missing_workers:
  assumes "runSet_ok (np_workers n)" "getNode (np_ID n) = Inr r"
    "sync getNode detected host n = (n', started, sent)"
  shows "distinct started \<and> set started = set (n_TaskIds r) - set (rs_runners (np_workers n)) \<and>
    runSet_ok (np_workers n') \<and> set (rs_runners (np_workers n')) = set (rs_runners (np_workers n)) \<union> set (n_TaskIds r) \<and>
    fst (snd (sync getNode detected host n')) = [] \<and>
    map_option n_TaskIds sent = Some (n_TaskIds r) \<and> map_option n_State sent = Some (np_state n)"
proof -
  obtain w st where sw: "start_workers (n_TaskIds r) (np_workers n) = (w, st)" by force
  with assms(2,3) have n': "n' = n\<lparr>np_workers := w, np_resources := detected\<rparr>" "started = st"
    "map_option n_TaskIds sent = Some (n_TaskIds r)" "map_option n_State sent = Some (np_state n)"
    by (auto simp: sync_def)
  note spec = start_workers_spec [OF sw assms(1)]
  obtain w2 st2 where sw2: "start_workers (n_TaskIds r) w = (w2, st2)" by force
  with start_workers_spec [OF sw2] spec have "set st2 = {}" by auto
  then have "st2 = []" by simp
  with sw2 n'(1) assms(2) have "fst (snd (sync getNode detected host n')) = []" by (simp add: sync_def)
  with spec n' show ?thesis by auto
qed

definition sample_process :: NodeProcess where
  "sample_process = \<lparr>np_ID = ''n1'', np_Metadata = [], np_resources = zero_node_resources,
     np_workers = newRunSet, np_timeout = noTimeout, np_state = ALIVE, np_drained = False\<rparr>"

theorem sync_starts_missing_workers_witness:
  "fst (snd (sync (\<lambda>_. Inr (empty_node\<lparr>n_TaskIds := [''a'', ''b'', ''a'']\<rparr>)) zero_node_resources ''h'' sample_process)) = [''a'', ''b''] \<and>
   distinct [''a'', ''b'']"
proof -
  let ?get = "\<lambda>_. Inr (empty_node\<lparr>n_TaskIds := [''a'', ''b'', ''a'']\<rparr>) :: go_error + Node"
  obtain n' started sent where run: "sync ?get zero_node_resources ''h'' sample_process = (n', started, sent)"
    by (metis prod.exhaust)
  have "started = [''a'', ''b'']"
    using run by (simp add: sync_def sample_process_def runSet_Add_def newRunSet_def)
  moreover from sync_starts_missing_workers [where n = sample_process and getNode = ?get, OF _ refl run]
  have "distinct started" by (simp add: sample_process_def)
  ultimately show ?thesis using run by simp
qed

text \<open>
  Draining can crash the node.  Once an idle draining node has closed its \<open>drained\<close> channel, the
  next \<open>checkDrain\<close> closes it again, which panics; the main loop reaches it whenever the ticker and
  the channel are ready together and the ticker is chosen.
\<close>

theorem checkDrain_twice_panics:
  assumes "runSet_Count (np_workers n) = 0" "\<not> np_drained n"
  shows "\<exists>n'. checkDrain (Drain n) = Inr n' \<and> np_drained n' \<and> checkDrain n' = Inl (Panic ''close of closed channel'')"
  using assms by (simp add: checkDrain_def Drain_def)

theorem checkDrain_twice_panics_witness:
  "\<exists>n'. checkDrain (Drain sample_process) = Inr n' \<and> checkDrain n' = Inl (Panic ''close of closed channel'')"
  using checkDrain_twice_panics [of sample_process]
  by (auto simp: sample_process_def runSet_Count_def newRunSet_def)

end
