(* ===== verification/Badger.thy ===== *)
theory Badger
  imports Task_Store
begin

text \<open>
  The Badger database: \<open>src/database/badger/events.go\<close>, \<open>tes.go\<close> and \<open>new.go\<close>.

  The key-value store itself, the protobuf codec and the bytes they exchange are parameters,
  collected in the record \<open>kv\<close>: a transaction is a value of type \<open>'d\<close>, and \<open>kv_data\<close> says what is
  stored in it.  \<open>kv_laws\<close> states what the sources rely on; every operation may also fail at any
  time.
\<close>

section \<open>The store and the codec\<close>

record ('d, 'v) kv =
  kv_get :: "'d \<Rightarrow> string \<Rightarrow> go_error + bool"
  kv_value :: "'d \<Rightarrow> string \<Rightarrow> go_error + 'v"
  kv_keys :: "'d \<Rightarrow> string list"
  kv_set :: "'d \<Rightarrow> string \<Rightarrow> 'v \<Rightarrow> go_error + 'd"
  kv_commit :: "'d \<Rightarrow> go_error + 'd"
  kv_discard :: "'d \<Rightarrow> 'd"
  kv_data :: "'d \<Rightarrow> string \<Rightarrow> 'v option"
  kv_marshal :: "Task \<Rightarrow> go_error + 'v"
  kv_unmarshal :: "'v \<Rightarrow> go_error + Task"
  kv_of_string :: "string \<Rightarrow> 'v"
  kv_to_string :: "'v \<Rightarrow> string"

definition kv_laws :: "('d, 'v) kv \<Rightarrow> bool" where
  "kv_laws K \<longleftrightarrow>
     (\<forall>d k b. kv_get K d k = Inr b \<longrightarrow> b = (kv_data K d k \<noteq> None)) \<and>
     (\<forall>d k v. kv_value K d k = Inr v \<longrightarrow> kv_data K d k = Some v) \<and>
     (\<forall>d k v d'. kv_set K d k v = Inr d' \<longrightarrow> kv_data K d' = (kv_data K d)(k \<mapsto> v)) \<and>
     (\<forall>d d'. kv_commit K d = Inr d' \<longrightarrow> kv_data K d' = kv_data K d) \<and>
     (\<forall>d. kv_data K (kv_discard K d) = kv_data K d) \<and>
     (\<forall>d. sorted_wrt (<) (kv_keys K d) \<and> set (kv_keys K d) = dom (kv_data K d)) \<and>
     (\<forall>t v. kv_marshal K t = Inr v \<longrightarrow> kv_unmarshal K v = Inr t) \<and>
     (\<forall>s. kv_to_string K (kv_of_string K s) = s)"

lemma kv_lawsD:
  assumes "kv_laws K"
  shows "kv_get K d k = Inr b \<Longrightarrow> b \<longleftrightarrow> kv_data K d k \<noteq> None"
    and "kv_value K d k = Inr v \<Longrightarrow> kv_data K d k = Some v"
    and "kv_set K d k v = Inr d' \<Longrightarrow> kv_data K d' = (kv_data K d)(k \<mapsto> v)"
    and "kv_commit K d = Inr d' \<Longrightarrow> kv_data K d' = kv_data K d"
    and "kv_data K (kv_discard K d) = kv_data K d"
    and "sorted_wrt (<) (kv_keys K d)" and "set (kv_keys K d) = dom (kv_data K d)"
    and "kv_marshal K t = Inr v \<Longrightarrow> kv_unmarshal K v = Inr t"
    and "kv_to_string K (kv_of_string K s) = s"
  using assms unfolding kv_laws_def by blast+

text \<open>\<open>db.Update\<close>: a failing body or commit discards the transaction.\<close>

definition kv_Update :: "('d, 'v) kv \<Rightarrow> ('d \<Rightarrow> go_error + 'd) \<Rightarrow> 'd \<Rightarrow> 'd \<times> go_error option" where
  "kv_Update K f d =
     (case f d of
        Inl e \<Rightarrow> (kv_discard K d, Some e)
      | Inr d' \<Rightarrow> (case kv_commit K d' of Inl e \<Rightarrow> (kv_discard K d, Some e) | Inr d'' \<Rightarrow> (d'', None)))"

definition wrap_err :: "string \<Rightarrow> go_error + 'a \<Rightarrow> go_error + 'a" where
  "wrap_err msg r = (case r of Inl e \<Rightarrow> Inl (Errorf (msg @ error_string e)) | Inr x \<Rightarrow> Inr x)"

lemma wrap_err_Inr_iff [simp]: "wrap_err msg r = Inr x \<longleftrightarrow> r = Inr x"
  by (auto simp: wrap_err_def split: sum.splits)

section \<open>Keys\<close>

definition taskKeyPrefix :: string where "taskKeyPrefix = ''tasks''"
definition ownerKeyPrefix :: string where "ownerKeyPrefix = ''owners''"

definition taskKey :: "string \<Rightarrow> string" where
  "taskKey i = taskKeyPrefix @ i"

definition ownerKey :: "string \<Rightarrow> string" where
  "ownerKey i = ownerKeyPrefix @ i"

definition ownerKeyFromTaskKey :: "string \<Rightarrow> string" where
  "ownerKeyFromTaskKey k = ownerKeyPrefix @ drop (length taskKeyPrefix) k"

lemma badger_keys [simp]:
  "taskKey i = taskKey j \<longleftrightarrow> i = j" "ownerKey i = ownerKey j \<longleftrightarrow> i = j"
  "taskKey i \<noteq> ownerKey j" "ownerKey j \<noteq> taskKey i" "ownerKeyFromTaskKey (taskKey i) = ownerKey i"
  by (auto simp: taskKey_def ownerKey_def ownerKeyFromTaskKey_def taskKeyPrefix_def ownerKeyPrefix_def)

lemma taskKey_prefix [simp]: "HasPrefix (taskKey i) taskKeyPrefix" "\<not> HasPrefix (ownerKey i) taskKeyPrefix"
  by (auto simp: taskKey_def ownerKey_def HasPrefix_def taskKeyPrefix_def ownerKeyPrefix_def)

lemma ownerKey_less_taskKey: "ownerKey i < taskKey j"
  by (simp add: taskKey_def ownerKey_def taskKeyPrefix_def ownerKeyPrefix_def)

lemma taskKey_less_iff [simp]: "taskKey i < taskKey j \<longleftrightarrow> i < j"
  by (simp add: taskKey_def taskKeyPrefix_def)

section \<open>Reading\<close>

definition badger_isAccessible :: "string \<Rightarrow> go_ctx \<Rightarrow> string \<Rightarrow> bool" where
  "badger_isAccessible mode ctx taskOwner = IsAccessible mode (GetUser ctx) taskOwner"

definition getTaskOwner :: "('d, 'v) kv \<Rightarrow> 'd \<Rightarrow> string \<Rightarrow> string" where
  "getTaskOwner K d k =
     (case kv_get K d k of
        Inr True \<Rightarrow> (case kv_value K d k of Inr v \<Rightarrow> kv_to_string K v | Inl _ \<Rightarrow> '''')
      | _ \<Rightarrow> '''')"

definition load_task :: "('d, 'v) kv \<Rightarrow> 'd \<Rightarrow> string \<Rightarrow> go_error + Task" where
  "load_task K d k =
     (case wrap_err ''loading item value: '' (kv_value K d k) of
        Inl e \<Rightarrow> Inl e
      | Inr v \<Rightarrow> wrap_err ''unmarshaling data: '' (kv_unmarshal K v))"

definition badger_getTask ::
    "('d, 'v) kv \<Rightarrow> string \<Rightarrow> 'd \<Rightarrow> string \<Rightarrow> go_ctx \<Rightarrow> go_error + Task" where
  "badger_getTask K mode d i ctx =
     (let r = kv_get K d (taskKey i)
      in if r = Inr False then Inl ErrNotFound
         else if \<not> badger_isAccessible mode ctx (getTaskOwner K d (ownerKey i)) then Inl ErrNotPermitted
         else case r of
           Inl e \<Rightarrow> Inl (Errorf (''loading item: '' @ error_string e))
         | Inr _ \<Rightarrow> load_task K d (taskKey i))"

text \<open>The view switch of \<open>GetTask\<close> and \<open>ListTasks\<close>.\<close>

definition apply_view :: "string \<Rightarrow> Task \<Rightarrow> Task" where
  "apply_view v task =
     (if v = View_String Minimal then GetMinimalView task
      else if v = View_String Basic then GetBasicView task
      else task)"

definition badger_GetTask ::
    "('d, 'v) kv \<Rightarrow> string \<Rightarrow> go_ctx \<Rightarrow> GetTaskRequest \<Rightarrow> 'd \<Rightarrow> go_error + Task" where
  "badger_GetTask K mode ctx req d =
     (case badger_getTask K mode d (gt_Id req) ctx of
        Inl e \<Rightarrow> Inl e
      | Inr task \<Rightarrow> Inr (apply_view (gt_View req) task))"

text \<open>
  \<open>ListTasks\<close>: the loop over the reversed keys.  The first argument is what the iterator has left.
\<close>

definition tags_match :: "string gomap \<Rightarrow> Task \<Rightarrow> bool" where
  "tags_match tags task = list_all (\<lambda>(k, v). gomap_get (t_Tags task) k = Some v) tags"

definition req_matches :: "ListTasksRequest \<Rightarrow> Task \<Rightarrow> bool" where
  "req_matches req task \<longleftrightarrow>
     tags_match (case GetTags req of None \<Rightarrow> [] | Some m \<Rightarrow> m) task \<and>
     (lt_State req = Unknown \<or> lt_State req = t_State task)"

fun list_loop ::
    "('d, 'v) kv \<Rightarrow> string \<Rightarrow> 'd \<Rightarrow> go_ctx \<Rightarrow> ListTasksRequest \<Rightarrow> nat \<Rightarrow> string list \<Rightarrow> Task list \<Rightarrow>
     go_error + Task list" where
  "list_loop K mode d ctx req pageSize [] tasks = Inr tasks"
| "list_loop K mode d ctx req pageSize (key # keys) tasks =
     (if \<not> length tasks < pageSize then Inr tasks
      else if \<not> HasPrefix key taskKeyPrefix then Inr tasks
      else if \<not> badger_isAccessible mode ctx (getTaskOwner K d (ownerKeyFromTaskKey key))
        then list_loop K mode d ctx req pageSize keys tasks
      else case load_task K d key of
        Inl e \<Rightarrow> Inl e
      | Inr task \<Rightarrow>
          if req_matches req task
          then list_loop K mode d ctx req pageSize keys (tasks @ [apply_view (lt_View req) task])
          else list_loop K mode d ctx req pageSize keys tasks)"

text \<open>
  \<open>it.Seek\<close> of a reversed iterator moves to the largest key that is not above the given one, and
  \<open>it.Next\<close> leaves that key.
\<close>

definition page_keys :: "('d, 'v) kv \<Rightarrow> 'd \<Rightarrow> string \<Rightarrow> string list" where
  "page_keys K d token =
     (if token \<noteq> '''' then tl (dropWhile (\<lambda>k. taskKey token < k) (rev (kv_keys K d)))
      else rev (kv_keys K d))"

definition badger_ListTasks ::
    "('d, 'v) kv \<Rightarrow> string \<Rightarrow> go_ctx \<Rightarrow> ListTasksRequest \<Rightarrow> 'd \<Rightarrow> go_error + ListTasksResponse" where
  "badger_ListTasks K mode ctx req d =
     (let pageSize = nat (GetPageSize (lt_PageSize req))
      in case list_loop K mode d ctx req pageSize (page_keys K d (lt_PageToken req)) [] of
           Inl e \<Rightarrow> Inl e
         | Inr tasks \<Rightarrow>
             Inr \<lparr>ltr_NextPageToken = (if length tasks = pageSize then t_Id (last tasks) else ''''),
                  ltr_Tasks = tasks\<rparr>)"

section \<open>Writing\<close>

text \<open>The switch of \<open>writeEvent\<close>: the effect of an event on the loaded task.\<close>

definition badger_apply :: "Event \<Rightarrow> Task \<Rightarrow> go_error + Task" where
  "badger_apply ev task =
     (case ev_Type ev of
        Type_TASK_STATE \<Rightarrow>
          (case ValidateTransition (t_State task) (GetState ev) of
             Some err \<Rightarrow> Inl err
           | None \<Rightarrow> Inr (task\<lparr>t_State := GetState ev\<rparr>))
      | Type_TASK_START_TIME \<Rightarrow> Inr (GetTaskLog task 0 (\<lambda>l. l\<lparr>tl_StartTime := GetStartTime ev\<rparr>))
      | Type_TASK_END_TIME \<Rightarrow> Inr (GetTaskLog task 0 (\<lambda>l. l\<lparr>tl_EndTime := GetEndTime ev\<rparr>))
      | Type_TASK_OUTPUTS \<Rightarrow>
          (case GetOutputs_Value ev of
             Inl e \<Rightarrow> Inl e
           | Inr v \<Rightarrow> Inr (GetTaskLog task 0 (\<lambda>l. l\<lparr>tl_Outputs := v\<rparr>)))
      | Type_TASK_METADATA \<Rightarrow>
          (case GetMetadata_Value ev of
             Inl e \<Rightarrow> Inl e
           | Inr m \<Rightarrow> Inr (GetTaskLog task 0 (merge_metadata m)))
      | Type_EXECUTOR_START_TIME \<Rightarrow> Inr (GetExecLog task 0 (ev_index ev) (\<lambda>l. l\<lparr>el_StartTime := GetStartTime ev\<rparr>))
      | Type_EXECUTOR_END_TIME \<Rightarrow> Inr (GetExecLog task 0 (ev_index ev) (\<lambda>l. l\<lparr>el_EndTime := GetEndTime ev\<rparr>))
      | Type_EXECUTOR_EXIT_CODE \<Rightarrow> Inr (GetExecLog task 0 (ev_index ev) (\<lambda>l. l\<lparr>el_ExitCode := GetExitCode ev\<rparr>))
      | Type_EXECUTOR_STDOUT \<Rightarrow> Inr (GetExecLog task 0 (ev_index ev) (\<lambda>l. l\<lparr>el_Stdout := GetStdout ev\<rparr>))
      | Type_EXECUTOR_STDERR \<Rightarrow> Inr (GetExecLog task 0 (ev_index ev) (\<lambda>l. l\<lparr>el_Stderr := GetStderr ev\<rparr>))
      | Type_SYSTEM_LOG \<Rightarrow>
          (case SysLogString ev of
             Inl e \<Rightarrow> Inl e
           | Inr s \<Rightarrow> Inr (GetTaskLog task 0 (append_syslog s)))
      | _ \<Rightarrow> Inr task)"

definition save_task :: "('d, 'v) kv \<Rightarrow> Task \<Rightarrow> 'd \<Rightarrow> go_error + 'd" where
  "save_task K task d =
     (case wrap_err ''marshaling task to bytes: '' (kv_marshal K task) of
        Inl e \<Rightarrow> Inl e
      | Inr v \<Rightarrow> kv_set K d (taskKey (t_Id task)) v)"

definition badger_txn :: "('d, 'v) kv \<Rightarrow> string \<Rightarrow> go_ctx \<Rightarrow> Event \<Rightarrow> 'd \<Rightarrow> go_error + 'd" where
  "badger_txn K mode ctx ev d =
     (if ev_Type ev = Type_TASK_CREATED then
        (case GetTask_of ev of
           Inl e \<Rightarrow> Inl e
         | Inr task \<Rightarrow>
             (case wrap_err ''marshaling task to bytes: '' (kv_marshal K task) of
                Inl e \<Rightarrow> Inl e
              | Inr v \<Rightarrow>
                  (case wrap_err ''storing owner info: ''
                          (kv_set K d (ownerKey (t_Id task)) (kv_of_string K (GetUsername ctx))) of
                     Inl e \<Rightarrow> Inl e
                   | Inr d' \<Rightarrow> kv_set K d' (taskKey (t_Id task)) v)))
      else
        (case badger_getTask K mode d (ev_Id ev) ctx of
           Inl e \<Rightarrow> Inl e
         | Inr task \<Rightarrow>
             (case badger_apply ev task of
                Inl e \<Rightarrow> Inl e
              | Inr task' \<Rightarrow> save_task K task' d)))"

definition badger_writeEvent :: "('d, 'v) kv \<Rightarrow> string \<Rightarrow> 'd writer" where
  "badger_writeEvent K mode ctx ev = kv_Update K (badger_txn K mode ctx ev)"

fun badger_ShouldRetry :: "go_error \<Rightarrow> bool" where
  "badger_ShouldRetry (TransitionError _ _) = False"
| "badger_ShouldRetry err = (err \<noteq> ErrNotFound \<and> err \<noteq> ErrNotPermitted)"

definition badger_WriteEvent :: "('d, 'v) kv \<Rightarrow> 'd retry_notify \<Rightarrow> string \<Rightarrow> 'd writer" where
  "badger_WriteEvent K RN mode ctx ev =
     Retry RN \<lparr>r_MaxTries = 50, r_ShouldRetry = Some badger_ShouldRetry\<rparr> (badger_writeEvent K mode ctx ev)"

section \<open>The state of the database\<close>

text \<open>
  Every key is a task key, whose value decodes to the task with that identifier, or an owner key.
\<close>

definition badger_ok :: "('d, 'v) kv \<Rightarrow> 'd \<Rightarrow> bool" where
  "badger_ok K d \<longleftrightarrow>
     (\<forall>k v. kv_data K d k = Some v \<longrightarrow>
        (\<exists>i t. k = taskKey i \<and> kv_unmarshal K v = Inr t \<and> t_Id t = i) \<or> (\<exists>i. k = ownerKey i))"

definition badger_task :: "('d, 'v) kv \<Rightarrow> 'd \<Rightarrow> string \<Rightarrow> Task option" where
  "badger_task K d i =
     (case kv_data K d (taskKey i) of
        None \<Rightarrow> None
      | Some v \<Rightarrow> (case kv_unmarshal K v of Inl _ \<Rightarrow> None | Inr t \<Rightarrow> Some t))"

definition badger_state :: "('d, 'v) kv \<Rightarrow> 'd \<Rightarrow> string \<Rightarrow> State option" where
  "badger_state K d i = map_option t_State (badger_task K d i)"

definition badger_owner :: "('d, 'v) kv \<Rightarrow> 'd \<Rightarrow> string \<Rightarrow> string option" where
  "badger_owner K d i = map_option (kv_to_string K) (kv_data K d (ownerKey i))"

section \<open>Lemmas: single operations\<close>

lemma badger_task_cong: "kv_data K d = kv_data K d' \<Longrightarrow> badger_task K d = badger_task K d'"
  by (simp add: badger_task_def fun_eq_iff)

lemma badger_state_cong: "kv_data K d = kv_data K d' \<Longrightarrow> badger_state K d = badger_state K d'"
  by (simp add: badger_state_def badger_task_def fun_eq_iff)

lemma badger_ok_cong: "kv_data K d = kv_data K d' \<Longrightarrow> badger_ok K d = badger_ok K d'"
  by (simp add: badger_ok_def)

lemma badger_apply_Id [simp]: "badger_apply ev t = Inr t' \<Longrightarrow> t_Id t' = t_Id t"
  by (auto simp: badger_apply_def split: EventType.splits option.splits sum.splits)

lemma badger_apply_state:
  "badger_apply ev t = Inr t' \<Longrightarrow>
     (if ev_Type ev = Type_TASK_STATE
      then state_step (t_State t) (GetState ev) \<and> t_State t' = GetState ev
      else t_State t' = t_State t)"
  by (auto simp: badger_apply_def state_step_iff split: EventType.splits option.splits sum.splits)

lemma apply_view_simps [simp]:
  "t_Id (apply_view v t) = t_Id t" "t_State (apply_view v t) = t_State t"
  by (simp_all add: apply_view_def)

lemma load_task_sound:
  assumes "kv_laws K" "load_task K d (taskKey i) = Inr t"
  shows "badger_task K d i = Some t"
  using assms kv_lawsD(2) [OF assms(1)]
  by (auto simp: load_task_def badger_task_def split: sum.splits)

lemma badger_getTask_sound:
  assumes "kv_laws K" "badger_getTask K mode d i ctx = Inr t"
  shows "badger_task K d i = Some t" "badger_isAccessible mode ctx (getTaskOwner K d (ownerKey i))"
  using assms by (auto simp: badger_getTask_def Let_def load_task_sound split: if_splits sum.splits)

lemma badger_task_Id: "badger_ok K d \<Longrightarrow> badger_task K d i = Some t \<Longrightarrow> t_Id t = i"
  by (fastforce simp: badger_ok_def badger_task_def split: option.splits sum.splits)

text \<open>What a committed transaction has done to the data.\<close>

lemma badger_txn_created:
  assumes "kv_laws K" "badger_txn K mode ctx ev d = Inr d'" "ev_Type ev = Type_TASK_CREATED"
  obtains t v where "GetTask_of ev = Inr t" "kv_unmarshal K v = Inr t"
    "kv_data K d' = (kv_data K d)(ownerKey (t_Id t) \<mapsto> kv_of_string K (GetUsername ctx), taskKey (t_Id t) \<mapsto> v)"
proof -
  from assms(2,3) obtain t v d1 where *: "GetTask_of ev = Inr t" "kv_marshal K t = Inr v"
    "kv_set K d (ownerKey (t_Id t)) (kv_of_string K (GetUsername ctx)) = Inr d1"
    "kv_set K d1 (taskKey (t_Id t)) v = Inr d'"
    by (auto simp: badger_txn_def wrap_err_def split: sum.splits)
  show thesis
    using that [OF *(1) kv_lawsD(8) [OF assms(1) *(2)]] kv_lawsD(3) [OF assms(1)] *(3,4) by simp
qed

lemma badger_txn_update:
  assumes "kv_laws K" "badger_txn K mode ctx ev d = Inr d'" "ev_Type ev \<noteq> Type_TASK_CREATED"
  obtains t t' v where "badger_getTask K mode d (ev_Id ev) ctx = Inr t" "badger_apply ev t = Inr t'"
    "kv_unmarshal K v = Inr t'" "kv_data K d' = (kv_data K d)(taskKey (t_Id t') \<mapsto> v)"
proof -
  from assms(2,3) obtain t t' v where *: "badger_getTask K mode d (ev_Id ev) ctx = Inr t"
    "badger_apply ev t = Inr t'" "kv_marshal K t' = Inr v" "kv_set K d (taskKey (t_Id t')) v = Inr d'"
    by (auto simp: badger_txn_def save_task_def wrap_err_def split: sum.splits)
  show thesis
    using that [OF *(1,2) kv_lawsD(8) [OF assms(1) *(3)]] kv_lawsD(3) [OF assms(1) *(4)] by simp
qed

lemma badger_task_update:
  assumes "kv_data K d' = (kv_data K d)(taskKey i \<mapsto> v)" "kv_unmarshal K v = Inr t"
  shows "badger_task K d' j = (if j = i then Some t else badger_task K d j)"
  using assms by (simp add: badger_task_def)

lemma badger_txn_ok:
  assumes "kv_laws K" "badger_ok K d" "badger_txn K mode ctx ev d = Inr d'"
  shows "badger_ok K d'"
proof (cases "ev_Type ev = Type_TASK_CREATED")
  case True
  from assms(2) show ?thesis
    by (rule_tac badger_txn_created [OF assms(1,3) True]) (auto simp: badger_ok_def)
next
  case False
  from assms(2) show ?thesis
    by (rule_tac badger_txn_update [OF assms(1,3) False]) (auto simp: badger_ok_def)
qed

text \<open>The event written and its effect on the stored tasks.\<close>

definition badger_effect :: "('d, 'v) kv \<Rightarrow> go_ctx \<Rightarrow> Event \<Rightarrow> 'd \<Rightarrow> 'd \<Rightarrow> bool" where
  "badger_effect K ctx ev d d' \<longleftrightarrow>
     (if ev_Type ev = Type_TASK_CREATED
      then \<exists>t. GetTask_of ev = Inr t \<and> badger_task K d' = (badger_task K d)(t_Id t \<mapsto> t) \<and>
             badger_owner K d' = (badger_owner K d)(t_Id t \<mapsto> GetUsername ctx)
      else \<exists>t t'. badger_task K d (ev_Id ev) = Some t \<and> badger_apply ev t = Inr t' \<and>
             badger_task K d' = (badger_task K d)(ev_Id ev \<mapsto> t') \<and> badger_owner K d' = badger_owner K d)"

lemma badger_txn_effect:
  assumes "kv_laws K" "badger_ok K d" "badger_txn K mode ctx ev d = Inr d'"
  shows "badger_effect K ctx ev d d'"
proof (cases "ev_Type ev = Type_TASK_CREATED")
  case True
  show ?thesis
    by (rule badger_txn_created [OF assms(1,3) True])
      (use True in \<open>auto simp: badger_effect_def badger_task_def badger_owner_def fun_eq_iff kv_lawsD(9) [OF assms(1)]\<close>)
next
  case False
  obtain t t' v where *: "badger_getTask K mode d (ev_Id ev) ctx = Inr t" "badger_apply ev t = Inr t'"
    "kv_unmarshal K v = Inr t'" "kv_data K d' = (kv_data K d)(taskKey (t_Id t') \<mapsto> v)"
    by (rule badger_txn_update [OF assms(1,3) False])
  have "badger_task K d (ev_Id ev) = Some t" by (rule badger_getTask_sound(1) [OF assms(1) *(1)])
  moreover from this assms(2) have "t_Id t' = ev_Id ev" using *(2) by (simp add: badger_task_Id)
  ultimately show ?thesis
    using False * badger_task_update [OF *(4,3)]
    by (auto simp: badger_effect_def badger_owner_def fun_eq_iff)
qed

section \<open>Lemmas: writes\<close>

definition badger_post :: "('d, 'v) kv \<Rightarrow> go_ctx \<Rightarrow> Event \<Rightarrow> 'd \<Rightarrow> 'd \<Rightarrow> go_error option \<Rightarrow> bool" where
  "badger_post K ctx ev d d' r \<longleftrightarrow> badger_ok K d' \<and>
     (case r of
        None \<Rightarrow> badger_effect K ctx ev d d'
      | Some e \<Rightarrow> badger_task K d' = badger_task K d \<and> badger_owner K d' = badger_owner K d)"

lemma badger_owner_cong: "kv_data K d = kv_data K d' \<Longrightarrow> badger_owner K d = badger_owner K d'"
  by (simp add: badger_owner_def fun_eq_iff)

lemma badger_effect_cong:
  assumes "kv_data K s = kv_data K d" "kv_data K s' = kv_data K d'"
  shows "badger_effect K ctx ev s s' = badger_effect K ctx ev d d'"
  unfolding badger_effect_def badger_task_cong [OF assms(1)] badger_task_cong [OF assms(2)]
    badger_owner_cong [OF assms(1)] badger_owner_cong [OF assms(2)] ..

lemma badger_writeEvent_post:
  assumes "kv_laws K" "badger_ok K d" "badger_writeEvent K mode ctx ev d = (d', r)"
  shows "badger_post K ctx ev d d' r" "r \<noteq> None \<Longrightarrow> kv_data K d' = kv_data K d"
proof -
  have fail: "kv_data K (kv_discard K d) = kv_data K d" by (rule kv_lawsD(5) [OF assms(1)])
  from assms(3) show "r \<noteq> None \<Longrightarrow> kv_data K d' = kv_data K d"
    by (auto simp: badger_writeEvent_def kv_Update_def fail split: sum.splits)
  show "badger_post K ctx ev d d' r"
  proof (cases r)
    case None
    with assms(3) obtain d1 where d1: "badger_txn K mode ctx ev d = Inr d1" "kv_commit K d1 = Inr d'"
      by (auto simp: badger_writeEvent_def kv_Update_def split: sum.splits)
    note same = kv_lawsD(4) [OF assms(1) d1(2)]
    from badger_txn_effect [OF assms(1,2) d1(1)] badger_txn_ok [OF assms(1,2) d1(1)] None show ?thesis
      by (simp add: badger_post_def badger_ok_cong [OF same] badger_effect_cong [OF refl same])
  next
    case (Some e)
    with assms(3) have "kv_data K d' = kv_data K d"
      by (auto simp: badger_writeEvent_def kv_Update_def fail split: sum.splits)
    with Some assms(2) show ?thesis
      by (simp add: badger_post_def badger_ok_cong [of K d' d] badger_task_cong [of K d' d]
          badger_owner_cong [of K d' d])
  qed
qed

lemma badger_WriteEvent_post:
  assumes "kv_laws K" "backoff_law RN" "badger_ok K d" "badger_WriteEvent K RN mode ctx ev d = (d', r)"
  shows "badger_post K ctx ev d d' r"
proof (rule Retry_rule [OF assms(2), where I = "\<lambda>s. badger_ok K s \<and> kv_data K s = kv_data K d"])
  show "badger_ok K d \<and> kv_data K d = kv_data K d" using assms(3) by simp
  show "Retry RN \<lparr>r_MaxTries = 50, r_ShouldRetry = Some badger_ShouldRetry\<rparr> (badger_writeEvent K mode ctx ev) d = (d', r)"
    using assms(4) by (simp add: badger_WriteEvent_def)
next
  fix s s' err
  assume I: "badger_ok K s \<and> kv_data K s = kv_data K d" and run: "badger_writeEvent K mode ctx ev s = (s', err)"
  note post = badger_writeEvent_post [OF assms(1) conjunct1 [OF I] run]
  note same = conjunct2 [OF I]
  have "badger_post K ctx ev d s' err"
    using post(1) by (simp add: badger_post_def badger_effect_cong [OF same refl] badger_task_cong [OF same]
        badger_owner_cong [OF same] split: option.split_asm option.split)
  moreover have "err \<noteq> None \<Longrightarrow> badger_ok K s'" using post(1) by (simp add: badger_post_def)
  ultimately show "badger_post K ctx ev d s' err \<and> (err \<noteq> None \<longrightarrow> badger_ok K s' \<and> kv_data K s' = kv_data K d)"
    using post(2) same by simp
qed

section \<open>Badger provides the contract\<close>

lemma badger_task_db:
  assumes "kv_laws K" "backoff_law RN"
  shows "task_db (badger_WriteEvent K RN mode) (badger_state K) (badger_ok K) (badger_GetTask K mode)"
proof unfold_locales
  fix d ctx ev d' r
  assume ok: "badger_ok K d" and run: "badger_WriteEvent K RN mode ctx ev d = (d', r)"
  show "badger_ok K d'" using badger_WriteEvent_post [OF assms ok run] by (simp add: badger_post_def)
next
  fix d ctx ev d' e
  assume "badger_ok K d" "badger_WriteEvent K RN mode ctx ev d = (d', Some e)"
  from badger_WriteEvent_post [OF assms this] show "badger_state K d' = badger_state K d"
    by (simp add: badger_post_def badger_state_def fun_eq_iff)
next
  fix d ctx ev d' i
  assume "badger_ok K d" "badger_WriteEvent K RN mode ctx ev d = (d', None)" "i \<noteq> event_target ev"
  then show "badger_state K d' i = badger_state K d i"
    using badger_WriteEvent_post [OF assms, of d mode ctx ev d' None]
    by (auto simp: badger_post_def badger_effect_def badger_state_def event_target_def GetTask_of_def
        split: if_splits EventType.splits EventData.splits)
next
  fix d ctx ev d'
  assume "badger_ok K d" "badger_WriteEvent K RN mode ctx ev d = (d', None)" "ev_Type ev = Type_TASK_STATE"
  then show "\<exists>from. badger_state K d (ev_Id ev) = Some from \<and> state_step from (GetState ev) \<and>
      badger_state K d' (ev_Id ev) = Some (GetState ev)"
    using badger_WriteEvent_post [OF assms, of d mode ctx ev d' None]
    by (auto simp: badger_post_def badger_effect_def badger_state_def dest!: badger_apply_state)
next
  fix d ctx ev d'
  assume "badger_ok K d" "badger_WriteEvent K RN mode ctx ev d = (d', None)"
    "ev_Type ev \<noteq> Type_TASK_STATE" "ev_Type ev \<noteq> Type_TASK_CREATED"
  then show "badger_state K d' = badger_state K d"
    using badger_WriteEvent_post [OF assms, of d mode ctx ev d' None]
    by (auto simp: badger_post_def badger_effect_def badger_state_def fun_eq_iff dest!: badger_apply_state)
next
  fix d ctx req t
  assume "badger_ok K d" "badger_GetTask K mode ctx req d = Inr t"
  then show "badger_state K d (gt_Id req) = Some (t_State t)"
    using badger_getTask_sound(1) [OF assms(1)]
    by (fastforce simp: badger_GetTask_def badger_state_def split: sum.splits)
next
  fix d and req :: GetTaskRequest and ctx
  assume "badger_ok K d" "badger_state K d (gt_Id req) = None"
  then show "\<exists>e. badger_GetTask K mode ctx req d = Inl e"
    using badger_getTask_sound(1) [OF assms(1)]
    by (cases "badger_getTask K mode d (gt_Id req) ctx") (fastforce simp: badger_GetTask_def badger_state_def)+
qed

section \<open>Lemmas: listing\<close>

text \<open>
  The store answers every read: without this a failing read of an owner key counts as an empty
  owner, and the listing depends on it.
\<close>

definition kv_readable :: "('d, 'v) kv \<Rightarrow> 'd \<Rightarrow> bool" where
  "kv_readable K d \<longleftrightarrow>
     (\<forall>k. case kv_data K d k of
            None \<Rightarrow> kv_get K d k = Inr False
          | Some v \<Rightarrow> kv_get K d k = Inr True \<and> kv_value K d k = Inr v)"

definition owner_or_empty :: "('d, 'v) kv \<Rightarrow> 'd \<Rightarrow> string \<Rightarrow> string" where
  "owner_or_empty K d i = (case badger_owner K d i of None \<Rightarrow> '''' | Some u \<Rightarrow> u)"

text \<open>The tasks a request may see, newest (largest identifier) first.\<close>

definition badger_visible ::
    "('d, 'v) kv \<Rightarrow> string \<Rightarrow> go_ctx \<Rightarrow> ListTasksRequest \<Rightarrow> 'd \<Rightarrow> string \<Rightarrow> bool" where
  "badger_visible K mode ctx req d i \<longleftrightarrow>
     (\<exists>t. badger_task K d i = Some t \<and> IsAccessible mode (GetUser ctx) (owner_or_empty K d i) \<and> req_matches req t)"

definition badger_ids :: "('d, 'v) kv \<Rightarrow> 'd \<Rightarrow> string list" where
  "badger_ids K d = rev (sorted_list_of_set (dom (badger_task K d)))"

definition visible_ids :: "('d, 'v) kv \<Rightarrow> string \<Rightarrow> go_ctx \<Rightarrow> ListTasksRequest \<Rightarrow> 'd \<Rightarrow> string list" where
  "visible_ids K mode ctx req d = filter (badger_visible K mode ctx req d) (badger_ids K d)"

definition viewed :: "('d, 'v) kv \<Rightarrow> ListTasksRequest \<Rightarrow> 'd \<Rightarrow> string \<Rightarrow> Task" where
  "viewed K req d i = apply_view (lt_View req) (the (badger_task K d i))"

lemma getTaskOwner_eq: "kv_readable K d \<Longrightarrow> getTaskOwner K d (ownerKey i) = owner_or_empty K d i"
  unfolding kv_readable_def getTaskOwner_def owner_or_empty_def badger_owner_def
  by (drule spec [of _ "ownerKey i"]) (auto split: option.splits)

lemma load_task_eq:
  assumes "kv_readable K d" "badger_task K d i = Some t"
  shows "load_task K d (taskKey i) = Inr t"
  using assms unfolding kv_readable_def badger_task_def load_task_def
  by (auto simp: wrap_err_def split: option.splits sum.splits dest!: spec [of _ "taskKey i"])

lemma list_loop_eq:
  assumes "kv_readable K d" "set ks \<subseteq> dom (badger_task K d)" "length acc \<le> n"
  shows "list_loop K mode d ctx req n (map taskKey ks @ map ownerKey os) acc =
     Inr (take n (acc @ map (viewed K req d) (filter (badger_visible K mode ctx req d) ks)))"
  using assms(2,3)
proof (induction ks arbitrary: acc)
  case Nil
  then show ?case by (cases os) auto
next
  case (Cons i ks)
  then obtain t where t: "badger_task K d i = Some t" by auto
  note reads = load_task_eq [OF assms(1) t] getTaskOwner_eq [OF assms(1)]
  show ?case
  proof (cases "length acc < n")
    case True
    then have "take (n - length acc) (x # xs) = x # take (n - Suc (length acc)) xs" for x and xs :: "Task list"
      by (cases "n - length acc") (auto simp: Suc_diff_Suc [symmetric])
    with True Cons t reads show ?thesis
      by (auto simp: badger_isAccessible_def badger_visible_def viewed_def)
  next
    case False
    with Cons.prems show ?thesis by simp
  qed
qed

lemma sorted_split:
  fixes xs :: "'a::linorder list"
  assumes "sorted_wrt (<) xs" "\<forall>x\<in>set xs. \<forall>y\<in>set xs. \<not> P x \<longrightarrow> P y \<longrightarrow> x < y"
  shows "xs = filter (\<lambda>x. \<not> P x) xs @ filter P xs"
  using assms
proof (induction xs)
  case (Cons x xs)
  show ?case
  proof (cases "P x")
    case True
    with Cons.prems have "\<forall>y\<in>set xs. P y" by (auto dest: order.asym)
    with True show ?thesis by (simp add: filter_empty_conv)
  next
    case False
    with Cons show ?thesis by simp
  qed
qed simp

lemma badger_dom:
  "badger_ok K d \<Longrightarrow> i \<in> dom (badger_task K d) \<longleftrightarrow> taskKey i \<in> dom (kv_data K d)"
  unfolding badger_ok_def badger_task_def by (fastforce split: option.splits sum.splits)

lemma sorted_map_taskKey: "sorted_wrt (<) (map taskKey ts) \<longleftrightarrow> sorted_wrt (<) ts"
  by (simp add: sorted_wrt_map)

lemma badger_keys_shape:
  assumes "kv_laws K" "badger_ok K d"
  obtains os where "rev (kv_keys K d) = map taskKey (badger_ids K d) @ map ownerKey os"
proof -
  let ?P = "\<lambda>k. \<exists>i. k = taskKey i" and ?ks = "kv_keys K d"
  note sorted = kv_lawsD(6) [OF assms(1), of d] and keys = kv_lawsD(7) [OF assms(1), of d]
  have kinds: "\<not> ?P k \<Longrightarrow> k \<in> set ?ks \<Longrightarrow> \<exists>i. k = ownerKey i" for k
    using assms(2) keys unfolding badger_ok_def by blast
  obtain ts where ts: "filter ?P ?ks = map taskKey ts"
    using ex_map_conv [of "filter ?P ?ks" taskKey] by auto
  obtain os where os: "filter (\<lambda>k. \<not> ?P k) ?ks = map ownerKey os"
    using ex_map_conv [of "filter (\<lambda>k. \<not> ?P k) ?ks" ownerKey] kinds by auto
  have "?ks = map ownerKey os @ map taskKey ts"
    unfolding ts [symmetric] os [symmetric]
    using kinds ownerKey_less_taskKey by (intro sorted_split [OF sorted]) blast
  moreover have "ts = sorted_list_of_set (dom (badger_task K d))"
  proof (rule sorted_list_of_set.idem_if_sorted_distinct [symmetric, THEN trans])
    have "sorted_wrt (<) ts"
      using sorted_wrt_filter [OF sorted, of ?P] by (simp add: ts sorted_map_taskKey)
    then show "sorted ts" "distinct ts" by (auto simp: strict_sorted_iff)
    have "taskKey i \<in> taskKey ` set ts \<longleftrightarrow> taskKey i \<in> dom (kv_data K d)" for i
      using arg_cong [OF ts, of set] keys by auto
    then have "i \<in> set ts \<longleftrightarrow> i \<in> dom (badger_task K d)" for i
      unfolding badger_dom [OF assms(2)] by (metis badger_keys(1) image_iff)
    then have "set ts = dom (badger_task K d)" by blast
    then show "sorted_list_of_set (set ts) = sorted_list_of_set (dom (badger_task K d))" by simp
  qed
  ultimately have "rev ?ks = map taskKey (badger_ids K d) @ map ownerKey (rev os)"
    by (simp add: badger_ids_def rev_map)
  then show thesis by (rule that)
qed

lemma badger_ids_sorted:
  assumes "kv_laws K" "badger_ok K d"
  shows "sorted_wrt (>) (badger_ids K d)" "set (badger_ids K d) = dom (badger_task K d)"
proof -
  have "finite (dom (kv_data K d))" using kv_lawsD(7) [OF assms(1), of d] by (metis List.finite_set)
  moreover have "dom (badger_task K d) = taskKey -` dom (kv_data K d)"
    using badger_dom [OF assms(2)] by blast
  ultimately have "finite (dom (badger_task K d))" by (simp add: finite_vimageI inj_on_def)
  then show "set (badger_ids K d) = dom (badger_task K d)" by (simp add: badger_ids_def)
  show "sorted_wrt (>) (badger_ids K d)" by (simp add: badger_ids_def sorted_wrt_rev)
qed

text \<open>The keys a page starts with.\<close>

definition page_ids :: "('d, 'v) kv \<Rightarrow> 'd \<Rightarrow> string \<Rightarrow> string list" where
  "page_ids K d token = (if token = '''' then badger_ids K d else filter (\<lambda>i. i < token) (badger_ids K d))"

lemma desc_after:
  fixes xs :: "'a::linorder list"
  assumes "sorted_wrt (>) xs" "x \<in> set xs" "\<And>i j. f i < f j \<longleftrightarrow> i < j"
  shows "tl (dropWhile (\<lambda>k. f x < k) (map f xs @ ys)) = map f (filter (\<lambda>i. i < x) xs) @ ys"
  using assms(1,2)
proof (induction xs)
  case (Cons a xs)
  show ?case
  proof (cases "a = x")
    case True
    with Cons.prems have "filter (\<lambda>i. i < x) xs = xs" by (auto intro: filter_True)
    with True assms(3) show ?thesis by simp
  next
    case False
    with Cons.prems have "x < a" "x \<in> set xs" by auto
    with Cons False assms(3) show ?thesis by auto
  qed
qed simp

lemma page_keys_eq:
  assumes "kv_laws K" "badger_ok K d" "token = '''' \<or> token \<in> dom (badger_task K d)"
  obtains os where "page_keys K d token = map taskKey (page_ids K d token) @ map ownerKey os"
proof -
  obtain os where "rev (kv_keys K d) = map taskKey (badger_ids K d) @ map ownerKey os"
    by (rule badger_keys_shape [OF assms(1,2)])
  then have "page_keys K d token = map taskKey (page_ids K d token) @ map ownerKey os"
    using assms(3) desc_after [OF badger_ids_sorted(1) [OF assms(1,2)], of token taskKey "map ownerKey os"]
      badger_ids_sorted(2) [OF assms(1,2)]
    by (auto simp: page_keys_def page_ids_def)
  then show thesis by (rule that)
qed

lemma GetPageSize_pos: "0 < nat (GetPageSize n)"
  using GetPageSize_bounds [of n] by simp

lemma badger_ListTasks_eq:
  assumes "kv_laws K" "badger_ok K d" "kv_readable K d"
    "lt_PageToken req = '''' \<or> lt_PageToken req \<in> dom (badger_task K d)"
  shows "badger_ListTasks K mode ctx req d =
     (let n = nat (GetPageSize (lt_PageSize req));
          ids = filter (badger_visible K mode ctx req d) (page_ids K d (lt_PageToken req))
      in Inr \<lparr>ltr_NextPageToken = (if n \<le> length ids then ids ! (n - 1) else ''''),
              ltr_Tasks = map (viewed K req d) (take n ids)\<rparr>)"
proof -
  define n where "n = nat (GetPageSize (lt_PageSize req))"
  define ids where "ids = filter (badger_visible K mode ctx req d) (page_ids K d (lt_PageToken req))"
  obtain os where keys: "page_keys K d (lt_PageToken req) = map taskKey (page_ids K d (lt_PageToken req)) @ map ownerKey os"
    by (rule page_keys_eq [OF assms(1,2,4)])
  have sub: "set (page_ids K d (lt_PageToken req)) \<subseteq> dom (badger_task K d)"
    using badger_ids_sorted(2) [OF assms(1,2)] by (auto simp: page_ids_def)
  have loop: "list_loop K mode d ctx req n (page_keys K d (lt_PageToken req)) [] =
      Inr (map (viewed K req d) (take n ids))"
    using list_loop_eq [OF assms(3) sub, of "[]" n mode ctx req os] by (simp add: keys ids_def take_map)
  have n: "0 < n" unfolding n_def by (rule GetPageSize_pos)
  have "t_Id (last (map (viewed K req d) (take n ids))) = ids ! (n - 1)" if "n \<le> length ids"
  proof -
    have ne: "take n ids \<noteq> []" using that n by auto
    then have "last (take n ids) = ids ! (n - 1)"
      using that n by (subst last_conv_nth) (simp_all add: min_def)
    note this ne
    moreover have "ids ! (n - 1) \<in> dom (badger_task K d)"
    proof -
      have "ids ! (n - 1) \<in> set ids" using that n by (intro nth_mem) simp
      moreover have "set ids \<subseteq> set (page_ids K d (lt_PageToken req))" by (auto simp: ids_def)
      ultimately show ?thesis using sub by blast
    qed
    ultimately show ?thesis
      by (auto simp: last_map viewed_def dest: badger_task_Id [OF assms(2)])
  qed
  moreover have "length (take n ids) = n \<longleftrightarrow> n \<le> length ids" by auto
  ultimately show ?thesis
    by (simp add: badger_ListTasks_def Let_def loop n_def [symmetric] ids_def [symmetric])
qed

text \<open>What a listing shows is stored and matches the request, whether or not the store can be read throughout.\<close>

lemma list_loop_sound:
  assumes "kv_laws K" "badger_ok K d"
  shows "list_loop K mode d ctx req n ks acc = Inr ts \<Longrightarrow> t \<in> set ts \<Longrightarrow>
     t \<in> set acc \<or> (\<exists>t0. taskKey (t_Id t) \<in> set ks \<and> badger_task K d (t_Id t) = Some t0 \<and> t_State t = t_State t0 \<and> req_matches req t0)"
proof (induction ks arbitrary: acc)
  case (Cons key ks)
  show ?case
  proof (cases "length acc < n \<and> HasPrefix key taskKeyPrefix \<and>
      badger_isAccessible mode ctx (getTaskOwner K d (ownerKeyFromTaskKey key))")
    case False
    with Cons show ?thesis by (auto split: if_splits)
  next
    case True
    then obtain i where key: "key = taskKey i" by (auto simp: HasPrefix_iff_prefix prefix_def taskKey_def)
    from True Cons.prems(1) obtain t0 where t0: "load_task K d key = Inr t0" by (auto split: sum.splits)
    have stored: "badger_task K d i = Some t0" "t_Id t0 = i"
      using load_task_sound [OF assms(1)] t0 key badger_task_Id [OF assms(2)] by auto
    let ?acc = "if req_matches req t0 then acc @ [apply_view (lt_View req) t0] else acc"
    from True Cons.prems(1) t0 have "list_loop K mode d ctx req n ks ?acc = Inr ts" by (auto split: if_splits)
    from Cons.IH [OF this Cons.prems(2)] stored key show ?thesis by (auto split: if_splits)
  qed
qed simp

lemma badger_task_listing:
  assumes "kv_laws K" "backoff_law RN"
  shows "task_listing (badger_WriteEvent K RN mode) (badger_state K) (badger_ok K) (badger_GetTask K mode) (badger_ListTasks K mode)"
proof (intro task_listing.intro badger_task_db [OF assms] task_listing_axioms.intro)
  fix d
  assume ok: "badger_ok K d"
  have dom: "dom (badger_state K d) = dom (badger_task K d)" by (auto simp: badger_state_def)
  show "finite (dom (badger_state K d))" using badger_ids_sorted(2) [OF assms(1) ok] unfolding dom by (metis List.finite_set)
  fix ctx req r
  assume list: "badger_ListTasks K mode ctx req d = Inr r"
  define n where "n = nat (GetPageSize (lt_PageSize req))"
  from list have loop: "list_loop K mode d ctx req n (page_keys K d (lt_PageToken req)) [] = Inr (ltr_Tasks r)"
    and tok: "ltr_NextPageToken r = (if length (ltr_Tasks r) = n then t_Id (last (ltr_Tasks r)) else '''')"
    by (auto simp: badger_ListTasks_def Let_def n_def split: sum.splits)
  note shown = list_loop_sound [OF assms(1) ok loop]
  show "badger_state K d (t_Id t) = Some (lt_State req)" if "lt_State req \<noteq> Unknown" "t \<in> set (ltr_Tasks r)" for t
    using shown [OF that(2)] that(1) by (auto simp: badger_state_def req_matches_def)
  assume "ltr_NextPageToken r \<noteq> ''''" and start: "lt_PageToken req = '''' \<or> lt_PageToken req \<in> dom (badger_state K d)"
  with tok have len: "length (ltr_Tasks r) = n" and next_id: "ltr_NextPageToken r = t_Id (last (ltr_Tasks r))"
    by (auto split: if_splits)
  have "ltr_Tasks r \<noteq> []" using len GetPageSize_pos [of "lt_PageSize req"] by (auto simp: n_def)
  from shown [OF last_in_set [OF this]] have
    last: "taskKey (ltr_NextPageToken r) \<in> set (page_keys K d (lt_PageToken req))" "ltr_NextPageToken r \<in> dom (badger_task K d)"
    by (auto simp: next_id)
  obtain os where "page_keys K d (lt_PageToken req) = map taskKey (page_ids K d (lt_PageToken req)) @ map ownerKey os"
    using start dom by (metis page_keys_eq [OF assms(1) ok])
  with last(1) have "ltr_NextPageToken r \<in> set (page_ids K d (lt_PageToken req))" by auto
  with last(2) show "ltr_NextPageToken r \<in> dom (badger_state K d) \<and>
      (lt_PageToken req \<noteq> '''' \<longrightarrow> ltr_NextPageToken r < lt_PageToken req)"
    unfolding dom by (auto simp: page_ids_def)
qed

text \<open>A client that follows the page tokens.\<close>

fun follow_pages ::
    "('d, 'v) kv \<Rightarrow> string \<Rightarrow> go_ctx \<Rightarrow> nat \<Rightarrow> ListTasksRequest \<Rightarrow> 'd \<Rightarrow> go_error + Task list" where
  "follow_pages K mode ctx 0 req d = Inr []"
| "follow_pages K mode ctx (Suc fuel) req d =
     (case badger_ListTasks K mode ctx req d of
        Inl e \<Rightarrow> Inl e
      | Inr page \<Rightarrow>
          if ltr_NextPageToken page = '''' then Inr (ltr_Tasks page)
          else (case follow_pages K mode ctx fuel (req\<lparr>lt_PageToken := ltr_NextPageToken page\<rparr>) d of
                  Inl e \<Rightarrow> Inl e
                | Inr rest \<Rightarrow> Inr (ltr_Tasks page @ rest)))"

lemma request_token_irrelevant [simp]:
  "badger_visible K mode ctx (req\<lparr>lt_PageToken := tok\<rparr>) d = badger_visible K mode ctx req d"
  "viewed K (req\<lparr>lt_PageToken := tok\<rparr>) d = viewed K req d"
  by (simp_all add: fun_eq_iff badger_visible_def viewed_def req_matches_def GetTags_def)

lemma desc_page:
  fixes xs :: "'a::linorder list"
  assumes "sorted_wrt (>) xs" "n \<le> length (filter P xs)" "0 < n"
  shows "drop n (filter P xs) = filter P (filter (\<lambda>i. i < filter P xs ! (n - 1)) xs)"
proof -
  let ?ys = "filter P xs"
  have s: "sorted_wrt (>) ?ys" by (rule sorted_wrt_filter [OF assms(1)])
  have "drop n ys = filter (\<lambda>i. i < ys ! (n - 1)) ys" if "sorted_wrt (>) ys" "n \<le> length ys" for ys :: "'a list"
  proof -
    have "ys = take (n - 1) ys @ ys ! (n - 1) # drop n ys"
      using that(2) assms(3) id_take_nth_drop [of "n - 1" ys] by simp
    moreover from this that(1) have "\<forall>i\<in>set (take (n - 1) ys). ys ! (n - 1) < i" "\<forall>i\<in>set (drop n ys). i < ys ! (n - 1)"
      by (metis (no_types, lifting) list.set_intros(1) sorted_wrt_append, metis sorted_wrt.simps(2) sorted_wrt_append)
    ultimately show ?thesis
      by (metis (no_types, lifting) append_Nil filter.simps(2) filter_False filter_True filter_append order.asym order.irrefl)
  qed
  from this [OF s assms(2)] show ?thesis by (simp add: conj_commute)
qed

lemma follow_pages_from:
  assumes laws: "kv_laws K" and ok: "badger_ok K d" "kv_readable K d" "'''' \<notin> dom (badger_task K d)"
  shows "lt_PageToken req = '''' \<or> lt_PageToken req \<in> dom (badger_task K d) \<Longrightarrow>
     length (filter (badger_visible K mode ctx req d) (page_ids K d (lt_PageToken req))) < fuel \<Longrightarrow>
     follow_pages K mode ctx fuel req d =
       Inr (map (viewed K req d) (filter (badger_visible K mode ctx req d) (page_ids K d (lt_PageToken req))))"
proof (induction fuel arbitrary: req)
  case (Suc fuel)
  define n where "n = nat (GetPageSize (lt_PageSize req))"
  define P where "P = badger_visible K mode ctx req d"
  define ids where "ids = filter P (page_ids K d (lt_PageToken req))"
  have n: "0 < n" unfolding n_def by (rule GetPageSize_pos)
  have desc: "sorted_wrt (>) (page_ids K d tok)" for tok
    using badger_ids_sorted(1) [OF laws ok(1)] by (simp add: page_ids_def sorted_wrt_filter)
  have sub: "set ids \<subseteq> dom (badger_task K d)"
    using badger_ids_sorted(2) [OF laws ok(1)] by (auto simp: ids_def page_ids_def)
  note page = badger_ListTasks_eq [OF laws ok(1,2) Suc.prems(1), of mode ctx, unfolded Let_def,
      folded n_def P_def, folded ids_def]
  show ?case
  proof (cases "n \<le> length ids")
    case False
    with page show ?thesis by (simp add: ids_def P_def)
  next
    case True
    let ?tok = "ids ! (n - 1)"
    have tok: "?tok \<in> set ids" using True n by simp
    then have dom: "?tok \<in> dom (badger_task K d)" "?tok \<noteq> ''''" using sub ok(3) by auto
    have "drop n ids = filter P (filter (\<lambda>i. i < ?tok) (page_ids K d (lt_PageToken req)))"
      unfolding ids_def by (rule desc_page [OF desc True [unfolded ids_def] n])
    also have "\<dots> = filter P (page_ids K d ?tok)"
    proof -
      have "i < ?tok \<Longrightarrow> lt_PageToken req \<noteq> '''' \<Longrightarrow> i < lt_PageToken req" for i
        using tok by (auto simp: ids_def page_ids_def)
      then show ?thesis using dom(2) by (auto simp: page_ids_def intro!: filter_cong)
    qed
    finally have rest: "filter P (page_ids K d ?tok) = drop n ids" by simp
    have "length (drop n ids) < fuel" using Suc.prems(2) n True by (simp add: ids_def P_def)
    with Suc.IH [of "req\<lparr>lt_PageToken := ?tok\<rparr>"] dom(1) rest
    have "follow_pages K mode ctx fuel (req\<lparr>lt_PageToken := ?tok\<rparr>) d = Inr (map (viewed K req d) (drop n ids))"
      by (simp add: P_def)
    with page True dom(2) have "follow_pages K mode ctx (Suc fuel) req d =
        Inr (map (viewed K req d) (take n ids @ drop n ids))"
      by (simp del: append_take_drop_id)
    then show ?thesis by (simp add: ids_def P_def)
  qed
qed simp

section \<open>An in-memory store\<close>

text \<open>
  An instance of the parameters for concrete runs: an association list of cells that never fails.
\<close>

datatype cell = Encoded Task | Bytes string

definition mem_kv :: "((string \<times> cell) list, cell) kv" where
  "mem_kv = \<lparr>
     kv_get = (\<lambda>d k. Inr (map_of d k \<noteq> None)),
     kv_value = (\<lambda>d k. case map_of d k of None \<Rightarrow> Inl (Errorf ''no value'') | Some v \<Rightarrow> Inr v),
     kv_keys = (\<lambda>d. sorted_list_of_set (fst ` set d)),
     kv_set = (\<lambda>d k v. Inr (AList.update k v d)),
     kv_commit = Inr, kv_discard = (\<lambda>d. d), kv_data = map_of,
     kv_marshal = (\<lambda>t. Inr (Encoded t)),
     kv_unmarshal = (\<lambda>v. case v of Encoded t \<Rightarrow> Inr t | Bytes _ \<Rightarrow> Inl (Errorf ''not a task'')),
     kv_of_string = Bytes,
     kv_to_string = (\<lambda>v. case v of Bytes s \<Rightarrow> s | Encoded _ \<Rightarrow> '''')\<rparr>"

lemma mem_kv_laws: "kv_laws mem_kv"
  by (auto simp: kv_laws_def mem_kv_def update_conv' dom_map_of_conv_image_fst split: option.splits)

lemma mem_kv_readable: "kv_readable mem_kv d"
  by (auto simp: kv_readable_def mem_kv_def split: option.splits)

lemma mem_kv_ok_Nil: "badger_ok mem_kv []"
  by (simp add: badger_ok_def mem_kv_def)

interpretation mem_badger: task_listing "badger_WriteEvent mem_kv untimed_backoff mode" "badger_state mem_kv"
  "badger_ok mem_kv" "badger_GetTask mem_kv mode" "badger_ListTasks mem_kv mode" for mode
  by (rule badger_task_listing [OF mem_kv_laws untimed_backoff_law])

text \<open>A task to run the examples with, and the database after creating it.\<close>

definition sample_task :: Task where
  "sample_task = empty_task\<lparr>t_Id := ''t1'', t_State := Queued\<rparr>"

definition sample_user :: go_ctx where
  "sample_user = Some \<lparr>IsPublic = False, IsAdmin = False, Username = ''ann'', Token = ''''\<rparr>"

definition sample_db :: "(string \<times> cell) list" where
  "sample_db = fst (badger_WriteEvent mem_kv untimed_backoff AccessOwner sample_user
     (NewTaskCreated ''now'' sample_task) [])"

lemma sample_db_eq: "sample_db = [(''ownerst1'', Bytes ''ann''), (''taskst1'', Encoded sample_task)]"
  by (simp add: sample_db_def badger_WriteEvent_def Retry_def untimed_backoff_def withTries_eq
      numeral_eq_Suc badger_writeEvent_def kv_Update_def badger_txn_def mem_kv_def wrap_err_def
      NewTaskCreated_def GetTask_of_def sample_task_def ownerKey_def taskKey_def ownerKeyPrefix_def
      taskKeyPrefix_def GetUsername_def sample_user_def empty_task_def)

lemma sample_db_ok: "badger_ok mem_kv sample_db"
  unfolding sample_db_def by (rule mem_badger.write_inv [OF mem_kv_ok_Nil surjective_pairing])

section \<open>Properties\<close>



text \<open>
  C4: a task belongs to the user who created it.  After a successful create by one user, another
  user reads the task exactly when the access mode lets them (their own task, or an admin, or
  everybody), gets the stored task in the requested view, and is refused otherwise; and in no case
  does the read return another task.
\<close>

theorem badger_owner_enforced:
  assumes "kv_laws K" "backoff_law RN" "badger_ok K d"
    "badger_WriteEvent K RN mode ctx (NewTaskCreated now task) d = (d', None)"
    "kv_readable K d'"
  shows "badger_GetTask K mode ctx' \<lparr>gt_Id = t_Id task, gt_View = v\<rparr> d' =
    (if IsAccessible mode (GetUser ctx') (GetUsername ctx) then Inr (apply_view v task) else Inl ErrNotPermitted)"
proof -
  have "badger_post K ctx (NewTaskCreated now task) d d' None"
    by (rule badger_WriteEvent_post [OF assms(1-4)])
  then have stored: "badger_task K d' (t_Id task) = Some task" "badger_owner K d' (t_Id task) = Some (GetUsername ctx)"
    by (auto simp: badger_post_def badger_effect_def NewTaskCreated_def GetTask_of_def)
  then have "kv_data K d' (taskKey (t_Id task)) \<noteq> None"
    by (auto simp: badger_task_def split: option.splits)
  then have "kv_get K d' (taskKey (t_Id task)) = Inr True"
    using assms(5) unfolding kv_readable_def by (auto dest: spec [of _ "taskKey (t_Id task)"])
  with stored show ?thesis
    by (simp add: badger_GetTask_def badger_getTask_def Let_def load_task_eq [OF assms(5)]
        getTaskOwner_eq [OF assms(5)] owner_or_empty_def badger_isAccessible_def)
qed

theorem badger_owner_enforced_witness:
  "badger_GetTask mem_kv AccessOwner
     (Some \<lparr>IsPublic = False, IsAdmin = False, Username = ''bob'', Token = ''''\<rparr>)
     \<lparr>gt_Id = ''t1'', gt_View = ''FULL''\<rparr> sample_db = Inl ErrNotPermitted"
proof -
  obtain r where r: "badger_WriteEvent mem_kv untimed_backoff AccessOwner sample_user
      (NewTaskCreated ''now'' sample_task) [] = (sample_db, r)"
    unfolding sample_db_def by (metis surjective_pairing)
  have "r = None"
    using r by (simp add: badger_WriteEvent_def Retry_def untimed_backoff_def withTries_eq
      numeral_eq_Suc badger_writeEvent_def kv_Update_def badger_txn_def mem_kv_def wrap_err_def
      NewTaskCreated_def GetTask_of_def)
  from badger_owner_enforced [OF mem_kv_laws untimed_backoff_law mem_kv_ok_Nil r [unfolded this] mem_kv_readable]
  have "badger_GetTask mem_kv AccessOwner ctx' \<lparr>gt_Id = t_Id sample_task, gt_View = v\<rparr> sample_db =
      (if IsAccessible AccessOwner (GetUser ctx') (GetUsername sample_user) then Inr (apply_view v sample_task)
       else Inl ErrNotPermitted)" for ctx' v .
  from this [of "Some \<lparr>IsPublic = False, IsAdmin = False, Username = ''bob'', Token = ''''\<rparr>" "''FULL''"]
  show ?thesis
    by (simp add: sample_task_def sample_user_def GetUsername_def IsAccessible_def systemUserInfo_def)
qed

text \<open>
  C5: listing is complete and exact.  A client that starts without a page token and follows the
  returned tokens gets every stored task that it may see and that matches the request, each exactly
  once, newest identifier first, in the requested view, after finitely many pages; the number of
  stored tasks plus one pages is enough.
\<close>

theorem badger_pages_complete:
  assumes "kv_laws K" "badger_ok K d" "kv_readable K d" "badger_task K d '''' = None" "lt_PageToken req = ''''"
    "card (dom (badger_task K d)) < fuel"
  shows "\<exists>ids. sorted_wrt (>) ids \<and> set ids = {i. badger_visible K mode ctx req d i} \<and>
    follow_pages K mode ctx fuel req d =
      Inr (map (\<lambda>i. apply_view (lt_View req) (the (badger_task K d i))) ids)"
proof -
  note ids = badger_ids_sorted [OF assms(1,2)]
  have len: "length (badger_ids K d) = card (dom (badger_task K d))" by (simp add: badger_ids_def)
  have "follow_pages K mode ctx fuel req d = Inr (map (viewed K req d) (visible_ids K mode ctx req d))"
    using follow_pages_from [OF assms(1-3), of req mode ctx fuel] assms(4-6) len
      length_filter_le [of "badger_visible K mode ctx req d" "badger_ids K d"]
    by (simp add: visible_ids_def page_ids_def domIff)
  moreover have "sorted_wrt (>) (visible_ids K mode ctx req d)"
    using ids(1) by (simp add: visible_ids_def sorted_wrt_filter)
  moreover have "set (visible_ids K mode ctx req d) = {i. badger_visible K mode ctx req d i}"
    using ids(2) by (auto simp: visible_ids_def badger_visible_def)
  moreover have "viewed K req d = (\<lambda>i. apply_view (lt_View req) (the (badger_task K d i)))"
    by (simp add: fun_eq_iff viewed_def)
  ultimately show ?thesis by (metis (no_types))
qed

definition sample_list_req :: ListTasksRequest where
  "sample_list_req = \<lparr>lt_NamePrefix = '''', lt_State = Unknown, lt_TagKey = [], lt_TagValue = [],
     lt_PageSize = 0, lt_PageToken = '''', lt_View = ''FULL''\<rparr>"

theorem badger_pages_complete_witness:
  "\<exists>ids. sorted_wrt (>) ids \<and>
     set ids = {i. badger_visible mem_kv AccessOwner sample_user sample_list_req sample_db i} \<and>
     follow_pages mem_kv AccessOwner sample_user 5 sample_list_req sample_db =
       Inr (map (\<lambda>i. apply_view (lt_View sample_list_req) (the (badger_task mem_kv sample_db i))) ids)"
proof -
  have tasks: "badger_task mem_kv sample_db i = (if i = ''t1'' then Some sample_task else None)" for i
    by (auto simp: badger_task_def sample_db_eq mem_kv_def taskKey_def taskKeyPrefix_def)
  then have "dom (badger_task mem_kv sample_db) = {''t1''}" by (auto split: if_splits)
  with tasks show ?thesis
    by (intro badger_pages_complete [OF mem_kv_laws sample_db_ok mem_kv_readable])
      (simp_all add: sample_list_req_def)
qed

end
