(* ===== verification/Bolt_DB.thy ===== *)
theory Bolt_DB
  imports Schedule_Loop Badger
begin

text \<open>
  The Bolt database: \<open>src/database/boltdb/events.go\<close>, \<open>tes.go\<close> and \<open>scheduler.go\<close>, the default
  database of the server and the provider of the node service.

  The store, its transactions and the codecs are the parameters in the record \<open>bolt\<close>; \<open>bolt_laws\<close>
  states what the sources rely on.  A nil context and a context without a user are both \<^const>\<open>None\<close>:
  in either case every check of the owner passes.
\<close>

section \<open>The store and the codecs\<close>

datatype bucket =
    TaskBucket | TasksQueued | TaskOwner | TaskState | TasksLog | ExecutorLogs
  | ExecutorStdout | ExecutorStderr | Nodes | SysLogs

record ('d, 'v) bolt =
  b_get :: "'d \<Rightarrow> bucket \<Rightarrow> string \<Rightarrow> 'v option"
  b_keys :: "'d \<Rightarrow> bucket \<Rightarrow> string list"
  b_put :: "'d \<Rightarrow> bucket \<Rightarrow> string \<Rightarrow> 'v \<Rightarrow> 'd \<times> go_error option"
  b_delete :: "'d \<Rightarrow> bucket \<Rightarrow> string \<Rightarrow> 'd \<times> go_error option"
  b_commit :: "'d \<Rightarrow> go_error + 'd"
  b_discard :: "'d \<Rightarrow> 'd"
  b_size :: "'v \<Rightarrow> nat"
  b_of_string :: "string \<Rightarrow> 'v"
  b_to_string :: "'v \<Rightarrow> string"
  m_Task :: "Task \<Rightarrow> go_error + 'v"
  u_Task :: "'v \<Rightarrow> go_error + Task"
  m_TaskLog :: "TaskLog \<Rightarrow> go_error + 'v"
  u_TaskLog :: "'v \<Rightarrow> go_error + TaskLog"
  m_ExecutorLog :: "ExecutorLog \<Rightarrow> go_error + 'v"
  u_ExecutorLog :: "'v \<Rightarrow> go_error + ExecutorLog"
  m_SysLogs :: "string list \<Rightarrow> go_error + 'v"
  u_SysLogs :: "'v \<Rightarrow> go_error + string list"
  m_Node :: "Node \<Rightarrow> go_error + 'v"
  u_Node :: "'v \<Rightarrow> go_error + Node"

text \<open>The limits of Bolt: keys of 1 to 32768 bytes, values below 2 GB.\<close>

definition valid_key :: "string \<Rightarrow> bool" where
  "valid_key k \<longleftrightarrow> k \<noteq> '''' \<and> length k \<le> 32768"

definition upd2 :: "(bucket \<Rightarrow> string \<Rightarrow> 'v option) \<Rightarrow> bucket \<Rightarrow> string \<Rightarrow> 'v option \<Rightarrow> bucket \<Rightarrow> string \<Rightarrow> 'v option" where
  "upd2 g bk k v = g(bk := (g bk)(k := v))"

definition bolt_laws :: "('d, 'v) bolt \<Rightarrow> bool" where
  "bolt_laws B \<longleftrightarrow>
     (\<forall>d bk k v. valid_key k \<and> b_size B v \<le> 2147483646 \<longrightarrow> snd (b_put B d bk k v) = None) \<and>
     (\<forall>d bk k v. snd (b_put B d bk k v) = None \<longrightarrow> valid_key k) \<and>
     (\<forall>d bk k v d' r. b_put B d bk k v = (d', r) \<longrightarrow>
        b_get B d' = (if r = None then upd2 (b_get B d) bk k (Some v) else b_get B d)) \<and>
     (\<forall>d bk k. b_get B (fst (b_delete B d bk k)) = upd2 (b_get B d) bk k None \<and> snd (b_delete B d bk k) = None) \<and>
     (\<forall>d d'. b_commit B d = Inr d' \<longrightarrow> b_get B d' = b_get B d) \<and>
     (\<forall>d. b_get B (b_discard B d) = b_get B d) \<and>
     (\<forall>d bk. sorted_wrt (<) (b_keys B d bk) \<and> set (b_keys B d bk) = dom (b_get B d bk)) \<and>
     (\<forall>s. b_to_string B (b_of_string B s) = s \<and> b_size B (b_of_string B s) = length s) \<and>
     (\<forall>x v. m_Task B x = Inr v \<longrightarrow> u_Task B v = Inr x) \<and>
     (\<forall>x v. m_TaskLog B x = Inr v \<longrightarrow> u_TaskLog B v = Inr x) \<and>
     (\<forall>x v. m_ExecutorLog B x = Inr v \<longrightarrow> u_ExecutorLog B v = Inr x) \<and>
     (\<forall>x v. m_SysLogs B x = Inr v \<longrightarrow> u_SysLogs B v = Inr x) \<and>
     (\<forall>x v. m_Node B x = Inr v \<longrightarrow> u_Node B v = Inr x)"

lemma bolt_lawsD:
  assumes "bolt_laws B"
  shows "valid_key k \<Longrightarrow> b_size B v \<le> 2147483646 \<Longrightarrow> snd (b_put B d bk k v) = None"
    and "snd (b_put B d bk k v) = None \<Longrightarrow> valid_key k"
    and "b_put B d bk k v = (d', r) \<Longrightarrow> b_get B d' = (if r = None then upd2 (b_get B d) bk k (Some v) else b_get B d)"
    and "b_get B (fst (b_delete B d bk k)) = upd2 (b_get B d) bk k None" and "snd (b_delete B d bk k) = None"
    and "b_commit B d = Inr d' \<Longrightarrow> b_get B d' = b_get B d"
    and "b_get B (b_discard B d) = b_get B d"
    and "sorted_wrt (<) (b_keys B d bk)" and "set (b_keys B d bk) = dom (b_get B d bk)"
    and "b_to_string B (b_of_string B s) = s" and "b_size B (b_of_string B s) = length s"
    and "m_Task B t = Inr v \<Longrightarrow> u_Task B v = Inr t"
    and "m_SysLogs B sl = Inr v \<Longrightarrow> u_SysLogs B v = Inr sl"
    and "m_Node B n = Inr v \<Longrightarrow> u_Node B v = Inr n"
  using assms unfolding bolt_laws_def by (elim conjE; metis)+

text \<open>\<open>db.Update\<close>, and \<open>Put\<close> and \<open>Delete\<close> where their error is dropped.\<close>

definition bolt_Update :: "('d, 'v) bolt \<Rightarrow> ('d \<Rightarrow> 'd \<times> go_error option) \<Rightarrow> 'd \<Rightarrow> 'd \<times> go_error option" where
  "bolt_Update B f d =
     (case f d of
        (_, Some e) \<Rightarrow> (b_discard B d, Some e)
      | (d', None) \<Rightarrow> (case b_commit B d' of Inl e \<Rightarrow> (b_discard B d, Some e) | Inr d'' \<Rightarrow> (d'', None)))"

definition put_ignore :: "('d, 'v) bolt \<Rightarrow> bucket \<Rightarrow> string \<Rightarrow> 'v \<Rightarrow> 'd \<Rightarrow> 'd" where
  "put_ignore B bk k v d = fst (b_put B d bk k v)"

definition delete_ignore :: "('d, 'v) bolt \<Rightarrow> bucket \<Rightarrow> string \<Rightarrow> 'd \<Rightarrow> 'd" where
  "delete_ignore B bk k d = fst (b_delete B d bk k)"

section \<open>Reading\<close>

definition bolt_getTaskState :: "('d, 'v) bolt \<Rightarrow> 'd \<Rightarrow> string \<Rightarrow> State" where
  "bolt_getTaskState B d i =
     (case b_get B d TaskState i of
        None \<Rightarrow> Unknown
      | Some s \<Rightarrow> (case State_value (b_to_string B s) of None \<Rightarrow> Unknown | Some st \<Rightarrow> st))"

definition checkOwner :: "('d, 'v) bolt \<Rightarrow> string \<Rightarrow> 'd \<Rightarrow> string \<Rightarrow> go_ctx \<Rightarrow> go_error option" where
  "checkOwner B mode d taskId ctx =
     (if ctx = None \<or> CanSeeAllTasks mode (GetUser ctx) then None
      else let taskOwner = (case b_get B d TaskOwner taskId of None \<Rightarrow> '''' | Some v \<Rightarrow> b_to_string B v)
           in if IsAccessible mode (GetUser ctx) taskOwner then None else Some ErrNotPermitted)"

text \<open>
  The loaders fill a task that starts as the zero task and return an error; the model returns both,
  since some callers use the task and drop the error.  The error of \<open>proto.Unmarshal\<close> is dropped too,
  and the task is then what the decoder left, here the zero task.
\<close>

definition loadTask :: "('d, 'v) bolt \<Rightarrow> string \<Rightarrow> 'd \<Rightarrow> string \<Rightarrow> go_ctx \<Rightarrow> Task \<times> go_error option" where
  "loadTask B mode d i ctx =
     (case b_get B d TaskBucket i of
        None \<Rightarrow> (empty_task, Some ErrNotFound)
      | Some b \<Rightarrow>
          (case checkOwner B mode d i ctx of
             Some err \<Rightarrow> (empty_task, Some err)
           | None \<Rightarrow>
               ((case u_Task B b of Inl _ \<Rightarrow> empty_task | Inr t \<Rightarrow> t)\<lparr>t_State := bolt_getTaskState B d i\<rparr>, None)))"

definition loadMinimalTaskView :: "('d, 'v) bolt \<Rightarrow> string \<Rightarrow> 'd \<Rightarrow> string \<Rightarrow> go_ctx \<Rightarrow> Task \<times> go_error option" where
  "loadMinimalTaskView B mode d i ctx =
     (case loadTask B mode d i ctx of
        (_, Some err) \<Rightarrow> (empty_task, Some err)
      | (_, None) \<Rightarrow> (empty_task\<lparr>t_Id := i, t_State := bolt_getTaskState B d i\<rparr>, None))"

definition executor_key :: "string \<Rightarrow> nat \<Rightarrow> string" where
  "executor_key i index = i @ show_nat index"

definition loadTaskLogs :: "('d, 'v) bolt \<Rightarrow> 'd \<Rightarrow> Task \<Rightarrow> Task" where
  "loadTaskLogs B d task =
     (let tasklog = (case b_get B d TasksLog (t_Id task) of
                       None \<Rightarrow> empty_tasklog
                     | Some b \<Rightarrow> (case u_TaskLog B b of Inl _ \<Rightarrow> empty_tasklog | Inr l \<Rightarrow> l));
          execs = concat (map (\<lambda>i. case b_get B d ExecutorLogs (executor_key (t_Id task) i) of
                                     None \<Rightarrow> []
                                   | Some b \<Rightarrow> [case u_ExecutorLog B b of Inl _ \<Rightarrow> empty_executorlog | Inr l \<Rightarrow> l])
                          [0..<length (t_Executors task)])
      in task\<lparr>t_Logs := [tasklog\<lparr>tl_Logs := tl_Logs tasklog @ execs\<rparr>]\<rparr>)"

definition loadBasicTaskView :: "('d, 'v) bolt \<Rightarrow> string \<Rightarrow> 'd \<Rightarrow> string \<Rightarrow> go_ctx \<Rightarrow> Task \<times> go_error option" where
  "loadBasicTaskView B mode d i ctx =
     (case loadTask B mode d i ctx of
        (task, Some err) \<Rightarrow> (task, Some err)
      | (task, None) \<Rightarrow>
          (let task = loadTaskLogs B d task
           in (task\<lparr>t_Inputs := map (\<lambda>v. v\<lparr>in_Content := ''''\<rparr>) (t_Inputs task)\<rparr>, None)))"

definition load_streams :: "('d, 'v) bolt \<Rightarrow> 'd \<Rightarrow> string \<Rightarrow> nat \<Rightarrow> ExecutorLog \<Rightarrow> ExecutorLog" where
  "load_streams B d i j el =
     (let el = (case b_get B d ExecutorStdout (executor_key i j) of None \<Rightarrow> el | Some b \<Rightarrow> el\<lparr>el_Stdout := b_to_string B b\<rparr>)
      in case b_get B d ExecutorStderr (executor_key i j) of None \<Rightarrow> el | Some b \<Rightarrow> el\<lparr>el_Stderr := b_to_string B b\<rparr>)"

definition loadFullTaskView :: "('d, 'v) bolt \<Rightarrow> string \<Rightarrow> 'd \<Rightarrow> string \<Rightarrow> go_ctx \<Rightarrow> Task \<times> go_error option" where
  "loadFullTaskView B mode d i ctx =
     (case loadTask B mode d i ctx of
        (task, Some err) \<Rightarrow> (task, Some err)
      | (task0, None) \<Rightarrow>
          (let task1 = loadTaskLogs B d task0;
               task = task1\<lparr>t_Logs := map (\<lambda>l. l\<lparr>tl_Logs := map (\<lambda>(j, el). load_streams B d i j el)
                                                        (enumerate 0 (tl_Logs l))\<rparr>) (t_Logs task1)\<rparr>
           in case b_get B d SysLogs i of
                None \<Rightarrow> (task, None)
              | Some slb \<Rightarrow>
                  (case u_SysLogs B slb of
                     Inl err \<Rightarrow> (task, Some err)
                   | Inr syslogs \<Rightarrow>
                       (task\<lparr>t_Logs := (t_Logs task)[0 := (t_Logs task ! 0)\<lparr>tl_SystemLogs := syslogs\<rparr>]\<rparr>, None))))"

fun getTaskView :: "('d, 'v) bolt \<Rightarrow> string \<Rightarrow> 'd \<Rightarrow> string \<Rightarrow> View \<Rightarrow> go_ctx \<Rightarrow> Task \<times> go_error option" where
  "getTaskView B mode d i Minimal ctx = loadMinimalTaskView B mode d i ctx"
| "getTaskView B mode d i Basic ctx = loadBasicTaskView B mode d i ctx"
| "getTaskView B mode d i Full ctx = loadFullTaskView B mode d i ctx"

definition bolt_GetTask :: "('d, 'v) bolt \<Rightarrow> string \<Rightarrow> go_ctx \<Rightarrow> GetTaskRequest \<Rightarrow> 'd \<Rightarrow> go_error + Task" where
  "bolt_GetTask B mode ctx req d =
     (let v = (if gt_View req = '''' then View_String Minimal else gt_View req)
      in case View_value v of
           None \<Rightarrow> Inl (Errorf (''Unknown view: '' @ v))
         | Some view \<Rightarrow>
             (case getTaskView B mode d (gt_Id req) view ctx of
                (_, Some err) \<Rightarrow> Inl err
              | (task, None) \<Rightarrow> Inr task))"

definition bolt_tags_match :: "string gomap \<Rightarrow> Task \<Rightarrow> bool" where
  "bolt_tags_match tags task =
     list_all (\<lambda>(k, v). case gomap_get (t_Tags task) k of None \<Rightarrow> False | Some tval \<Rightarrow> tval = v \<or> v = '''') tags"

fun bolt_list_loop ::
    "('d, 'v) bolt \<Rightarrow> string \<Rightarrow> 'd \<Rightarrow> go_ctx \<Rightarrow> ListTasksRequest \<Rightarrow> View \<Rightarrow> nat \<Rightarrow> string list \<Rightarrow> Task list \<Rightarrow> Task list" where
  "bolt_list_loop B mode d ctx req viewMode pageSize [] tasks = tasks"
| "bolt_list_loop B mode d ctx req viewMode pageSize (k # ks) tasks =
     (if \<not> length tasks < pageSize then tasks
      else case getTaskView B mode d k Basic ctx of
        (_, Some _) \<Rightarrow> bolt_list_loop B mode d ctx req viewMode pageSize ks tasks
      | (task, None) \<Rightarrow>
          if lt_State req \<noteq> Unknown \<and> lt_State req \<noteq> t_State task
          then bolt_list_loop B mode d ctx req viewMode pageSize ks tasks
          else if \<not> HasPrefix (t_Name task) (lt_NamePrefix req)
          then bolt_list_loop B mode d ctx req viewMode pageSize ks tasks
          else if \<not> bolt_tags_match (case GetTags req of None \<Rightarrow> [] | Some m \<Rightarrow> m) task
          then bolt_list_loop B mode d ctx req viewMode pageSize ks tasks
          else bolt_list_loop B mode d ctx req viewMode pageSize ks
                 (tasks @ [if viewMode \<noteq> Basic then fst (getTaskView B mode d k viewMode ctx) else task]))"

text \<open>
  \<open>c.Seek\<close> moves to the first key that is not below the token and \<open>c.Prev\<close> to the one before it; so a
  page starts with the largest key below the token.
\<close>

definition bolt_page_keys :: "('d, 'v) bolt \<Rightarrow> 'd \<Rightarrow> string \<Rightarrow> string list" where
  "bolt_page_keys B d token =
     (if token \<noteq> '''' then rev (takeWhile (\<lambda>k. k < token) (b_keys B d TaskBucket))
      else rev (b_keys B d TaskBucket))"

definition bolt_ListTasks ::
    "('d, 'v) bolt \<Rightarrow> string \<Rightarrow> go_ctx \<Rightarrow> ListTasksRequest \<Rightarrow> 'd \<Rightarrow> ListTasksResponse" where
  "bolt_ListTasks B mode ctx req d =
     (let view = (if lt_View req = View_String Minimal \<and> GetTags req \<noteq> None then View_String Basic else lt_View req);
          viewMode = (case View_value view of None \<Rightarrow> Minimal | Some v \<Rightarrow> v);
          pageSize = nat (GetPageSize (lt_PageSize req));
          tasks = bolt_list_loop B mode d ctx req viewMode pageSize (bolt_page_keys B d (lt_PageToken req)) []
      in \<lparr>ltr_NextPageToken = (if length tasks = pageSize then t_Id (last tasks) else ''''), ltr_Tasks = tasks\<rparr>)"

section \<open>Writing\<close>

definition transitionTaskState :: "('d, 'v) bolt \<Rightarrow> string \<Rightarrow> State \<Rightarrow> 'd \<Rightarrow> 'd \<times> go_error option" where
  "transitionTaskState B i target d =
     (let current = bolt_getTaskState B d i;
          unexpected = Errorf (''Unexpected transition from '' @ State_String current @ '' to '' @ State_String target);
          store = (\<lambda>d. put_ignore B TaskState i (b_of_string B (State_String target)) d)
      in if target = current then (d, None)
         else if TerminalState target \<and> TerminalState current
         then (d, Some (Errorf (''Won't switch between two terminal states: '' @ State_String current @ '' -> '' @ State_String target)))
         else if TerminalState current \<and> \<not> TerminalState target then (d, Some unexpected)
         else if target = Queued then (d, Some (Errorf ''Can't transition to Queued state''))
         else if target = Unknown \<or> target = Paused
         then (d, Some (Errorf (''Unimplemented task state '' @ State_String target)))
         else if target = Canceled \<or> target = Complete \<or> target = ExecutorError \<or> target = SystemError
         then (store (delete_ignore B TasksQueued i d), None)
         else if target = Running \<or> target = Initializing
         then (if current \<noteq> Unknown \<and> current \<noteq> Queued \<and> current \<noteq> Initializing then (d, Some unexpected)
               else (store (delete_ignore B TasksQueued i d), None))
         else (d, Some (Errorf (''Unknown target state: '' @ State_String target))))"

text \<open>A nil slice and an empty one are the same here, so an empty list of outputs leaves the old one.\<close>

definition merge_tasklog :: "TaskLog \<Rightarrow> TaskLog \<Rightarrow> TaskLog" where
  "merge_tasklog l tasklog =
     (let tasklog = (if tl_StartTime l \<noteq> '''' then tasklog\<lparr>tl_StartTime := tl_StartTime l\<rparr> else tasklog);
          tasklog = (if tl_EndTime l \<noteq> '''' then tasklog\<lparr>tl_EndTime := tl_EndTime l\<rparr> else tasklog);
          tasklog = (if tl_Outputs l \<noteq> [] then tasklog\<lparr>tl_Outputs := tl_Outputs l\<rparr> else tasklog)
      in tasklog\<lparr>tl_Metadata := gomap_copy_into (tl_Metadata tasklog) (tl_Metadata l)\<rparr>)"

definition updateTaskLogs :: "('d, 'v) bolt \<Rightarrow> string \<Rightarrow> TaskLog \<Rightarrow> 'd \<Rightarrow> 'd \<times> go_error option" where
  "updateTaskLogs B i l d =
     (case (case b_get B d TasksLog i of None \<Rightarrow> Inr empty_tasklog | Some b \<Rightarrow> u_TaskLog B b) of
        Inl err \<Rightarrow> (d, Some err)
      | Inr tasklog \<Rightarrow>
          (case m_TaskLog B (merge_tasklog l tasklog) of
             Inl err \<Rightarrow> (d, Some err)
           | Inr v \<Rightarrow> b_put B d TasksLog i v))"

text \<open>\<open>proto.Merge\<close> on executor logs: fields that are set in the second override.\<close>

definition merge_executorlog :: "ExecutorLog \<Rightarrow> ExecutorLog \<Rightarrow> ExecutorLog" where
  "merge_executorlog existing el =
     \<lparr>el_EndTime = (if el_EndTime el \<noteq> '''' then el_EndTime el else el_EndTime existing),
      el_ExitCode = (if el_ExitCode el \<noteq> 0 then el_ExitCode el else el_ExitCode existing),
      el_StartTime = (if el_StartTime el \<noteq> '''' then el_StartTime el else el_StartTime existing),
      el_Stderr = (if el_Stderr el \<noteq> '''' then el_Stderr el else el_Stderr existing),
      el_Stdout = (if el_Stdout el \<noteq> '''' then el_Stdout el else el_Stdout existing)\<rparr>"

definition updateExecutorLogs :: "('d, 'v) bolt \<Rightarrow> string \<Rightarrow> ExecutorLog \<Rightarrow> 'd \<Rightarrow> 'd \<times> go_error option" where
  "updateExecutorLogs B k el d =
     (case (case b_get B d ExecutorLogs k of
              None \<Rightarrow> Inr el
            | Some b \<Rightarrow>
                (case u_ExecutorLog B b of
                   Inl err \<Rightarrow> Inl err
                 | Inr existing \<Rightarrow> Inr (merge_executorlog existing (el\<lparr>el_Stdout := '''', el_Stderr := ''''\<rparr>)))) of
        Inl err \<Rightarrow> (d, Some err)
      | Inr el' \<Rightarrow>
          (case m_ExecutorLog B el' of
             Inl err \<Rightarrow> (d, Some err)
           | Inr v \<Rightarrow> b_put B d ExecutorLogs k v))"

definition updateExecutorStdout :: "('d, 'v) bolt \<Rightarrow> string \<Rightarrow> string \<Rightarrow> 'd \<Rightarrow> 'd \<times> go_error option" where
  "updateExecutorStdout B k stdout d = b_put B d ExecutorStdout k (b_of_string B stdout)"

definition updateExecutorStderr :: "('d, 'v) bolt \<Rightarrow> string \<Rightarrow> string \<Rightarrow> 'd \<Rightarrow> 'd \<times> go_error option" where
  "updateExecutorStderr B k stderr d = b_put B d ExecutorStderr k (b_of_string B stderr)"

text \<open>A system log is read in one transaction and written back in another.\<close>

definition syslog_read :: "('d, 'v) bolt \<Rightarrow> string \<Rightarrow> 'd \<Rightarrow> go_error + string list" where
  "syslog_read B i d = (case b_get B d SysLogs i of None \<Rightarrow> Inr [] | Some b \<Rightarrow> u_SysLogs B b)"

definition syslog_write :: "('d, 'v) bolt \<Rightarrow> string \<Rightarrow> string list \<Rightarrow> 'd \<Rightarrow> 'd \<times> go_error option" where
  "syslog_write B i syslogs d =
     (case m_SysLogs B syslogs of
        Inl err \<Rightarrow> (d, Some err)
      | Inr logbytes \<Rightarrow> bolt_Update B (\<lambda>d. (put_ignore B SysLogs i logbytes d, None)) d)"

definition update_resources ::
    "('d, 'v) bolt \<Rightarrow> string \<Rightarrow> go_ctx \<Rightarrow> string \<Rightarrow> EvResources \<Rightarrow> 'd \<Rightarrow> 'd \<times> go_error option" where
  "update_resources B mode ctx i r d =
     (case checkOwner B mode d i ctx of
        Some err \<Rightarrow> (d, Some err)
      | None \<Rightarrow>
          (case loadTask B mode d i ctx of
             (_, Some err) \<Rightarrow> (d, Some err)
           | (task, None) \<Rightarrow>
               (let res = (GetResources_or_zero (t_Resources task))\<lparr>res_CpuCores := er_CpuCores r,
                       res_RamGb := er_RamGb r, res_DiskGb := er_DiskGb r, res_Preemptible := er_Preemptible r,
                       res_BackendParameters := er_BackendParameters r, res_Zones := er_Zones r\<rparr>
                in case m_Task B (task\<lparr>t_Resources := Some res\<rparr>) of
                     Inl merr \<Rightarrow> (d, Some merr)
                   | Inr taskBytes \<Rightarrow> (put_ignore B TaskBucket i taskBytes d, None))))"

definition bolt_create :: "('d, 'v) bolt \<Rightarrow> go_ctx \<Rightarrow> Task \<Rightarrow> 'd \<Rightarrow> 'd \<times> go_error option" where
  "bolt_create B ctx task d =
     (case m_Task B task of
        Inl err \<Rightarrow> (d, Some err)
      | Inr taskString \<Rightarrow>
          (case bolt_Update B (\<lambda>d.
                  (put_ignore B TasksQueued (t_Id task) (b_of_string B '''')
                    (put_ignore B TaskOwner (t_Id task) (b_of_string B (GetUsername ctx))
                      (put_ignore B TaskState (t_Id task) (b_of_string B (State_String Queued))
                        (put_ignore B TaskBucket (t_Id task) taskString d))), None)) d of
             (d', Some err) \<Rightarrow> (d', Some (Errorf (''error storing and queueing task: '' @ error_string err)))
           | (d', None) \<Rightarrow> (d', None)))"

definition bolt_WriteEvent :: "('d, 'v) bolt \<Rightarrow> string \<Rightarrow> 'd writer" where
  "bolt_WriteEvent B mode ctx req d =
     (if ev_Type req = Type_TASK_CREATED then
        (case GetTask_of req of Inl e \<Rightarrow> (d, Some e) | Inr task \<Rightarrow> bolt_create B ctx task d)
      else case getTaskView B mode d (ev_Id req) Minimal None of
        (_, Some err) \<Rightarrow> (d, Some err)
      | (_, None) \<Rightarrow>
          (let i = ev_Id req; key = executor_key i (ev_index req)
           in case ev_Type req of
                Type_TASK_STATE \<Rightarrow>
                  bolt_Update B (\<lambda>d. case checkOwner B mode d i ctx of
                      Some err \<Rightarrow> (d, Some err)
                    | None \<Rightarrow> transitionTaskState B i (GetState req) d) d
              | Type_TASK_START_TIME \<Rightarrow>
                  bolt_Update B (updateTaskLogs B i (empty_tasklog\<lparr>tl_StartTime := GetStartTime req\<rparr>)) d
              | Type_TASK_END_TIME \<Rightarrow>
                  bolt_Update B (updateTaskLogs B i (empty_tasklog\<lparr>tl_EndTime := GetEndTime req\<rparr>)) d
              | Type_TASK_OUTPUTS \<Rightarrow>
                  (case GetOutputs_Value req of
                     Inl e \<Rightarrow> (d, Some e)
                   | Inr v \<Rightarrow> bolt_Update B (updateTaskLogs B i (empty_tasklog\<lparr>tl_Outputs := v\<rparr>)) d)
              | Type_TASK_METADATA \<Rightarrow>
                  (case GetMetadata_Value req of
                     Inl e \<Rightarrow> (d, Some e)
                   | Inr m \<Rightarrow> bolt_Update B (updateTaskLogs B i (empty_tasklog\<lparr>tl_Metadata := m\<rparr>)) d)
              | Type_EXECUTOR_START_TIME \<Rightarrow>
                  bolt_Update B (updateExecutorLogs B key (empty_executorlog\<lparr>el_StartTime := GetStartTime req\<rparr>)) d
              | Type_EXECUTOR_END_TIME \<Rightarrow>
                  bolt_Update B (updateExecutorLogs B key (empty_executorlog\<lparr>el_EndTime := GetEndTime req\<rparr>)) d
              | Type_EXECUTOR_EXIT_CODE \<Rightarrow>
                  bolt_Update B (updateExecutorLogs B key (empty_executorlog\<lparr>el_ExitCode := GetExitCode req\<rparr>)) d
              | Type_EXECUTOR_STDOUT \<Rightarrow> bolt_Update B (updateExecutorStdout B key (GetStdout req)) d
              | Type_EXECUTOR_STDERR \<Rightarrow> bolt_Update B (updateExecutorStderr B key (GetStderr req)) d
              | Type_SYSTEM_LOG \<Rightarrow>
                  (case syslog_read B i d of
                     Inl err \<Rightarrow> (d, Some err)
                   | Inr syslogs \<Rightarrow>
                       (case SysLogString req of
                          Inl e \<Rightarrow> (d, Some e)
                        | Inr line \<Rightarrow> syslog_write B i (syslogs @ [line]) d))
              | Type_TASK_RESOURCES \<Rightarrow>
                  (case GetResources_of req of
                     Inl e \<Rightarrow> (d, Some e)
                   | Inr r \<Rightarrow> bolt_Update B (update_resources B mode ctx i r) d)
              | _ \<Rightarrow> (d, None)))"

section \<open>Nodes and the queue\<close>

text \<open>\<open>ReadQueue\<close>: the task is appended also when it cannot be loaded.\<close>

definition bolt_ReadQueue :: "('d, 'v) bolt \<Rightarrow> string \<Rightarrow> int \<Rightarrow> 'd \<Rightarrow> Task list" where
  "bolt_ReadQueue B mode n d =
     map (\<lambda>i. fst (getTaskView B mode d i Full None)) (take (nat n) (b_keys B d TasksQueued))"

definition bolt_PutNode :: "('d, 'v) bolt \<Rightarrow> string \<Rightarrow> int \<Rightarrow> go_ctx \<Rightarrow> Node \<Rightarrow> 'd \<Rightarrow> 'd \<times> go_error option" where
  "bolt_PutNode B mode now ctx node =
     bolt_Update B (\<lambda>d.
       let existing = (case b_get B d Nodes (n_Id node) of
                         None \<Rightarrow> empty_node
                       | Some data \<Rightarrow> (case u_Node B data of Inl _ \<Rightarrow> empty_node | Inr n \<Rightarrow> n))
       in if n_Version existing \<noteq> 0 \<and> n_Version node \<noteq> n_Version existing
          then (d, Some (Errorf ''Version outdated''))
          else (case m_Node B (UpdateNode (\<lambda>req. bolt_GetTask B mode ctx req d) now node existing) of
                  Inl err \<Rightarrow> (d, Some err)
                | Inr data \<Rightarrow> b_put B d Nodes (n_Id node) data))"

definition bolt_GetNode :: "('d, 'v) bolt \<Rightarrow> string \<Rightarrow> 'd \<Rightarrow> go_error + Node" where
  "bolt_GetNode B i d =
     (case b_get B d Nodes i of
        None \<Rightarrow> Inl (StatusError NotFound (''not found: nodeID: '' @ i))
      | Some data \<Rightarrow> u_Node B data)"

definition bolt_DeleteNode :: "('d, 'v) bolt \<Rightarrow> Node \<Rightarrow> 'd \<Rightarrow> 'd \<times> go_error option" where
  "bolt_DeleteNode B node = bolt_Update B (\<lambda>d. b_delete B d Nodes (n_Id node))"

fun list_nodes_loop :: "('d, 'v) bolt \<Rightarrow> 'd \<Rightarrow> string list \<Rightarrow> Node list \<Rightarrow> go_error + Node list" where
  "list_nodes_loop B d [] nodes = Inr nodes"
| "list_nodes_loop B d (k # ks) nodes =
     (case b_get B d Nodes k of
        None \<Rightarrow> list_nodes_loop B d ks nodes
      | Some v \<Rightarrow> (case u_Node B v of Inl err \<Rightarrow> Inl err | Inr n \<Rightarrow> list_nodes_loop B d ks (nodes @ [n])))"

definition bolt_ListNodes :: "('d, 'v) bolt \<Rightarrow> 'd \<Rightarrow> go_error + Node list" where
  "bolt_ListNodes B d = list_nodes_loop B d (b_keys B d Nodes) []"

definition bolt_sched :: "('d, 'v) bolt \<Rightarrow> string \<Rightarrow> int \<Rightarrow> 'd sched_env" where
  "bolt_sched B mode now =
     \<lparr>se_ListNodes = bolt_ListNodes B, se_PutNode = bolt_PutNode B mode now None,
      se_DeleteNode = bolt_DeleteNode B, se_ReadQueue = bolt_ReadQueue B mode, se_Event = bolt_WriteEvent B mode\<rparr>"

section \<open>The state of the database\<close>

definition bolt_state :: "('d, 'v) bolt \<Rightarrow> 'd \<Rightarrow> string \<Rightarrow> State option" where
  "bolt_state B d i = (if b_get B d TaskBucket i = None then None else Some (bolt_getTaskState B d i))"

definition bolt_node :: "('d, 'v) bolt \<Rightarrow> 'd \<Rightarrow> string \<Rightarrow> Node option" where
  "bolt_node B d i =
     (case b_get B d Nodes i of None \<Rightarrow> None | Some v \<Rightarrow> (case u_Node B v of Inl _ \<Rightarrow> None | Inr n \<Rightarrow> Some n))"

definition bolt_queued :: "('d, 'v) bolt \<Rightarrow> 'd \<Rightarrow> string \<Rightarrow> bool" where
  "bolt_queued B d i \<longleftrightarrow> b_get B d TasksQueued i \<noteq> None"

text \<open>
  The invariant: every stored key is one the store accepts, the scheduler's queue holds exactly the
  tasks in state \<open>Queued\<close>, no task is in a state the database never writes, and every stored node
  has the identifier it is stored under.
\<close>

definition bolt_ok :: "('d, 'v) bolt \<Rightarrow> 'd \<Rightarrow> bool" where
  "bolt_ok B d \<longleftrightarrow>
     (\<forall>bk k. b_get B d bk k \<noteq> None \<longrightarrow> valid_key k) \<and>
     (\<forall>i. bolt_queued B d i \<longleftrightarrow> bolt_getTaskState B d i = Queued) \<and>
     (\<forall>i. bolt_getTaskState B d i \<notin> {Paused, Preempted, Canceling}) \<and>
     (\<forall>i v. b_get B d Nodes i = Some v \<longrightarrow> (\<exists>n. u_Node B v = Inr n \<and> n_Id n = i))"

section \<open>Lemmas: transactions\<close>

lemma upd2_simps [simp]:
  "upd2 g bk k v bk k = v" "bk' \<noteq> bk \<Longrightarrow> upd2 g bk k v bk' = g bk'" "k' \<noteq> k \<Longrightarrow> upd2 g bk k v bk' k' = g bk' k'"
  by (auto simp: upd2_def)

lemma get_put_ignore:
  "bolt_laws B \<Longrightarrow> b_get B (put_ignore B bk k v d) =
     (if snd (b_put B d bk k v) = None then upd2 (b_get B d) bk k (Some v) else b_get B d)"
  unfolding put_ignore_def using bolt_lawsD(3) by (metis prod.collapse)

lemma get_delete_ignore: "bolt_laws B \<Longrightarrow> b_get B (delete_ignore B bk k d) = upd2 (b_get B d) bk k None"
  by (simp add: delete_ignore_def bolt_lawsD(4))

lemma bolt_Update_cases:
  assumes "bolt_laws B" "bolt_Update B f d = (d', r)"
  obtains (fail) e where "r = Some e" "b_get B d' = b_get B d"
  | (ok) d1 where "r = None" "f d = (d1, None)" "b_get B d' = b_get B d1"
  using assms bolt_lawsD(6,7) [OF assms(1)]
  by (fastforce simp: bolt_Update_def split: prod.splits option.splits sum.splits)

text \<open>The parts of the data that the contract is about are as before.\<close>

definition bolt_frame :: "('d, 'v) bolt \<Rightarrow> 'd \<Rightarrow> 'd \<Rightarrow> bool" where
  "bolt_frame B d d' \<longleftrightarrow>
     dom (b_get B d' TaskBucket) = dom (b_get B d TaskBucket) \<and> b_get B d' TaskState = b_get B d TaskState \<and>
     b_get B d' TasksQueued = b_get B d TasksQueued \<and> b_get B d' Nodes = b_get B d Nodes \<and>
     (\<forall>bk k. b_get B d' bk k \<noteq> None \<longrightarrow> b_get B d bk k \<noteq> None \<or> valid_key k)"

lemma bolt_frame_refl: "b_get B d' = b_get B d \<Longrightarrow> bolt_frame B d d'"
  by (simp add: bolt_frame_def)

lemma bolt_frame_trans_get: "bolt_frame B d d1 \<Longrightarrow> b_get B d' = b_get B d1 \<Longrightarrow> bolt_frame B d d'"
  by (simp add: bolt_frame_def)

lemma getTaskState_cong: "b_get B d' TaskState = b_get B d TaskState \<Longrightarrow> bolt_getTaskState B d' = bolt_getTaskState B d"
  by (simp add: bolt_getTaskState_def fun_eq_iff)

lemma bolt_frameD:
  assumes "bolt_frame B d d'"
  shows "bolt_getTaskState B d' = bolt_getTaskState B d" "bolt_state B d' = bolt_state B d"
    "bolt_queued B d' = bolt_queued B d" "bolt_node B d' = bolt_node B d" "bolt_ok B d \<Longrightarrow> bolt_ok B d'"
proof -
  show st: "bolt_getTaskState B d' = bolt_getTaskState B d"
    using assms by (intro getTaskState_cong) (simp add: bolt_frame_def)
  have "b_get B d' TaskBucket i = None \<longleftrightarrow> b_get B d TaskBucket i = None" for i
    using assms unfolding bolt_frame_def by (metis domIff)
  with st show "bolt_state B d' = bolt_state B d" by (simp add: bolt_state_def fun_eq_iff)
  show q: "bolt_queued B d' = bolt_queued B d" "bolt_node B d' = bolt_node B d"
    using assms by (simp_all add: bolt_frame_def bolt_queued_def bolt_node_def fun_eq_iff)
  assume "bolt_ok B d"
  with st q assms show "bolt_ok B d'" unfolding bolt_ok_def bolt_frame_def by metis
qed

lemma bolt_frame_put:
  assumes "bolt_laws B" "b_put B d bk k v = (d', r)" "bk \<notin> {TaskBucket, TaskState, TasksQueued, Nodes}"
  shows "bolt_frame B d d'"
proof -
  have "r = None \<Longrightarrow> valid_key k" using bolt_lawsD(2) [OF assms(1), of d bk k v] assms(2) by simp
  with bolt_lawsD(3) [OF assms(1,2)] assms(3) show ?thesis
    by (auto simp: bolt_frame_def upd2_def split: if_splits)
qed

lemma bolt_frame_txns:
  assumes "bolt_laws B"
  shows "updateTaskLogs B i l d = (d', None) \<Longrightarrow> bolt_frame B d d'"
    and "updateExecutorLogs B k el d = (d', None) \<Longrightarrow> bolt_frame B d d'"
    and "updateExecutorStdout B k s d = (d', None) \<Longrightarrow> bolt_frame B d d'"
    and "updateExecutorStderr B k s d = (d', None) \<Longrightarrow> bolt_frame B d d'"
    and "bolt_frame B d (put_ignore B SysLogs k v d)"
proof -
  show "updateTaskLogs B i l d = (d', None) \<Longrightarrow> bolt_frame B d d'"
    by (auto simp: updateTaskLogs_def split: option.splits sum.splits dest: bolt_frame_put [OF assms])
  show "updateExecutorLogs B k el d = (d', None) \<Longrightarrow> bolt_frame B d d'"
    by (auto simp: updateExecutorLogs_def split: option.splits sum.splits dest: bolt_frame_put [OF assms])
  show "updateExecutorStdout B k s d = (d', None) \<Longrightarrow> bolt_frame B d d'"
    by (auto simp: updateExecutorStdout_def dest: bolt_frame_put [OF assms])
  show "updateExecutorStderr B k s d = (d', None) \<Longrightarrow> bolt_frame B d d'"
    by (auto simp: updateExecutorStderr_def dest: bolt_frame_put [OF assms])
  show "bolt_frame B d (put_ignore B SysLogs k v d)"
    unfolding put_ignore_def by (rule bolt_frame_put [OF assms, of d SysLogs k v _ "snd (b_put B d SysLogs k v)"]) auto
qed

lemma update_resources_frame:
  assumes "bolt_laws B" "update_resources B mode ctx i r d = (d', None)"
  shows "bolt_frame B d d'"
proof -
  from assms(2) obtain v where d': "d' = put_ignore B TaskBucket i v d" and old: "b_get B d TaskBucket i \<noteq> None"
    by (auto simp: update_resources_def loadTask_def Let_def split: option.splits sum.splits prod.splits)
  from old show ?thesis unfolding d' bolt_frame_def get_put_ignore [OF assms(1)]
    by (auto simp: upd2_def split: if_splits)
qed

lemma bolt_frame_Update:
  assumes "bolt_laws B" "\<And>d1. f d = (d1, None) \<Longrightarrow> bolt_frame B d d1" "bolt_Update B f d = (d', r)"
  shows "bolt_frame B d d'"
  by (rule bolt_Update_cases [OF assms(1,3)])
    (auto intro: bolt_frame_refl bolt_frame_trans_get assms(2))

lemma syslog_write_frame:
  assumes "bolt_laws B" "syslog_write B i ls d = (d', r)"
  shows "bolt_frame B d d'"
proof (cases "m_SysLogs B ls")
  case (Inl e)
  with assms(2) show ?thesis by (simp add: syslog_write_def bolt_frame_refl)
next
  case (Inr v)
  with assms(2) have "bolt_Update B (\<lambda>d. (put_ignore B SysLogs i v d, None)) d = (d', r)"
    by (simp add: syslog_write_def)
  then show ?thesis
    by (rule bolt_frame_Update [OF assms(1), rotated]) (use bolt_frame_txns(5) [OF assms(1)] in auto)
qed

section \<open>Lemmas: events\<close>

lemma bolt_log_event_frame:
  assumes "bolt_laws B" "bolt_WriteEvent B mode ctx ev d = (d', r)"
    "ev_Type ev \<noteq> Type_TASK_CREATED" "ev_Type ev \<noteq> Type_TASK_STATE"
  shows "bolt_frame B d d'"
proof -
  note U = bolt_frame_Update [OF assms(1)]
  note txns = bolt_frame_txns [OF assms(1)] update_resources_frame [OF assms(1)]
  note run = assms(2) [unfolded bolt_WriteEvent_def Let_def]
  have same: "(d, x) = (d', r) \<Longrightarrow> bolt_frame B d d'" for x by (simp add: bolt_frame_refl)
  obtain t e where view: "loadMinimalTaskView B mode d (ev_Id ev) None = (t, e)" by force
  show ?thesis
  proof (cases e)
    case (Some err)
    with run view assms(3) same show ?thesis by simp
  next
    case None
    note [simp] = view None assms(3,4)
    show ?thesis
    proof (cases "ev_Type ev")
      case Type_TASK_OUTPUTS
      with run same show ?thesis by (cases "GetOutputs_Value ev") (simp_all add: U [OF txns(1)])
    next
      case Type_TASK_METADATA
      with run same show ?thesis by (cases "GetMetadata_Value ev") (simp_all add: U [OF txns(1)])
    next
      case Type_SYSTEM_LOG
      with run same show ?thesis
        by (cases "syslog_read B (ev_Id ev) d"; cases "SysLogString ev") (simp_all add: syslog_write_frame [OF assms(1)])
    next
      case Type_TASK_RESOURCES
      with run same show ?thesis by (cases "GetResources_of ev") (simp_all add: U [OF txns(6)])
    next
      case Type_TASK_START_TIME
      with run show ?thesis by (simp add: U [OF txns(1)])
    next
      case Type_TASK_END_TIME
      with run show ?thesis by (simp add: U [OF txns(1)])
    next
      case Type_EXECUTOR_START_TIME
      with run show ?thesis by (simp add: U [OF txns(2)])
    next
      case Type_EXECUTOR_END_TIME
      with run show ?thesis by (simp add: U [OF txns(2)])
    next
      case Type_EXECUTOR_EXIT_CODE
      with run show ?thesis by (simp add: U [OF txns(2)])
    next
      case Type_EXECUTOR_STDOUT
      with run show ?thesis by (simp add: U [OF txns(3)])
    next
      case Type_EXECUTOR_STDERR
      with run show ?thesis by (simp add: U [OF txns(4)])
    qed (use run same in simp_all)
  qed
qed

lemma getTaskState_put:
  assumes "bolt_laws B" "b_get B d' TaskState = (b_get B d TaskState)(i \<mapsto> b_of_string B (State_String st))"
  shows "bolt_getTaskState B d' = (bolt_getTaskState B d)(i := st)"
  using assms(2) by (auto simp: bolt_getTaskState_def fun_eq_iff bolt_lawsD(10) [OF assms(1)])

lemma State_String_short: "length (State_String s) \<le> 2147483646"
  by (cases s) auto

lemma put_state_get:
  assumes "bolt_laws B" "valid_key i"
  shows "b_get B (put_ignore B TaskState i (b_of_string B (State_String st)) d) =
    upd2 (b_get B d) TaskState i (Some (b_of_string B (State_String st)))"
  using bolt_lawsD(1) [OF assms, of "b_of_string B (State_String st)" d TaskState]
  by (simp add: get_put_ignore [OF assms(1)] bolt_lawsD(11) [OF assms(1)] State_String_short)

text \<open>A create stores the task, unless it is too large, and queues it; an invalid key does nothing.\<close>

lemma bolt_create_effect:
  assumes "bolt_laws B" "bolt_create B ctx t d = (d', None)"
  shows "if valid_key (t_Id t)
    then bolt_getTaskState B d' = (bolt_getTaskState B d)(t_Id t := Queued) \<and>
      bolt_queued B d' = (bolt_queued B d)(t_Id t := True) \<and> b_get B d' Nodes = b_get B d Nodes \<and>
      (\<forall>i. i \<noteq> t_Id t \<longrightarrow> b_get B d' TaskBucket i = b_get B d TaskBucket i) \<and>
      (\<forall>bk k. b_get B d' bk k \<noteq> None \<longrightarrow> b_get B d bk k \<noteq> None \<or> valid_key k)
    else b_get B d' = b_get B d"
proof -
  let ?i = "t_Id t"
  from assms(2) obtain tv where tv: "m_Task B t = Inr tv" by (auto simp: bolt_create_def split: sum.splits)
  define d1 where "d1 = put_ignore B TaskBucket ?i tv d"
  define d2 where "d2 = put_ignore B TaskState ?i (b_of_string B (State_String Queued)) d1"
  define d3 where "d3 = put_ignore B TaskOwner ?i (b_of_string B (GetUsername ctx)) d2"
  define d4 where "d4 = put_ignore B TasksQueued ?i (b_of_string B '''') d3"
  note put = get_put_ignore [OF assms(1)]
  have "bolt_Update B (\<lambda>d. (put_ignore B TasksQueued ?i (b_of_string B '''')
      (put_ignore B TaskOwner ?i (b_of_string B (GetUsername ctx))
        (put_ignore B TaskState ?i (b_of_string B (State_String Queued)) (put_ignore B TaskBucket ?i tv d))), None)) d = (d', None)"
    using assms(2) tv by (auto simp: bolt_create_def split: prod.splits option.splits)
  then have d': "b_get B d' = b_get B d4"
    by (rule bolt_Update_cases [OF assms(1)]) (auto simp: d1_def d2_def d3_def d4_def)
  show ?thesis
  proof (cases "valid_key ?i")
    case False
    then have "snd (b_put B d bk ?i v) \<noteq> None" for d bk v using bolt_lawsD(2) [OF assms(1)] by blast
    then have "b_get B (put_ignore B bk ?i v d) = b_get B d" for bk v d unfolding put by presburger
    with d' False show ?thesis by (simp add: d1_def d2_def d3_def d4_def)
  next
    case True
    have s2: "b_get B d2 = upd2 (b_get B d1) TaskState ?i (Some (b_of_string B (State_String Queued)))"
      unfolding d2_def by (rule put_state_get [OF assms(1) True])
    have s4: "b_get B d4 = upd2 (b_get B d3) TasksQueued ?i (Some (b_of_string B ''''))"
      using bolt_lawsD(1) [OF assms(1) True, of "b_of_string B ''''" d3 TasksQueued]
      by (simp add: d4_def put bolt_lawsD(11) [OF assms(1)])
    have s3: "b_get B d3 bk = b_get B d2 bk" if "bk \<noteq> TaskOwner" for bk using that by (simp add: d3_def put)
    have s1: "b_get B d1 bk k = b_get B d bk k" if "bk \<noteq> TaskBucket \<or> k \<noteq> ?i" for bk k
      using that by (auto simp: d1_def put upd2_def)
    have st: "b_get B d' TaskState = (b_get B d TaskState)(?i \<mapsto> b_of_string B (State_String Queued))"
      by (auto simp: d' s4 s3 s2 s1 upd2_def fun_eq_iff)
    have "bolt_getTaskState B d' = (bolt_getTaskState B d)(?i := Queued)"
      by (rule getTaskState_put [OF assms(1) st])
    moreover have "bolt_queued B d' = (bolt_queued B d)(?i := True)"
      by (auto simp: bolt_queued_def d' s4 s3 s2 s1 upd2_def fun_eq_iff)
    moreover have "b_get B d' Nodes = b_get B d Nodes" by (auto simp: d' s4 s3 s2 s1 upd2_def fun_eq_iff)
    moreover have "i \<noteq> ?i \<Longrightarrow> b_get B d' TaskBucket i = b_get B d TaskBucket i" for i
      by (simp add: d' s4 s3 s2 s1 upd2_def)
    moreover have "b_get B d bk k \<noteq> None \<or> valid_key k" if "b_get B d' bk k \<noteq> None" for bk k
    proof (cases "k = ?i")
      case False
      then have "b_get B d' bk k = b_get B d bk k" unfolding d' s4
        by (cases "bk = TaskOwner") (auto simp: upd2_def d3_def put s2 s1)
      with that show ?thesis by simp
    qed (use True in simp)
    ultimately show ?thesis using True by simp
  qed
qed

text \<open>Every transition that Bolt accepts is one of the state machine, for the states it stores.\<close>

lemma transition_effect:
  assumes "bolt_laws B" "bolt_ok B d" "valid_key i" "transitionTaskState B i target d = (d', None)"
  shows "state_step (bolt_getTaskState B d i) target \<and> bolt_getTaskState B d' = (bolt_getTaskState B d)(i := target) \<and>
    bolt_ok B d' \<and> b_get B d' TaskBucket = b_get B d TaskBucket \<and> b_get B d' Nodes = b_get B d Nodes"
proof (cases "target = bolt_getTaskState B d i")
  case True
  with assms show ?thesis by (auto simp: transitionTaskState_def Let_def state_step_iff)
next
  case False
  let ?cur = "bolt_getTaskState B d i"
  from assms(2) have cur: "?cur \<notin> {Paused, Preempted, Canceling}" by (simp add: bolt_ok_def)
  from assms(4) False have d': "d' = put_ignore B TaskState i (b_of_string B (State_String target)) (delete_ignore B TasksQueued i d)"
    and target: "target \<in> {Canceled, Complete, ExecutorError, SystemError, Running, Initializing}"
    and step: "\<not> TerminalState ?cur" "target \<in> {Running, Initializing} \<Longrightarrow> ?cur \<in> {Unknown, Queued, Initializing}"
    by (auto simp: transitionTaskState_def Let_def split: if_splits)
  have get: "b_get B d' = upd2 (upd2 (b_get B d) TasksQueued i None) TaskState i (Some (b_of_string B (State_String target)))"
    unfolding d' put_state_get [OF assms(1,3)] get_delete_ignore [OF assms(1)] ..
  have st: "bolt_getTaskState B d' = (bolt_getTaskState B d)(i := target)"
    by (rule getTaskState_put [OF assms(1)]) (auto simp: get upd2_def fun_eq_iff)
  have "state_step ?cur target"
    using cur target step by (cases ?cur) (auto simp: state_step_iff ValidateTransition_def TerminalState_def)
  moreover have "bolt_ok B d'"
  proof -
    have keys: "b_get B d' bk k \<noteq> None \<Longrightarrow> k = i \<or> b_get B d bk k \<noteq> None" for bk k
      by (auto simp: get upd2_def split: if_splits)
    have q: "bolt_queued B d' = (bolt_queued B d)(i := False)"
      by (auto simp: bolt_queued_def get upd2_def fun_eq_iff)
    from assms(2,3) keys have "\<forall>bk k. b_get B d' bk k \<noteq> None \<longrightarrow> valid_key k" unfolding bolt_ok_def by metis
    moreover have "\<forall>k. bolt_queued B d' k = (bolt_getTaskState B d' k = Queued)"
      using assms(2) target unfolding q st bolt_ok_def by auto
    ultimately show ?thesis
      using assms(2) target unfolding bolt_ok_def st by (auto simp: get)
  qed
  ultimately show ?thesis using st by (simp add: get upd2_def)
qed

lemma bolt_create_ok:
  assumes "bolt_laws B" "bolt_ok B d" "bolt_create B ctx t d = (d', None)"
  shows "bolt_ok B d'"
proof (cases "valid_key (t_Id t)")
  case True
  with bolt_create_effect [OF assms(1,3)] have
    st: "bolt_getTaskState B d' = (bolt_getTaskState B d)(t_Id t := Queued)" and
    q: "bolt_queued B d' = (bolt_queued B d)(t_Id t := True)" and nodes: "b_get B d' Nodes = b_get B d Nodes" and
    keys: "\<And>bk k. b_get B d' bk k \<noteq> None \<Longrightarrow> b_get B d bk k \<noteq> None \<or> valid_key k" by auto
  from keys assms(2) have "\<forall>bk k. b_get B d' bk k \<noteq> None \<longrightarrow> valid_key k" unfolding bolt_ok_def by blast
  moreover have "\<forall>k. bolt_queued B d' k = (bolt_getTaskState B d' k = Queued)"
    using assms(2) unfolding q st bolt_ok_def by auto
  ultimately show ?thesis using assms(2) unfolding bolt_ok_def st nodes by auto
next
  case False
  with bolt_create_effect [OF assms(1,3)] have "b_get B d' = b_get B d" by simp
  then show ?thesis using bolt_frameD(5) [OF bolt_frame_refl assms(2)] by blast
qed

lemma bolt_create_state:
  assumes "bolt_laws B" "bolt_create B ctx t d = (d', None)" "i \<noteq> t_Id t"
  shows "bolt_state B d' i = bolt_state B d i"
proof (cases "valid_key (t_Id t)")
  case True
  with bolt_create_effect [OF assms(1,2)] assms(3) show ?thesis by (simp add: bolt_state_def)
next
  case False
  with bolt_create_effect [OF assms(1,2)] bolt_frameD(2) [OF bolt_frame_refl, of B d' d] show ?thesis by simp
qed

lemma bolt_create_fail:
  assumes "bolt_laws B" "bolt_create B ctx t d = (d', Some e)"
  shows "bolt_frame B d d'"
proof (cases "m_Task B t")
  case (Inl err)
  with assms(2) show ?thesis by (simp add: bolt_create_def bolt_frame_refl)
next
  case (Inr tv)
  let ?f = "\<lambda>d. (put_ignore B TasksQueued (t_Id t) (b_of_string B '''')
      (put_ignore B TaskOwner (t_Id t) (b_of_string B (GetUsername ctx))
        (put_ignore B TaskState (t_Id t) (b_of_string B (State_String Queued)) (put_ignore B TaskBucket (t_Id t) tv d))),
      None :: go_error option)"
  from assms(2) Inr obtain err where "bolt_Update B ?f d = (d', Some err)"
    by (auto simp: bolt_create_def split: prod.splits option.splits)
  then have "b_get B d' = b_get B d" by (rule bolt_Update_cases [OF assms(1)]) auto
  then show ?thesis by (rule bolt_frame_refl)
qed

text \<open>The three kinds of events.\<close>

lemma bolt_WriteEvent_created:
  assumes "bolt_WriteEvent B mode ctx ev d = (d', r)" "ev_Type ev = Type_TASK_CREATED"
  obtains (nil) "d' = d" "r \<noteq> None" | (create) t where "GetTask_of ev = Inr t" "bolt_create B ctx t d = (d', r)"
  using assms by (auto simp: bolt_WriteEvent_def split: sum.splits)

lemma bolt_WriteEvent_state:
  assumes "bolt_laws B" "bolt_ok B d" "bolt_WriteEvent B mode ctx ev d = (d', r)" "ev_Type ev = Type_TASK_STATE"
  shows "(r \<noteq> None \<and> b_get B d' = b_get B d) \<or>
    (r = None \<and> b_get B d TaskBucket (ev_Id ev) \<noteq> None \<and> checkOwner B mode d (ev_Id ev) ctx = None \<and>
     state_step (bolt_getTaskState B d (ev_Id ev)) (GetState ev) \<and>
     bolt_getTaskState B d' = (bolt_getTaskState B d)(ev_Id ev := GetState ev) \<and>
     bolt_ok B d' \<and> b_get B d' TaskBucket = b_get B d TaskBucket \<and> b_get B d' Nodes = b_get B d Nodes)"
proof (cases "b_get B d TaskBucket (ev_Id ev)")
  case None
  with assms(3,4) show ?thesis by (auto simp: bolt_WriteEvent_def loadMinimalTaskView_def loadTask_def)
next
  case (Some b)
  let ?i = "ev_Id ev"
  let ?f = "\<lambda>d. case checkOwner B mode d ?i ctx of Some err \<Rightarrow> (d, Some err) | None \<Rightarrow> transitionTaskState B ?i (GetState ev) d"
  have key: "valid_key ?i" using assms(2) Some unfolding bolt_ok_def by blast
  have "bolt_Update B ?f d = (d', r)"
  proof -
    have "loadMinimalTaskView B mode d ?i None = (empty_task\<lparr>t_Id := ?i, t_State := bolt_getTaskState B d ?i\<rparr>, None)"
      using Some by (simp add: loadMinimalTaskView_def loadTask_def checkOwner_def)
    with assms(3,4) show ?thesis by (simp add: bolt_WriteEvent_def Let_def)
  qed
  then show ?thesis
  proof (rule bolt_Update_cases [OF assms(1)])
    fix d1 assume *: "r = None" "?f d = (d1, None)" "b_get B d' = b_get B d1"
    then have own: "checkOwner B mode d ?i ctx = None" and tr: "transitionTaskState B ?i (GetState ev) d = (d1, None)"
      by (auto split: option.splits)
    from bolt_frameD [OF bolt_frame_refl [OF *(3)]] transition_effect [OF assms(1,2) key tr] *(1,3) Some own show ?thesis
      by simp
  qed simp
qed

section \<open>Bolt provides the contracts\<close>

lemma getTaskView_state:
  assumes "getTaskView B mode d i v ctx = (t, None)"
  shows "b_get B d TaskBucket i \<noteq> None" "t_State t = bolt_getTaskState B d i" "checkOwner B mode d i ctx = None"
  using assms
  by (cases v; auto simp: loadMinimalTaskView_def loadBasicTaskView_def loadFullTaskView_def loadTask_def
      loadTaskLogs_def Let_def split: option.splits prod.splits sum.splits)+

lemma bolt_GetTask_state:
  assumes "bolt_GetTask B mode ctx req d = Inr t"
  shows "bolt_state B d (gt_Id req) = Some (t_State t)" "checkOwner B mode d (gt_Id req) ctx = None"
  using assms by (auto simp: bolt_GetTask_def bolt_state_def Let_def dest: getTaskView_state
      split: option.splits prod.splits)

lemma bolt_task_store:
  assumes "bolt_laws B"
  shows "task_store (bolt_WriteEvent B mode) (bolt_state B) (bolt_ok B)"
proof unfold_locales
  fix d ctx ev d' r
  assume ok: "bolt_ok B d" and run: "bolt_WriteEvent B mode ctx ev d = (d', r)"
  consider "ev_Type ev = Type_TASK_CREATED" | "ev_Type ev = Type_TASK_STATE"
    | "ev_Type ev \<noteq> Type_TASK_CREATED" "ev_Type ev \<noteq> Type_TASK_STATE" by blast
  then show "bolt_ok B d'"
  proof cases
    case 1
    then show ?thesis
      by (cases r; rule_tac bolt_WriteEvent_created [OF run 1])
        (auto simp: ok dest: bolt_create_ok [OF assms ok] bolt_create_fail [OF assms] intro: bolt_frameD(5) [OF _ ok])
  next
    case 2
    from bolt_WriteEvent_state [OF assms ok run 2] show ?thesis
      using bolt_frameD(5) [OF bolt_frame_refl ok] by blast
  next
    case 3
    from bolt_frameD(5) [OF bolt_log_event_frame [OF assms run 3] ok] show ?thesis .
  qed
next
  fix d ctx ev d' e
  assume ok: "bolt_ok B d" and run: "bolt_WriteEvent B mode ctx ev d = (d', Some e)"
  consider "ev_Type ev = Type_TASK_CREATED" | "ev_Type ev = Type_TASK_STATE"
    | "ev_Type ev \<noteq> Type_TASK_CREATED" "ev_Type ev \<noteq> Type_TASK_STATE" by blast
  then show "bolt_state B d' = bolt_state B d"
  proof cases
    case 1
    then show ?thesis
      by (rule_tac bolt_WriteEvent_created [OF run 1]) (auto dest: bolt_create_fail [OF assms] bolt_frameD(2))
  next
    case 2
    from bolt_WriteEvent_state [OF assms ok run 2] have "b_get B d' = b_get B d" by simp
    then show ?thesis by (rule bolt_frameD(2) [OF bolt_frame_refl])
  next
    case 3
    from bolt_frameD(2) [OF bolt_log_event_frame [OF assms run 3]] show ?thesis .
  qed
next
  fix d ctx ev d' i
  assume ok: "bolt_ok B d" and run: "bolt_WriteEvent B mode ctx ev d = (d', None)" and i: "i \<noteq> event_target ev"
  consider "ev_Type ev = Type_TASK_CREATED" | "ev_Type ev = Type_TASK_STATE"
    | "ev_Type ev \<noteq> Type_TASK_CREATED" "ev_Type ev \<noteq> Type_TASK_STATE" by blast
  then show "bolt_state B d' i = bolt_state B d i"
  proof cases
    case 1
    then show ?thesis
    proof (rule_tac bolt_WriteEvent_created [OF run 1])
      fix t assume t: "GetTask_of ev = Inr t" "bolt_create B ctx t d = (d', None)"
      with 1 i have "i \<noteq> t_Id t" by (auto simp: event_target_def GetTask_of_def split: EventData.splits)
      with t show ?thesis by (intro bolt_create_state [OF assms])
    qed simp
  next
    case 2
    with bolt_WriteEvent_state [OF assms ok run 2] i show ?thesis by (simp add: bolt_state_def)
  next
    case 3
    from bolt_frameD(2) [OF bolt_log_event_frame [OF assms run 3]] show ?thesis by simp
  qed
next
  fix d ctx ev d'
  assume "bolt_ok B d" "bolt_WriteEvent B mode ctx ev d = (d', None)" "ev_Type ev = Type_TASK_STATE"
  from bolt_WriteEvent_state [OF assms this] show
    "\<exists>from. bolt_state B d (ev_Id ev) = Some from \<and> state_step from (GetState ev) \<and> bolt_state B d' (ev_Id ev) = Some (GetState ev)"
    by (auto simp: bolt_state_def)
next
  fix d ctx ev d'
  assume "bolt_ok B d" and run: "bolt_WriteEvent B mode ctx ev d = (d', None)"
    and 3: "ev_Type ev \<noteq> Type_TASK_STATE" "ev_Type ev \<noteq> Type_TASK_CREATED"
  show "bolt_state B d' = bolt_state B d"
    by (rule bolt_frameD(2) [OF bolt_log_event_frame [OF assms run 3(2,1)]])
qed

lemma list_nodes_loop_sound:
  assumes "bolt_ok B d" "list_nodes_loop B d ks acc = Inr ns"
  shows "\<exists>new. ns = acc @ new \<and> map n_Id new = filter (\<lambda>k. b_get B d Nodes k \<noteq> None) ks \<and>
    (\<forall>n\<in>set new. bolt_node B d (n_Id n) = Some n)"
  using assms(2)
proof (induction ks arbitrary: acc)
  case (Cons k ks)
  show ?case
  proof (cases "b_get B d Nodes k")
    case None
    with Cons show ?thesis by simp
  next
    case (Some v)
    with assms(1) obtain n where n: "u_Node B v = Inr n" "n_Id n = k" unfolding bolt_ok_def by blast
    with Some Cons.prems have "list_nodes_loop B d ks (acc @ [n]) = Inr ns" by simp
    from Cons.IH [OF this] obtain new where "ns = (acc @ [n]) @ new"
      "map n_Id new = filter (\<lambda>k. b_get B d Nodes k \<noteq> None) ks" "\<forall>n\<in>set new. bolt_node B d (n_Id n) = Some n" by blast
    with Some n show ?thesis by (intro exI [of _ "n # new"]) (auto simp: bolt_node_def)
  qed
qed simp

lemma bolt_event_nodes:
  assumes "bolt_laws B" "bolt_ok B d" "bolt_WriteEvent B mode ctx ev d = (d', r)"
  shows "bolt_node B d' = bolt_node B d"
proof -
  have same: "b_get B d' Nodes = b_get B d Nodes \<Longrightarrow> ?thesis" by (simp add: bolt_node_def fun_eq_iff)
  consider "ev_Type ev = Type_TASK_CREATED" | "ev_Type ev = Type_TASK_STATE"
    | "ev_Type ev \<noteq> Type_TASK_CREATED" "ev_Type ev \<noteq> Type_TASK_STATE" by blast
  then show ?thesis
  proof cases
    case 1
    show ?thesis
    proof (rule bolt_WriteEvent_created [OF assms(3) 1])
      fix t assume t: "bolt_create B ctx t d = (d', r)"
      show ?thesis
      proof (cases r)
        case None
        with bolt_create_effect [OF assms(1), of ctx t d d'] t same show ?thesis by (auto split: if_splits)
      next
        case (Some e)
        with bolt_create_fail [OF assms(1)] t show ?thesis by (blast dest: bolt_frameD(4))
      qed
    qed simp
  next
    case 2
    from bolt_WriteEvent_state [OF assms 2] same show ?thesis by auto
  next
    case 3
    from bolt_frameD(4) [OF bolt_log_event_frame [OF assms(1,3) 3]] show ?thesis .
  qed
qed

lemma bolt_node_change:
  assumes "bolt_ok B d" "b_get B d' = upd2 (b_get B d) Nodes i v"
    "v = None \<or> (\<exists>x n. v = Some x \<and> u_Node B x = Inr n \<and> n_Id n = i \<and> valid_key i)"
  shows "bolt_ok B d'"
proof -
  have "bolt_getTaskState B d' = bolt_getTaskState B d" "bolt_queued B d' = bolt_queued B d"
    using assms(2) by (simp_all add: bolt_getTaskState_def bolt_queued_def fun_eq_iff)
  moreover have "\<forall>bk k. b_get B d' bk k \<noteq> None \<longrightarrow> valid_key k"
    using assms by (auto simp: bolt_ok_def upd2_def split: if_splits)
  moreover have "\<forall>k x. b_get B d' Nodes k = Some x \<longrightarrow> (\<exists>n. u_Node B x = Inr n \<and> n_Id n = k)"
    using assms by (auto simp: bolt_ok_def upd2_def split: if_splits)
  ultimately show ?thesis using assms(1) unfolding bolt_ok_def by simp
qed

lemma bolt_PutNode_effect:
  assumes "bolt_laws B" "bolt_ok B d" "bolt_PutNode B mode now ctx n d = (d', r)"
  shows "(r \<noteq> None \<and> b_get B d' = b_get B d) \<or>
    (r = None \<and> bolt_ok B d' \<and>
     (\<exists>existing. bolt_node B d' = (bolt_node B d)(n_Id n \<mapsto> UpdateNode (\<lambda>req. bolt_GetTask B mode ctx req d) now n existing)))"
proof (rule bolt_Update_cases [OF assms(1) assms(3) [unfolded bolt_PutNode_def]])
  fix d1
  let ?existing = "case b_get B d Nodes (n_Id n) of None \<Rightarrow> empty_node
      | Some data \<Rightarrow> (case u_Node B data of Inl _ \<Rightarrow> empty_node | Inr n \<Rightarrow> n)"
  let ?n' = "UpdateNode (\<lambda>req. bolt_GetTask B mode ctx req d) now n ?existing"
  assume r: "r = None" and get: "b_get B d' = b_get B d1" and
    f: "(let existing = ?existing
       in if n_Version existing \<noteq> 0 \<and> n_Version n \<noteq> n_Version existing then (d, Some (Errorf ''Version outdated''))
          else (case m_Node B (UpdateNode (\<lambda>req. bolt_GetTask B mode ctx req d) now n existing) of
                  Inl err \<Rightarrow> (d, Some err) | Inr data \<Rightarrow> b_put B d Nodes (n_Id n) data)) = (d1, None)"
  from f obtain data where data: "m_Node B ?n' = Inr data" "b_put B d Nodes (n_Id n) data = (d1, None)"
    by (auto simp: Let_def split: if_splits sum.splits)
  then have key: "valid_key (n_Id n)" and upd: "b_get B d' = upd2 (b_get B d) Nodes (n_Id n) (Some data)"
    using bolt_lawsD(2,3) [OF assms(1)] get by (metis snd_conv, metis)
  have dec: "u_Node B data = Inr ?n'" by (rule bolt_lawsD(14) [OF assms(1) data(1)])
  have "n_Id ?n' = n_Id n" by (simp add: UpdateNode_def)
  with bolt_node_change [OF assms(2) upd] dec key have "bolt_ok B d'" by blast
  moreover have "bolt_node B d' = (bolt_node B d)(n_Id n \<mapsto> ?n')"
    using upd dec by (auto simp: bolt_node_def upd2_def fun_eq_iff)
  ultimately show ?thesis using r by blast
qed simp

lemma bolt_node_store:
  assumes "bolt_laws B"
  shows "node_store (bolt_sched B mode now) (bolt_node B) (bolt_ok B)"
proof unfold_locales
  fix d ns
  assume ok: "bolt_ok B d" and run: "se_ListNodes (bolt_sched B mode now) d = Inr ns"
  from list_nodes_loop_sound [OF ok] run obtain
    ids: "map n_Id ns = filter (\<lambda>k. b_get B d Nodes k \<noteq> None) (b_keys B d Nodes)" and
    nodes: "\<forall>n\<in>set ns. bolt_node B d (n_Id n) = Some n" by (fastforce simp: bolt_sched_def bolt_ListNodes_def)
  from nodes show "n \<in> set ns \<Longrightarrow> bolt_node B d (n_Id n) = Some n" for n by blast
  have "distinct (b_keys B d Nodes)" using bolt_lawsD(8) [OF assms, of d Nodes] by (simp add: strict_sorted_iff)
  then show "distinct (map n_Id ns)" unfolding ids by simp
next
  fix d n d' e
  assume "bolt_ok B d" "se_PutNode (bolt_sched B mode now) n d = (d', Some e)"
  with bolt_PutNode_effect [OF assms, of d mode now None n d' "Some e"] have ok: "bolt_ok B d" and "b_get B d' = b_get B d"
    by (auto simp: bolt_sched_def)
  then show "bolt_ok B d' \<and> bolt_node B d' = bolt_node B d"
    using bolt_frameD(4) [OF bolt_frame_refl, of B d' d] bolt_frameD(5) [OF bolt_frame_refl, of B d' d] by simp
next
  fix d n d'
  assume "bolt_ok B d" "se_PutNode (bolt_sched B mode now) n d = (d', None)"
  with bolt_PutNode_effect [OF assms, of d mode now None n d' None] show
    "bolt_ok B d' \<and> (\<exists>n'. bolt_node B d' = (bolt_node B d)(n_Id n \<mapsto> n') \<and> n_Id n' = n_Id n \<and> n_TaskIds n' = n_TaskIds n)"
    by (auto simp: bolt_sched_def UpdateNode_def)
next
  fix d n d' r
  assume ok: "bolt_ok B d" and "se_DeleteNode (bolt_sched B mode now) n d = (d', r)"
  then have "bolt_Update B (\<lambda>d. b_delete B d Nodes (n_Id n)) d = (d', r)" by (simp add: bolt_sched_def bolt_DeleteNode_def)
  then show "bolt_ok B d' \<and> (bolt_node B d' = bolt_node B d \<or> bolt_node B d' = (bolt_node B d)(n_Id n := None))"
  proof (rule bolt_Update_cases [OF assms])
    assume "b_get B d' = b_get B d"
    then show ?thesis
      using bolt_frameD(4) [OF bolt_frame_refl, of B d' d] bolt_frameD(5) [OF bolt_frame_refl, of B d' d] ok by simp
  next
    fix d1 assume "b_delete B d Nodes (n_Id n) = (d1, None)" "b_get B d' = b_get B d1"
    with bolt_lawsD(4) [OF assms, of d Nodes "n_Id n"] have upd: "b_get B d' = upd2 (b_get B d) Nodes (n_Id n) None" by simp
    with bolt_node_change [OF ok upd] have "bolt_ok B d'" by blast
    moreover have "bolt_node B d' = (bolt_node B d)(n_Id n := None)" using upd by (auto simp: bolt_node_def upd2_def fun_eq_iff)
    ultimately show ?thesis by blast
  qed
next
  fix d ctx ev d' r
  assume ok: "bolt_ok B d" and "se_Event (bolt_sched B mode now) ctx ev d = (d', r)"
  then have run: "bolt_WriteEvent B mode ctx ev d = (d', r)" by (simp add: bolt_sched_def)
  show "bolt_ok B d' \<and> bolt_node B d' = bolt_node B d"
    using task_store.write_inv [OF bolt_task_store [OF assms] ok run] bolt_event_nodes [OF assms ok run] by blast
qed

section \<open>An in-memory store\<close>

text \<open>An instance of the parameters for concrete runs: an association list that respects the limits.\<close>

datatype bcell = CTask Task | CTaskLog TaskLog | CExecutorLog ExecutorLog | CSysLogs "string list" | CNode Node | CBytes string

type_synonym mem_db = "((bucket \<times> string) \<times> bcell) list"

definition cell_size :: "bcell \<Rightarrow> nat" where
  "cell_size v = (case v of CBytes s \<Rightarrow> length s | _ \<Rightarrow> 0)"

definition mem_bolt :: "(mem_db, bcell) bolt" where
  "mem_bolt = \<lparr>
     b_get = (\<lambda>d bk k. map_of d (bk, k)),
     b_keys = (\<lambda>d bk. sort (remdups (map (\<lambda>e. snd (fst e)) (filter (\<lambda>e. fst (fst e) = bk) d)))),
     b_put = (\<lambda>d bk k v. if valid_key k \<and> cell_size v \<le> 2147483646 then (AList.update (bk, k) v d, None)
                         else (d, Some (Errorf ''key required, key too large or value too large''))),
     b_delete = (\<lambda>d bk k. (AList.delete (bk, k) d, None)),
     b_commit = Inr, b_discard = (\<lambda>d. d), b_size = cell_size, b_of_string = CBytes,
     b_to_string = (\<lambda>v. case v of CBytes s \<Rightarrow> s | _ \<Rightarrow> ''''),
     m_Task = (\<lambda>x. Inr (CTask x)), u_Task = (\<lambda>v. case v of CTask x \<Rightarrow> Inr x | _ \<Rightarrow> Inl (Errorf ''decode'')),
     m_TaskLog = (\<lambda>x. Inr (CTaskLog x)), u_TaskLog = (\<lambda>v. case v of CTaskLog x \<Rightarrow> Inr x | _ \<Rightarrow> Inl (Errorf ''decode'')),
     m_ExecutorLog = (\<lambda>x. Inr (CExecutorLog x)),
     u_ExecutorLog = (\<lambda>v. case v of CExecutorLog x \<Rightarrow> Inr x | _ \<Rightarrow> Inl (Errorf ''decode'')),
     m_SysLogs = (\<lambda>x. Inr (CSysLogs x)), u_SysLogs = (\<lambda>v. case v of CSysLogs x \<Rightarrow> Inr x | _ \<Rightarrow> Inl (Errorf ''decode'')),
     m_Node = (\<lambda>x. Inr (CNode x)), u_Node = (\<lambda>v. case v of CNode x \<Rightarrow> Inr x | _ \<Rightarrow> Inl (Errorf ''decode''))\<rparr>"

lemma sorted_remdups: "sorted_wrt (<) (sort (remdups xs))" for xs :: "string list"
  by (simp add: strict_sorted_iff)

lemma mem_bolt_keys: "set (b_keys mem_bolt d bk) = dom (b_get mem_bolt d bk)"
proof -
  have "k \<in> set (b_keys mem_bolt d bk) \<longleftrightarrow> (bk, k) \<in> fst ` set d" for k by (force simp: mem_bolt_def)
  moreover have "k \<in> dom (b_get mem_bolt d bk) \<longleftrightarrow> (bk, k) \<in> fst ` set d" for k
    by (simp add: mem_bolt_def domIff map_of_eq_None_iff)
  ultimately show ?thesis by blast
qed

lemma mem_bolt_laws: "bolt_laws mem_bolt"
proof -
  have put: "b_get mem_bolt (AList.update (bk, k) v d) = upd2 (b_get mem_bolt d) bk k (Some v)" for bk k v d
    by (auto simp: mem_bolt_def upd2_def fun_eq_iff update_conv')
  have del: "b_get mem_bolt (AList.delete (bk, k) d) = upd2 (b_get mem_bolt d) bk k None" for bk k d
    by (auto simp: mem_bolt_def upd2_def fun_eq_iff delete_conv')
  have keys: "sorted_wrt (<) (b_keys mem_bolt d bk)" for d bk by (simp add: mem_bolt_def sorted_remdups)
  have ops: "b_put mem_bolt d bk k v = (if valid_key k \<and> cell_size v \<le> 2147483646 then (AList.update (bk, k) v d, None)
       else (d, Some (Errorf ''key required, key too large or value too large'')))"
    "b_delete mem_bolt d bk k = (AList.delete (bk, k) d, None)" "b_commit mem_bolt = Inr" "b_discard mem_bolt d = d"
    "b_size mem_bolt = cell_size" for d bk k v by (simp_all add: mem_bolt_def)
  have put3: "b_put mem_bolt d bk k v = (d', r) \<Longrightarrow>
      b_get mem_bolt d' = (if r = None then upd2 (b_get mem_bolt d) bk k (Some v) else b_get mem_bolt d)" for d bk k v d' r
    by (auto simp: ops put split: if_splits)
  show ?thesis unfolding bolt_laws_def
    by (intro conjI allI impI; (simp add: put3 ops del keys mem_bolt_keys split: if_splits)?)
      (auto simp: mem_bolt_def cell_size_def)
qed

lemma mem_bolt_ok_Nil: "bolt_ok mem_bolt []"
  by (simp add: bolt_ok_def bolt_queued_def bolt_getTaskState_def mem_bolt_def)

lemma bolt_task_db:
  assumes "bolt_laws B"
  shows "task_db (bolt_WriteEvent B mode) (bolt_state B) (bolt_ok B) (bolt_GetTask B mode)"
proof (intro task_db.intro task_db_axioms.intro)
  show "task_store (bolt_WriteEvent B mode) (bolt_state B) (bolt_ok B)" by (rule bolt_task_store [OF assms])
  show "bolt_GetTask B mode ctx req d = Inr t \<Longrightarrow> bolt_state B d (gt_Id req) = Some (t_State t)" for d ctx req t
    by (rule bolt_GetTask_state(1))
  show "bolt_state B d (gt_Id req) = None \<Longrightarrow> \<exists>e. bolt_GetTask B mode ctx req d = Inl e" for d req ctx
    using bolt_GetTask_state(1) by (cases "bolt_GetTask B mode ctx req d") fastforce+
qed

interpretation mem_bolt: task_db "bolt_WriteEvent mem_bolt mode" "bolt_state mem_bolt" "bolt_ok mem_bolt"
  "bolt_GetTask mem_bolt mode" for mode
  by (rule bolt_task_db [OF mem_bolt_laws])

interpretation mem_nodes: node_store "bolt_sched mem_bolt mode now" "bolt_node mem_bolt" "bolt_ok mem_bolt" for mode now
  by (rule bolt_node_store [OF mem_bolt_laws])

end
