(* ===== verification/Bolt_Properties.thy ===== *)
theory Bolt_Properties
  imports Bolt_DB
begin

text \<open>
  What the Bolt database guarantees: the histories of tasks, the queue, who may change a task, how a
  scheduling iteration behaves on it, and where its transactions are too narrow.
\<close>

section \<open>Examples\<close>

definition bolt_sample :: mem_db where
  "bolt_sample = fst (bolt_WriteEvent mem_bolt AccessOwner sample_user (NewTaskCreated ''now'' sample_task) [])"

lemma bolt_sample_eq:
  "bolt_sample = [((TaskBucket, ''t1''), CTask sample_task), ((TaskState, ''t1''), CBytes ''QUEUED''),
     ((TaskOwner, ''t1''), CBytes ''ann''), ((TasksQueued, ''t1''), CBytes '''')]"
  by (simp add: bolt_sample_def bolt_WriteEvent_def NewTaskCreated_def GetTask_of_def bolt_create_def mem_bolt_def
      bolt_Update_def put_ignore_def sample_task_def valid_key_def cell_size_def GetUsername_def sample_user_def
      empty_task_def)

lemma bolt_sample_ok: "bolt_ok mem_bolt bolt_sample"
  unfolding bolt_sample_def by (rule mem_bolt.write_inv [OF mem_bolt_ok_Nil surjective_pairing])

lemma bolt_sample_state: "bolt_state mem_bolt bolt_sample ''t1'' = Some Queued"
  by (simp add: bolt_state_def bolt_getTaskState_def bolt_sample_eq mem_bolt_def State_value_def all_states_def)

section \<open>Tasks\<close>



text \<open>
  C6: the scheduler's queue is exact.  Starting from any consistent database (the empty one, for
  instance), after any sequence of event writes the queue holds exactly the identifiers whose
  stored state is \<open>Queued\<close>: no task that has started, ended or been canceled is ever handed to
  the scheduler, and no queued task is forgotten.
\<close>

theorem bolt_queue_exact:
  assumes "bolt_laws B" "bolt_ok B d"
  shows "set (b_keys B (write_all (bolt_WriteEvent B mode) evs d) TasksQueued) =
    {i. bolt_getTaskState B (write_all (bolt_WriteEvent B mode) evs d) i = Queued}"
  using task_store.write_all_inv [OF bolt_task_store [OF assms(1)] assms(2), of mode evs]
  by (auto simp: bolt_lawsD(9) [OF assms(1)] bolt_ok_def bolt_queued_def domIff)

theorem bolt_queue_exact_witness:
  "bolt_laws mem_bolt \<and> bolt_ok mem_bolt [] \<and>
   set (b_keys mem_bolt (write_all (bolt_WriteEvent mem_bolt AccessOwner)
        [(sample_user, NewTaskCreated ''now'' sample_task), (None, NewState ''now'' ''t1'' Canceled)] []) TasksQueued) =
   {i. bolt_getTaskState mem_bolt (write_all (bolt_WriteEvent mem_bolt AccessOwner)
        [(sample_user, NewTaskCreated ''now'' sample_task), (None, NewState ''now'' ''t1'' Canceled)] []) i = Queued}"
  by (intro conjI mem_bolt_laws mem_bolt_ok_Nil bolt_queue_exact [OF mem_bolt_laws mem_bolt_ok_Nil])

definition bolt_owner :: "('d, 'v) bolt \<Rightarrow> 'd \<Rightarrow> string \<Rightarrow> string" where
  "bolt_owner B d i = (case b_get B d TaskOwner i of None \<Rightarrow> '''' | Some v \<Rightarrow> b_to_string B v)"

lemma checkOwner_None_iff:
  "checkOwner B mode d i ctx = None \<longleftrightarrow> IsAccessible mode (GetUser ctx) (bolt_owner B d i)"
  using CanSeeAllTasks_accessible
  by (auto simp: checkOwner_def bolt_owner_def Let_def split: if_splits)

text \<open>With a key and values within the limits, all four parts of a create are stored.\<close>

lemma bolt_create_stores:
  assumes "bolt_laws B" "bolt_create B ctx t d = (d', None)" "valid_key (t_Id t)"
    "\<And>t v. m_Task B t = Inr v \<Longrightarrow> b_size B v \<le> 2147483646" "length (GetUsername ctx) \<le> 2147483646"
  shows "bolt_state B d' (t_Id t) = Some Queued" "bolt_owner B d' (t_Id t) = GetUsername ctx" "bolt_queued B d' (t_Id t)"
proof -
  let ?i = "t_Id t"
  from assms(2) obtain tv where tv: "m_Task B t = Inr tv" by (auto simp: bolt_create_def split: sum.splits)
  have put: "b_get B (put_ignore B bk ?i v e) = upd2 (b_get B e) bk ?i (Some v)" if "b_size B v \<le> 2147483646" for bk v e
    using bolt_lawsD(1) [OF assms(1,3) that, of e bk] by (simp add: get_put_ignore [OF assms(1)])
  note size = bolt_lawsD(11) [OF assms(1)]
  note puts = put [OF assms(4) [OF tv]] put [of "b_of_string B (State_String Queued)", unfolded size, OF State_String_short]
    put [of "b_of_string B (GetUsername ctx)", unfolded size, OF assms(5)] put [of "b_of_string B ''''", unfolded size, simplified]
  have "bolt_Update B (\<lambda>d. (put_ignore B TasksQueued ?i (b_of_string B '''')
      (put_ignore B TaskOwner ?i (b_of_string B (GetUsername ctx))
        (put_ignore B TaskState ?i (b_of_string B (State_String Queued)) (put_ignore B TaskBucket ?i tv d))), None)) d = (d', None)"
    using assms(2) tv by (auto simp: bolt_create_def split: prod.splits option.splits)
  then have d': "b_get B d' = upd2 (upd2 (upd2 (upd2 (b_get B d) TaskBucket ?i (Some tv)) TaskState ?i
      (Some (b_of_string B (State_String Queued)))) TaskOwner ?i (Some (b_of_string B (GetUsername ctx)))) TasksQueued ?i
      (Some (b_of_string B ''''))"
    by (rule bolt_Update_cases [OF assms(1)]) (auto simp: puts simp del: State_String.simps)
  show "bolt_state B d' ?i = Some Queued" "bolt_owner B d' ?i = GetUsername ctx" "bolt_queued B d' ?i"
    unfolding bolt_state_def bolt_getTaskState_def bolt_owner_def bolt_queued_def d'
    by (simp_all add: upd2_def bolt_lawsD(10) [OF assms(1)] State_value_String [of Queued, simplified])
qed



text \<open>
  The Bolt database is stricter than the state machine of the task package.  It accepts no
  transition that the state machine refuses, but it refuses the retries that the state machine
  allows: a task in an error state can go back neither to \<open>Queued\<close> nor to \<open>Initializing\<close>.
\<close>

theorem bolt_refuses_retries:
  assumes "bolt_laws B" "bolt_ok B d" "bolt_getTaskState B d i \<in> {ExecutorError, SystemError}" "st \<in> {Queued, Initializing}"
  shows "ValidateTransition (bolt_getTaskState B d i) st = None \<and> snd (bolt_WriteEvent B mode ctx (NewState now i st) d) \<noteq> None"
proof -
  obtain d' r where run: "bolt_WriteEvent B mode ctx (NewState now i st) d = (d', r)" by force
  have valid: "ValidateTransition (bolt_getTaskState B d i) st = None" using assms(3,4) by (auto simp: ValidateTransition_def)
  have "snd (transitionTaskState B i st d) \<noteq> None"
    using assms(3,4) by (auto simp: transitionTaskState_def Let_def TerminalState_def)
  then have "r \<noteq> None"
    using run by (auto simp: bolt_WriteEvent_def NewState_def GetState_def Let_def bolt_Update_def loadMinimalTaskView_def
        loadTask_def checkOwner_def split: option.splits prod.splits if_splits sum.splits)
  with valid run show ?thesis by simp
qed

theorem bolt_refuses_retries_witness:
  "snd (bolt_WriteEvent mem_bolt AccessAll None (NewState ''now'' ''t1'' Queued)
     (fst (bolt_WriteEvent mem_bolt AccessAll None (NewState ''now'' ''t1'' SystemError) bolt_sample))) \<noteq> None"
proof -
  let ?d = "fst (bolt_WriteEvent mem_bolt AccessAll None (NewState ''now'' ''t1'' SystemError) bolt_sample)"
  have ok: "bolt_ok mem_bolt ?d" by (rule mem_bolt.write_inv [OF bolt_sample_ok surjective_pairing])
  have "bolt_getTaskState mem_bolt ?d ''t1'' = SystemError"
    by (simp add: bolt_WriteEvent_def NewState_def bolt_sample_eq mem_bolt_def loadMinimalTaskView_def
        loadTask_def checkOwner_def bolt_Update_def transitionTaskState_def Let_def bolt_getTaskState_def State_value_def
        all_states_def GetState_def TerminalState_def put_ignore_def delete_ignore_def valid_key_def cell_size_def)
  with bolt_refuses_retries [OF mem_bolt_laws ok, of "''t1''" Queued AccessAll None "''now''"] show ?thesis by simp
qed

section \<open>Lost updates\<close>

text \<open>
  Two system logs written at the same time can lose one of them.  The event handler reads the
  logs of a task in one transaction and writes the extended list in another; when two handlers
  both read before either writes, and both report success, the line of the first is not stored.
\<close>

theorem bolt_syslog_lost_update:
  assumes "bolt_laws B" "valid_key i" "syslog_read B i d = Inr ls"
    "syslog_write B i (ls @ [first]) d = (d1, None)" "syslog_write B i (ls @ [second]) d1 = (d2, None)"
    "\<And>v. m_SysLogs B (ls @ [second]) = Inr v \<Longrightarrow> b_size B v \<le> 2147483646"
  shows "syslog_read B i d2 = Inr (ls @ [second])"
proof -
  from assms(5) obtain v where v: "m_SysLogs B (ls @ [second]) = Inr v"
    "bolt_Update B (\<lambda>d. (put_ignore B SysLogs i v d, None)) d1 = (d2, None)"
    by (auto simp: syslog_write_def split: sum.splits)
  from v(2) have "b_get B d2 = b_get B (put_ignore B SysLogs i v d1)"
    by (rule bolt_Update_cases [OF assms(1)]) auto
  also have "\<dots> = upd2 (b_get B d1) SysLogs i (Some v)"
    using bolt_lawsD(1) [OF assms(1,2) assms(6) [OF v(1)], of d1 SysLogs] by (simp add: get_put_ignore [OF assms(1)])
  finally show ?thesis using bolt_lawsD(13) [OF assms(1) v(1)] by (simp add: syslog_read_def)
qed

theorem bolt_syslog_lost_update_witness:
  "syslog_read mem_bolt ''t1'' (fst (syslog_write mem_bolt ''t1'' ([] @ [''second''])
     (fst (syslog_write mem_bolt ''t1'' ([] @ [''first'']) bolt_sample)))) = Inr ([] @ [''second''])"
proof (rule bolt_syslog_lost_update [OF mem_bolt_laws])
  show "valid_key ''t1''" by (simp add: valid_key_def)
  show "syslog_read mem_bolt ''t1'' bolt_sample = Inr []" by (simp add: syslog_read_def bolt_sample_eq mem_bolt_def)
  show "syslog_write mem_bolt ''t1'' ([] @ [''first'']) bolt_sample = (fst (syslog_write mem_bolt ''t1'' ([] @ [''first'']) bolt_sample), None)"
    by (simp add: syslog_write_def mem_bolt_def bolt_Update_def)
  show "syslog_write mem_bolt ''t1'' ([] @ [''second'']) (fst (syslog_write mem_bolt ''t1'' ([] @ [''first'']) bolt_sample)) =
      (fst (syslog_write mem_bolt ''t1'' ([] @ [''second'']) (fst (syslog_write mem_bolt ''t1'' ([] @ [''first'']) bolt_sample))), None)"
    by (simp add: syslog_write_def mem_bolt_def bolt_Update_def)
  show "m_SysLogs mem_bolt ([] @ [''second'']) = Inr v \<Longrightarrow> b_size mem_bolt v \<le> 2147483646" for v
    by (auto simp: mem_bolt_def cell_size_def)
qed

section \<open>Scheduling\<close>

definition bolt_assigned :: "('d, 'v) bolt \<Rightarrow> 'd \<Rightarrow> string \<Rightarrow> string set" where
  "bolt_assigned B d tid = {i. \<exists>n. bolt_node B d i = Some n \<and> tid \<in> set (n_TaskIds n)}"

text \<open>
  C27: a scheduling iteration over the Bolt database assigns every queued task to at most one node.
  If the tasks read from the queue have distinct identifiers and none of them is assigned to a node
  yet, then after the iteration, with node checks, failed writes and dead nodes included, each of
  them is in the task list of at most one stored node.
\<close>

theorem bolt_schedule_once:
  assumes "bolt_laws B" "bolt_ok B d" "d1 = fst (CheckNodes (bolt_sched B mode clk) conf now clock d)"
    "distinct (map t_Id (bolt_ReadQueue B mode (sc_ScheduleChunk conf) d1))"
    "\<forall>t\<in>set (bolt_ReadQueue B mode (sc_ScheduleChunk conf) d1). bolt_assigned B d (t_Id t) = {}"
    "t \<in> set (bolt_ReadQueue B mode (sc_ScheduleChunk conf) d1)"
  shows "\<exists>i. bolt_assigned B (fst (Schedule (bolt_sched B mode clk) conf now clock ctx d)) (t_Id t) \<subseteq> {i}"
proof -
  note ns = bolt_node_store [OF assms(1), of mode clk]
  have q: "se_ReadQueue (bolt_sched B mode clk) = bolt_ReadQueue B mode" by (simp add: bolt_sched_def)
  have a: "node_store.assigned (bolt_node B) = bolt_assigned B"
    by (simp add: fun_eq_iff node_store.assigned_def [OF ns] bolt_assigned_def)
  from node_store.Schedule_assigns_once [OF ns assms(2,3), of ctx] assms(4-6) show ?thesis
    unfolding q a by blast
qed

definition sched_conf :: SchedulerConf where
  "sched_conf = \<lparr>sc_NodeInitTimeout = 300, sc_NodeDeadTimeout = 300, sc_NodePingTimeout = 60, sc_ScheduleChunk = 10\<rparr>"

theorem bolt_schedule_once_witness:
  "\<exists>i. bolt_assigned mem_bolt (fst (Schedule (bolt_sched mem_bolt AccessOwner 5) sched_conf ''now'' 5 None bolt_sample)) ''t1'' \<subseteq> {i}"
proof -
  let ?d1 = "fst (CheckNodes (bolt_sched mem_bolt AccessOwner 5) sched_conf ''now'' 5 bolt_sample)"
  have d1: "?d1 = bolt_sample"
    by (simp add: CheckNodes_def bolt_sched_def bolt_ListNodes_def bolt_sample_eq mem_bolt_def)
  have q: "map t_Id (bolt_ReadQueue mem_bolt AccessOwner (sc_ScheduleChunk sched_conf) ?d1) = [''t1'']"
    unfolding d1 by (simp add: bolt_ReadQueue_def bolt_sample_eq mem_bolt_def sched_conf_def loadFullTaskView_def loadTask_def
        checkOwner_def loadTaskLogs_def sample_task_def empty_task_def Let_def)
  then obtain t where t: "bolt_ReadQueue mem_bolt AccessOwner (sc_ScheduleChunk sched_conf) ?d1 = [t]" "t_Id t = ''t1''"
    by (auto simp: map_eq_Cons_conv)
  have "bolt_assigned mem_bolt bolt_sample tid = {}" for tid
    by (simp add: bolt_assigned_def bolt_node_def bolt_sample_eq mem_bolt_def)
  with bolt_schedule_once [OF mem_bolt_laws bolt_sample_ok refl, of AccessOwner sched_conf 5 "''now''" 5 t None] t
  show ?thesis by simp
qed

end
