(* ===== verification/Task_Service.thy ===== *)
theory Task_Service
  imports Bolt_Properties Tes_Validate
begin

text \<open>
  The task API of the server: \<open>src/server/tes.go\<close>, with the resource limits of
  \<open>src/config/resources.go\<close> and the status codes of \<open>src/util/server/server.go\<close>.

  The service is built from a database (its event writer and its reader) and a compute backend,
  all acting on one state.  The locale \<open>task_service\<close> adds the compute backend to the database
  contract: whatever a backend does to tasks, it does by writing events.  The plugin is an argument.
\<close>

section \<open>Resource limits\<close>

text \<open>
  \<open>resource.ParseQuantity\<close> is an argument: \<^const>\<open>None\<close> for an error, or the quantity as a number
  (\<open>AsApproximateFloat64\<close>) and as an integer (\<open>Value\<close>).
\<close>

type_synonym parse_quantity = "string \<Rightarrow> (real \<times> int) option"

record ResourceStrings =
  rs_Cpus :: string
  rs_RamGb :: string
  rs_DiskGb :: string

record KubernetesResources =
  kr_Limits :: "ResourceStrings option"
  kr_Defaults :: "ResourceStrings option"

definition parseCpus :: "parse_quantity \<Rightarrow> string \<Rightarrow> 32 word option" where
  "parseCpus pq s =
     (if s = '''' then Some 0
      else case pq s of None \<Rightarrow> None | Some (q, _) \<Rightarrow> Some (word_of_int \<lceil>q\<rceil>))"

definition parseMemory :: "parse_quantity \<Rightarrow> string \<Rightarrow> real option" where
  "parseMemory pq s =
     (if s = '''' then Some 0
      else case pq s of None \<Rightarrow> None | Some (_, b) \<Rightarrow> Some (real_of_int b / (1024 * 1024 * 1024)))"

definition or_zero :: "'a::zero option \<Rightarrow> 'a" where
  "or_zero v = (case v of None \<Rightarrow> 0 | Some x \<Rightarrow> x)"

definition GetResourceLimits :: "parse_quantity \<Rightarrow> KubernetesResources option \<Rightarrow> Resources" where
  "GetResourceLimits pq k8s =
     (case k8s of
        None \<Rightarrow> empty_resources
      | Some k \<Rightarrow>
          (case kr_Limits k of
             None \<Rightarrow> empty_resources
           | Some l \<Rightarrow> empty_resources\<lparr>res_CpuCores := or_zero (parseCpus pq (rs_Cpus l)),
                 res_RamGb := or_zero (parseMemory pq (rs_RamGb l)),
                 res_DiskGb := or_zero (parseMemory pq (rs_DiskGb l))\<rparr>))"

definition applyDefaults :: "parse_quantity \<Rightarrow> Resources option \<Rightarrow> KubernetesResources option \<Rightarrow> Resources" where
  "applyDefaults pq res k8s =
     (let res = (case res of None \<Rightarrow> empty_resources | Some r \<Rightarrow> r)
      in case k8s of
           None \<Rightarrow> res
         | Some k \<Rightarrow>
             (case kr_Defaults k of
                None \<Rightarrow> res
              | Some s \<Rightarrow>
                  (let res = (if res_CpuCores res = 0 then res\<lparr>res_CpuCores := or_zero (parseCpus pq (rs_Cpus s))\<rparr> else res);
                       res = (if res_RamGb res = 0 then res\<lparr>res_RamGb := or_zero (parseMemory pq (rs_RamGb s))\<rparr> else res)
                   in if res_DiskGb res = 0 then res\<lparr>res_DiskGb := or_zero (parseMemory pq (rs_DiskGb s))\<rparr> else res)))"

text \<open>The format \<open>%.2f\<close>: two decimals, rounded to the nearest and on a tie to the even last digit.\<close>

definition format_2f :: "real \<Rightarrow> string" where
  "format_2f x =
     (let y = \<bar>x\<bar> * 100; k = \<lfloor>y\<rfloor>; r = y - of_int k;
          n = (if r < 1/2 \<or> r = 1/2 \<and> even k then k else k + 1)
      in (if x < 0 then ''-'' else '''') @ show_int (n div 100) @ ''.'' @ show_int (n mod 100 div 10) @ show_int (n mod 10))"

definition ResourceValidationError :: "string \<Rightarrow> real \<Rightarrow> real \<Rightarrow> go_error" where
  "ResourceValidationError field requested limit =
     Errorf (''requested '' @ field @ '' '' @ format_2f requested @ '' exceeds limit '' @ format_2f limit)"

definition ValidateResources ::
    "parse_quantity \<Rightarrow> Resources option \<Rightarrow> KubernetesResources option \<Rightarrow> go_error + Resources" where
  "ValidateResources pq res k8s =
     (let res = applyDefaults pq res k8s; limits = GetResourceLimits pq k8s
      in if sint (res_CpuCores limits) > 0 \<and> sint (res_CpuCores res) > sint (res_CpuCores limits)
         then Inl (ResourceValidationError ''cpu_cores'' (of_int (sint (res_CpuCores res))) (of_int (sint (res_CpuCores limits))))
         else if res_RamGb limits > 0 \<and> res_RamGb res > res_RamGb limits
         then Inl (ResourceValidationError ''ram_gb'' (res_RamGb res) (res_RamGb limits))
         else if res_DiskGb limits > 0 \<and> res_DiskGb res > res_DiskGb limits
         then Inl (ResourceValidationError ''disk_gb'' (res_DiskGb res) (res_DiskGb limits))
         else Inr res)"

section \<open>Status codes\<close>

definition GRPCCodeFromHTTPStatus :: "int \<Rightarrow> grpc_code" where
  "GRPCCodeFromHTTPStatus st =
     (if st = 200 then OtherCode ''OK''
      else if st = 408 then OtherCode ''Canceled''
      else if st = 500 then OtherCode ''Internal''
      else if st = 400 then InvalidArgument
      else if st = 504 then OtherCode ''DeadlineExceeded''
      else if st = 404 then NotFound
      else if st = 409 then OtherCode ''AlreadyExists''
      else if st = 403 then PermissionDenied
      else if st = 401 then Unauthenticated
      else if st = 429 then OtherCode ''ResourceExhausted''
      else if st = 501 then OtherCode ''Unimplemented''
      else if st = 503 then OtherCode ''Unavailable''
      else OtherCode ''Unknown'')"

section \<open>Plugins\<close>

datatype plugin_type = CREATE | GET | CANCEL

record JobResponse =
  jr_Code :: int
  jr_Message :: string
  jr_UserId :: string
  jr_Task :: "Task option"
  jr_Config :: bool

type_synonym plugin_action = "(string \<times> string list) list \<Rightarrow> Task option \<Rightarrow> plugin_type \<Rightarrow> JobResponse option \<times> go_error option"

text \<open>The incoming metadata is \<^const>\<open>None\<close> when the context has none.\<close>

definition DoPluginAction ::
    "plugin_action \<Rightarrow> (string \<times> string list) list option \<Rightarrow> Task option \<Rightarrow> plugin_type \<Rightarrow> JobResponse option \<times> go_error option" where
  "DoPluginAction act md task ty =
     (case md of
        None \<Rightarrow> (None, Some (Errorf ''Headers not passed from context''))
      | Some m \<Rightarrow>
          (case act (filter (\<lambda>(k, v). \<not> HasPrefix k '':'') m) task ty of
             (resp, Some err) \<Rightarrow> (resp, Some (Errorf (''DoPluginAction: PluginAction failed: '' @ error_string err)))
           | (resp, None) \<Rightarrow> (resp, None)))"

text \<open>A nil response without an error is dereferenced.\<close>

definition HandleDoPluginAction ::
    "plugin_action \<Rightarrow> (string \<times> string list) list option \<Rightarrow> Task option \<Rightarrow> plugin_type \<Rightarrow> JobResponse option \<times> go_error option" where
  "HandleDoPluginAction act md task ty =
     (case DoPluginAction act md task ty of
        (resp, Some err) \<Rightarrow> (resp, Some (Errorf (''Error loading plugins: '' @ error_string err)))
      | (None, None) \<Rightarrow> (None, Some nil_deref)
      | (Some r, None) \<Rightarrow>
          if jr_Code r \<noteq> 200
          then (Some r, Some (Errorf (''Plugin returned error: code: '' @ show_int (jr_Code r) @ '', message: '' @ jr_Message r
                  @ '', user: '' @ jr_UserId r)))
          else if \<not> jr_Config r then (Some r, Some (Errorf ''Plugin returned empty config''))
          else (Some r, None))"

text \<open>What \<open>CreateTask\<close> and \<open>CancelTask\<close> do with the plugin: the error to return, or the response.\<close>

definition run_plugin ::
    "plugin_action option \<Rightarrow> (string \<times> string list) list option \<Rightarrow> Task option \<Rightarrow> plugin_type \<Rightarrow> go_error + JobResponse option" where
  "run_plugin plugins md task ty =
     (case plugins of
        None \<Rightarrow> Inr None
      | Some act \<Rightarrow>
          (case HandleDoPluginAction act md task ty of
             (resp, Some err) \<Rightarrow>
               (case resp of
                  Some r \<Rightarrow> if jr_Code r \<noteq> 0 then Inl (StatusError (GRPCCodeFromHTTPStatus (jr_Code r)) (error_string err)) else Inl err
                | None \<Rightarrow> Inl err)
           | (resp, None) \<Rightarrow> Inr resp))"

section \<open>The service\<close>

record 's TaskService =
  ts_Event :: "'s writer"
  ts_Compute :: "'s writer"
  ts_CheckParams :: "Task \<Rightarrow> go_error option"
  ts_Read :: "go_ctx \<Rightarrow> GetTaskRequest \<Rightarrow> 's \<Rightarrow> go_error + Task"
  ts_Plugins :: "plugin_action option"
  ts_Compute_name :: string
  ts_K8s :: "KubernetesResources option"

text \<open>
  The part of \<open>CreateTask\<close> before the response, and the part that runs in its own goroutine
  afterwards.  The fresh identifier and the clock are arguments.
\<close>

definition CreateTask ::
    "'s TaskService \<Rightarrow> parse_quantity \<Rightarrow> string \<Rightarrow> string \<Rightarrow> (string \<times> string list) list option \<Rightarrow> go_ctx \<Rightarrow> Task \<Rightarrow> 's \<Rightarrow>
     's \<times> (go_error + Task)" where
  "CreateTask ts pq freshId now md ctx task0 s =
     (case run_plugin (ts_Plugins ts) md (Some task0) CREATE of
        Inl err \<Rightarrow> (s, Inl err)
      | Inr resp \<Rightarrow>
          (let task1 = (case resp of None \<Rightarrow> task0 | Some r \<Rightarrow> (case jr_Task r of None \<Rightarrow> task0 | Some t \<Rightarrow> t))
           in case InitTask freshId now task1 True of
                (task, Some err) \<Rightarrow> (s, Inl (StatusError InvalidArgument (error_string err)))
              | (task, None) \<Rightarrow>
                  (case ts_CheckParams ts task of
                     Some err \<Rightarrow> (s, Inl err)
                   | None \<Rightarrow>
                       (case (if ts_Compute_name ts = ''kubernetes''
                              then (case ValidateResources pq (t_Resources task) (ts_K8s ts) of
                                      Inl err \<Rightarrow> Inl (StatusError InvalidArgument (''invalid resources: '' @ error_string err))
                                    | Inr r \<Rightarrow> Inr (task\<lparr>t_Resources := Some r\<rparr>))
                              else Inr task) of
                          Inl err \<Rightarrow> (s, Inl err)
                        | Inr task' \<Rightarrow>
                            (case ts_Event ts ctx (NewTaskCreated now task') s of
                               (s', Some err) \<Rightarrow> (s', Inl (Errorf (''error creating task: '' @ error_string err)))
                             | (s', None) \<Rightarrow> (s', Inr task'))))))"

definition submit_task :: "'s TaskService \<Rightarrow> string \<Rightarrow> Task \<Rightarrow> 's \<Rightarrow> 's" where
  "submit_task ts now task s =
     (case ts_Compute ts None (NewTaskCreated now task) s of
        (s', None) \<Rightarrow> s'
      | (s', Some err) \<Rightarrow> fst (ts_Event ts None (NewState now (t_Id task) SystemError) s'))"

definition not_found :: "string \<Rightarrow> go_error" where
  "not_found i = StatusError NotFound (error_string ErrNotFound @ '': taskID: '' @ i)"

definition TaskService_GetTask :: "'s TaskService \<Rightarrow> go_ctx \<Rightarrow> GetTaskRequest \<Rightarrow> 's \<Rightarrow> go_error + Task" where
  "TaskService_GetTask ts ctx req s =
     (case ts_Read ts ctx req s of
        Inl err \<Rightarrow> if err = ErrNotFound then Inl (not_found (gt_Id req)) else Inl err
      | Inr task \<Rightarrow> Inr task)"

definition CancelTask ::
    "'s TaskService \<Rightarrow> string \<Rightarrow> (string \<times> string list) list option \<Rightarrow> go_ctx \<Rightarrow> string \<Rightarrow> 's \<Rightarrow> 's \<times> go_error option" where
  "CancelTask ts now md ctx i s =
     (case run_plugin (ts_Plugins ts) md None CANCEL of
        Inl err \<Rightarrow> (s, Some err)
      | Inr _ \<Rightarrow>
          (case ts_Read ts ctx \<lparr>gt_Id = i, gt_View = ''''\<rparr> s of
             Inl err \<Rightarrow> (s, Some (if err = ErrNotFound then not_found i else err))
           | Inr task \<Rightarrow>
               if TerminalState (t_State task) then (s, None)
               else (case ts_Event ts ctx (NewState now i Canceled) s of
                  (s1, Some err) \<Rightarrow>
                    (s1, Some (if err = ErrNotFound then not_found i
                               else if err = ErrNotPermitted
                               then StatusError PermissionDenied (error_string err @ '': taskID: '' @ i)
                               else err))
                | (s1, None) \<Rightarrow>
                    (case ts_Compute ts ctx (NewState now i Canceled) s1 of
                       (s2, None) \<Rightarrow> (s2, None)
                     | (s2, Some err) \<Rightarrow>
                         (fst (ts_Event ts ctx (NewSystemLog now i 0 0 ''error''
                            ''Error cleaning up compute resources during cancel'' [(''error'', error_string err)]) s2), None)))))"

section \<open>The contract of the service\<close>

locale task_service = task_db "ts_Event ts" state_of inv "ts_Read ts"
  for ts :: "'s TaskService" and state_of and inv +
  assumes compute_evolves: "evolves state_of inv s (fst (ts_Compute ts ctx ev s))"
begin

text \<open>A cancel that reports success leaves the task in a terminal state, whatever the backend does.\<close>

lemma cancel_terminal:
  assumes "inv s" "CancelTask ts now md ctx i s = (s', None)"
  shows "\<exists>st. state_of s' i = Some st \<and> TerminalState st"
proof -
  let ?req = "\<lparr>gt_Id = i, gt_View = ''''\<rparr>"
  from assms(2) obtain task where read: "ts_Read ts ctx ?req s = Inr task"
    by (auto simp: CancelTask_def split: sum.splits)
  from get_state [OF assms(1) read] have st: "state_of s i = Some (t_State task)" by simp
  show ?thesis
  proof (cases "TerminalState (t_State task)")
    case True
    with assms(2) read have "s' = s" by (auto simp: CancelTask_def split: sum.splits)
    with True st show ?thesis by simp
  next
    case False
    with assms(2) read obtain s1 where cancel: "ts_Event ts ctx (NewState now i Canceled) s = (s1, None)"
      by (auto simp: CancelTask_def split: sum.splits prod.splits option.splits if_splits)
    have s1: "inv s1" "state_of s1 i = Some Canceled"
      using write_inv [OF assms(1) cancel] write_state [OF assms(1) cancel]
      by (auto simp: NewState_def GetState_def)
    obtain s2 r where comp: "ts_Compute ts ctx (NewState now i Canceled) s1 = (s2, r)" by force
    from compute_evolves [of s1 ctx "NewState now i Canceled"] comp have ev: "evolves state_of inv s1 s2" by simp
    have i2: "inv s2" "state_of s2 i = Some Canceled"
      using ev s1 evolves_final [OF ev s1] by (auto simp: evolves_def final_state_def)
    show ?thesis
    proof (cases r)
      case None
      with assms(2) read False cancel comp have "s' = s2" by (auto simp: CancelTask_def split: sum.splits)
      with i2 show ?thesis by (auto simp: TerminalState_def)
    next
      case (Some err)
      let ?log = "NewSystemLog now i 0 0 ''error'' ''Error cleaning up compute resources during cancel'' [(''error'', error_string err)]"
      from Some assms(2) read False cancel comp have s': "s' = fst (ts_Event ts ctx ?log s2)"
        by (auto simp: CancelTask_def split: sum.splits)
      have "state_of s' i = Some Canceled"
        using final_forever [OF i2(1), of "[(ctx, ?log)]" i Canceled] i2(2)
        by (simp add: s' creates_def NewSystemLog_def final_state_def)
      then show ?thesis by (auto simp: TerminalState_def)
    qed
  qed
qed

end

section \<open>Services on the databases\<close>

text \<open>The compute backend of \<open>src/compute/noop\<close>, and a service on the Bolt and the Badger database.\<close>

definition noop_Backend_WriteEvent :: "'s writer" where
  "noop_Backend_WriteEvent ctx ev s = (s, None)"

definition noop_Backend_CheckParams :: "Task \<Rightarrow> go_error option" where
  "noop_Backend_CheckParams task = None"

definition bolt_service ::
    "('d, 'v) bolt \<Rightarrow> string \<Rightarrow> 'd writer \<Rightarrow> (Task \<Rightarrow> go_error option) \<Rightarrow> plugin_action option \<Rightarrow> string \<Rightarrow>
     KubernetesResources option \<Rightarrow> 'd TaskService" where
  "bolt_service B mode compute check plugins name k8s =
     \<lparr>ts_Event = bolt_WriteEvent B mode, ts_Compute = compute, ts_CheckParams = check,
      ts_Read = bolt_GetTask B mode, ts_Plugins = plugins, ts_Compute_name = name, ts_K8s = k8s\<rparr>"

definition badger_service ::
    "('d, 'v) kv \<Rightarrow> 'd retry_notify \<Rightarrow> string \<Rightarrow> 'd writer \<Rightarrow> (Task \<Rightarrow> go_error option) \<Rightarrow> plugin_action option \<Rightarrow> string \<Rightarrow>
     KubernetesResources option \<Rightarrow> 'd TaskService" where
  "badger_service K RN mode compute check plugins name k8s =
     \<lparr>ts_Event = badger_WriteEvent K RN mode, ts_Compute = compute, ts_CheckParams = check,
      ts_Read = badger_GetTask K mode, ts_Plugins = plugins, ts_Compute_name = name, ts_K8s = k8s\<rparr>"

text \<open>A backend that acts on tasks by writing events, none of which creates a task.\<close>

definition backend_by_events :: "'s writer \<Rightarrow> 's writer \<Rightarrow> bool" where
  "backend_by_events put compute \<longleftrightarrow>
     (\<forall>ctx ev s. \<exists>evs. fst (compute ctx ev s) = write_all put evs s \<and> list_all (\<lambda>(c, e). ev_Type e \<noteq> Type_TASK_CREATED) evs)"

lemma noop_by_events: "backend_by_events put noop_Backend_WriteEvent"
  unfolding backend_by_events_def noop_Backend_WriteEvent_def
  by (metis fst_conv list.pred_inject(1) write_all.simps(1))

lemma task_service_intro:
  assumes "task_db (ts_Event ts) state_of I (ts_Read ts)" "backend_by_events (ts_Event ts) (ts_Compute ts)"
  shows "task_service ts state_of I"
proof (intro task_service.intro task_service_axioms.intro assms(1))
  fix s ctx ev
  obtain evs where evs: "fst (ts_Compute ts ctx ev s) = write_all (ts_Event ts) evs s"
    "list_all (\<lambda>(c, e). ev_Type e \<noteq> Type_TASK_CREATED) evs"
    using assms(2) unfolding backend_by_events_def by blast
  show "evolves state_of I s (fst (ts_Compute ts ctx ev s))"
    unfolding evs(1) using evs(2)
    by (intro task_store.write_all_evolves [OF task_db.axioms(1) [OF assms(1)]]) (simp add: list_all_iff)
qed

interpretation bolt_svc: task_service "bolt_service mem_bolt mode noop_Backend_WriteEvent check plugins name k8s"
  "bolt_state mem_bolt" "bolt_ok mem_bolt" for mode check plugins name k8s
  by (rule task_service_intro) (simp_all add: bolt_service_def noop_by_events bolt_task_db [OF mem_bolt_laws])

interpretation badger_svc: task_service "badger_service mem_kv untimed_backoff mode noop_Backend_WriteEvent check plugins name k8s"
  "badger_state mem_kv" "badger_ok mem_kv" for mode check plugins name k8s
  by (rule task_service_intro)
    (simp_all add: badger_service_def noop_by_events badger_task_db [OF mem_kv_laws untimed_backoff_law])

section \<open>Lemmas: creation\<close>

lemma InitTask_ok:
  assumes "InitTask freshId now t True = (t', None)"
  shows "valid_task t'" "t_State t' = Queued" "t_Id t' = freshId"
  using assms by (auto simp: InitTask_def Let_def Validate_complete split: if_splits)

lemma valid_task_Resources [simp]: "valid_task (t\<lparr>t_Resources := r\<rparr>) = valid_task t"
  by (simp add: valid_task_def)

lemma CreateTask_ok:
  assumes "CreateTask ts pq freshId now md ctx t s = (s', Inr task)"
  shows "valid_task task" "t_State task = Queued" "t_Id task = freshId"
    "ts_Event ts ctx (NewTaskCreated now task) s = (s', None)"
proof -
  from assms obtain t1 t2 where init: "InitTask freshId now t1 True = (t2, None)"
    and task: "task = t2 \<or> (\<exists>r. task = t2\<lparr>t_Resources := Some r\<rparr>)"
    and put: "ts_Event ts ctx (NewTaskCreated now task) s = (s', None)"
    by (auto simp: CreateTask_def Let_def split: sum.splits prod.splits option.splits if_splits)
  from InitTask_ok [OF init] task show "valid_task task" "t_State task = Queued" "t_Id task = freshId" by auto
  from put show "ts_Event ts ctx (NewTaskCreated now task) s = (s', None)" .
qed

lemma ValidateResources_ok:
  assumes "ValidateResources pq req0 k8s = Inr r"
    and "lims = GetResourceLimits pq k8s" "req = (case req0 of None \<Rightarrow> empty_resources | Some r \<Rightarrow> r)"
  shows "sint (res_CpuCores lims) > 0 \<Longrightarrow> sint (res_CpuCores r) \<le> sint (res_CpuCores lims)"
    "res_RamGb lims > 0 \<Longrightarrow> res_RamGb r \<le> res_RamGb lims" "res_DiskGb lims > 0 \<Longrightarrow> res_DiskGb r \<le> res_DiskGb lims"
    "res_CpuCores req \<noteq> 0 \<Longrightarrow> res_CpuCores r = res_CpuCores req" "res_RamGb req \<noteq> 0 \<Longrightarrow> res_RamGb r = res_RamGb req"
    "res_DiskGb req \<noteq> 0 \<Longrightarrow> res_DiskGb r = res_DiskGb req"
  using assms by (auto simp: ValidateResources_def applyDefaults_def Let_def split: if_splits option.splits)

section \<open>Properties\<close>

text \<open>
  C8: a cancel request that succeeds has ended the task.  For the service on the Bolt database with
  any compute backend that acts by writing events, when \<open>CancelTask\<close> returns without error the task
  is stored in a terminal state, whatever the backend did and even if its clean-up failed.
\<close>

theorem bolt_cancel_terminal:
  assumes "bolt_laws B" "bolt_ok B d" "backend_by_events (bolt_WriteEvent B mode) compute"
    "CancelTask (bolt_service B mode compute check plugins name k8s) now md ctx i d = (d', None)"
  shows "\<exists>st. bolt_state B d' i = Some st \<and> TerminalState st"
proof -
  have "task_service (bolt_service B mode compute check plugins name k8s) (bolt_state B) (bolt_ok B)"
    by (rule task_service_intro) (simp_all add: bolt_service_def assms(3) bolt_task_db [OF assms(1)])
  from task_service.cancel_terminal [OF this assms(2,4)] show ?thesis .
qed

theorem bolt_cancel_terminal_witness:
  "\<exists>st. bolt_state mem_bolt (fst (CancelTask (bolt_service mem_bolt AccessOwner noop_Backend_WriteEvent
      noop_Backend_CheckParams None ''noop'' None) ''now'' None sample_user ''t1'' bolt_sample)) ''t1'' = Some st \<and> TerminalState st"
proof (rule bolt_cancel_terminal [OF mem_bolt_laws bolt_sample_ok noop_by_events])
  let ?ts = "bolt_service mem_bolt AccessOwner noop_Backend_WriteEvent noop_Backend_CheckParams None ''noop'' None"
  have "snd (CancelTask ?ts ''now'' None sample_user ''t1'' bolt_sample) = None"
    by (simp add: CancelTask_def run_plugin_def bolt_service_def bolt_GetTask_def View_value_def Let_def
        bolt_WriteEvent_def NewState_def bolt_sample_eq mem_bolt_def loadMinimalTaskView_def empty_task_def
        loadTask_def checkOwner_def bolt_Update_def transitionTaskState_def bolt_getTaskState_def State_value_def
        all_states_def sample_user_def CanSeeAllTasks_def IsAccessible_def systemUserInfo_def GetState_def TerminalState_def
        AccessOwner_def AccessAll_def AccessOwnerOrAdmin_def noop_Backend_WriteEvent_def)
  then show "CancelTask ?ts ''now'' None sample_user ''t1'' bolt_sample =
      (fst (CancelTask ?ts ''now'' None sample_user ''t1'' bolt_sample), None)"
    by (metis prod.collapse)
qed



text \<open>A task as a client sends it, a backend without capacity, and the database after its creation.\<close>

definition sample_request :: Task where
  "sample_request = empty_task\<lparr>t_Executors := [empty_executor\<lparr>ex_Image := ''alpine'', ex_Command := [''true'']\<rparr>]\<rparr>"

definition full_backend :: "'s writer" where
  "full_backend ctx ev s = (s, Some (Errorf ''no capacity''))"

definition sample_created :: Task where
  "sample_created = sample_request\<lparr>t_Id := ''t2'', t_State := Queued, t_CreationTime := ''now''\<rparr>"

definition bolt_created :: mem_db where
  "bolt_created = [((TaskBucket, ''t2''), CTask sample_created), ((TaskState, ''t2''), CBytes ''QUEUED''),
     ((TaskOwner, ''t2''), CBytes ''ann''), ((TasksQueued, ''t2''), CBytes '''')]"

lemma sample_InitTask: "InitTask ''t2'' ''now'' sample_request True = (sample_created, None)"
  by (simp add: InitTask_def Let_def Validate_complete valid_task_def sample_created_def sample_request_def
      valid_executor_def optional_absolute_def empty_executor_def empty_task_def)

lemma sample_create: "bolt_create mem_bolt sample_user sample_created [] = (bolt_created, None)"
  by (simp add: bolt_create_def mem_bolt_def bolt_created_def bolt_Update_def put_ignore_def valid_key_def cell_size_def
      sample_created_def sample_user_def GetUsername_def)


text \<open>A Kubernetes service with a limit of four cores and a default of two.\<close>

definition sample_quantity :: parse_quantity where
  "sample_quantity s = (if s = ''4'' then Some (4, 4) else if s = ''2'' then Some (2, 2) else None)"

definition sample_kube :: "mem_db TaskService" where
  "sample_kube = bolt_service mem_bolt AccessOwner noop_Backend_WriteEvent noop_Backend_CheckParams None ''kubernetes''
     (Some \<lparr>kr_Limits = Some \<lparr>rs_Cpus = ''4'', rs_RamGb = '''', rs_DiskGb = ''''\<rparr>,
            kr_Defaults = Some \<lparr>rs_Cpus = ''2'', rs_RamGb = '''', rs_DiskGb = ''''\<rparr>\<rparr>)"


end
