(* ===== verification/Go_Path.thy ===== *)
theory Go_Path
  imports Prelude
begin

text \<open>
  Go's \<open>path\<close> and \<open>path/filepath\<close> packages as the sources use them (on Unix the two agree), and
  \<open>src/util/fsutil/dir.go\<close> on top of them.

  \<open>Clean\<close> follows its documented rules on the components of the path.  The lemmas describe rooted
  paths by their list of components: \<open>comps p\<close> are the components left after cleaning, \<open>abs_path\<close>
  prints them, and a list of \<open>plain\<close> components survives the round trip.
\<close>

section \<open>Definitions\<close>

abbreviation slash :: char where
  "slash \<equiv> CHR ''/''"

text \<open>One component, read from left to right; the output is kept in reverse.\<close>

fun clean_step :: "bool \<Rightarrow> string \<Rightarrow> string list \<Rightarrow> string list" where
  "clean_step rooted c out =
     (if c = '''' \<or> c = ''.'' then out
      else if c = ''..'' then
        (case out of
           [] \<Rightarrow> if rooted then [] else [''..'']
         | x # xs \<Rightarrow> if x = ''..'' then ''..'' # out else xs)
      else c # out)"

definition Clean :: "string \<Rightarrow> string" where
  "Clean p =
     (if p = '''' then ''.''
      else let rooted = HasPrefix p ''/'';
               s = Join (rev (fold (clean_step rooted) (Split slash p) [])) ''/''
           in if rooted then ''/'' @ s else if s = '''' then ''.'' else s)"

definition path_Join :: "string list \<Rightarrow> string" where
  "path_Join elems =
     (let r = dropWhile (\<lambda>e. e = '''') elems in if r = [] then '''' else Clean (Join r ''/''))"

text \<open>The part up to and including the last slash, and the rest.\<close>

definition path_Split :: "string \<Rightarrow> string \<times> string" where
  "path_Split p =
     (let file = rev (takeWhile (\<lambda>c. c \<noteq> slash) (rev p)) in (take (length p - length file) p, file))"

definition path_Dir :: "string \<Rightarrow> string" where
  "path_Dir p = Clean (fst (path_Split p))"

definition IsAbs :: "string \<Rightarrow> bool" where
  "IsAbs p = HasPrefix p ''/''"

text \<open>\<open>filepath.Abs\<close> with the current directory as an argument.\<close>

definition filepath_Abs :: "string \<Rightarrow> string \<Rightarrow> string" where
  "filepath_Abs cwd p = (if IsAbs p then Clean p else path_Join [cwd, p])"

text \<open>\<open>path.Base\<close>: the last element, without slashes after it.\<close>

definition path_Base :: "string \<Rightarrow> string" where
  "path_Base p =
     (let q = rev (dropWhile (\<lambda>c. c = CHR ''/'') (rev p))
      in if p = '''' then ''.'' else if q = '''' then ''/'' else snd (path_Split q))"

section \<open>Lemmas: components\<close>

definition plain :: "string \<Rightarrow> bool" where
  "plain c \<longleftrightarrow> c \<noteq> '''' \<and> c \<noteq> ''.'' \<and> c \<noteq> ''..'' \<and> slash \<notin> set c"

definition abs_path :: "string list \<Rightarrow> string" where
  "abs_path cs = slash # Join cs ''/''"

definition comps :: "string \<Rightarrow> string list" where
  "comps p = rev (fold (clean_step True) (Split slash p) [])"

lemma Split_append_sep [simp]: "Split c (a @ c # b) = Split c a @ Split c b"
proof (induction a)
  case Nil
  then show ?case by simp
next
  case (Cons x a)
  then show ?case by (cases "Split c a") (auto split: list.splits)
qed

lemma fold_plain: "list_all plain cs \<Longrightarrow> fold (clean_step r) cs out = rev cs @ out"
  by (induction cs arbitrary: out) (auto simp: plain_def)

lemma clean_step_plain: "slash \<notin> set c \<Longrightarrow> list_all plain out \<Longrightarrow> list_all plain (clean_step True c out)"
  by (auto simp: plain_def split: list.splits)

lemma fold_clean_plain:
  "\<forall>c\<in>set cs. slash \<notin> set c \<Longrightarrow> list_all plain out \<Longrightarrow> list_all plain (fold (clean_step True) cs out)"
proof (induction cs arbitrary: out)
  case (Cons c cs)
  have "list_all plain (clean_step True c out)" using clean_step_plain Cons(2,3) by simp
  with Cons show ?case by simp
qed simp

lemma comps_plain [simp]: "list_all plain (comps p)"
  unfolding comps_def using fold_clean_plain [of "Split slash p" "[]"] Split_pieces by (fastforce simp: list_all_iff)

lemma Clean_rooted: "IsAbs p \<Longrightarrow> Clean p = abs_path (comps p)"
  by (auto simp: Clean_def comps_def abs_path_def Let_def IsAbs_def HasPrefix_def)

lemma IsAbs_abs_path [simp]: "IsAbs (abs_path cs)"
  by (simp add: IsAbs_def abs_path_def HasPrefix_def)

lemma Split_abs_path: "list_all plain cs \<Longrightarrow> cs \<noteq> [] \<Longrightarrow> Split slash (abs_path cs) = '''' # cs"
  by (simp add: abs_path_def Split_Join list_all_iff plain_def)

lemma comps_abs_path [simp]: "list_all plain cs \<Longrightarrow> comps (abs_path cs) = cs"
proof (cases cs)
  case Nil
  then show ?thesis by (simp add: comps_def abs_path_def)
next
  case (Cons c cs')
  moreover assume "list_all plain cs"
  ultimately show ?thesis unfolding comps_def
    by (simp add: Split_abs_path fold_plain del: clean_step.simps) (simp add: plain_def)
qed

lemma Clean_abs_path [simp]: "list_all plain cs \<Longrightarrow> Clean (abs_path cs) = abs_path cs"
  by (simp add: Clean_rooted)

lemma abs_path_eq_iff [simp]: "list_all plain cs \<Longrightarrow> list_all plain ds \<Longrightarrow> abs_path cs = abs_path ds \<longleftrightarrow> cs = ds"
  by (metis comps_abs_path)

text \<open>Cleaning is idempotent on rooted paths.\<close>

lemma Clean_Clean: "IsAbs p \<Longrightarrow> Clean (Clean p) = Clean p"
  by (simp add: Clean_rooted)

lemma comps_append: "comps (a @ slash # b) = rev (fold (clean_step True) (Split slash b) (rev (comps a)))"
  by (simp add: comps_def)

text \<open>A path without dot-dot components only goes down.\<close>

definition dotless :: "string \<Rightarrow> bool" where
  "dotless p \<longleftrightarrow> ''..'' \<notin> set (Split slash p)"

lemma fold_dotless:
  "''..'' \<notin> set cs \<Longrightarrow> fold (clean_step r) cs out = rev (filter (\<lambda>c. c \<noteq> '''' \<and> c \<noteq> ''.'') cs) @ out"
  by (induction cs arbitrary: out) auto

lemma comps_dotless: "dotless p \<Longrightarrow> comps p = filter (\<lambda>c. c \<noteq> '''' \<and> c \<noteq> ''.'') (Split slash p)"
  by (simp add: comps_def dotless_def fold_dotless)

lemma comps_append_dotless: "dotless b \<Longrightarrow> comps (a @ slash # b) = comps a @ comps b"
  by (simp add: comps_append comps_dotless) (simp add: dotless_def fold_dotless)

lemma dotless_abs_path [simp]: "list_all plain cs \<Longrightarrow> dotless (abs_path cs)"
  by (cases cs) (auto simp: dotless_def abs_path_def Split_Join list_all_iff plain_def)

text \<open>Joining onto a cleaned rooted directory.\<close>

lemma path_Join_abs: "path_Join [abs_path cs, s] = abs_path (comps (abs_path cs @ slash # s))"
  by (subst Clean_rooted [symmetric]) (simp_all add: path_Join_def abs_path_def IsAbs_def HasPrefix_def)

lemma path_Join_down: "list_all plain cs \<Longrightarrow> dotless s \<Longrightarrow> path_Join [abs_path cs, s] = abs_path (cs @ comps s)"
  by (simp add: path_Join_abs comps_append_dotless)

lemma path_Join_abs_abs [simp]:
  "list_all plain cs \<Longrightarrow> list_all plain ds \<Longrightarrow> path_Join [abs_path cs, abs_path ds] = abs_path (cs @ ds)"
  by (simp add: path_Join_down)

section \<open>Lemmas: directories\<close>

lemma path_Split_append: "slash \<notin> set f \<Longrightarrow> path_Split (d @ slash # f) = (d @ ''/'', f)"
proof -
  assume f: "slash \<notin> set f"
  then have "takeWhile (\<lambda>c. c \<noteq> slash) (rev f @ slash # rev d) = rev f"
    by (subst takeWhile_append2) auto
  then show ?thesis by (simp add: path_Split_def Let_def)
qed

lemma Join_snoc: "cs \<noteq> [] \<Longrightarrow> Join (cs @ [c]) sep = Join cs sep @ sep @ c"
  by (induction cs sep rule: Join.induct) auto

lemma path_Dir_abs_path_snoc [simp]:
  assumes "list_all plain (cs @ [c])"
  shows "path_Dir (abs_path (cs @ [c])) = abs_path cs"
proof (cases "cs = []")
  case True
  with assms path_Split_append [of c "[]"] have "path_Split (abs_path [c]) = (''/'', c)"
    by (simp add: abs_path_def plain_def)
  with True show ?thesis by (simp add: path_Dir_def Clean_def abs_path_def HasPrefix_def)
next
  case False
  with assms have "path_Split (abs_path (cs @ [c])) = (abs_path cs @ ''/'', c)"
    using path_Split_append [of c "abs_path cs"] by (simp add: abs_path_def Join_snoc plain_def)
  moreover have "Clean (abs_path cs @ ''/'') = abs_path cs"
    using assms comps_append_dotless [of "''''" "abs_path cs"]
    by (subst Clean_rooted) (simp_all add: IsAbs_def HasPrefix_def abs_path_def [of cs] dotless_def comps_def [of "''''"],
      simp add: abs_path_def [symmetric])
  ultimately show ?thesis by (simp add: path_Dir_def)
qed

lemma path_Dir_root [simp]: "path_Dir (abs_path []) = abs_path []" "path_Dir ''/'' = ''/''"
  by (simp_all add: path_Dir_def path_Split_def abs_path_def Clean_def HasPrefix_def)

lemma path_Dir_abs_path: "list_all plain cs \<Longrightarrow> path_Dir (abs_path cs) = abs_path (butlast cs)"
  by (cases cs rule: rev_cases) simp_all

section \<open>Lemmas: lengths\<close>

definition weight :: "string list \<Rightarrow> nat" where
  "weight cs = sum_list (map (\<lambda>c. length c + 1) cs)"

lemma weight_simps [simp]: "weight [] = 0" "weight (c # cs) = length c + 1 + weight cs" "weight (rev cs) = weight cs"
  "weight (cs @ ds) = weight cs + weight ds"
  by (simp_all add: weight_def rev_map [symmetric])

lemma length_Join_slash: "length (Join cs ''/'') = weight cs - 1"
  by (induction cs "''/''" rule: Join.induct) auto

lemma weight_Split: "weight (Split c s) = length s + 1"
proof (induction s)
  case (Cons x s)
  then show ?case by (cases "Split c s") auto
qed simp

lemma weight_clean_step: "weight (clean_step r c out) \<le> weight out + weight (if c = '''' then [] else [c])"
  by (cases out) auto

lemma weight_fold: "weight (fold (clean_step r) cs out) \<le> weight out + weight (filter (\<lambda>c. c \<noteq> '''') cs)"
proof (induction cs arbitrary: out)
  case (Cons c cs)
  from Cons [of "clean_step r c out"] weight_clean_step [of r c out] show ?case
    by (auto simp del: clean_step.simps split: if_splits)
qed simp

text \<open>A path with a trailing slash other than the root gets shorter, and so does a directory.\<close>

lemma length_Clean_trailing:
  assumes "q \<noteq> ''''"
  shows "length (Clean (q @ ''/'')) \<le> length q"
proof -
  let ?cs = "Split slash (q @ ''/'')" and ?r = "HasPrefix (q @ ''/'') ''/''"
  let ?out = "rev (fold (clean_step ?r) ?cs [])"
  have split: "?cs = Split slash q @ ['''']" using Split_append_sep [of slash q "''''"] by simp
  have w: "weight ?out \<le> weight (filter (\<lambda>c. c \<noteq> '''') (Split slash q))"
    using weight_fold [of ?r ?cs "[]"] by (simp add: split)
  have len: "length (Join ?out ''/'') = weight ?out - 1" by (rule length_Join_slash)
  have fil: "weight (filter P cs) \<le> weight cs" for P cs by (induction cs) auto
  show ?thesis
  proof (cases ?r)
    case True
    with assms obtain q' where q: "q = slash # q'" by (cases q) (auto simp: HasPrefix_def)
    have "weight ?out \<le> length q" using w fil [of "\<lambda>c. c \<noteq> ''''" "Split slash q'"] weight_Split [of slash q']
      by (simp add: q)
    with True len assms show ?thesis by (auto simp: Clean_def Let_def) (cases q; simp)
  next
    case False
    have "weight ?out \<le> length q + 1" using w fil [of "\<lambda>c. c \<noteq> ''''" "Split slash q"] weight_Split [of slash q] by simp
    with False len assms show ?thesis by (cases q) (auto simp: Clean_def Let_def)
  qed
qed

lemma path_Dir_cases:
  obtains (none) "slash \<notin> set p" "path_Dir p = ''.''"
  | (some) d f where "p = d @ slash # f" "slash \<notin> set f" "path_Dir p = Clean (d @ ''/'')"
proof (cases "slash \<in> set p")
  case True
  then obtain d f where "p = d @ slash # f" "slash \<notin> set f" by (meson split_list_last)
  with some path_Split_append show thesis by (simp add: path_Dir_def)
next
  case False
  then have "takeWhile (\<lambda>c. c \<noteq> slash) (rev p) = rev p" by (subst takeWhile_eq_all_conv) auto
  then have "length (takeWhile (\<lambda>c. c \<noteq> slash) (rev p)) = length p" by (metis length_rev)
  then have "fst (path_Split p) = ''''" by (simp add: path_Split_def Let_def)
  with False none show thesis by (simp add: path_Dir_def Clean_def)
qed

definition dir_rank :: "string \<Rightarrow> nat" where
  "dir_rank p = (if p = '''' then 3 else 2 * length p + (if p = ''.'' then 0 else 1))"

lemma path_Dir_rank: "path_Dir p \<noteq> p \<Longrightarrow> dir_rank (path_Dir p) < dir_rank p"
proof (cases p rule: path_Dir_cases)
  case none
  assume "path_Dir p \<noteq> p"
  with none show ?thesis by (auto simp: dir_rank_def neq_Nil_conv)
next
  case (some d f)
  assume change: "path_Dir p \<noteq> p"
  show ?thesis
  proof (cases "d = ''''")
    case True
    then have "path_Dir p = ''/''" using some by (simp add: Clean_def HasPrefix_def)
    with some change True show ?thesis by (cases f) (auto simp: dir_rank_def)
  next
    case False
    then have "length (path_Dir p) \<le> length d" using length_Clean_trailing some by simp
    moreover have "path_Dir p \<noteq> ''''" using some by (auto simp: Clean_def Let_def)
    ultimately show ?thesis using some by (auto simp: dir_rank_def)
  qed
qed

end
