(* ===== verification/Fsutil.thy ===== *)
theory Fsutil
  imports Go_Path Events
begin

text \<open>
  The file helpers of \<open>src/util/fsutil\<close>.  The calls into the operating system are the fields of
  the record \<open>os\<close>, over an arbitrary type of worlds; what a concurrent process does to the files
  is part of what such a call does to the world.
\<close>

section \<open>The operating system\<close>

record FileInfo =
  fi_IsDir :: bool
  fi_Symlink :: bool
  fi_Size :: int
  fi_Name :: string

text \<open>
  \<open>filepath.Walk\<close> is given by the calls that it makes of its callback: the path, the information
  (absent when reading it failed) and the error.
\<close>

record 'w os =
  os_Stat :: "string \<Rightarrow> 'w \<Rightarrow> go_error + FileInfo"
  os_IsNotExist :: "go_error \<Rightarrow> bool"
  os_MkdirAll :: "string \<Rightarrow> 'w \<Rightarrow> 'w \<times> go_error option"
  os_WriteFile :: "string \<Rightarrow> string \<Rightarrow> 'w \<Rightarrow> 'w \<times> go_error option"
  os_Open :: "string \<Rightarrow> 'w \<Rightarrow> go_error option"
  os_Create :: "string \<Rightarrow> 'w \<Rightarrow> 'w \<times> go_error option"
  io_Copy :: "string \<Rightarrow> string \<Rightarrow> 'w \<Rightarrow> 'w \<times> go_error option"
  os_ReadDir :: "string \<Rightarrow> 'w \<Rightarrow> go_error + (string \<times> bool) list"
  os_Readlink :: "string \<Rightarrow> 'w \<Rightarrow> go_error + string"
  os_Remove :: "string \<Rightarrow> 'w \<Rightarrow> 'w \<times> go_error option"
  os_Symlink :: "string \<Rightarrow> string \<Rightarrow> 'w \<Rightarrow> 'w \<times> go_error option"
  os_RemoveAll :: "string \<Rightarrow> 'w \<Rightarrow> 'w \<times> go_error option"
  os_Glob :: "string \<Rightarrow> 'w \<Rightarrow> go_error + string list"
  os_Walk :: "string \<Rightarrow> 'w \<Rightarrow> (string \<times> FileInfo option \<times> go_error option) list"

section \<open>Directories\<close>

definition exists_path :: "'w os \<Rightarrow> string \<Rightarrow> 'w \<Rightarrow> bool \<times> go_error option" where
  "exists_path os p w =
     (case os_Stat os p w of
        Inr _ \<Rightarrow> (True, None)
      | Inl err \<Rightarrow> if os_IsNotExist os err then (False, None) else (True, Some err))"

definition EnsureDir :: "'w os \<Rightarrow> string \<Rightarrow> 'w \<Rightarrow> 'w \<times> go_error option" where
  "EnsureDir os p w =
     (case exists_path os p w of
        (_, Some err) \<Rightarrow> (w, Some err)
      | (e, None) \<Rightarrow> if \<not> e then os_MkdirAll os p w else (w, None))"

definition EnsurePath :: "'w os \<Rightarrow> string \<Rightarrow> 'w \<Rightarrow> 'w \<times> go_error option" where
  "EnsurePath os p w = EnsureDir os (path_Dir p) w"

text \<open>The loop of \<open>FindRepoRoot\<close>, with the test for a \<open>.git\<close> entry as an argument.\<close>

function find_root :: "(string \<Rightarrow> bool) \<Rightarrow> string \<Rightarrow> string" where
  "find_root has_git currentDir =
     (if has_git (path_Join [currentDir, ''.git'']) then currentDir
      else let parentDir = path_Dir currentDir
           in if parentDir = currentDir then '''' else find_root has_git parentDir)"
  by pat_completeness auto

termination find_root
  by (relation "measure (dir_rank \<circ> snd)") (auto simp: path_Dir_rank)

declare find_root.simps [simp del]

definition FindRepoRoot :: "'w os \<Rightarrow> go_error + string \<Rightarrow> 'w \<Rightarrow> string" where
  "FindRepoRoot os getwd w =
     (case getwd of
        Inl _ \<Rightarrow> ''''
      | Inr cwd \<Rightarrow> find_root (\<lambda>p. \<not> isl (os_Stat os p w)) cwd)"

section \<open>Walking\<close>

text \<open>\<open>filepath.Rel\<close>, on the components of the two cleaned paths.\<close>

definition path_comps :: "string \<Rightarrow> string list" where
  "path_comps p = filter (\<lambda>c. c \<noteq> '''') (Split slash (if p = ''.'' then '''' else p))"

fun rel_comps :: "string list \<Rightarrow> string list \<Rightarrow> string list \<times> string list" where
  "rel_comps (b # bs) (t # ts) = (if b = t then rel_comps bs ts else (b # bs, t # ts))"
| "rel_comps bs ts = (bs, ts)"

definition filepath_Rel :: "string \<Rightarrow> string \<Rightarrow> go_error + string" where
  "filepath_Rel basepath targpath =
     (let base = Clean basepath; targ = Clean targpath
      in if targ = base then Inr ''.''
         else if IsAbs base \<noteq> IsAbs targ then Inl (Errorf (''Rel: can't make '' @ targpath @ '' relative to '' @ basepath))
         else case rel_comps (path_comps base) (path_comps targ) of
           (bs, ts) \<Rightarrow>
             if bs \<noteq> [] \<and> hd bs = ''..'' then Inl (Errorf (''Rel: can't make '' @ targpath @ '' relative to '' @ basepath))
             else Inr (Join (map (\<lambda>_. ''..'') bs @ ts) ''/''))"

record Hostfile =
  hf_Rel :: string
  hf_Abs :: string
  hf_Size :: int

text \<open>The callback; a missing file information is dereferenced.\<close>

fun walk_files :: "string \<Rightarrow> (string \<times> FileInfo option \<times> go_error option) list \<Rightarrow> Hostfile list \<Rightarrow> go_error + Hostfile list" where
  "walk_files rootp [] files = Inr files"
| "walk_files rootp ((p, None, err) # es) files = Inl nil_deref"
| "walk_files rootp ((p, Some f, err) # es) files =
     (if \<not> fi_IsDir f
      then case filepath_Rel rootp p of
             Inl e \<Rightarrow> Inl e
           | Inr rel \<Rightarrow> walk_files rootp es (files @ [\<lparr>hf_Rel = rel, hf_Abs = p, hf_Size = fi_Size f\<rparr>])
      else walk_files rootp es files)"

text \<open>An error of \<open>Stat\<close> other than absence leaves the information nil, and it is dereferenced.\<close>

definition WalkFiles :: "'w os \<Rightarrow> string \<Rightarrow> 'w \<Rightarrow> go_error + Hostfile list" where
  "WalkFiles os rootp w =
     (let missing = Inl (Errorf (rootp @ '' does not exist or is not a directory''))
      in case os_Stat os rootp w of
           Inl err \<Rightarrow> if os_IsNotExist os err then missing else Inl nil_deref
         | Inr info \<Rightarrow> if \<not> fi_IsDir info then missing else walk_files rootp (os_Walk os rootp w) [])"

definition FileSize :: "'w os \<Rightarrow> string \<Rightarrow> 'w \<Rightarrow> int" where
  "FileSize os p w = (case os_Stat os p w of Inl _ \<Rightarrow> 0 | Inr st \<Rightarrow> fi_Size st)"

section \<open>Readers and writers bound to a context\<close>

text \<open>The context's error is read before and after the inner call.\<close>

definition reader_Read ::
    "('w \<Rightarrow> go_error option) \<Rightarrow> ('w \<Rightarrow> 'w \<times> nat \<times> go_error option) \<Rightarrow> 'w \<Rightarrow> 'w \<times> nat \<times> go_error option" where
  "reader_Read ctx_Err r_Read w =
     (case ctx_Err w of
        Some err \<Rightarrow> (w, 0, Some err)
      | None \<Rightarrow>
          (case r_Read w of
             (w', n, Some err) \<Rightarrow> (w', n, Some err)
           | (w', n, None) \<Rightarrow> (w', n, ctx_Err w')))"

section \<open>Lemmas\<close>

lemma find_root_eq:
  "find_root g p =
     (if g (path_Join [p, ''.git'']) then p else if path_Dir p = p then '''' else find_root g (path_Dir p))"
  by (subst find_root.simps) (simp add: Let_def)

lemma funpow_fix: "f x = x \<Longrightarrow> (f ^^ n) x = x"
  by (induction n) auto

lemma find_root_found:
  assumes "g (path_Join [(path_Dir ^^ n) p, ''.git''])" "\<forall>m<n. \<not> g (path_Join [(path_Dir ^^ m) p, ''.git''])"
  shows "find_root g p = (path_Dir ^^ n) p"
  using assms
proof (induction n arbitrary: p)
  case 0
  then show ?case by (subst find_root_eq) simp
next
  case (Suc n)
  have here: "\<not> g (path_Join [p, ''.git''])" using Suc(3) by (metis funpow_0 zero_less_Suc)
  have up: "path_Dir p \<noteq> p"
  proof
    assume "path_Dir p = p"
    with Suc(2) here show False by (simp add: funpow_fix)
  qed
  have "find_root g (path_Dir p) = (path_Dir ^^ n) (path_Dir p)"
  proof (rule Suc.IH)
    show "g (path_Join [(path_Dir ^^ n) (path_Dir p), ''.git''])" using Suc(2) by (simp add: funpow_swap1)
    show "\<forall>m<n. \<not> g (path_Join [(path_Dir ^^ m) (path_Dir p), ''.git''])"
    proof (intro allI impI)
      fix m assume "m < n"
      with Suc(3) have "\<not> g (path_Join [(path_Dir ^^ Suc m) p, ''.git''])" by blast
      then show "\<not> g (path_Join [(path_Dir ^^ m) (path_Dir p), ''.git''])" by (simp add: funpow_swap1)
    qed
  qed
  with here up show ?case by (subst find_root_eq) (simp add: funpow_swap1)
qed

lemma find_root_none: "\<forall>n. \<not> g (path_Join [(path_Dir ^^ n) p, ''.git'']) \<Longrightarrow> find_root g p = ''''"
proof (induction g p rule: find_root.induct)
  case (1 g p)
  have here: "\<not> g (path_Join [p, ''.git''])" using 1(2) by (metis funpow_0)
  have "\<not> g (path_Join [(path_Dir ^^ n) (path_Dir p), ''.git''])" for n
    using spec [OF 1(2), of "Suc n"] by (simp add: funpow_swap1)
  then have "\<forall>n. \<not> g (path_Join [(path_Dir ^^ n) (path_Dir p), ''.git''])" by blast
  with 1(1) [OF here refl] here show ?case by (subst find_root_eq) auto
qed

section \<open>Properties\<close>

text \<open>
  \<open>FindRepoRoot\<close> always returns, for every working directory and every file system: the
  nearest directory on the way up that holds a \<open>.git\<close> entry, or the empty string when none does.
\<close>

theorem FindRepoRoot_nearest:
  "FindRepoRoot os (Inr cwd) w =
     (if \<exists>n. \<not> isl (os_Stat os (path_Join [(path_Dir ^^ n) cwd, ''.git'']) w)
      then (path_Dir ^^ (LEAST n. \<not> isl (os_Stat os (path_Join [(path_Dir ^^ n) cwd, ''.git'']) w))) cwd
      else '''')"
proof (cases "\<exists>n. \<not> isl (os_Stat os (path_Join [(path_Dir ^^ n) cwd, ''.git'']) w)")
  case True
  let ?n = "LEAST n. \<not> isl (os_Stat os (path_Join [(path_Dir ^^ n) cwd, ''.git'']) w)"
  from True have "\<not> isl (os_Stat os (path_Join [(path_Dir ^^ ?n) cwd, ''.git'']) w)" by (rule LeastI_ex)
  moreover have "\<forall>m<?n. isl (os_Stat os (path_Join [(path_Dir ^^ m) cwd, ''.git'']) w)"
    using not_less_Least by blast
  ultimately show ?thesis using True by (simp add: FindRepoRoot_def find_root_found)
next
  case False
  then show ?thesis by (simp add: FindRepoRoot_def find_root_none)
qed

end
