(* ===== verification/File_Mapper.thy ===== *)
theory File_Mapper
  imports Fsutil
begin

text \<open>
  The file mapper of the worker, \<open>src/worker/file_mapper.go\<close>: it places the files of a task below
  the task's working directory and decides which directories are mounted into the container.

  Properties: for tasks with clean paths every mount lies inside the working directory, at the
  place that its container path names, and every declared path is reachable through a mount; host
  and container paths translate back and forth.  Three theorems show where the string-prefix test
  of \<open>IsSubpath\<close> and the use of \<open>path.Dir\<close> on unclean paths break this.
\<close>

section \<open>Definitions\<close>

record Volume =
  v_HostPath :: string
  v_ContainerPath :: string
  v_Readonly :: bool

record FileMapper =
  fm_Volumes :: "Volume list"
  fm_InputVolumes :: "Volume list"
  fm_Inputs :: "Input list"
  fm_Outputs :: "Output list"
  fm_WorkDir :: string
  fm_ScratchDir :: string

definition NewFileMapper :: "string \<Rightarrow> string \<Rightarrow> FileMapper" where
  "NewFileMapper cwd dir =
     \<lparr>fm_Volumes = [], fm_InputVolumes = [], fm_Inputs = [], fm_Outputs = [],
      fm_WorkDir = filepath_Abs cwd dir, fm_ScratchDir = ''''\<rparr>"

definition IsSubpath :: "string \<Rightarrow> string \<Rightarrow> bool" where
  "IsSubpath p base = HasPrefix p base"

definition host_path_in :: "string \<Rightarrow> string \<Rightarrow> go_error + string" where
  "host_path_in dir src =
     (let p = Clean (path_Join [dir, src])
      in if \<not> IsSubpath p dir
         then Inl (Errorf (''Invalid path: '' @ p @ '' is not a valid subpath of '' @ dir))
         else Inr p)"

definition HostPath :: "FileMapper \<Rightarrow> string \<Rightarrow> go_error + string" where
  "HostPath mapper src = host_path_in (fm_WorkDir mapper) src"

definition HostScratchPath :: "FileMapper \<Rightarrow> string \<Rightarrow> go_error + string" where
  "HostScratchPath mapper src = host_path_in (fm_ScratchDir mapper) src"

definition ContainerPath :: "FileMapper \<Rightarrow> string \<Rightarrow> string" where
  "ContainerPath mapper src = Clean (''/'' @ TrimPrefix src (fm_WorkDir mapper))"

text \<open>
  The loop of \<open>AddVolume\<close>: the new volumes and whether the volume was added.  \<open>mergeVolume\<close> repeats
  the loop on a list of its own.
\<close>

fun add_volume :: "Volume \<Rightarrow> Volume list \<Rightarrow> Volume list \<times> bool" where
  "add_volume vol [] = ([vol], True)"
| "add_volume vol (v # vs) =
     (if vol = v then (v # vs, False)
      else if \<not> v_Readonly vol \<and> \<not> v_Readonly v \<and> IsSubpath (v_ContainerPath vol) (v_ContainerPath v) then (v # vs, False)
      else if \<not> v_Readonly vol \<and> \<not> v_Readonly v \<and> IsSubpath (v_ContainerPath v) (v_ContainerPath vol) then (vol # vs, True)
      else case add_volume vol vs of (r, added) \<Rightarrow> (v # r, added))"

definition AddVolume :: "FileMapper \<Rightarrow> string \<Rightarrow> string \<Rightarrow> bool \<Rightarrow> FileMapper \<times> bool" where
  "AddVolume mapper hostPath mountPoint readonly =
     (case add_volume \<lparr>v_HostPath = hostPath, v_ContainerPath = mountPoint, v_Readonly = readonly\<rparr> (fm_Volumes mapper) of
        (vs, added) \<Rightarrow> (mapper\<lparr>fm_Volumes := vs\<rparr>, added))"

fun mergeVolume :: "Volume list \<Rightarrow> Volume \<Rightarrow> Volume list" where
  "mergeVolume [] vol = [vol]"
| "mergeVolume (v # vs) vol =
     (if vol = v then v # vs
      else if \<not> v_Readonly vol \<and> \<not> v_Readonly v
      then (if IsSubpath (v_ContainerPath vol) (v_ContainerPath v) then v # vs
            else if IsSubpath (v_ContainerPath v) (v_ContainerPath vol) then vol # vs
            else v # mergeVolume vs vol)
      else v # mergeVolume vs vol)"

text \<open>Volumes, inputs and outputs; each first maps its path, then prepares the file system.\<close>

type_synonym 'w mstate = "FileMapper \<times> 'w"

definition AddTmpVolume :: "'w os \<Rightarrow> string \<Rightarrow> 'w mstate \<Rightarrow> 'w mstate \<times> go_error option" where
  "AddTmpVolume os mountPoint s =
     (case s of (mapper, w) \<Rightarrow>
       (case HostPath mapper mountPoint of
          Inl err \<Rightarrow> (s, Some err)
        | Inr hostPath \<Rightarrow>
            (case EnsureDir os hostPath w of
               (w', Some err) \<Rightarrow> ((mapper, w'), Some err)
             | (w', None) \<Rightarrow> ((fst (AddVolume mapper hostPath mountPoint False), w'), None))))"

definition AddInput :: "'w os \<Rightarrow> Input \<Rightarrow> 'w mstate \<Rightarrow> 'w mstate \<times> go_error option" where
  "AddInput os input s =
     (case s of (mapper, w) \<Rightarrow>
       (case HostPath mapper (in_Path input) of
          Inl err \<Rightarrow> (s, Some err)
        | Inr hostPath \<Rightarrow>
            (case EnsurePath os hostPath w of
               (w1, Some err) \<Rightarrow> ((mapper, w1), Some err)
             | (w1, None) \<Rightarrow>
                 (let (m1, added) = AddVolume mapper hostPath (in_Path input) False;
                      m2 = (if added
                            then m1\<lparr>fm_InputVolumes := fm_InputVolumes m1 @
                                   [\<lparr>v_HostPath = hostPath, v_ContainerPath = in_Path input, v_Readonly = False\<rparr>]\<rparr>
                            else m1)
                  in if in_Content input \<noteq> ''''
                     then case os_WriteFile os hostPath (in_Content input) w1 of
                            (w2, Some err) \<Rightarrow>
                              ((m2, w2), Some (Errorf (''Error writing content of task input to file '' @ error_string err)))
                          | (w2, None) \<Rightarrow> ((m2, w2), None)
                     else ((m2\<lparr>fm_Inputs := fm_Inputs m2 @ [input\<lparr>in_Path := hostPath\<rparr>]\<rparr>, w1), None)))))"

definition AddOutput :: "'w os \<Rightarrow> Output \<Rightarrow> 'w mstate \<Rightarrow> 'w mstate \<times> go_error option" where
  "AddOutput os output s =
     (case s of (mapper, w) \<Rightarrow>
       (case HostPath mapper (out_Path output) of
          Inl err \<Rightarrow> (s, Some err)
        | Inr hostPath \<Rightarrow>
            (let (hostDir, mountDir) = (if out_Type output = File then (path_Dir hostPath, path_Dir (out_Path output))
                                        else (hostPath, out_Path output))
             in case EnsureDir os hostDir w of
                  (w', Some err) \<Rightarrow> ((mapper, w'), Some err)
                | (w', None) \<Rightarrow>
                    (let m1 = fst (AddVolume mapper hostDir mountDir False)
                     in ((m1\<lparr>fm_Outputs := fm_Outputs m1 @ [output\<lparr>out_Path := hostPath\<rparr>]\<rparr>, w'), None)))))"

text \<open>A \<open>for\<close> loop that returns the first error.\<close>

fun each :: "('a \<Rightarrow> 's \<Rightarrow> 's \<times> go_error option) \<Rightarrow> 'a list \<Rightarrow> 's \<Rightarrow> 's \<times> go_error option" where
  "each f [] s = (s, None)"
| "each f (x # xs) s = (case f x s of (s', Some err) \<Rightarrow> (s', Some err) | (s', None) \<Rightarrow> each f xs s')"

section \<open>Consolidation of the input mounts\<close>

fun common_parts :: "string list \<Rightarrow> string list \<Rightarrow> string list" where
  "common_parts (a # as) (b # bs) = (if a \<noteq> b then [] else a # common_parts as bs)"
| "common_parts _ _ = []"

definition volumeCommonPathPrefix :: "string \<Rightarrow> string \<Rightarrow> string" where
  "volumeCommonPathPrefix a b =
     (let common = common_parts (Split slash (TrimPrefix a ''/'')) (Split slash (TrimPrefix b ''/''))
      in if common = [] then ''/'' else ''/'' @ Join common ''/'')"

fun ancestor_loop :: "string \<Rightarrow> string list \<Rightarrow> string" where
  "ancestor_loop ancestor [] = ancestor"
| "ancestor_loop ancestor (p # ps) =
     (let ancestor' = volumeCommonPathPrefix ancestor (path_Dir p)
      in if ancestor' = ''/'' \<or> ancestor' = ''.'' then ancestor' else ancestor_loop ancestor' ps)"

definition volumeCommonDirAncestor :: "string list \<Rightarrow> string" where
  "volumeCommonDirAncestor paths = (case paths of [] \<Rightarrow> '''' | p # ps \<Rightarrow> ancestor_loop (path_Dir p) ps)"

fun promote_parents :: "Volume list \<Rightarrow> string list \<Rightarrow> Volume list \<Rightarrow> Volume list" where
  "promote_parents [] seen vols = vols"
| "promote_parents (v # vs) seen vols =
     (let contParent = path_Dir (v_ContainerPath v);
          hostParent = path_Dir (v_HostPath v);
          key = hostParent @ '':'' @ contParent
      in if key \<in> set seen then promote_parents vs seen vols
         else promote_parents vs (key # seen)
                (mergeVolume vols \<lparr>v_HostPath = hostParent, v_ContainerPath = contParent, v_Readonly = False\<rparr>))"

definition consolidateVolumes :: "FileMapper \<Rightarrow> FileMapper" where
  "consolidateVolumes mapper =
     (if fm_InputVolumes mapper = [] then mapper
      else let inputSet = map v_ContainerPath (fm_InputVolumes mapper);
               nonInputVols = filter (\<lambda>v. v_ContainerPath v \<notin> set inputSet) (fm_Volumes mapper);
               ancestor = volumeCommonDirAncestor inputSet
           in mapper\<lparr>fm_Volumes :=
                (if ancestor \<noteq> '''' \<and> ancestor \<noteq> ''/'' \<and> ancestor \<noteq> ''.''
                 then mergeVolume nonInputVols
                        \<lparr>v_HostPath = path_Join [fm_WorkDir mapper, ancestor], v_ContainerPath = ancestor, v_Readonly = False\<rparr>
                 else promote_parents (fm_InputVolumes mapper) [] nonInputVols)\<rparr>)"

definition MapTask :: "'w os \<Rightarrow> Task \<Rightarrow> 'w mstate \<Rightarrow> 'w mstate \<times> go_error option" where
  "MapTask os task s =
     (case s of (mapper, w) \<Rightarrow>
       if \<not> IsAbs (fm_WorkDir mapper) then (s, Some (Errorf ''Mapper.WorkDir is not an absolute path''))
       else case EnsureDir os (fm_WorkDir mapper) w of
         (w1, Some err) \<Rightarrow> ((mapper, w1), Some err)
       | (w1, None) \<Rightarrow>
           (case each (AddTmpVolume os) (t_Volumes task) (mapper, w1) of
              (s1, Some err) \<Rightarrow> (s1, Some err)
            | (s1, None) \<Rightarrow>
                (case each (AddInput os) (t_Inputs task) s1 of
                   (s2, Some err) \<Rightarrow> (s2, Some err)
                 | (s2, None) \<Rightarrow>
                     (case each (AddOutput os) (t_Outputs task) s2 of
                        (s3, Some err) \<Rightarrow> (s3, Some err)
                      | ((m3, w3), None) \<Rightarrow> ((consolidateVolumes m3, w3), None)))))"

section \<open>Files at mapped paths\<close>

definition OpenHostFile :: "'w os \<Rightarrow> FileMapper \<Rightarrow> string \<Rightarrow> 'w \<Rightarrow> go_error + string" where
  "OpenHostFile os mapper src w =
     (case HostPath mapper src of
        Inl perr \<Rightarrow> Inl perr
      | Inr p \<Rightarrow> (case os_Open os p w of Some oerr \<Rightarrow> Inl oerr | None \<Rightarrow> Inr p))"

definition CreateHostFile :: "'w os \<Rightarrow> FileMapper \<Rightarrow> string \<Rightarrow> 'w \<Rightarrow> 'w \<times> (go_error + string)" where
  "CreateHostFile os mapper src w =
     (case (if fm_ScratchDir mapper \<noteq> '''' then HostScratchPath mapper src else HostPath mapper src) of
        Inl perr \<Rightarrow> (w, Inl perr)
      | Inr p \<Rightarrow>
          (case EnsurePath os p w of
             (w1, Some err) \<Rightarrow> (w1, Inl err)
           | (w1, None) \<Rightarrow>
               (case os_Create os p w1 of
                  (w2, Some oerr) \<Rightarrow> (w2, Inl oerr)
                | (w2, None) \<Rightarrow> (w2, Inr p))))"

definition Cleanup :: "'w os \<Rightarrow> FileMapper \<Rightarrow> 'w \<Rightarrow> 'w \<times> go_error option" where
  "Cleanup os mapper w = os_RemoveAll os (fm_WorkDir mapper) w"

section \<open>The scratch directory\<close>

definition copyFile :: "'w os \<Rightarrow> string \<Rightarrow> string \<Rightarrow> 'w \<Rightarrow> 'w \<times> go_error option" where
  "copyFile os src dst w =
     (case os_Open os src w of
        Some err \<Rightarrow> (w, Some err)
      | None \<Rightarrow> (case os_Create os dst w of (w1, Some err) \<Rightarrow> (w1, Some err) | (w1, None) \<Rightarrow> io_Copy os dst src w1))"

text \<open>
  The recursion of \<open>copyDir\<close> follows the directories it finds, and these may change under it (a
  destination inside the source never ends): the first argument bounds the nesting, and \<^const>\<open>None\<close>
  means that the bound was not enough.
\<close>

fun copy_entries ::
    "'w os \<Rightarrow> (string \<Rightarrow> string \<Rightarrow> 'w \<Rightarrow> ('w \<times> go_error option) option) \<Rightarrow> string \<Rightarrow> string \<Rightarrow> (string \<times> bool) list \<Rightarrow> 'w \<Rightarrow>
     ('w \<times> go_error option) option" where
  "copy_entries os copy src dst [] w = Some (w, None)"
| "copy_entries os copy src dst ((name, isDir) # es) w =
     (let srcPath = path_Join [src, name]; dstPath = path_Join [dst, name]
      in if isDir
         then (case os_MkdirAll os dstPath w of
                 (w1, Some err) \<Rightarrow> Some (w1, Some err)
               | (w1, None) \<Rightarrow>
                   (case copy srcPath dstPath w1 of
                      None \<Rightarrow> None
                    | Some (w2, Some err) \<Rightarrow> Some (w2, Some err)
                    | Some (w2, None) \<Rightarrow> copy_entries os copy src dst es w2))
         else (case copyFile os srcPath dstPath w of
                 (w1, Some err) \<Rightarrow> Some (w1, Some err)
               | (w1, None) \<Rightarrow> copy_entries os copy src dst es w1))"

fun copyDir :: "nat \<Rightarrow> 'w os \<Rightarrow> string \<Rightarrow> string \<Rightarrow> 'w \<Rightarrow> ('w \<times> go_error option) option" where
  "copyDir 0 os src dst w = None"
| "copyDir (Suc n) os src dst w =
     (case os_ReadDir os src w of
        Inl err \<Rightarrow> Some (w, Some err)
      | Inr entries \<Rightarrow> copy_entries os (copyDir n os) src dst entries w)"

text \<open>
  The error of \<open>copyDir\<close> is dropped by both callers.  A failed \<open>Stat\<close> of an input is only printed,
  and its nil result is dereferenced.
\<close>

fun copy_inputs :: "nat \<Rightarrow> 'w os \<Rightarrow> string \<Rightarrow> Input list \<Rightarrow> 'w \<Rightarrow> ('w \<times> go_error option) option" where
  "copy_inputs n os scratch [] w = Some (w, None)"
| "copy_inputs n os scratch (input # inputs) w =
     (let target = path_Join [scratch, in_Path input]
      in case os_Stat os (in_Path input) w of
           Inl _ \<Rightarrow> Some (w, Some nil_deref)
         | Inr info \<Rightarrow>
             if fi_IsDir info
             then (case os_MkdirAll os target w of
                     (w1, Some err) \<Rightarrow> Some (w1, Some (Errorf (''failed to create scratch directory: '' @ error_string err)))
                   | (w1, None) \<Rightarrow>
                       (case copyDir n os (in_Path input) target w1 of
                          None \<Rightarrow> None
                        | Some (w2, _) \<Rightarrow> copy_inputs n os scratch inputs w2))
             else (case os_MkdirAll os (path_Dir target) w of
                     (w1, Some err) \<Rightarrow> Some (w1, Some (Errorf (''failed to create scratch directory: '' @ error_string err)))
                   | (w1, None) \<Rightarrow>
                       (case copyFile os (in_Path input) target w1 of
                          (w2, Some err) \<Rightarrow> Some (w2, Some (Errorf (''failed to copy input file to scratch directory: '' @ error_string err)))
                        | (w2, None) \<Rightarrow> copy_inputs n os scratch inputs w2)))"

definition CopyInputsToScratch :: "nat \<Rightarrow> 'w os \<Rightarrow> string \<Rightarrow> FileMapper \<Rightarrow> string \<Rightarrow> 'w \<Rightarrow> ('w \<times> go_error option) option" where
  "CopyInputsToScratch n os cwd mapper scratchDir w = copy_inputs n os (filepath_Abs cwd scratchDir) (fm_Inputs mapper) w"

fun copy_matches :: "nat \<Rightarrow> 'w os \<Rightarrow> Output \<Rightarrow> string list \<Rightarrow> 'w \<Rightarrow> ('w \<times> go_error option) option" where
  "copy_matches n os output [] w = Some (w, None)"
| "copy_matches n os output (src # srcs) w =
     (case os_Stat os src w of
        Inl err \<Rightarrow> Some (w, Some (Errorf (''failed to stat output path: '' @ error_string err)))
      | Inr info \<Rightarrow>
          let parentDir = path_Dir (out_Path output)
          in if fi_IsDir info
             then (case os_MkdirAll os (out_Path output) w of
                     (w1, Some err) \<Rightarrow> Some (w1, Some (Errorf (''failed to create output path: '' @ error_string err)))
                   | (w1, None) \<Rightarrow>
                       (case copyDir n os src (out_Path output) w1 of
                          None \<Rightarrow> None
                        | Some (w2, _) \<Rightarrow> copy_matches n os output srcs w2))
             else (case os_MkdirAll os (path_Dir parentDir) w of
                     (w1, Some err) \<Rightarrow> Some (w1, Some (Errorf (''failed to create output path: '' @ error_string err)))
                   | (w1, None) \<Rightarrow>
                       (case copyFile os src (path_Join [parentDir, fi_Name info]) w1 of
                          (w2, Some err) \<Rightarrow> Some (w2, Some (Errorf (''failed to copy output file to output directory: '' @ error_string err)))
                        | (w2, None) \<Rightarrow> copy_matches n os output srcs w2)))"

fun copy_outputs :: "nat \<Rightarrow> 'w os \<Rightarrow> string \<Rightarrow> Output list \<Rightarrow> 'w \<Rightarrow> ('w \<times> go_error option) option" where
  "copy_outputs n os scratch [] w = Some (w, None)"
| "copy_outputs n os scratch (output # outputs) w =
     (let target = path_Join [scratch, out_Path output]
      in case os_Glob os target w of
           Inl err \<Rightarrow> Some (w, Some (Errorf (''invalid pattern '' @ target @ '': '' @ error_string err)))
         | Inr matches \<Rightarrow>
             if matches = [] then Some (w, Some (Errorf (''no files matched the pattern: '' @ target)))
             else (case copy_matches n os output matches w of
                     None \<Rightarrow> None
                   | Some (w1, Some err) \<Rightarrow> Some (w1, Some err)
                   | Some (w1, None) \<Rightarrow> copy_outputs n os scratch outputs w1))"

text \<open>The walk over the scratch directory before the copies only prints.\<close>

definition CopyOutputsToWorkDir :: "nat \<Rightarrow> 'w os \<Rightarrow> string \<Rightarrow> FileMapper \<Rightarrow> string \<Rightarrow> 'w \<Rightarrow> ('w \<times> go_error option) option" where
  "CopyOutputsToWorkDir n os cwd mapper scratchDir w = copy_outputs n os (filepath_Abs cwd scratchDir) (fm_Outputs mapper) w"

section \<open>Lemmas: mounts\<close>

lemma mergeVolume_add: "mergeVolume vs vol = fst (add_volume vol vs)"
  by (induction vs) (auto split: prod.splits)

lemma AddVolume_simps [simp]: "fm_Volumes (fst (AddVolume m h c r)) = mergeVolume (fm_Volumes m) \<lparr>v_HostPath = h, v_ContainerPath = c, v_Readonly = r\<rparr>"
  "fm_InputVolumes (fst (AddVolume m h c r)) = fm_InputVolumes m" "fm_Inputs (fst (AddVolume m h c r)) = fm_Inputs m"
  "fm_Outputs (fst (AddVolume m h c r)) = fm_Outputs m" "fm_WorkDir (fst (AddVolume m h c r)) = fm_WorkDir m"
  by (simp_all add: AddVolume_def mergeVolume_add split: prod.splits)

lemma set_mergeVolume: "set (mergeVolume vs vol) \<subseteq> insert vol (set vs)"
  by (induction vs) auto

text \<open>A path below a mount, component by component.\<close>

definition under :: "string \<Rightarrow> string \<Rightarrow> bool" where
  "under p base \<longleftrightarrow> prefix (comps base) (comps p)"

definition reachable_in :: "Volume list \<Rightarrow> string \<Rightarrow> bool" where
  "reachable_in vs p \<longleftrightarrow> (\<exists>v\<in>set vs. \<not> v_Readonly v \<and> under p (v_ContainerPath v))"

lemma under_trans: "under p q \<Longrightarrow> under q r \<Longrightarrow> under p r"
  unfolding under_def by (rule prefix_order.trans)

lemma under_refl [simp]: "under p p"
  by (simp add: under_def)

text \<open>A set of paths on which the prefix test of the code agrees with \<open>under\<close>.\<close>

definition separated :: "string set \<Rightarrow> bool" where
  "separated A \<longleftrightarrow> (\<forall>p\<in>A. \<forall>q\<in>A. IsSubpath p q \<longrightarrow> under p q)"

lemma mergeVolume_reaches:
  assumes "separated A" "v_ContainerPath ` set (vol # vs) \<subseteq> A" "\<not> v_Readonly vol"
  shows "reachable_in (mergeVolume vs vol) (v_ContainerPath vol)"
  using assms(2)
proof (induction vs)
  case Nil
  then show ?case using assms(3) by (simp add: reachable_in_def)
next
  case (Cons v vs)
  have "IsSubpath (v_ContainerPath vol) (v_ContainerPath v) \<Longrightarrow> under (v_ContainerPath vol) (v_ContainerPath v)"
    using assms(1) Cons(2) by (simp add: separated_def)
  with Cons assms(3) show ?case by (auto simp: reachable_in_def)
qed

lemma mergeVolume_keeps:
  assumes "separated A" "v_ContainerPath ` set (vol # vs) \<subseteq> A" "reachable_in vs p"
  shows "reachable_in (mergeVolume vs vol) p"
  using assms(2,3)
proof (induction vs)
  case Nil
  then show ?case by (simp add: reachable_in_def)
next
  case (Cons v vs)
  have "IsSubpath (v_ContainerPath v) (v_ContainerPath vol) \<Longrightarrow> under (v_ContainerPath v) (v_ContainerPath vol)"
    using assms(1) Cons(2) by (simp add: separated_def)
  with Cons show ?case by (auto simp: reachable_in_def intro: under_trans)
qed

section \<open>Lemmas: clean paths\<close>

definition clean_path :: "string \<Rightarrow> bool" where
  "clean_path p \<longleftrightarrow> IsAbs p \<and> Clean p = p \<and> p \<noteq> ''/''"

lemma clean_pathD: "clean_path p \<Longrightarrow> abs_path (comps p) = p" "clean_path p \<Longrightarrow> comps p \<noteq> []"
  using Clean_rooted by (auto simp: clean_path_def abs_path_def)

lemma clean_path_abs_path: "list_all plain cs \<Longrightarrow> cs \<noteq> [] \<Longrightarrow> clean_path (abs_path cs)"
proof -
  assume "list_all plain cs" "cs \<noteq> []"
  then have "Join cs ''/'' \<noteq> ''''" by (cases cs; cases "tl cs") (auto simp: plain_def)
  with \<open>list_all plain cs\<close> show ?thesis by (simp add: clean_path_def) (simp add: abs_path_def)
qed

lemma Join_append: "cs \<noteq> [] \<Longrightarrow> ds \<noteq> [] \<Longrightarrow> Join (cs @ ds) sep = Join cs sep @ sep @ Join ds sep"
  by (induction cs sep rule: Join.induct) (auto simp: Join_Cons)

lemma abs_path_append: "abs_path (cs @ ds) = (if cs = [] then abs_path ds else if ds = [] then abs_path cs else abs_path cs @ abs_path ds)"
  by (simp add: abs_path_def Join_append)

lemma IsSubpath_abs_path: "prefix cs ds \<Longrightarrow> IsSubpath (abs_path ds) (abs_path cs)"
  by (auto simp: prefix_def IsSubpath_def abs_path_append) (simp add: HasPrefix_def abs_path_def)

lemma under_abs_path [simp]: "list_all plain cs \<Longrightarrow> list_all plain ds \<Longrightarrow> under (abs_path ds) (abs_path cs) = prefix cs ds"
  by (simp add: under_def)

lemma host_path_in_down:
  "list_all plain ws \<Longrightarrow> dotless p \<Longrightarrow> host_path_in (abs_path ws) p = Inr (abs_path (ws @ comps p))"
  by (simp add: host_path_in_def path_Join_down IsSubpath_abs_path)

lemma dotless_clean: "clean_path p \<Longrightarrow> dotless p"
  using clean_pathD(1) comps_plain dotless_abs_path by metis

lemma HostPath_clean:
  "fm_WorkDir m = abs_path ws \<Longrightarrow> list_all plain ws \<Longrightarrow> clean_path p \<Longrightarrow> HostPath m p = Inr (abs_path (ws @ comps p))"
  by (simp add: HostPath_def host_path_in_down dotless_clean)

lemma path_Dir_clean: "clean_path p \<Longrightarrow> path_Dir p = abs_path (butlast (comps p))"
  by (metis clean_pathD(1) comps_plain path_Dir_abs_path)

lemma plain_butlast [simp]: "list_all plain cs \<Longrightarrow> list_all plain (butlast cs)"
  by (auto simp: list_all_iff dest: in_set_butlastD)

section \<open>Lemmas: the invariant of the mapper\<close>

definition good_volume :: "string list \<Rightarrow> Volume \<Rightarrow> bool" where
  "good_volume ws v \<longleftrightarrow> v_ContainerPath v = abs_path (comps (v_ContainerPath v)) \<and>
     v_HostPath v = abs_path (ws @ comps (v_ContainerPath v)) \<and> \<not> v_Readonly v"

definition mapper_ok :: "string set \<Rightarrow> string list \<Rightarrow> FileMapper \<Rightarrow> bool" where
  "mapper_ok A ws m \<longleftrightarrow> fm_WorkDir m = abs_path ws \<and>
     (\<forall>v \<in> set (fm_Volumes m) \<union> set (fm_InputVolumes m). good_volume ws v \<and> v_ContainerPath v \<in> A) \<and>
     (\<forall>v \<in> set (fm_InputVolumes m). clean_path (v_ContainerPath v))"

abbreviation reach :: "FileMapper \<Rightarrow> string \<Rightarrow> bool" where
  "reach m p \<equiv> reachable_in (fm_Volumes m) p"

text \<open>The set of paths: separated, and closed under directories.\<close>

definition path_set :: "string set \<Rightarrow> bool" where
  "path_set A \<longleftrightarrow> separated A \<and> (\<forall>cs ds. list_all plain ds \<and> abs_path ds \<in> A \<and> prefix cs ds \<longrightarrow> abs_path cs \<in> A)"

lemma path_setD: "path_set A \<Longrightarrow> separated A"
  "path_set A \<Longrightarrow> list_all plain ds \<Longrightarrow> abs_path ds \<in> A \<Longrightarrow> prefix cs ds \<Longrightarrow> abs_path cs \<in> A"
  by (auto simp: path_set_def)

lemma good_volume_abs: "list_all plain cs \<Longrightarrow>
    good_volume ws \<lparr>v_HostPath = abs_path (ws @ cs), v_ContainerPath = abs_path cs, v_Readonly = False\<rparr>"
  by (simp add: good_volume_def)

text \<open>Adding a good volume.\<close>

lemma merge_ok:
  assumes "path_set A" "\<forall>v\<in>set vs. good_volume ws v \<and> v_ContainerPath v \<in> A" "good_volume ws vol" "v_ContainerPath vol \<in> A"
  shows "\<forall>v\<in>set (mergeVolume vs vol). good_volume ws v \<and> v_ContainerPath v \<in> A"
    and "reachable_in (mergeVolume vs vol) (v_ContainerPath vol)"
    and "reachable_in vs q \<Longrightarrow> reachable_in (mergeVolume vs vol) q"
proof -
  have A: "v_ContainerPath ` set (vol # vs) \<subseteq> A" using assms(2,4) by auto
  show "\<forall>v\<in>set (mergeVolume vs vol). good_volume ws v \<and> v_ContainerPath v \<in> A"
    using set_mergeVolume [of vs vol] assms(2-4) by auto
  show "reachable_in (mergeVolume vs vol) (v_ContainerPath vol)"
    by (rule mergeVolume_reaches [OF path_setD(1) [OF assms(1)] A]) (use assms(3) in \<open>simp add: good_volume_def\<close>)
  show "reachable_in vs q \<Longrightarrow> reachable_in (mergeVolume vs vol) q"
    by (rule mergeVolume_keeps [OF path_setD(1) [OF assms(1)] A])
qed

text \<open>What adding one volume, input or output does to the mapper.\<close>

lemma AddVolume_ok:
  assumes "path_set A" "mapper_ok A ws m" "list_all plain cs" "abs_path cs \<in> A"
  shows "mapper_ok A ws (fst (AddVolume m (abs_path (ws @ cs)) (abs_path cs) False)) \<and>
    reach (fst (AddVolume m (abs_path (ws @ cs)) (abs_path cs) False)) (abs_path cs) \<and>
    (\<forall>q. reach m q \<longrightarrow> reach (fst (AddVolume m (abs_path (ws @ cs)) (abs_path cs) False)) q)"
proof -
  let ?vol = "\<lparr>v_HostPath = abs_path (ws @ cs), v_ContainerPath = abs_path cs, v_Readonly = False\<rparr>"
  have "\<forall>v\<in>set (fm_Volumes m). good_volume ws v \<and> v_ContainerPath v \<in> A" using assms(2) by (auto simp: mapper_ok_def)
  note M = merge_ok [OF assms(1) this good_volume_abs [OF assms(3), of ws]]
  from M(1,2,3) assms(2,4) show ?thesis by (auto simp: mapper_ok_def)
qed

definition step_ok :: "string set \<Rightarrow> string list \<Rightarrow> string \<Rightarrow> FileMapper \<Rightarrow> FileMapper \<Rightarrow> bool" where
  "step_ok A ws p m m' \<longleftrightarrow> mapper_ok A ws m' \<and> reach m' p \<and> (\<forall>q. reach m q \<longrightarrow> reach m' q)"

lemma AddTmpVolume_ok:
  assumes "path_set A" "mapper_ok A ws m" "list_all plain ws" "clean_path p" "p \<in> A" "AddTmpVolume os p (m, w) = ((m', w'), None)"
  shows "step_ok A ws p m m' \<and> fm_Inputs m' = fm_Inputs m \<and> fm_Outputs m' = fm_Outputs m"
proof -
  have W: "fm_WorkDir m = abs_path ws" using assms(2) by (simp add: mapper_ok_def)
  have m': "m' = fst (AddVolume m (abs_path (ws @ comps p)) p False)"
    using assms(6) by (auto simp: AddTmpVolume_def HostPath_clean [OF W assms(3,4)] split: prod.splits option.splits)
  have "abs_path (comps p) \<in> A" using assms(4,5) clean_pathD(1) by simp
  from AddVolume_ok [OF assms(1,2) comps_plain this] show ?thesis
    by (simp add: step_ok_def m' clean_pathD(1) [OF assms(4)])
qed

lemma AddInput_ok:
  assumes "path_set A" "mapper_ok A ws m" "list_all plain ws" "clean_path (in_Path x)" "in_Path x \<in> A"
    "AddInput os x (m, w) = ((m', w'), None)"
  shows "step_ok A ws (in_Path x) m m' \<and> fm_Outputs m' = fm_Outputs m \<and>
    fm_Inputs m' = fm_Inputs m @ (if in_Content x = '''' then [x\<lparr>in_Path := abs_path (ws @ comps (in_Path x))\<rparr>] else [])"
proof -
  let ?p = "in_Path x" and ?h = "abs_path (ws @ comps (in_Path x))"
  have W: "fm_WorkDir m = abs_path ws" using assms(2) by (simp add: mapper_ok_def)
  obtain m1 added where av: "AddVolume m ?h ?p False = (m1, added)" by force
  let ?m2 = "if added then m1\<lparr>fm_InputVolumes := fm_InputVolumes m1 @ [\<lparr>v_HostPath = ?h, v_ContainerPath = ?p, v_Readonly = False\<rparr>]\<rparr>
    else m1"
  have m': "m' = (if in_Content x = '''' then ?m2\<lparr>fm_Inputs := fm_Inputs ?m2 @ [x\<lparr>in_Path := ?h\<rparr>]\<rparr> else ?m2)"
    using assms(6) by (auto simp: AddInput_def HostPath_clean [OF W assms(3,4)] av Let_def split: prod.splits option.splits if_splits)
  note proj = AddVolume_simps [of m ?h ?p False, unfolded av fst_conv]
  have A: "abs_path (comps ?p) \<in> A" using assms(4,5) clean_pathD(1) by simp
  have "good_volume ws \<lparr>v_HostPath = ?h, v_ContainerPath = ?p, v_Readonly = False\<rparr>"
    using good_volume_abs [OF comps_plain, of ws ?p] by (simp add: clean_pathD(1) [OF assms(4)])
  with AddVolume_ok [OF assms(1,2) comps_plain A, unfolded clean_pathD(1) [OF assms(4)] av fst_conv] assms(4,5) show ?thesis
    by (auto simp: step_ok_def m' mapper_ok_def proj(2-5))
qed

lemma AddOutput_ok:
  assumes "path_set A" "mapper_ok A ws m" "list_all plain ws" "clean_path (out_Path x)" "out_Path x \<in> A"
    "AddOutput os x (m, w) = ((m', w'), None)"
  shows "step_ok A ws (out_Path x) m m' \<and> fm_Inputs m' = fm_Inputs m \<and>
    fm_Outputs m' = fm_Outputs m @ [x\<lparr>out_Path := abs_path (ws @ comps (out_Path x))\<rparr>]"
proof -
  let ?p = "out_Path x" and ?h = "abs_path (ws @ comps (out_Path x))"
  let ?cs = "if out_Type x = File then butlast (comps ?p) else comps ?p"
  have W: "fm_WorkDir m = abs_path ws" using assms(2) by (simp add: mapper_ok_def)
  have dirs: "(if out_Type x = File then (path_Dir ?h, path_Dir ?p) else (?h, ?p)) = (abs_path (ws @ ?cs), abs_path ?cs)"
    using assms(3,4) clean_pathD by (simp add: path_Dir_abs_path path_Dir_clean butlast_append)
  let ?m1 = "fst (AddVolume m (abs_path (ws @ ?cs)) (abs_path ?cs) False)"
  have m': "m' = ?m1\<lparr>fm_Outputs := fm_Outputs ?m1 @ [x\<lparr>out_Path := ?h\<rparr>]\<rparr>"
    using assms(6) unfolding AddOutput_def prod.case HostPath_clean [OF W assms(3,4)] sum.case dirs Let_def
    by (auto split: prod.splits option.splits)
  have "abs_path (comps ?p) \<in> A" using assms(4,5) clean_pathD(1) by simp
  then have A: "abs_path ?cs \<in> A" using path_setD(2) [OF assms(1) comps_plain, of ?p] prefixeq_butlast by auto
  have "list_all plain ?cs" by simp
  note step = AddVolume_ok [OF assms(1,2) this A]
  moreover have "under ?p (abs_path ?cs)" unfolding under_def by (auto simp: prefixeq_butlast)
  ultimately show ?thesis
    by (auto simp: step_ok_def m' mapper_ok_def reachable_in_def intro: under_trans)
qed

text \<open>Loops: the invariant, the paths made reachable, and the collected inputs or outputs.\<close>

lemma each_steps:
  assumes "each f xs (m, w) = ((m', w'), None)" "mapper_ok A ws m"
    and "\<And>x m w m' w'. x \<in> set xs \<Longrightarrow> mapper_ok A ws m \<Longrightarrow> f x (m, w) = ((m', w'), None) \<Longrightarrow>
      step_ok A ws (path_of x) m m' \<and> fm_Inputs m' = fm_Inputs m @ ins x \<and> fm_Outputs m' = fm_Outputs m @ outs x"
  shows "mapper_ok A ws m' \<and> (\<forall>x\<in>set xs. reach m' (path_of x)) \<and> (\<forall>q. reach m q \<longrightarrow> reach m' q) \<and>
    fm_Inputs m' = fm_Inputs m @ concat (map ins xs) \<and> fm_Outputs m' = fm_Outputs m @ concat (map outs xs)"
  using assms
proof (induction xs arbitrary: m w)
  case (Cons x xs)
  from Cons(2) obtain m1 w1 where first: "f x (m, w) = ((m1, w1), None)" and rest: "each f xs (m1, w1) = ((m', w'), None)"
    by (auto split: prod.splits option.splits)
  note one = Cons(4) [OF _ Cons(3) first, simplified]
  have "mapper_ok A ws m1" using one by (simp add: step_ok_def)
  note more = Cons.IH [OF rest this Cons(4)]
  show ?case using one more by (auto simp: step_ok_def)
qed simp

section \<open>Lemmas: consolidation\<close>

lemma common_parts_prefix: "prefix (common_parts as bs) as" "prefix (common_parts as bs) bs"
  by (induction as bs rule: common_parts.induct) auto

lemma list_all_prefix: "prefix as bs \<Longrightarrow> list_all P bs \<Longrightarrow> list_all P as"
  by (auto simp: prefix_def)

lemma Split_TrimPrefix: "list_all plain cs \<Longrightarrow> Split slash (TrimPrefix (abs_path cs) ''/'') = (if cs = [] then [''''] else cs)"
  by (simp add: abs_path_def TrimPrefix_def HasPrefix_def Split_Join list_all_iff plain_def)


lemma volumeCommonPathPrefix_abs:
  assumes "list_all plain as" "list_all plain bs"
  shows "volumeCommonPathPrefix (abs_path as) (abs_path bs) = abs_path (common_parts as bs)"
proof -
  let ?c = "common_parts (if as = [] then [''''] else as) (if bs = [] then [''''] else bs)"
  have "volumeCommonPathPrefix (abs_path as) (abs_path bs) = abs_path ?c"
    using assms by (simp add: volumeCommonPathPrefix_def Split_TrimPrefix Let_def) (simp add: abs_path_def)
  also have "\<dots> = abs_path (common_parts as bs)"
    using assms by (cases as; cases bs) (auto simp: abs_path_def plain_def)
  finally show ?thesis .
qed

lemma ancestor_loop_ok:
  assumes "list_all plain as" "\<forall>p\<in>set ps. clean_path p"
  shows "\<exists>cs. list_all plain cs \<and> ancestor_loop (abs_path as) ps = abs_path cs \<and> prefix cs as \<and>
    (\<forall>p\<in>set ps. prefix cs (butlast (comps p)))"
  using assms
proof (induction ps arbitrary: as)
  case Nil
  then show ?case by auto
next
  case (Cons p ps)
  let ?bs = "butlast (comps p)"
  let ?as = "common_parts as ?bs"
  have next_as: "volumeCommonPathPrefix (abs_path as) (path_Dir p) = abs_path ?as"
    using Cons(2,3) by (simp add: path_Dir_clean volumeCommonPathPrefix_abs)
  have plain_as: "list_all plain ?as" using common_parts_prefix(1) Cons(2) by (rule list_all_prefix)
  show ?case
  proof (cases "abs_path ?as = ''/'' \<or> abs_path ?as = ''.''")
    case True
    then have "abs_path ?as = abs_path []" by (auto simp: abs_path_def)
    with True next_as show ?thesis by (intro exI [of _ "[]"]) (simp add: Let_def)
  next
    case False
    from Cons(3) have "\<forall>p\<in>set ps. clean_path p" by simp
    from Cons.IH [OF plain_as this] obtain cs where cs: "list_all plain cs" "ancestor_loop (abs_path ?as) ps = abs_path cs"
      "prefix cs ?as" "\<forall>p\<in>set ps. prefix cs (butlast (comps p))" by blast
    moreover have "prefix cs as" "prefix cs ?bs" using cs(3) common_parts_prefix prefix_order.trans by blast+
    ultimately show ?thesis using next_as False by (intro exI [of _ cs]) (auto simp: Let_def)
  qed
qed

lemma volumeCommonDirAncestor_ok:
  assumes "ps \<noteq> []" "\<forall>p\<in>set ps. clean_path p"
  shows "\<exists>cs. list_all plain cs \<and> volumeCommonDirAncestor ps = abs_path cs \<and> (\<forall>p\<in>set ps. prefix cs (butlast (comps p)))"
proof -
  obtain p qs where ps: "ps = p # qs" using assms(1) by (cases ps) auto
  have "path_Dir p = abs_path (butlast (comps p))" using assms(2) ps path_Dir_clean by simp
  with ancestor_loop_ok [of "butlast (comps p)" qs] assms(2) ps show ?thesis by (auto simp: volumeCommonDirAncestor_def)
qed

text \<open>The key of the seen set determines the parent for good volumes.\<close>

lemma parent_key_inj:
  assumes "abs_path (ws @ as) @ '':'' @ abs_path as = abs_path (ws @ bs) @ '':'' @ abs_path bs"
  shows "abs_path as = abs_path bs"
proof -
  have "length (abs_path (ws @ as)) + length (abs_path as) = length (abs_path (ws @ bs)) + length (abs_path bs)"
    using arg_cong [OF assms, of length] by simp
  then have "length (abs_path as) = length (abs_path bs)" by (simp add: abs_path_def length_Join_slash)
  with assms show ?thesis by (metis append_eq_append_conv append_assoc)
qed

lemma promote_parents_ok:
  assumes "path_set A" "list_all plain ws" "\<forall>v\<in>set vols. good_volume ws v \<and> v_ContainerPath v \<in> A"
    "\<forall>v\<in>set vs. good_volume ws v \<and> v_ContainerPath v \<in> A \<and> clean_path (v_ContainerPath v)"
    "\<forall>k\<in>set seen. \<exists>as. k = abs_path (ws @ as) @ '':'' @ abs_path as \<and> reachable_in vols (abs_path as)"
  shows "(\<forall>v\<in>set (promote_parents vs seen vols). good_volume ws v \<and> v_ContainerPath v \<in> A) \<and>
    (\<forall>v\<in>set vs. reachable_in (promote_parents vs seen vols) (path_Dir (v_ContainerPath v))) \<and>
    (\<forall>q. reachable_in vols q \<longrightarrow> reachable_in (promote_parents vs seen vols) q)"
  using assms(3-5)
proof (induction vs arbitrary: seen vols)
  case (Cons v vs)
  let ?cs = "comps (v_ContainerPath v)"
  let ?bs = "butlast ?cs"
  let ?key = "abs_path (ws @ ?bs) @ '':'' @ abs_path ?bs"
  let ?vol = "\<lparr>v_HostPath = abs_path (ws @ ?bs), v_ContainerPath = abs_path ?bs, v_Readonly = False\<rparr>"
  have v: "good_volume ws v" "v_ContainerPath v \<in> A" "clean_path (v_ContainerPath v)" using Cons(3) by auto
  have cont: "path_Dir (v_ContainerPath v) = abs_path ?bs" using v(3) by (rule path_Dir_clean)
  have host: "path_Dir (v_HostPath v) = abs_path (ws @ ?bs)"
    using v(1,3) assms(2) clean_pathD(2) by (simp add: good_volume_def path_Dir_abs_path butlast_append)
  have A: "abs_path ?bs \<in> A"
    using path_setD(2) [OF assms(1) comps_plain, of "v_ContainerPath v"] v(2) clean_pathD(1) [OF v(3)] prefixeq_butlast by auto
  have rest: "\<forall>v\<in>set vs. good_volume ws v \<and> v_ContainerPath v \<in> A \<and> clean_path (v_ContainerPath v)" using Cons(3) by auto
  show ?case
  proof (cases "?key \<in> set seen")
    case True
    with Cons(4) obtain as where "?key = abs_path (ws @ as) @ '':'' @ abs_path as" "reachable_in vols (abs_path as)" by blast
    with parent_key_inj have "reachable_in vols (abs_path ?bs)" by metis
    with True Cons.IH [OF Cons(2) rest Cons(4)] cont host show ?thesis by (simp add: Let_def)
  next
    case False
    note merge = merge_ok [OF assms(1) Cons(2) good_volume_abs [OF plain_butlast [OF comps_plain]], of "v_ContainerPath v", simplified, OF A]
    have seen: "\<forall>k\<in>set (?key # seen). \<exists>as. k = abs_path (ws @ as) @ '':'' @ abs_path as \<and> reachable_in (mergeVolume vols ?vol) (abs_path as)"
      using Cons(4) merge(2,3) by (auto simp del: append_assoc)
    from Cons.IH [OF merge(1) rest seen] merge(2,3) False cont host show ?thesis by (simp add: Let_def)
  qed
qed simp

lemma reachable_under: "reachable_in vs p \<Longrightarrow> under q p \<Longrightarrow> reachable_in vs q"
  by (auto simp: reachable_in_def intro: under_trans)

abbreviation non_inputs :: "FileMapper \<Rightarrow> Volume list" where
  "non_inputs m \<equiv> filter (\<lambda>v. v_ContainerPath v \<notin> set (map v_ContainerPath (fm_InputVolumes m))) (fm_Volumes m)"

text \<open>The new mounts are good, reach every input, and reach what the volumes of other kinds reached.\<close>

lemma consolidateVolumes_reaches:
  assumes "path_set A" "list_all plain ws" "mapper_ok A ws m" "fm_InputVolumes m \<noteq> []"
  shows "(\<forall>v\<in>set (fm_Volumes (consolidateVolumes m)). good_volume ws v \<and> v_ContainerPath v \<in> A) \<and>
     (\<forall>v\<in>set (fm_InputVolumes m). reach (consolidateVolumes m) (v_ContainerPath v)) \<and>
     (\<forall>q. reachable_in (non_inputs m) q \<longrightarrow> reach (consolidateVolumes m) q)"
proof -
  let ?ps = "map v_ContainerPath (fm_InputVolumes m)" and ?new = "fm_Volumes (consolidateVolumes m)"
  have non: "\<forall>v\<in>set (non_inputs m). good_volume ws v \<and> v_ContainerPath v \<in> A" using assms(3) by (auto simp: mapper_ok_def)
  have ins: "\<forall>v\<in>set (fm_InputVolumes m). good_volume ws v \<and> v_ContainerPath v \<in> A \<and> clean_path (v_ContainerPath v)"
    using assms(3) by (auto simp: mapper_ok_def)
  obtain cs where cs: "list_all plain cs" "volumeCommonDirAncestor ?ps = abs_path cs" "\<forall>p\<in>set ?ps. prefix cs (butlast (comps p))"
    using volumeCommonDirAncestor_ok [of ?ps] assms(4) ins by auto
  have pre: "prefix cs (comps (v_ContainerPath v))" if "v \<in> set (fm_InputVolumes m)" for v
    using cs(3) that prefixeq_butlast prefix_order.trans by fastforce
  show ?thesis
  proof (cases "abs_path cs = ''/''")
    case True
    then have new: "?new = promote_parents (fm_InputVolumes m) [] (non_inputs m)"
      using assms(4) cs(2) by (simp add: consolidateVolumes_def Let_def)
    have "under (v_ContainerPath v) (path_Dir (v_ContainerPath v))" if "v \<in> set (fm_InputVolumes m)" for v
      using ins that by (simp add: path_Dir_clean under_def prefixeq_butlast)
    then have "reachable_in (promote_parents (fm_InputVolumes m) [] (non_inputs m)) (v_ContainerPath v)"
      if "v \<in> set (fm_InputVolumes m)" for v
      using promote_parents_ok [OF assms(1,2) non ins, of "[]"] that reachable_under by fastforce
    with promote_parents_ok [OF assms(1,2) non ins, of "[]"] show ?thesis
      unfolding new by simp
  next
    case False
    have new: "?new = mergeVolume (non_inputs m) \<lparr>v_HostPath = abs_path (ws @ cs), v_ContainerPath = abs_path cs, v_Readonly = False\<rparr>"
      using False cs(1,2) assms by (simp add: consolidateVolumes_def Let_def mapper_ok_def) (simp add: abs_path_def)
    obtain v where v: "v \<in> set (fm_InputVolumes m)" using assms(4) by (cases "fm_InputVolumes m") auto
    have "abs_path (comps (v_ContainerPath v)) \<in> A" using v ins clean_pathD(1) by auto
    from path_setD(2) [OF assms(1) comps_plain this pre [OF v]] have "abs_path cs \<in> A" .
    note M = merge_ok [OF assms(1) non good_volume_abs [OF cs(1)], simplified, OF this]
    have "under (v_ContainerPath v) (abs_path cs)" if "v \<in> set (fm_InputVolumes m)" for v
      using pre that cs(1) by (simp add: under_def)
    then have "reachable_in ?new (v_ContainerPath v)" if "v \<in> set (fm_InputVolumes m)" for v
      using M(2) that reachable_under unfolding new by fastforce
    with M(1,3) show ?thesis unfolding new by simp
  qed
qed

lemma consolidateVolumes_ok:
  assumes "path_set A" "list_all plain ws" "mapper_ok A ws m"
  shows "mapper_ok A ws (consolidateVolumes m) \<and> (\<forall>q. reach m q \<longrightarrow> reach (consolidateVolumes m) q)"
proof (cases "fm_InputVolumes m = []")
  case True
  with assms(3) show ?thesis by (simp add: consolidateVolumes_def)
next
  case False
  note new = consolidateVolumes_reaches [OF assms False]
  have "reach (consolidateVolumes m) q" if "reach m q" for q
  proof -
    from that obtain v where v: "v \<in> set (fm_Volumes m)" "\<not> v_Readonly v" "under q (v_ContainerPath v)"
      by (auto simp: reachable_in_def)
    show ?thesis
    proof (cases "v_ContainerPath v \<in> v_ContainerPath ` set (fm_InputVolumes m)")
      case True
      with new have "reach (consolidateVolumes m) (v_ContainerPath v)" by force
      then show ?thesis using v(3) by (rule reachable_under)
    next
      case False
      with v have "reachable_in (non_inputs m) q" by (auto simp: reachable_in_def)
      with new show ?thesis by blast
    qed
  qed
  moreover have "fm_InputVolumes (consolidateVolumes m) = fm_InputVolumes m" "fm_WorkDir (consolidateVolumes m) = fm_WorkDir m"
    by (simp_all add: consolidateVolumes_def Let_def)
  ultimately show ?thesis using assms(3) new by (auto simp: mapper_ok_def)
qed

section \<open>Lemmas: a whole task\<close>

definition task_paths :: "Task \<Rightarrow> string list" where
  "task_paths task = t_Volumes task @ map in_Path (t_Inputs task) @ map out_Path (t_Outputs task)"

definition task_dirs :: "Task \<Rightarrow> string set" where
  "task_dirs task = set (concat (map (\<lambda>p. map abs_path (prefixes (comps p))) (task_paths task)))"

lemma task_dirs_iff: "q \<in> task_dirs task \<longleftrightarrow> (\<exists>p\<in>set (task_paths task). \<exists>cs. prefix cs (comps p) \<and> q = abs_path cs)"
  by (force simp: task_dirs_def image_iff)

lemma path_set_task_dirs: "separated (task_dirs task) \<Longrightarrow> path_set (task_dirs task)"
proof -
  assume sep: "separated (task_dirs task)"
  have "abs_path cs \<in> task_dirs task" if ds: "list_all plain ds" "abs_path ds \<in> task_dirs task" and pre: "prefix cs ds" for cs ds
  proof -
    from ds(2) obtain p es where p: "p \<in> set (task_paths task)" "prefix es (comps p)" "abs_path ds = abs_path es"
      by (auto simp: task_dirs_iff)
    then have "ds = es" using ds(1) list_all_prefix [OF p(2) comps_plain] by simp
    with p pre show ?thesis by (metis task_dirs_iff prefix_order.trans)
  qed
  with sep show ?thesis by (auto simp: path_set_def)
qed

text \<open>The paths of the inputs and outputs on the host.\<close>

definition mapped_input :: "string list \<Rightarrow> Input \<Rightarrow> Input" where
  "mapped_input ws x = x\<lparr>in_Path := abs_path (ws @ comps (in_Path x))\<rparr>"

definition mapped_output :: "string list \<Rightarrow> Output \<Rightarrow> Output" where
  "mapped_output ws x = x\<lparr>out_Path := abs_path (ws @ comps (out_Path x))\<rparr>"

lemma concat_singletons: "concat (map (\<lambda>x. if P x then [f x] else []) xs) = map f (filter P xs)" "concat (map (\<lambda>x. []) xs) = []"
  by (induction xs) auto

lemma each_AddTmpVolume_ok:
  assumes "path_set A" "list_all plain ws" "mapper_ok A ws m" "\<forall>p\<in>set ps. clean_path p \<and> p \<in> A"
    "each (AddTmpVolume os) ps (m, w) = ((m', w'), None)"
  shows "mapper_ok A ws m' \<and> (\<forall>p\<in>set ps. reach m' p) \<and> (\<forall>q. reach m q \<longrightarrow> reach m' q) \<and>
    fm_Inputs m' = fm_Inputs m \<and> fm_Outputs m' = fm_Outputs m"
proof -
  have "step_ok A ws p m m' \<and> fm_Inputs m' = fm_Inputs m @ [] \<and> fm_Outputs m' = fm_Outputs m @ []"
    if "p \<in> set ps" "mapper_ok A ws m" "AddTmpVolume os p (m, w) = ((m', w'), None)" for p m w m' w'
    using AddTmpVolume_ok [OF assms(1) that(2) assms(2) _ _ that(3)] assms(4) that(1) by simp
  from each_steps [where path_of = "\<lambda>p. p" and ins = "\<lambda>_. []" and outs = "\<lambda>_. []", OF assms(5,3) this]
  show ?thesis by (simp add: concat_singletons)
qed

lemma each_AddInput_ok:
  assumes "path_set A" "list_all plain ws" "mapper_ok A ws m" "\<forall>x\<in>set xs. clean_path (in_Path x) \<and> in_Path x \<in> A"
    "each (AddInput os) xs (m, w) = ((m', w'), None)"
  shows "mapper_ok A ws m' \<and> (\<forall>x\<in>set xs. reach m' (in_Path x)) \<and> (\<forall>q. reach m q \<longrightarrow> reach m' q) \<and>
    fm_Inputs m' = fm_Inputs m @ map (mapped_input ws) (filter (\<lambda>x. in_Content x = '''') xs) \<and> fm_Outputs m' = fm_Outputs m"
proof -
  have "step_ok A ws (in_Path x) m m' \<and> fm_Inputs m' = fm_Inputs m @ (if in_Content x = '''' then [mapped_input ws x] else []) \<and>
      fm_Outputs m' = fm_Outputs m @ []"
    if "x \<in> set xs" "mapper_ok A ws m" "AddInput os x (m, w) = ((m', w'), None)" for x m w m' w'
    using AddInput_ok [OF assms(1) that(2) assms(2) _ _ that(3)] assms(4) that(1) by (simp add: mapped_input_def)
  from each_steps [where path_of = in_Path and ins = "\<lambda>x. if in_Content x = '''' then [mapped_input ws x] else []" and outs = "\<lambda>_. []",
      OF assms(5,3) this]
  show ?thesis by (simp add: concat_singletons)
qed

lemma each_AddOutput_ok:
  assumes "path_set A" "list_all plain ws" "mapper_ok A ws m" "\<forall>x\<in>set xs. clean_path (out_Path x) \<and> out_Path x \<in> A"
    "each (AddOutput os) xs (m, w) = ((m', w'), None)"
  shows "mapper_ok A ws m' \<and> (\<forall>x\<in>set xs. reach m' (out_Path x)) \<and> (\<forall>q. reach m q \<longrightarrow> reach m' q) \<and>
    fm_Inputs m' = fm_Inputs m \<and> fm_Outputs m' = fm_Outputs m @ map (mapped_output ws) xs"
proof -
  have "step_ok A ws (out_Path x) m m' \<and> fm_Inputs m' = fm_Inputs m @ [] \<and> fm_Outputs m' = fm_Outputs m @ [mapped_output ws x]"
    if "x \<in> set xs" "mapper_ok A ws m" "AddOutput os x (m, w) = ((m', w'), None)" for x m w m' w'
    using AddOutput_ok [OF assms(1) that(2) assms(2) _ _ that(3)] assms(4) that(1) by (simp add: mapped_output_def)
  from each_steps [where path_of = out_Path and ins = "\<lambda>_. []" and outs = "\<lambda>x. [mapped_output ws x]", OF assms(5,3) this]
  show ?thesis by (simp add: concat_singletons)
qed

lemma MapTask_ok:
  assumes "list_all plain ws" "fm_WorkDir m = abs_path ws" "fm_Volumes m = []" "fm_InputVolumes m = []"
    "\<forall>p\<in>set (task_paths task). clean_path p" "separated (task_dirs task)" "MapTask os task (m, w) = ((m', w'), None)"
  shows "mapper_ok (task_dirs task) ws m' \<and> (\<forall>p\<in>set (task_paths task). reach m' p) \<and>
    fm_Inputs m' = fm_Inputs m @ map (mapped_input ws) (filter (\<lambda>x. in_Content x = '''') (t_Inputs task)) \<and>
    fm_Outputs m' = fm_Outputs m @ map (mapped_output ws) (t_Outputs task)"
proof -
  let ?A = "task_dirs task"
  have A: "path_set ?A" using assms(6) by (rule path_set_task_dirs)
  have "clean_path p \<and> p \<in> ?A" if "p \<in> set (task_paths task)" for p
    using that assms(5) clean_pathD(1) by (auto simp: task_dirs_iff intro!: bexI [of _ p] exI [of _ "comps p"])
  then have inA: "\<forall>p\<in>set (t_Volumes task). clean_path p \<and> p \<in> ?A" "\<forall>x\<in>set (t_Inputs task). clean_path (in_Path x) \<and> in_Path x \<in> ?A"
    "\<forall>x\<in>set (t_Outputs task). clean_path (out_Path x) \<and> out_Path x \<in> ?A" by (simp_all add: task_paths_def)
  from assms(7) obtain w1 m1 w2 m2 w3 m3 where
    vols: "each (AddTmpVolume os) (t_Volumes task) (m, w1) = ((m1, w2), None)" and
    ins: "each (AddInput os) (t_Inputs task) (m1, w2) = ((m2, w3), None)" and
    outs: "each (AddOutput os) (t_Outputs task) (m2, w3) = ((m3, w'), None)" and m': "m' = consolidateVolumes m3"
    by (auto simp: MapTask_def split: prod.splits option.splits if_splits)
  have ok0: "mapper_ok ?A ws m" using assms(2-4) by (simp add: mapper_ok_def)
  note s1 = each_AddTmpVolume_ok [OF A assms(1) ok0 inA(1) vols]
  note s2 = each_AddInput_ok [OF A assms(1) conjunct1 [OF s1] inA(2) ins]
  note s3 = each_AddOutput_ok [OF A assms(1) conjunct1 [OF s2] inA(3) outs]
  note s4 = consolidateVolumes_ok [OF A assms(1) conjunct1 [OF s3]]
  have "fm_Inputs m' = fm_Inputs m3" "fm_Outputs m' = fm_Outputs m3" by (simp_all add: m' consolidateVolumes_def Let_def)
  with s1 s2 s3 s4 m' show ?thesis by (auto simp: task_paths_def)
qed

lemma NewFileMapper_WorkDir: "IsAbs dir \<Longrightarrow> fm_WorkDir (NewFileMapper cwd dir) = abs_path (comps dir)"
  by (simp add: NewFileMapper_def filepath_Abs_def Clean_rooted)

lemma NewFileMapper_empty [simp]: "fm_Volumes (NewFileMapper cwd dir) = []" "fm_InputVolumes (NewFileMapper cwd dir) = []"
  "fm_Inputs (NewFileMapper cwd dir) = []" "fm_Outputs (NewFileMapper cwd dir) = []"
  by (simp_all add: NewFileMapper_def)

lemma path_Join_clean: "list_all plain ws \<Longrightarrow> clean_path p \<Longrightarrow> path_Join [abs_path ws, p] = abs_path (ws @ comps p)"
  by (simp add: path_Join_down dotless_clean)

text \<open>A directory tree of bounded depth, whatever happens to the world meanwhile.\<close>

fun shallow :: "'w os \<Rightarrow> nat \<Rightarrow> string \<Rightarrow> bool" where
  "shallow os 0 p = False"
| "shallow os (Suc n) p =
     (\<forall>w es. os_ReadDir os p w = Inr es \<longrightarrow> (\<forall>(name, isDir) \<in> set es. isDir \<longrightarrow> shallow os n (path_Join [p, name])))"

lemma copy_entries_returns:
  assumes "\<forall>(name, isDir) \<in> set es. isDir \<longrightarrow> (\<forall>dst w. \<exists>r. copy (path_Join [src, name]) dst w = Some r)"
  shows "\<exists>r. copy_entries os copy src dst es w = Some r"
  using assms
proof (induction es arbitrary: w)
  case (Cons e es)
  obtain name isDir where e: "e = (name, isDir)" by force
  have IH: "\<exists>r. copy_entries os copy src dst es w = Some r" for w using Cons by simp
  show ?case
  proof (cases isDir)
    case True
    obtain w1 r1 where mk: "os_MkdirAll os (path_Join [dst, name]) w = (w1, r1)" by force
    obtain w2 r2 where "copy (path_Join [src, name]) (path_Join [dst, name]) w1 = Some (w2, r2)"
      using Cons(2) e True by fastforce
    with e True mk IH show ?thesis by (cases r1; cases r2) (auto simp: Let_def)
  next
    case False
    obtain w1 r1 where "copyFile os (path_Join [src, name]) (path_Join [dst, name]) w = (w1, r1)" by force
    with e False IH show ?thesis by (cases r1) (auto simp: Let_def)
  qed
qed simp

section \<open>A file system on which every call succeeds\<close>

definition quiet_os :: "unit os" where
  "quiet_os = \<lparr>os_Stat = (\<lambda>_ _. Inr \<lparr>fi_IsDir = True, fi_Symlink = False, fi_Size = 0, fi_Name = ''''\<rparr>), os_IsNotExist = (\<lambda>_. False),
     os_MkdirAll = (\<lambda>_ w. (w, None)), os_WriteFile = (\<lambda>_ _ w. (w, None)), os_Open = (\<lambda>_ _. None),
     os_Create = (\<lambda>_ w. (w, None)), io_Copy = (\<lambda>_ _ w. (w, None)), os_ReadDir = (\<lambda>_ _. Inr []),
     os_Readlink = (\<lambda>_ _. Inr ''''), os_Remove = (\<lambda>_ w. (w, None)), os_Symlink = (\<lambda>_ _ w. (w, None)),
     os_RemoveAll = (\<lambda>_ w. (w, None)), os_Glob = (\<lambda>_ _. Inr []), os_Walk = (\<lambda>_ _. [])\<rparr>"

lemma quiet_Ensure [simp]: "EnsureDir quiet_os p w = (w, None)" "EnsurePath quiet_os p w = (w, None)"
  by (simp_all add: EnsurePath_def EnsureDir_def exists_path_def quiet_os_def)

definition sample_input :: "string \<Rightarrow> Input" where
  "sample_input p = \<lparr>in_Content = '''', in_Description = '''', in_Name = '''', in_Path = p, in_Streamable = False, in_Type = File,
     in_Url = ''s3://bucket/x''\<rparr>"

definition sample_output :: "string \<Rightarrow> Output" where
  "sample_output p = \<lparr>out_Description = '''', out_Name = '''', out_Path = p, out_PathPrefix = '''', out_Type = File,
     out_Url = ''s3://bucket/y''\<rparr>"

text \<open>A task with a volume, an input and an output, given their paths.\<close>

definition sample_files :: "string list \<Rightarrow> string list \<Rightarrow> string list \<Rightarrow> Task" where
  "sample_files vols ins outs = empty_task\<lparr>t_Executors := [empty_executor\<lparr>ex_Image := ''alpine'', ex_Command := [''true'']\<rparr>],
     t_Volumes := vols, t_Inputs := map sample_input ins, t_Outputs := map sample_output outs\<rparr>"

lemmas map_evals = MapTask_def AddTmpVolume_def AddInput_def AddOutput_def AddVolume_def HostPath_def host_path_in_def IsSubpath_def
  NewFileMapper_def filepath_Abs_def path_Join_def Clean_def IsAbs_def HasPrefix_def TrimPrefix_def path_Dir_def path_Split_def Let_def
  sample_files_def sample_input_def sample_output_def empty_task_def consolidateVolumes_def volumeCommonDirAncestor_def
  volumeCommonPathPrefix_def

section \<open>Properties\<close>


text \<open>
  C21: host and container paths translate back and forth.  For an absolute path without dot-dot
  components \<open>HostPath\<close> succeeds, its result lies below the working directory, and \<open>ContainerPath\<close>
  recovers the cleaned path from it.
\<close>

theorem HostPath_roundtrip:
  assumes "IsAbs dir" "IsAbs p" "dotless p"
  shows "\<exists>h. HostPath (NewFileMapper cwd dir) p = Inr h \<and> under h dir \<and> ContainerPath (NewFileMapper cwd dir) h = Clean p"
proof -
  let ?ws = "comps dir" and ?cs = "comps p"
  have h: "HostPath (NewFileMapper cwd dir) p = Inr (abs_path (?ws @ ?cs))"
    by (simp add: HostPath_def NewFileMapper_WorkDir [OF assms(1)] host_path_in_down assms(3))
  have root: "TrimPrefix (abs_path (?ws @ ?cs)) (abs_path ?ws) = (if ?ws = [] then Join ?cs ''/'' else if ?cs = [] then '''' else abs_path ?cs)"
    by (simp add: abs_path_append) (simp add: abs_path_def TrimPrefix_def HasPrefix_def)
  have "comps (slash # abs_path ?cs) = ?cs" using comps_append_dotless [of "abs_path ?cs" "''''"] by (simp add: comps_def [of "''''"])
  then have again: "Clean (slash # abs_path ?cs) = abs_path ?cs" by (subst Clean_rooted) (simp_all add: IsAbs_def HasPrefix_def)
  have "Clean (''/'' @ TrimPrefix (abs_path (?ws @ ?cs)) (abs_path ?ws)) = abs_path ?cs"
    unfolding root using again Clean_abs_path [OF comps_plain, of p]
    by (auto simp: abs_path_def)
  then have "ContainerPath (NewFileMapper cwd dir) (abs_path (?ws @ ?cs)) = Clean p"
    by (simp add: ContainerPath_def NewFileMapper_WorkDir [OF assms(1)] Clean_rooted [OF assms(2)])
  with h show ?thesis by (simp add: under_def)
qed



theorem HostPath_roundtrip_witness:
  "\<exists>h. HostPath (NewFileMapper ''/'' ''/work/t1'') ''/in/./x'' = Inr h \<and> under h ''/work/t1'' \<and>
     ContainerPath (NewFileMapper ''/'' ''/work/t1'') h = Clean ''/in/./x''"
  by (rule HostPath_roundtrip) (simp_all add: IsAbs_def HasPrefix_def dotless_def)


text \<open>
  An output path can mount the parent of the working directory.  The valid output path
  \<open>/x/..\<close> of a file passes \<open>HostPath\<close>, since it cleans to the working directory itself; \<open>path.Dir\<close>
  then leads out of it, and the directory that holds the working directories of all tasks is
  mounted, writable, at \<open>/x\<close> in the container.
\<close>

theorem AddOutput_mounts_parent:
  "valid_task (sample_files [] [] [''/x/..'']) \<and>
   (\<exists>m. MapTask quiet_os (sample_files [] [] [''/x/..'']) (NewFileMapper ''/'' ''/work/t1'', ()) = ((m, ()), None) \<and>
      fm_Volumes m = [\<lparr>v_HostPath = ''/work'', v_ContainerPath = ''/x'', v_Readonly = False\<rparr>])"
proof
  show "valid_task (sample_files [] [] [''/x/..''])"
    by (simp add: valid_task_def sample_files_def valid_executor_def optional_absolute_def empty_executor_def empty_task_def
        sample_output_def valid_output_def HasPrefix_def)
  show "\<exists>m. MapTask quiet_os (sample_files [] [] [''/x/..'']) (NewFileMapper ''/'' ''/work/t1'', ()) = ((m, ()), None) \<and>
      fm_Volumes m = [\<lparr>v_HostPath = ''/work'', v_ContainerPath = ''/x'', v_Readonly = False\<rparr>]"
    by (simp add: map_evals)
qed

text \<open>
  The prefix test takes siblings for subdirectories.  With a volume at \<open>/data\<close>, the input at
  \<open>/database/x\<close> counts as already mounted: the task is mapped without error and no mount contains
  the input.
\<close>

theorem MapTask_loses_input:
  "valid_task (sample_files [''/data''] [''/database/x''] []) \<and>
   (\<exists>m. MapTask quiet_os (sample_files [''/data''] [''/database/x''] []) (NewFileMapper ''/'' ''/work/t1'', ()) = ((m, ()), None) \<and>
      \<not> reachable_in (fm_Volumes m) ''/database/x'')"
proof
  show "valid_task (sample_files [''/data''] [''/database/x''] [])"
    by (simp add: valid_task_def sample_files_def valid_executor_def optional_absolute_def empty_executor_def empty_task_def
        sample_input_def valid_input_def HasPrefix_def)
  show "\<exists>m. MapTask quiet_os (sample_files [''/data''] [''/database/x''] []) (NewFileMapper ''/'' ''/work/t1'', ()) = ((m, ()), None) \<and>
      \<not> reachable_in (fm_Volumes m) ''/database/x''"
    by (simp add: map_evals reachable_in_def under_def comps_def)
qed

text \<open>A path with dot-dot components reaches a sibling of the working directory whose name continues its name.\<close>

lemma HostPath_reaches_sibling:
  "HostPath (NewFileMapper ''/'' ''/work/t1'') ''/../t10/secret'' = Inr ''/work/t10/secret'' \<and> \<not> under ''/work/t10/secret'' ''/work/t1''"
  by (simp add: map_evals under_def comps_def)

text \<open>An input directly below the root makes the working directory the root mount of the container.\<close>

lemma consolidateVolumes_mounts_root:
  "\<exists>m. MapTask quiet_os (sample_files [] [''/hello.txt''] []) (NewFileMapper ''/'' ''/work/t1'', ()) = ((m, ()), None) \<and>
     fm_Volumes m = [\<lparr>v_HostPath = ''/work/t1'', v_ContainerPath = ''/'', v_Readonly = False\<rparr>]"
  by (simp add: map_evals)

end
