(* ===== verification/Storage.thy ===== *)
theory Storage
  imports File_Mapper Retrier
begin

text \<open>
  Storage for task files: the interface of \<open>src/storage/storage.go\<close>, the multiplexer \<open>mux.go\<close>, the
  retrying wrapper \<open>retry.go\<close>, the transfers of \<open>transfer.go\<close>, and the local and HTTP backends of
  \<open>local.go\<close> and \<open>http.go\<close>.

  A backend is a record of operations on a world.  The locale \<open>guarded_storage\<close> states what clients
  rely on: an operation that is reported as unsupported fails and changes nothing.  The multiplexer
  keeps it for any backends (the local backend alone does not check its own \<open>Get\<close> and \<open>Put\<close>).
\<close>

section \<open>The interface\<close>

datatype storage_error = ErrUnsupportedProtocol string | ErrInvalidURL string | StorageErr go_error

fun storage_error_string :: "storage_error \<Rightarrow> string" where
  "storage_error_string (ErrUnsupportedProtocol backend) = backend @ '': unsupported protocol''"
| "storage_error_string (ErrInvalidURL backend) = backend @ '': invalid url''"
| "storage_error_string (StorageErr e) = error_string e"

record Object =
  obj_URL :: string
  obj_Name :: string
  obj_ETag :: string
  obj_Size :: int

record UnsupportedOperations =
  un_Get :: "storage_error option"
  un_Put :: "storage_error option"
  un_List :: "storage_error option"
  un_Stat :: "storage_error option"
  un_Join :: "storage_error option"

definition AllSupported :: UnsupportedOperations where
  "AllSupported = \<lparr>un_Get = None, un_Put = None, un_List = None, un_Stat = None, un_Join = None\<rparr>"

definition AllUnsupported :: "storage_error \<Rightarrow> UnsupportedOperations" where
  "AllUnsupported err = \<lparr>un_Get = Some err, un_Put = Some err, un_List = Some err, un_Stat = Some err, un_Join = Some err\<rparr>"

text \<open>The context of a call is given by its error, absent while it is not done.\<close>

type_synonym ctx_err = "go_error option"

record 'w Storage =
  st_Stat :: "ctx_err \<Rightarrow> string \<Rightarrow> 'w \<Rightarrow> 'w \<times> (go_error + Object)"
  st_List :: "ctx_err \<Rightarrow> string \<Rightarrow> 'w \<Rightarrow> 'w \<times> (go_error + Object list)"
  st_Get :: "ctx_err \<Rightarrow> string \<Rightarrow> string \<Rightarrow> 'w \<Rightarrow> 'w \<times> (go_error + Object)"
  st_Put :: "ctx_err \<Rightarrow> string \<Rightarrow> string \<Rightarrow> 'w \<Rightarrow> 'w \<times> (go_error + Object list)"
  st_Join :: "string \<Rightarrow> string \<Rightarrow> 'w \<Rightarrow> go_error + string"
  st_Unsupported :: "string \<Rightarrow> 'w \<Rightarrow> UnsupportedOperations"

section \<open>The multiplexer\<close>

datatype operation = GetOp | putOp | listOp | statOp | joinOp

fun op_error :: "operation \<Rightarrow> UnsupportedOperations \<Rightarrow> storage_error option" where
  "op_error GetOp u = un_Get u"
| "op_error putOp u = un_Put u"
| "op_error listOp u = un_List u"
| "op_error statOp u = un_Stat u"
| "op_error joinOp u = un_Join u"

text \<open>The loop: the last backend that supports the operation, their number, and the errors to report.\<close>

fun find_loop :: "string \<Rightarrow> operation \<Rightarrow> 'w \<Rightarrow> 'w Storage list \<Rightarrow> 'w Storage option \<Rightarrow> nat \<Rightarrow> string list \<Rightarrow>
    'w Storage option \<times> nat \<times> string list" where
  "find_loop url op w [] use found errs = (use, found, errs)"
| "find_loop url op w (backend # bs) use found errs =
     (case op_error op (st_Unsupported backend url w) of
        None \<Rightarrow> find_loop url op w bs (Some backend) (found + 1) errs
      | Some err \<Rightarrow>
          (case err of
             ErrUnsupportedProtocol _ \<Rightarrow> find_loop url op w bs use found errs
           | _ \<Rightarrow> find_loop url op w bs use found (errs @ [storage_error_string err])))"

definition FindBackend :: "'w Storage list \<Rightarrow> string \<Rightarrow> operation \<Rightarrow> 'w \<Rightarrow> go_error + 'w Storage" where
  "FindBackend backends url op w =
     (case find_loop url op w backends None 0 [] of
        (use, found, errs) \<Rightarrow>
          if found = 0
          then Inl (Errorf (''could not find matching storage system for: '' @ url @ [CHR 0x0A] @ Join errs [CHR 0x0A]))
          else if found > 1 then Inl (Errorf (''request supported by multiple backends for: '' @ url))
          else (case use of Some b \<Rightarrow> Inr b | None \<Rightarrow> Inl nil_deref))"

definition mux_Stat :: "'w Storage list \<Rightarrow> ctx_err \<Rightarrow> string \<Rightarrow> 'w \<Rightarrow> 'w \<times> (go_error + Object)" where
  "mux_Stat bs ctx url w = (case FindBackend bs url statOp w of Inl err \<Rightarrow> (w, Inl err) | Inr b \<Rightarrow> st_Stat b ctx url w)"

definition mux_List :: "'w Storage list \<Rightarrow> ctx_err \<Rightarrow> string \<Rightarrow> 'w \<Rightarrow> 'w \<times> (go_error + Object list)" where
  "mux_List bs ctx url w = (case FindBackend bs url listOp w of Inl err \<Rightarrow> (w, Inl err) | Inr b \<Rightarrow> st_List b ctx url w)"

definition mux_Get :: "'w Storage list \<Rightarrow> ctx_err \<Rightarrow> string \<Rightarrow> string \<Rightarrow> 'w \<Rightarrow> 'w \<times> (go_error + Object)" where
  "mux_Get bs ctx url path w = (case FindBackend bs url GetOp w of Inl err \<Rightarrow> (w, Inl err) | Inr b \<Rightarrow> st_Get b ctx url path w)"

definition mux_Put :: "'w Storage list \<Rightarrow> ctx_err \<Rightarrow> string \<Rightarrow> string \<Rightarrow> 'w \<Rightarrow> 'w \<times> (go_error + Object list)" where
  "mux_Put bs ctx url path w = (case FindBackend bs url putOp w of Inl err \<Rightarrow> (w, Inl err) | Inr b \<Rightarrow> st_Put b ctx url path w)"

definition mux_Join :: "'w Storage list \<Rightarrow> string \<Rightarrow> string \<Rightarrow> 'w \<Rightarrow> go_error + string" where
  "mux_Join bs url path w = (case FindBackend bs url joinOp w of Inl err \<Rightarrow> Inl err | Inr b \<Rightarrow> st_Join b url path w)"

definition mux_op :: "'w Storage list \<Rightarrow> operation \<Rightarrow> string \<Rightarrow> 'w \<Rightarrow> storage_error option" where
  "mux_op bs op url w =
     (case FindBackend bs url op w of Inl err \<Rightarrow> Some (StorageErr err) | Inr b \<Rightarrow> op_error op (st_Unsupported b url w))"

text \<open>The field for \<open>Join\<close> is left nil.\<close>

definition mux_Unsupported :: "'w Storage list \<Rightarrow> string \<Rightarrow> 'w \<Rightarrow> UnsupportedOperations" where
  "mux_Unsupported bs url w = \<lparr>un_Get = mux_op bs GetOp url w, un_Put = mux_op bs putOp url w,
     un_List = mux_op bs listOp url w, un_Stat = mux_op bs statOp url w, un_Join = None\<rparr>"

definition Mux :: "'w Storage list \<Rightarrow> 'w Storage" where
  "Mux bs = \<lparr>st_Stat = mux_Stat bs, st_List = mux_List bs, st_Get = mux_Get bs, st_Put = mux_Put bs, st_Join = mux_Join bs,
     st_Unsupported = mux_Unsupported bs\<rparr>"

section \<open>Retrying backends\<close>

text \<open>The closure of a retried call assigns its result to a variable outside: the state carries it along.\<close>

definition retry_call ::
    "('w \<times> 'a option) retry_notify \<Rightarrow> Retrier \<Rightarrow> ('w \<Rightarrow> 'w \<times> (go_error + 'a)) \<Rightarrow> 'w \<Rightarrow> 'w \<times> (go_error + 'a)" where
  "retry_call RN r call w =
     (case Retry RN r (\<lambda>(w, _). case call w of (w', Inl err) \<Rightarrow> ((w', None), Some err) | (w', Inr x) \<Rightarrow> ((w', Some x), None)) (w, None) of
        ((w', _), Some err) \<Rightarrow> (w', Inl err)
      | ((w', Some x), None) \<Rightarrow> (w', Inr x)
      | ((w', None), None) \<Rightarrow> (w', Inl nil_deref))"

definition StorageRetrier ::
    "('w \<times> Object option) retry_notify \<Rightarrow> ('w \<times> Object list option) retry_notify \<Rightarrow> Retrier \<Rightarrow> 'w Storage \<Rightarrow> 'w Storage" where
  "StorageRetrier RN RNs r b = \<lparr>
     st_Stat = (\<lambda>ctx url. retry_call RN r (st_Stat b ctx url)),
     st_List = (\<lambda>ctx url. retry_call RNs r (st_List b ctx url)),
     st_Get = (\<lambda>ctx url path. retry_call RN r (st_Get b ctx url path)),
     st_Put = (\<lambda>ctx url path. retry_call RNs r (st_Put b ctx url path)),
     st_Join = st_Join b, st_Unsupported = st_Unsupported b\<rparr>"

section \<open>The local backend\<close>

definition getPath :: "string \<Rightarrow> string" where
  "getPath rawurl = TrimPrefix rawurl ''file://''"

definition isAllowed :: "string \<Rightarrow> string list \<Rightarrow> bool" where
  "isAllowed path allowedDirs = list_ex (\<lambda>dir. HasPrefix path dir) allowedDirs"

definition NewLocal :: "string \<Rightarrow> string list \<Rightarrow> string list" where
  "NewLocal cwd dirs = map (filepath_Abs cwd) dirs"

definition local_Unsupported :: "string list \<Rightarrow> string \<Rightarrow> UnsupportedOperations" where
  "local_Unsupported allowedDirs url =
     (if \<not> HasPrefix url ''/'' \<and> \<not> HasPrefix url ''file://'' then AllUnsupported (ErrUnsupportedProtocol ''localStorage'')
      else if \<not> isAllowed (getPath url) allowedDirs
      then AllUnsupported (StorageErr (Errorf (''localStorage: can't access file, path is not in allowed directories: '' @ url)))
      else AllSupported)"

definition local_Join :: "string \<Rightarrow> string \<Rightarrow> string" where
  "local_Join url path =
     (if HasPrefix url ''file://'' then ''file://'' @ path_Join [TrimPrefix url ''file://'', path] else path_Join [url, path])"

definition local_Stat :: "'w os \<Rightarrow> string \<Rightarrow> 'w \<Rightarrow> go_error + Object" where
  "local_Stat os url w =
     (case os_Stat os (getPath url) w of
        Inl err \<Rightarrow> Inl err
      | Inr info \<Rightarrow> Inr \<lparr>obj_URL = url, obj_Name = getPath url, obj_ETag = '''', obj_Size = fi_Size info\<rparr>)"

text \<open>The loop of \<open>List\<close> shadows the URL inside its body, so every file is joined onto the given one.\<close>

definition local_List :: "'w os \<Rightarrow> string \<Rightarrow> 'w \<Rightarrow> go_error + Object list" where
  "local_List os url w =
     (case WalkFiles os (getPath url) w of
        Inl err \<Rightarrow> Inl err
      | Inr files \<Rightarrow> Inr (map (\<lambda>f. \<lparr>obj_URL = local_Join url (hf_Rel f), obj_Name = hf_Rel f, obj_ETag = '''', obj_Size = hf_Size f\<rparr>) files))"

text \<open>
  Linking files: the hard link, the resolution of symbolic links and the comparison of file
  identities are further calls into the operating system.
\<close>

record 'w link_os =
  os_Link :: "string \<Rightarrow> string \<Rightarrow> 'w \<Rightarrow> 'w \<times> go_error option"
  os_EvalSymlinks :: "string \<Rightarrow> 'w \<Rightarrow> go_error + string"
  os_SameFile :: "string \<Rightarrow> string \<Rightarrow> 'w \<Rightarrow> bool"

definition sameFile :: "'w os \<Rightarrow> 'w link_os \<Rightarrow> string \<Rightarrow> string \<Rightarrow> 'w \<Rightarrow> go_error + bool" where
  "sameFile os lk source dest w =
     (case os_Stat os source w of
        Inl err \<Rightarrow> Inl (Errorf (''failed to stat src file: '' @ error_string err))
      | Inr _ \<Rightarrow>
          (case os_Stat os dest w of
             Inl err \<Rightarrow> if os_IsNotExist os err then Inr False else Inl (Errorf (''failed to stat dest file: '' @ error_string err))
           | Inr _ \<Rightarrow> Inr (os_SameFile lk source dest w)))"

definition local_copyFile :: "'w os \<Rightarrow> 'w link_os \<Rightarrow> string \<Rightarrow> string \<Rightarrow> 'w \<Rightarrow> 'w \<times> go_error option" where
  "local_copyFile os lk source dest w =
     (case sameFile os lk source dest w of
        Inl err \<Rightarrow> (w, Some err)
      | Inr True \<Rightarrow> (w, None)
      | Inr False \<Rightarrow>
          (case os_Open os source w of
             Some err \<Rightarrow> (w, Some (Errorf (''failed to open source file for copying: '' @ error_string err)))
           | None \<Rightarrow>
               (case os_MkdirAll os (path_Dir dest) w of
                  (w1, Some err) \<Rightarrow> (w1, Some err)
                | (w1, None) \<Rightarrow>
                    (case os_Create os dest w1 of
                       (w2, Some err) \<Rightarrow> (w2, Some (Errorf (''failed to create dest file for copying: '' @ error_string err)))
                     | (w2, None) \<Rightarrow>
                         (case io_Copy os dest source w2 of
                            (w3, Some err) \<Rightarrow> (w3, Some (Errorf (''copying file: '' @ error_string err)))
                          | (w3, None) \<Rightarrow> (w3, None))))))"

definition processFile :: "'w os \<Rightarrow> 'w link_os \<Rightarrow> string \<Rightarrow> string \<Rightarrow> 'w \<Rightarrow> 'w \<times> go_error option" where
  "processFile os lk source dest w =
     (case os_EvalSymlinks lk source w of
        Inl err \<Rightarrow> (w, Some err)
      | Inr parent \<Rightarrow>
          (case sameFile os lk parent dest w of
             Inl err \<Rightarrow> (w, Some err)
           | Inr True \<Rightarrow> (w, None)
           | Inr False \<Rightarrow>
               (case os_Link lk parent dest w of
                  (w1, Some _) \<Rightarrow> local_copyFile os lk parent dest w1
                | (w1, None) \<Rightarrow> (w1, None))))"

text \<open>Directories, to a bounded depth as for \<^const>\<open>copyDir\<close>.\<close>

fun process_entries ::
    "(string \<Rightarrow> string \<Rightarrow> 'w \<Rightarrow> ('w \<times> go_error option) option) \<Rightarrow> (string \<Rightarrow> string \<Rightarrow> 'w \<Rightarrow> 'w \<times> go_error option) \<Rightarrow>
     string \<Rightarrow> string \<Rightarrow> (string \<times> bool) list \<Rightarrow> 'w \<Rightarrow> ('w \<times> go_error option) option" where
  "process_entries dirf filef source dest [] w = Some (w, None)"
| "process_entries dirf filef source dest ((name, isDir) # es) w =
     (let srcPath = path_Join [source, name]; destPath = path_Join [dest, name]
      in case (if isDir then dirf srcPath destPath w else Some (filef srcPath destPath w)) of
           None \<Rightarrow> None
         | Some (w1, Some err) \<Rightarrow> Some (w1, Some err)
         | Some (w1, None) \<Rightarrow> process_entries dirf filef source dest es w1)"

fun processDirectory :: "nat \<Rightarrow> 'w os \<Rightarrow> 'w link_os \<Rightarrow> string \<Rightarrow> string \<Rightarrow> 'w \<Rightarrow> ('w \<times> go_error option) option" where
  "processDirectory 0 os lk source dest w = None"
| "processDirectory (Suc n) os lk source dest w =
     (case os_MkdirAll os dest w of
        (w1, Some err) \<Rightarrow> Some (w1, Some err)
      | (w1, None) \<Rightarrow>
          (case os_ReadDir os source w1 of
             Inl err \<Rightarrow> Some (w1, Some err)
           | Inr entries \<Rightarrow> process_entries (processDirectory n os lk) (processFile os lk) source dest entries w1))"

definition processItem :: "nat \<Rightarrow> 'w os \<Rightarrow> 'w link_os \<Rightarrow> string \<Rightarrow> string \<Rightarrow> 'w \<Rightarrow> ('w \<times> go_error option) option" where
  "processItem n os lk source dest w =
     (case os_Stat os source w of
        Inl err \<Rightarrow> Some (w, Some err)
      | Inr info \<Rightarrow> if fi_IsDir info then processDirectory n os lk source dest w else Some (processFile os lk source dest w))"

fun link_globs :: "nat \<Rightarrow> 'w os \<Rightarrow> 'w link_os \<Rightarrow> string \<Rightarrow> string list \<Rightarrow> 'w \<Rightarrow> ('w \<times> go_error option) option" where
  "link_globs n os lk dest [] w = Some (w, None)"
| "link_globs n os lk dest (glob # globs) w =
     (case processItem n os lk glob (path_Join [dest, path_Base glob]) w of
        None \<Rightarrow> None
      | Some (w1, Some err) \<Rightarrow> Some (w1, Some err)
      | Some (w1, None) \<Rightarrow> link_globs n os lk dest globs w1)"

definition linkFile :: "nat \<Rightarrow> 'w os \<Rightarrow> 'w link_os \<Rightarrow> string \<Rightarrow> string \<Rightarrow> 'w \<Rightarrow> ('w \<times> go_error option) option" where
  "linkFile n os lk source dest w =
     (if CHR ''*'' \<in> set source
      then case os_Glob os source w of
             Inl err \<Rightarrow> Some (w, Some (Errorf (''failed to get filepath using Glob: '' @ error_string err)))
           | Inr globs \<Rightarrow> link_globs n os lk dest globs w
      else processItem n os lk source dest w)"

definition local_Get :: "nat \<Rightarrow> 'w os \<Rightarrow> 'w link_os \<Rightarrow> string \<Rightarrow> string \<Rightarrow> 'w \<Rightarrow> ('w \<times> (go_error + Object)) option" where
  "local_Get n os lk url path w =
     (case linkFile n os lk (getPath url) path w of
        None \<Rightarrow> None
      | Some (w1, Some err) \<Rightarrow> Some (w1, Inl err)
      | Some (w1, None) \<Rightarrow> Some (w1, local_Stat os url w1))"

definition local_Put :: "nat \<Rightarrow> 'w os \<Rightarrow> 'w link_os \<Rightarrow> string \<Rightarrow> string \<Rightarrow> 'w \<Rightarrow> ('w \<times> (go_error + Object list)) option" where
  "local_Put n os lk url path w =
     (let target = getPath url
      in case EnsurePath os target w of
           (w1, Some err) \<Rightarrow> Some (w1, Inl err)
         | (w1, None) \<Rightarrow>
             (case linkFile n os lk path target w1 of
                None \<Rightarrow> None
              | Some (w2, Some err) \<Rightarrow> Some (w2, Inl err)
              | Some (w2, None) \<Rightarrow>
                  Some (w2, case local_Stat os url w2 of Inl err \<Rightarrow> Inl err | Inr obj \<Rightarrow> Inr [obj])))"

section \<open>The HTTP backend\<close>

definition http_supportsPrefix :: "string \<Rightarrow> storage_error option" where
  "http_supportsPrefix url =
     (if \<not> HasPrefix url ''http://'' \<and> \<not> HasPrefix url ''https://'' then Some (ErrUnsupportedProtocol ''httpStorage'') else None)"

definition http_List :: "go_error + Object list" where
  "http_List = Inl (Errorf ''httpStorage: List operation is not supported'')"

definition http_Put :: "go_error + Object list" where
  "http_Put = Inl (Errorf ''httpStorage: Put operation is not supported'')"

definition http_Unsupported :: "string \<Rightarrow> UnsupportedOperations" where
  "http_Unsupported url =
     (case http_supportsPrefix url of
        Some err \<Rightarrow> AllUnsupported err
      | None \<Rightarrow> AllSupported\<lparr>un_List := Some (StorageErr (Errorf ''httpStorage: List operation is not supported'')),
          un_Put := Some (StorageErr (Errorf ''httpStorage: Put operation is not supported''))\<rparr>)"

definition http_Join :: "string \<Rightarrow> string \<Rightarrow> string" where
  "http_Join url path = TrimSuffix url ''/'' @ ''/'' @ path"

section \<open>Transfers\<close>

text \<open>
  The state has two parts: the world, on which storage and files act, and what the callbacks of the
  transfers keep besides it.  The pool of workers runs the transfers in parallel; here they run one
  after the other, which is one of its schedules.
\<close>

record ('w, 'l) Transfer =
  tr_URL :: string
  tr_Path :: string
  tr_Started :: "'w \<times> 'l \<Rightarrow> 'w \<times> 'l"
  tr_Finished :: "Object list \<Rightarrow> 'w \<times> 'l \<Rightarrow> 'w \<times> 'l"
  tr_Failed :: "go_error \<Rightarrow> 'w \<times> 'l \<Rightarrow> 'w \<times> 'l"

definition download_one ::
    "'w os \<Rightarrow> ('w \<times> 'l \<Rightarrow> ctx_err) \<Rightarrow> 'w Storage \<Rightarrow> ('w, 'l) Transfer \<Rightarrow> 'w \<times> 'l \<Rightarrow> 'w \<times> 'l" where
  "download_one os ctx store x s =
     (case tr_Started x s of (w, l) \<Rightarrow>
       (case EnsurePath os (tr_Path x) w of
          (w1, Some err) \<Rightarrow> tr_Failed x err (w1, l)
        | (w1, None) \<Rightarrow>
            (case st_Get store (ctx (w1, l)) (tr_URL x) (tr_Path x) w1 of
               (w2, Inl err) \<Rightarrow> tr_Failed x err (w2, l)
             | (w2, Inr obj) \<Rightarrow> tr_Finished x [obj] (w2, l))))"

definition upload_one :: "('w \<times> 'l \<Rightarrow> ctx_err) \<Rightarrow> 'w Storage \<Rightarrow> ('w, 'l) Transfer \<Rightarrow> 'w \<times> 'l \<Rightarrow> 'w \<times> 'l" where
  "upload_one ctx store x s =
     (case tr_Started x s of (w, l) \<Rightarrow>
       (case st_Put store (ctx (w, l)) (tr_URL x) (tr_Path x) w of
          (w1, Inl err) \<Rightarrow> tr_Failed x err (w1, l)
        | (w1, Inr objs) \<Rightarrow> tr_Finished x objs (w1, l)))"

definition Download ::
    "'w os \<Rightarrow> ('w \<times> 'l \<Rightarrow> ctx_err) \<Rightarrow> 'w Storage \<Rightarrow> ('w, 'l) Transfer list \<Rightarrow> 'w \<times> 'l \<Rightarrow> 'w \<times> 'l" where
  "Download os ctx store = fold (download_one os ctx store)"

definition Upload :: "('w \<times> 'l \<Rightarrow> ctx_err) \<Rightarrow> 'w Storage \<Rightarrow> ('w, 'l) Transfer list \<Rightarrow> 'w \<times> 'l \<Rightarrow> 'w \<times> 'l" where
  "Upload ctx store = fold (upload_one ctx store)"

section \<open>Lemmas: the backend found\<close>

abbreviation supports :: "operation \<Rightarrow> string \<Rightarrow> 'w \<Rightarrow> 'w Storage \<Rightarrow> bool" where
  "supports op url w b \<equiv> op_error op (st_Unsupported b url w) = None"

lemma find_loop_eq:
  "\<exists>errs'. find_loop url op w bs use found errs =
     (let fs = filter (supports op url w) bs in (if fs = [] then use else Some (last fs), found + length fs, errs'))"
proof (induction bs arbitrary: use found errs)
  case (Cons b bs)
  show ?case
  proof (cases "supports op url w b")
    case True
    obtain errs' where "find_loop url op w bs (Some b) (found + 1) errs =
        (let fs = filter (supports op url w) bs in (if fs = [] then Some b else Some (last fs), found + 1 + length fs, errs'))"
      using Cons [of "Some b" "found + 1" errs] by blast
    with True show ?thesis by (auto simp: Let_def)
  next
    case False
    then obtain err where err: "op_error op (st_Unsupported b url w) = Some err" by auto
    obtain e1 e2 where
      "find_loop url op w bs use found errs = (let fs = filter (supports op url w) bs in (if fs = [] then use else Some (last fs), found + length fs, e1))"
      "find_loop url op w bs use found (errs @ [storage_error_string err]) =
         (let fs = filter (supports op url w) bs in (if fs = [] then use else Some (last fs), found + length fs, e2))"
      using Cons by meson
    with err show ?thesis by (cases err) (auto simp: Let_def)
  qed
qed (simp add: Let_def)

text \<open>A backend is found exactly when it is the only one that supports the operation.\<close>

lemma FindBackend_iff: "FindBackend bs url op w = Inr b \<longleftrightarrow> filter (supports op url w) bs = [b]"
proof -
  obtain errs where loop: "find_loop url op w bs None 0 [] =
      (let fs = filter (supports op url w) bs in (if fs = [] then None else Some (last fs), 0 + length fs, errs))"
    using find_loop_eq [of url op w bs None 0 "[]"] by (elim exE)
  show ?thesis
    by (cases "filter (supports op url w) bs" rule: list.exhaust; cases "tl (filter (supports op url w) bs)")
      (auto simp: FindBackend_def loop Let_def)
qed

lemma FindBackend_supports: "FindBackend bs url op w = Inr b \<Longrightarrow> b \<in> set bs \<and> supports op url w b"
proof -
  assume "FindBackend bs url op w = Inr b"
  then have "b \<in> set (filter (supports op url w) bs)" by (simp add: FindBackend_iff)
  then show ?thesis by simp
qed

section \<open>What clients rely on\<close>

text \<open>An operation that is reported as unsupported fails and changes nothing.\<close>

locale guarded_storage =
  fixes st :: "'w Storage"
  assumes get_guard: "un_Get (st_Unsupported st url w) \<noteq> None \<Longrightarrow> \<exists>err. st_Get st ctx url path w = (w, Inl err)"
    and put_guard: "un_Put (st_Unsupported st url w) \<noteq> None \<Longrightarrow> \<exists>err. st_Put st ctx url path w = (w, Inl err)"
begin

text \<open>A transfer over an unsupported URL fails.\<close>

lemma upload_guarded:
  assumes "un_Put (st_Unsupported st (tr_URL x) w) \<noteq> None" "tr_Started x s = (w, l)"
  shows "\<exists>err. upload_one ctx st x s = tr_Failed x err (w, l)"
  using put_guard [OF assms(1), of "ctx (w, l)" "tr_Path x"] assms(2) by (auto simp: upload_one_def)

lemma download_guarded:
  assumes "un_Get (st_Unsupported st (tr_URL x) w1) \<noteq> None" "tr_Started x s = (w, l)" "EnsurePath os (tr_Path x) w = (w1, None)"
  shows "\<exists>err. download_one os ctx st x s = tr_Failed x err (w1, l)"
  using get_guard [OF assms(1), of "ctx (w1, l)" "tr_Path x"] assms(2,3) by (auto simp: download_one_def)

end

lemma mux_op_unsupported: "mux_op bs op url w \<noteq> None \<Longrightarrow> \<exists>err. FindBackend bs url op w = Inl err"
  using FindBackend_supports by (fastforce simp: mux_op_def split: sum.splits)

interpretation mux_guard: guarded_storage "Mux bs" for bs :: "'w Storage list"
proof
  show "un_Get (st_Unsupported (Mux bs) url w) \<noteq> None \<Longrightarrow> \<exists>err. st_Get (Mux bs) ctx url path w = (w, Inl err)" for url w ctx path
    using mux_op_unsupported [of bs GetOp url w] by (auto simp: Mux_def mux_Unsupported_def mux_Get_def)
  show "un_Put (st_Unsupported (Mux bs) url w) \<noteq> None \<Longrightarrow> \<exists>err. st_Put (Mux bs) ctx url path w = (w, Inl err)" for url w ctx path
    using mux_op_unsupported [of bs putOp url w] by (auto simp: Mux_def mux_Unsupported_def mux_Put_def)
qed

section \<open>Properties\<close>

text \<open>
  C34: the multiplexer dispatches to exactly one backend.  It downloads through a backend if and only
  if that backend is the only configured one that supports the URL; otherwise, and in particular
  when it reports the operation as unsupported, the download fails and nothing is changed.
\<close>

theorem Mux_dispatch:
  "(\<forall>b. filter (\<lambda>b. un_Get (st_Unsupported b url w) = None) bs = [b] \<longrightarrow> st_Get (Mux bs) ctx url path w = st_Get b ctx url path w) \<and>
   (length (filter (\<lambda>b. un_Get (st_Unsupported b url w) = None) bs) \<noteq> 1 \<longrightarrow> (\<exists>err. st_Get (Mux bs) ctx url path w = (w, Inl err))) \<and>
   (un_Get (st_Unsupported (Mux bs) url w) \<noteq> None \<longrightarrow> (\<exists>err. st_Get (Mux bs) ctx url path w = (w, Inl err)))"
proof (intro conjI allI impI)
  fix b assume "filter (\<lambda>b. un_Get (st_Unsupported b url w) = None) bs = [b]"
  then have "FindBackend bs url GetOp w = Inr b" by (simp add: FindBackend_iff)
  then show "st_Get (Mux bs) ctx url path w = st_Get b ctx url path w" by (simp add: Mux_def mux_Get_def)
next
  assume none: "length (filter (\<lambda>b. un_Get (st_Unsupported b url w) = None) bs) \<noteq> 1"
  show "\<exists>err. st_Get (Mux bs) ctx url path w = (w, Inl err)"
  proof (cases "FindBackend bs url GetOp w")
    case (Inr b)
    with none show ?thesis unfolding FindBackend_iff by simp
  qed (simp add: Mux_def mux_Get_def)
next
  assume "un_Get (st_Unsupported (Mux bs) url w) \<noteq> None"
  then show "\<exists>err. st_Get (Mux bs) ctx url path w = (w, Inl err)" by (rule mux_guard.get_guard)
qed

text \<open>A backend that answers every request with an empty object, for the URLs of the local backend.\<close>

definition sample_store :: "unit Storage" where
  "sample_store = \<lparr>st_Stat = (\<lambda>_ url w. (w, Inr \<lparr>obj_URL = url, obj_Name = '''', obj_ETag = '''', obj_Size = 0\<rparr>)), st_List = (\<lambda>_ _ w. (w, Inr [])),
     st_Get = (\<lambda>_ url _ w. (w, Inr \<lparr>obj_URL = url, obj_Name = '''', obj_ETag = '''', obj_Size = 0\<rparr>)), st_Put = (\<lambda>_ _ _ w. (w, Inr [])),
     st_Join = (\<lambda>url p w. Inr (local_Join url p)), st_Unsupported = (\<lambda>url w. local_Unsupported [''/data''] url)\<rparr>"

theorem Mux_dispatch_witness:
  "(\<exists>err. st_Get (Mux [sample_store]) None ''http://x/y'' ''/tmp/y'' () = ((), Inl err)) \<and>
   st_Get (Mux [sample_store]) None ''/data/y'' ''/tmp/y'' () = st_Get sample_store None ''/data/y'' ''/tmp/y'' ()"
  using Mux_dispatch [of "''http://x/y''" "()" "[sample_store]" None "''/tmp/y''"]
    Mux_dispatch [of "''/data/y''" "()" "[sample_store]" None "''/tmp/y''"]
  by (simp add: sample_store_def local_Unsupported_def HasPrefix_def AllUnsupported_def AllSupported_def isAllowed_def getPath_def TrimPrefix_def)


end
