(* ===== verification/Worker.thy ===== *)
theory Worker
  imports Task_Service Storage
begin

text \<open>
  The worker that runs one task: \<open>src/worker/worker.go\<close>, \<open>step.go\<close>, \<open>storage.go\<close>, \<open>util.go\<close>, and the
  task readers.

  The worker acts on a world (files, storage, the database behind its event writer, the container
  runtime), given by the operations of the record \<open>DefaultWorker\<close>.  Beside the world the state has
  the list of events written so far, the state of the goroutine that polls for cancellation, and
  the results of the transfers.  Whatever runs concurrently acts within the calls; the actions of
  the polling goroutine are read from the world at every point where the code looks at its context.
\<close>

section \<open>State\<close>

text \<open>
  The polling goroutine cancels the context when it reads a terminal state, and afterwards runs the
  callback that marks the task as canceled; the two are separate steps.
\<close>

record poll =
  po_err :: ctx_err
  po_pending :: bool
  po_canceled :: bool

datatype poll_action = PollState State | PollCallback

fun poll_act :: "poll_action \<Rightarrow> poll \<Rightarrow> poll" where
  "poll_act (PollState st) p =
     (if TerminalState st
      then p\<lparr>po_err := (case po_err p of None \<Rightarrow> Some (Errorf ''context canceled'') | e \<Rightarrow> e), po_pending := True\<rparr>
      else p)"
| "poll_act PollCallback p = (if po_pending p then p\<lparr>po_pending := False, po_canceled := True\<rparr> else p)"

record wlog =
  wl_events :: "Event list"
  wl_poll :: poll
  wl_cancel :: ctx_err
  wl_results :: "(go_error option \<times> OutputFileLog list) list"

definition new_log :: wlog where
  "new_log = \<lparr>wl_events = [], wl_poll = \<lparr>po_err = None, po_pending = False, po_canceled = False\<rparr>, wl_cancel = None, wl_results = []\<rparr>"

type_synonym 'u wstate = "'u \<times> wlog"

section \<open>Commands\<close>

text \<open>The errors that running a command can end with, as far as the worker tells them apart.\<close>

datatype cmd_error = ExitError int | K8sExecutorErr int string | K8sSystemErr string | OtherErr go_error

fun cmd_error_value :: "cmd_error \<Rightarrow> go_error" where
  "cmd_error_value (ExitError c) = Errorf (''exit status '' @ show_int c)"
| "cmd_error_value (K8sExecutorErr c m) = Errorf m"
| "cmd_error_value (K8sSystemErr m) = Errorf m"
| "cmd_error_value (OtherErr e) = e"

definition getExitCode :: "cmd_error option \<Rightarrow> int \<times> go_error option" where
  "getExitCode err =
     (case err of
        None \<Rightarrow> (0, None)
      | Some (K8sExecutorErr c _) \<Rightarrow> (c, None)
      | Some (ExitError c) \<Rightarrow> (c, None)
      | Some e \<Rightarrow> (1, Some (Errorf (''failed to get exit code: '' @ error_string (cmd_error_value e)))))"

record Command =
  c_Image :: string
  c_ShellCommand :: "string list"
  c_Volumes :: "Volume list"
  c_Workdir :: string
  c_Env :: "string gomap"

record KubernetesCommand =
  kc_Command :: Command
  kc_TaskId :: string
  kc_JobId :: nat
  kc_StdinFile :: string
  kc_StdoutFile :: string
  kc_StderrFile :: string
  kc_Resources :: Resources
  kc_ResourceLimits :: Resources
  kc_NeedsPVC :: bool
  kc_ServiceAccount :: string
  kc_ImagePullPolicy :: string

record DockerCommand =
  dc_Command :: Command
  dc_Name :: string
  dc_RemoveContainer :: bool
  dc_Resources :: Resources
  dc_Stdin :: "string option"
  dc_Stdout :: "string option"
  dc_Stderr :: "string option"

datatype TaskCommand = Kubernetes KubernetesCommand | Docker DockerCommand

text \<open>
  What a running command writes as events, and how the step ends: the context is done first and the
  command is stopped, or the command returns.
\<close>

datatype cmd_event = OutTail string | ErrTail string | CmdInfo string "goval list" | CmdError string "goval list" | CmdMetadata "string gomap"

datatype step_end = Interrupted | Returned "cmd_error option"

section \<open>The worker\<close>

record 'u DefaultWorker =
  dw_Backend :: string
  dw_K8sResources :: "KubernetesResources option"
  dw_JobsNamespace :: string
  dw_WorkDir :: string
  dw_ScratchPath :: string
  dw_LeaveWorkDir :: bool
  dw_Store :: "'u Storage"
  dw_mounted :: "string \<Rightarrow> 'u \<Rightarrow> go_error + string option"
  dw_Task :: "'u \<Rightarrow> 'u \<times> (go_error + Task)"
  dw_EventWriter :: "'u writer"
  dw_Command :: "TaskCommand \<Rightarrow> 'u \<Rightarrow> 'u \<times> cmd_event list \<times> step_end"
  dw_os :: "'u os"
  dw_polls :: "'u \<Rightarrow> poll_action list"
  dw_parent_Err :: "'u \<Rightarrow> ctx_err"
  dw_ParseQuantity :: parse_quantity
  dw_JoinPath :: "string \<Rightarrow> string \<Rightarrow> go_error + string"
  dw_cwd :: string
  dw_now :: string
  dw_hostname :: "string option"
  dw_version :: "goval list"
  dw_depth :: nat

text \<open>Writing an event, with a record of it.\<close>

definition recorded :: "'u writer \<Rightarrow> 'u wstate writer" where
  "recorded out ctx ev s =
     (case s of (u, l) \<Rightarrow> (case out ctx ev u of (u', err) \<Rightarrow> ((u', l\<lparr>wl_events := wl_events l @ [ev]\<rparr>), err)))"

abbreviation task_event :: "'u DefaultWorker \<Rightarrow> ('u wstate writer \<Rightarrow> string \<Rightarrow> 'u wstate \<Rightarrow> 'u wstate \<times> go_error option) \<Rightarrow> 'u wstate \<Rightarrow> 'u wstate" where
  "task_event W f s \<equiv> fst (f (recorded (dw_EventWriter W)) (dw_now W) s)"

definition task_writer :: "Task \<Rightarrow> TaskWriter" where
  "task_writer task = \<lparr>tw_taskID = t_Id task, tw_attempt = 0\<rparr>"

definition advance_poll :: "'u DefaultWorker \<Rightarrow> 'u wstate \<Rightarrow> 'u wstate" where
  "advance_poll W s = (case s of (u, l) \<Rightarrow> (u, l\<lparr>wl_poll := fold poll_act (dw_polls W u) (wl_poll l)\<rparr>))"

definition ctx_Err :: "'u DefaultWorker \<Rightarrow> 'u wstate \<Rightarrow> ctx_err" where
  "ctx_Err W s = (case po_err (wl_poll (snd s)) of Some e \<Rightarrow> Some e | None \<Rightarrow> dw_parent_Err W (fst s))"

section \<open>Inputs and outputs\<close>

text \<open>
  \<open>FlattenInputs\<close>; \<open>dw_mounted\<close> stands for the case of a mounted generic S3 bucket, whose listing has
  local paths.
\<close>

fun flatten_inputs :: "'u DefaultWorker \<Rightarrow> TaskWriter \<Rightarrow> Input list \<Rightarrow> Input list \<Rightarrow> 'u wstate \<Rightarrow> 'u wstate \<times> (go_error + Input list)" where
  "flatten_inputs W ev [] flat s = (s, Inr flat)"
| "flatten_inputs W ev (input # inputs) flat s =
     (case in_Type input of
        File \<Rightarrow> flatten_inputs W ev inputs (flat @ [input]) s
      | Directory \<Rightarrow>
          (case dw_mounted W (in_Url input) (fst s) of
             Inl err \<Rightarrow> (s, Inl err)
           | Inr mounted \<Rightarrow>
               (let pathPrefix = (case mounted of Some p \<Rightarrow> p | None \<Rightarrow> TrimSuffix (in_Url input) ''/'' @ ''/'')
                in case st_List (dw_Store W) (ctx_Err W s) (in_Url input) (fst s) of
                     (u1, Inl err) \<Rightarrow> ((u1, snd s), Inl (Errorf (''listing directory: '' @ error_string err)))
                   | (u1, Inr objs) \<Rightarrow>
                       if objs = []
                       then flatten_inputs W ev inputs flat
                              (task_event W (\<lambda>out now. TaskWriter_Warn out now ev ''download source directory is empty'' [GStr ''url'', GStr (in_Url input)]) (u1, snd s))
                       else flatten_inputs W ev inputs
                              (flat @ map (\<lambda>obj. \<lparr>in_Content = '''', in_Description = '''', in_Name = '''',
                                 in_Path = path_Join [in_Path input, TrimPrefix (obj_URL obj) pathPrefix], in_Streamable = False,
                                 in_Type = File, in_Url = obj_URL obj\<rparr>) objs) (u1, snd s))))"

definition FlattenInputs :: "'u DefaultWorker \<Rightarrow> TaskWriter \<Rightarrow> Input list \<Rightarrow> 'u wstate \<Rightarrow> 'u wstate \<times> (go_error + Input list)" where
  "FlattenInputs W ev inputs s = flatten_inputs W ev inputs [] s"

text \<open>A transfer reports its end as a result; a failed download cancels the context of the others.\<close>

definition add_result :: "go_error option \<Rightarrow> OutputFileLog list \<Rightarrow> 'u wstate \<Rightarrow> 'u wstate" where
  "add_result err logs s = (case s of (u, l) \<Rightarrow> (u, l\<lparr>wl_results := wl_results l @ [(err, logs)]\<rparr>))"

definition cancel_downloads :: "'u wstate \<Rightarrow> 'u wstate" where
  "cancel_downloads s = (case s of (u, l) \<Rightarrow> (u, l\<lparr>wl_cancel := Some (Errorf ''context canceled'')\<rparr>))"

definition download_Finished :: "'u DefaultWorker \<Rightarrow> TaskWriter \<Rightarrow> Input \<Rightarrow> Object list \<Rightarrow> 'u wstate \<Rightarrow> 'u wstate" where
  "download_Finished W ev x objs s =
     fold (\<lambda>obj. task_event W (\<lambda>out now. TaskWriter_Info out now ev ''download finished''
       [GStr ''url'', GStr (in_Url x), GStr ''size'', GInt (obj_Size obj), GStr ''etag'', GStr (obj_ETag obj)])) objs s"

definition download :: "'u DefaultWorker \<Rightarrow> TaskWriter \<Rightarrow> Input \<Rightarrow> ('u, wlog) Transfer" where
  "download W ev x = \<lparr>tr_URL = in_Url x, tr_Path = in_Path x,
     tr_Started = task_event W (\<lambda>out now. TaskWriter_Info out now ev ''download started'' [GStr ''url'', GStr (in_Url x)]),
     tr_Finished = (\<lambda>objs s. add_result None [] (download_Finished W ev x objs s)),
     tr_Failed = (\<lambda>err s. add_result (Some err) [] (cancel_downloads
       (task_event W (\<lambda>out now. TaskWriter_Error out now ev ''download failed'' [GStr ''url'', GStr (in_Url x), GStr ''error'', GErr err]) s)))\<rparr>"

definition download_ctx :: "'u DefaultWorker \<Rightarrow> 'u wstate \<Rightarrow> ctx_err" where
  "download_ctx W s = (case wl_cancel (snd s) of Some e \<Rightarrow> Some e | None \<Rightarrow> ctx_Err W s)"

definition DownloadInputs :: "'u DefaultWorker \<Rightarrow> TaskWriter \<Rightarrow> Input list \<Rightarrow> 'u wstate \<Rightarrow> 'u wstate \<times> go_error option" where
  "DownloadInputs W ev inputs s =
     (case FlattenInputs W ev inputs s of
        (s1, Inl err) \<Rightarrow> (s1, Some err)
      | (s1, Inr flat) \<Rightarrow>
          (case Download (dw_os W) (download_ctx W) (dw_Store W) (map (download W ev) flat)
                  (fst s1, (snd s1)\<lparr>wl_cancel := None, wl_results := []\<rparr>) of
             s2 \<Rightarrow> (s2, ToError (filter (\<lambda>e. e \<noteq> None) (map fst (wl_results (snd s2)))))))"

fun join_files :: "'u DefaultWorker \<Rightarrow> string \<Rightarrow> Hostfile list \<Rightarrow> 'u \<Rightarrow> go_error + Output list" where
  "join_files W url [] u = Inr []"
| "join_files W url (f # fs) u =
     (case st_Join (dw_Store W) url (hf_Rel f) u of
        Inl err \<Rightarrow> Inl (Errorf (''joining storage url: '' @ error_string err))
      | Inr joined \<Rightarrow>
          (case join_files W url fs u of
             Inl err \<Rightarrow> Inl err
           | Inr rest \<Rightarrow> Inr (\<lparr>out_Description = '''', out_Name = '''', out_Path = hf_Abs f, out_PathPrefix = '''', out_Type = File,
                out_Url = joined\<rparr> # rest)))"

fun flatten_outputs :: "'u DefaultWorker \<Rightarrow> TaskWriter \<Rightarrow> Output list \<Rightarrow> Output list \<Rightarrow> 'u wstate \<Rightarrow> 'u wstate \<times> (go_error + Output list)" where
  "flatten_outputs W ev [] flat s = (s, Inr flat)"
| "flatten_outputs W ev (output # outputs) flat s =
     (case out_Type output of
        File \<Rightarrow> flatten_outputs W ev outputs (flat @ [output]) s
      | Directory \<Rightarrow>
          (case WalkFiles (dw_os W) (out_Path output) (fst s) of
             Inl (Panic m) \<Rightarrow> (s, Inl (Panic m))
           | Inl err \<Rightarrow> (s, Inl (Errorf (''walking directory: '' @ error_string err)))
           | Inr files \<Rightarrow>
               if files = []
               then flatten_outputs W ev outputs flat
                      (task_event W (\<lambda>out now. TaskWriter_Warn out now ev ''upload source directory is empty'' [GStr ''url'', GStr (out_Url output)]) s)
               else (case join_files W (out_Url output) files (fst s) of
                       Inl err \<Rightarrow> (s, Inl err)
                     | Inr found \<Rightarrow> flatten_outputs W ev outputs (flat @ found) s)))"

definition FlattenOutputs :: "'u DefaultWorker \<Rightarrow> TaskWriter \<Rightarrow> Output list \<Rightarrow> 'u wstate \<Rightarrow> 'u wstate \<times> (go_error + Output list)" where
  "FlattenOutputs W ev outputs s = flatten_outputs W ev outputs [] s"

definition upload_Finished :: "'u DefaultWorker \<Rightarrow> TaskWriter \<Rightarrow> Object list \<Rightarrow> 'u wstate \<Rightarrow> 'u wstate" where
  "upload_Finished W ev objs s =
     fold (\<lambda>obj. task_event W (\<lambda>out now. TaskWriter_Info out now ev ''upload finished''
       [GStr ''url'', GStr (obj_URL obj), GStr ''etag'', GStr (obj_ETag obj), GStr ''size'', GInt (obj_Size obj)])) objs s"

definition upload :: "'u DefaultWorker \<Rightarrow> TaskWriter \<Rightarrow> Output \<Rightarrow> ('u, wlog) Transfer" where
  "upload W ev x = \<lparr>tr_URL = out_Url x, tr_Path = out_Path x,
     tr_Started = task_event W (\<lambda>out now. TaskWriter_Info out now ev ''upload started'' [GStr ''url'', GStr (out_Url x)]),
     tr_Finished = (\<lambda>objs s. add_result None
       (map (\<lambda>obj. \<lparr>ofl_Path = out_Path x, ofl_SizeBytes = show_int (obj_Size obj), ofl_Url = obj_URL obj\<rparr>) objs) (upload_Finished W ev objs s)),
     tr_Failed = (\<lambda>err s. task_event W (\<lambda>out now. TaskWriter_Error out now ev ''upload failed''
       [GStr ''url'', GStr (out_Url x), GStr ''error'', GErr err]) (add_result (Some err) [] s))\<rparr>"

text \<open>The wait for a mounted file system after the uploads has no effect on the state.\<close>

definition UploadOutputs :: "'u DefaultWorker \<Rightarrow> TaskWriter \<Rightarrow> Output list \<Rightarrow> 'u wstate \<Rightarrow> 'u wstate \<times> OutputFileLog list \<times> go_error option" where
  "UploadOutputs W ev outputs s =
     (case FlattenOutputs W ev outputs s of
        (s1, Inl err) \<Rightarrow> (s1, [], Some err)
      | (s1, Inr flat) \<Rightarrow>
          (case Upload (ctx_Err W) (dw_Store W) (map (upload W ev) flat) (fst s1, (snd s1)\<lparr>wl_results := []\<rparr>) of
             s2 \<Rightarrow> (s2, concat (map (\<lambda>(err, logs). if err \<noteq> None then [] else logs) (wl_results (snd s2))),
                    ToError (filter (\<lambda>e. e \<noteq> None) (map fst (wl_results (snd s2)))))))"

section \<open>Links and wildcards\<close>

fun fix_links :: "'u os \<Rightarrow> FileMapper \<Rightarrow> (string \<times> FileInfo option \<times> go_error option) list \<Rightarrow> 'u \<Rightarrow> 'u" where
  "fix_links os mapper [] u = u"
| "fix_links os mapper ((p, f, err) # es) u =
     fix_links os mapper es
       (case (f, err) of
          (Some info, None) \<Rightarrow>
            if fi_Symlink info
            then (case os_Open os p u of
                    Some rerr \<Rightarrow>
                      if os_IsNotExist os rerr
                      then (case os_Readlink os p u of
                              Inl _ \<Rightarrow> u
                            | Inr src \<Rightarrow>
                                (case HostPath mapper src of
                                   Inl _ \<Rightarrow> u
                                 | Inr mapped \<Rightarrow>
                                     (case os_Open os mapped u of
                                        Some _ \<Rightarrow> u
                                      | None \<Rightarrow>
                                          (case os_Remove os p u of
                                             (u1, Some _) \<Rightarrow> u1
                                           | (u1, None) \<Rightarrow> fst (os_Symlink os mapped p u1)))))
                      else u
                  | None \<Rightarrow> u)
            else u
        | _ \<Rightarrow> u)"

definition fixLinks :: "'u os \<Rightarrow> FileMapper \<Rightarrow> string \<Rightarrow> 'u \<Rightarrow> 'u" where
  "fixLinks os mapper basepath u = fix_links os mapper (os_Walk os basepath u) u"

fun glob_outputs :: "'u DefaultWorker \<Rightarrow> FileMapper \<Rightarrow> Output \<Rightarrow> string list \<Rightarrow> go_error + Output list" where
  "glob_outputs W mapper output [] = Inr []"
| "glob_outputs W mapper output (glob # globs) =
     (let fixPath = TrimPrefix (TrimPrefix glob (fm_WorkDir mapper)) (out_PathPrefix output)
      in case dw_JoinPath W (out_Url output) fixPath of
           Inl err \<Rightarrow> Inl (Errorf (''failed to join URL: '' @ error_string err))
         | Inr url \<Rightarrow>
             (case glob_outputs W mapper output globs of
                Inl err \<Rightarrow> Inl err
              | Inr outs \<Rightarrow> Inr (output\<lparr>out_Path := glob, out_Url := url\<rparr> # outs)))"

fun resolve_outputs :: "'u DefaultWorker \<Rightarrow> FileMapper \<Rightarrow> Output list \<Rightarrow> 'u \<Rightarrow> go_error + Output list" where
  "resolve_outputs W mapper [] u = Inr []"
| "resolve_outputs W mapper (output # outputs) u =
     (case (if CHR ''*'' \<in> set (out_Path output)
            then (case os_Glob (dw_os W) (out_Path output) u of
                    Inl err \<Rightarrow> Inl (Errorf (''failed to resolve path '' @ out_Path output @ '': '' @ error_string err))
                  | Inr globs \<Rightarrow> glob_outputs W mapper output globs)
            else Inr [output]) of
        Inl err \<Rightarrow> Inl err
      | Inr outs \<Rightarrow>
          (case resolve_outputs W mapper outputs u of Inl err \<Rightarrow> Inl err | Inr rest \<Rightarrow> Inr (outs @ rest)))"

text \<open>On an error the outputs stay as they are; \<open>Run\<close> drops the error.\<close>

definition resolveWildcards :: "'u DefaultWorker \<Rightarrow> FileMapper \<Rightarrow> 'u \<Rightarrow> FileMapper \<times> go_error option" where
  "resolveWildcards W mapper u =
     (case resolve_outputs W mapper (fm_Outputs mapper) u of
        Inl err \<Rightarrow> (mapper, Some err)
      | Inr outputs \<Rightarrow> (mapper\<lparr>fm_Outputs := outputs\<rparr>, None))"

section \<open>Steps\<close>

definition command_event :: "'u DefaultWorker \<Rightarrow> ExecutorWriter \<Rightarrow> cmd_event \<Rightarrow> 'u wstate \<Rightarrow> 'u wstate" where
  "command_event W ew e s =
     (case e of
        OutTail t \<Rightarrow> task_event W (\<lambda>out now. ExecutorWriter_Stdout out now ew t) s
      | ErrTail t \<Rightarrow> task_event W (\<lambda>out now. ExecutorWriter_Stderr out now ew t) s
      | CmdInfo msg args \<Rightarrow> task_event W (\<lambda>out now. out None (SystemLogGenerator_Info now (ew_sys ew) msg args)) s
      | CmdError msg args \<Rightarrow> task_event W (\<lambda>out now. ExecutorWriter_Error out now ew msg args) s
      | CmdMetadata m \<Rightarrow> task_event W (\<lambda>out now. out None (NewMetadata now (ew_taskID ew) (ew_attempt ew) m)) s)"

definition step_Run :: "'u DefaultWorker \<Rightarrow> ExecutorWriter \<Rightarrow> TaskCommand \<Rightarrow> 'u wstate \<Rightarrow> 'u wstate \<times> cmd_error option" where
  "step_Run W ew cmd s =
     (let s1 = task_event W (\<lambda>out now. ExecutorWriter_StartTime out now ew now) s
      in case dw_Command W cmd (fst s1) of
           (u2, evs, ended) \<Rightarrow>
             (let s2 = fold (command_event W ew) evs (u2, snd s1);
                  s3 = task_event W (\<lambda>out now. ExecutorWriter_EndTime out now ew now) s2
              in case ended of
                   Interrupted \<Rightarrow> (s3, Some (OtherErr (case ctx_Err W s3 of Some e \<Rightarrow> e | None \<Rightarrow> Errorf ''context canceled'')))
                 | Returned result \<Rightarrow>
                     (case getExitCode result of
                        (_, Some err) \<Rightarrow> (task_event W (\<lambda>out now. ExecutorWriter_Error out now ew (error_string err) []) s3, result)
                      | (exitcode, None) \<Rightarrow> (task_event W (\<lambda>out now. ExecutorWriter_ExitCode out now ew exitcode) s3, result))))"

text \<open>
  The files for the standard streams of a step; each stream that the executor names is created,
  also the one for its input.  The result is the error or the opened files.
\<close>

definition open_stream :: "'u DefaultWorker \<Rightarrow> ExecutorWriter \<Rightarrow> FileMapper \<Rightarrow> string \<Rightarrow> 'u wstate \<Rightarrow> 'u wstate \<times> (go_error + string option)" where
  "open_stream W ew mapper path s =
     (if path = '''' then (s, Inr None)
      else case CreateHostFile (dw_os W) mapper path (fst s) of
             (u1, Inl err) \<Rightarrow>
               (task_event W (\<lambda>out now. ExecutorWriter_Error out now ew ''Couldn't prepare log files'' [GErr err]) (u1, snd s), Inl err)
           | (u1, Inr p) \<Rightarrow> ((u1, snd s), Inr (Some p)))"

definition openStepLogs ::
    "'u DefaultWorker \<Rightarrow> ExecutorWriter \<Rightarrow> FileMapper \<Rightarrow> Executor \<Rightarrow> 'u wstate \<Rightarrow>
     'u wstate \<times> (go_error + string option \<times> string option \<times> string option)" where
  "openStepLogs W ew mapper d s =
     (case open_stream W ew mapper (ex_Stdin d) s of
        (s1, Inl err) \<Rightarrow> (s1, Inl err)
      | (s1, Inr stdin) \<Rightarrow>
          (case open_stream W ew mapper (ex_Stdout d) s1 of
             (s2, Inl err) \<Rightarrow> (s2, Inl err)
           | (s2, Inr stdout) \<Rightarrow>
               (case open_stream W ew mapper (ex_Stderr d) s2 of
                  (s3, Inl err) \<Rightarrow> (s3, Inl err)
                | (s3, Inr stderr) \<Rightarrow> (s3, Inr (stdin, stdout, stderr)))))"

fun validate_inputs :: "'u Storage \<Rightarrow> Input list \<Rightarrow> 'u \<Rightarrow> go_error option" where
  "validate_inputs store [] u = None"
| "validate_inputs store (x # xs) u =
     (case un_Get (st_Unsupported store (in_Url x) u) of
        Some e \<Rightarrow> Some (Errorf (''Input download not supported by storage: '' @ storage_error_string e))
      | None \<Rightarrow> validate_inputs store xs u)"

fun validate_outputs :: "'u Storage \<Rightarrow> Output list \<Rightarrow> 'u \<Rightarrow> go_error option" where
  "validate_outputs store [] u = None"
| "validate_outputs store (x # xs) u =
     (case un_Put (st_Unsupported store (out_Url x) u) of
        Some e \<Rightarrow> Some (Errorf (''Output upload not supported by storage: '' @ storage_error_string e))
      | None \<Rightarrow> validate_outputs store xs u)"

definition validate_mapper :: "'u Storage \<Rightarrow> FileMapper \<Rightarrow> 'u \<Rightarrow> go_error option" where
  "validate_mapper store mapper u =
     (case validate_inputs store (fm_Inputs mapper) u of
        Some err \<Rightarrow> Some err
      | None \<Rightarrow> validate_outputs store (fm_Outputs mapper) u)"

section \<open>The run of a task\<close>

text \<open>
  The variables of \<open>Run\<close>: the two errors of its helper, the mapper, the task and the state.  A part
  of \<open>Run\<close> continues with the next, returns early with an error, or does not end (\<open>Diverge\<close>, when a
  directory copy does not).
\<close>

record 'u run =
  rn_syserr :: "go_error option"
  rn_execerr :: "go_error option"
  rn_mapper :: FileMapper
  rn_task :: Task
  rn_state :: "'u wstate"

datatype 'a flow = Next 'a | Return "go_error option" 'a | Diverge

fun and_then :: "'a flow \<Rightarrow> ('a \<Rightarrow> 'a flow) \<Rightarrow> 'a flow" where
  "and_then (Next r) f = f r"
| "and_then (Return e r) f = Return e r"
| "and_then Diverge f = Diverge"

definition run_ok :: "'u DefaultWorker \<Rightarrow> 'u run \<Rightarrow> 'u run \<times> bool" where
  "run_ok W r =
     (let s = advance_poll W (rn_state r);
          r1 = r\<lparr>rn_state := s\<rparr>;
          r2 = (case ctx_Err W s of Some e \<Rightarrow> r1\<lparr>rn_syserr := Some e\<rparr> | None \<Rightarrow> r1)
      in (r2, rn_syserr r2 = None \<and> rn_execerr r2 = None))"

definition if_ok :: "'u DefaultWorker \<Rightarrow> ('u run \<Rightarrow> 'u run flow) \<Rightarrow> 'u run \<Rightarrow> 'u run flow" where
  "if_ok W f r = (case run_ok W r of (r1, ok) \<Rightarrow> if ok then f r1 else Next r1)"

definition emit :: "'u DefaultWorker \<Rightarrow> ('u wstate writer \<Rightarrow> string \<Rightarrow> 'u wstate \<Rightarrow> 'u wstate \<times> go_error option) \<Rightarrow> 'u run \<Rightarrow> 'u run" where
  "emit W f r = r\<lparr>rn_state := task_event W f (rn_state r)\<rparr>"

text \<open>A panic is recovered into the system error, and \<open>Run\<close> then returns.\<close>

definition panicked :: "string \<Rightarrow> 'u run \<Rightarrow> 'u run flow" where
  "panicked m r = Return None (r\<lparr>rn_syserr := Some (Errorf (''panic: '' @ m))\<rparr>)"

definition map_part :: "'u DefaultWorker \<Rightarrow> 'u run \<Rightarrow> 'u run flow" where
  "map_part W r =
     (case MapTask (dw_os W) (rn_task r) (rn_mapper r, fst (rn_state r)) of
        ((m, u), err) \<Rightarrow> Next (r\<lparr>rn_mapper := m, rn_state := (u, snd (rn_state r)), rn_syserr := err\<rparr>))"

definition validate_part :: "'u DefaultWorker \<Rightarrow> 'u run \<Rightarrow> 'u run flow" where
  "validate_part W r = Next (r\<lparr>rn_syserr := validate_mapper (dw_Store W) (rn_mapper r) (fst (rn_state r))\<rparr>)"

definition download_part :: "'u DefaultWorker \<Rightarrow> 'u run \<Rightarrow> 'u run flow" where
  "download_part W r =
     (case DownloadInputs W (task_writer (rn_task r)) (fm_Inputs (rn_mapper r)) (rn_state r) of
        (s, err) \<Rightarrow> Next (r\<lparr>rn_state := s, rn_syserr := err\<rparr>))"

definition running_part :: "'u DefaultWorker \<Rightarrow> 'u run \<Rightarrow> 'u run flow" where
  "running_part W r = Next (emit W (\<lambda>out now. TaskWriter_State out now (task_writer (rn_task r)) Running) r)"

text \<open>A failed copy returns its error and leaves the helper without one.\<close>

definition scratch_in_part :: "'u DefaultWorker \<Rightarrow> 'u run \<Rightarrow> 'u run flow" where
  "scratch_in_part W r =
     (if dw_ScratchPath W = '''' then Next r
      else case CopyInputsToScratch (dw_depth W) (dw_os W) (dw_cwd W) (rn_mapper r) (dw_ScratchPath W) (fst (rn_state r)) of
             None \<Rightarrow> Diverge
           | Some (u, err) \<Rightarrow>
               (let r1 = r\<lparr>rn_state := (u, snd (rn_state r))\<rparr>; m = rn_mapper r;
                    scratchAbsDir = filepath_Abs (dw_cwd W) (dw_ScratchPath W)
                in case err of
                     Some (Panic p) \<Rightarrow> panicked p r1
                   | Some e \<Rightarrow> Return (Some e) r1
                   | None \<Rightarrow> Next (r1\<lparr>rn_mapper := m\<lparr>fm_Volumes :=
                       map (\<lambda>v. v\<lparr>v_HostPath := path_Join [scratchAbsDir, v_HostPath v]\<rparr>) (fm_Volumes m)\<rparr>\<rparr>)))"

definition tag_or :: "string gomap \<Rightarrow> string \<Rightarrow> string \<Rightarrow> string" where
  "tag_or tags k dflt = (case gomap_get tags k of Some v \<Rightarrow> if v \<noteq> '''' then v else dflt | None \<Rightarrow> dflt)"

definition executor_command :: "Executor \<Rightarrow> FileMapper \<Rightarrow> Command" where
  "executor_command d m = \<lparr>c_Image = ex_Image d, c_ShellCommand = ex_Command d, c_Volumes = fm_Volumes m, c_Workdir = ex_Workdir d,
     c_Env = ex_Env d\<rparr>"

definition kubernetes_command :: "'u DefaultWorker \<Rightarrow> Task \<Rightarrow> FileMapper \<Rightarrow> nat \<Rightarrow> Executor \<Rightarrow> Resources \<Rightarrow> KubernetesCommand" where
  "kubernetes_command W task m i d resources = \<lparr>kc_Command = executor_command d m, kc_TaskId = t_Id task, kc_JobId = i,
     kc_StdinFile = ex_Stdin d, kc_StdoutFile = ex_Stdout d, kc_StderrFile = ex_Stderr d, kc_Resources = resources,
     kc_ResourceLimits = GetResourceLimits (dw_ParseQuantity W) (dw_K8sResources W),
     kc_NeedsPVC = (t_Inputs task \<noteq> [] \<or> t_Outputs task \<noteq> [] \<or> t_Volumes task \<noteq> []),
     kc_ServiceAccount = tag_or (t_Tags task) ''_WORKER_SA'' (''funnel-worker-sa-'' @ dw_JobsNamespace W @ ''-'' @ t_Id task),
     kc_ImagePullPolicy = tag_or (t_Tags task) ''_IMAGE_PULL_POLICY'' ''Always''\<rparr>"

text \<open>The error of a step: a system error of Kubernetes, or an executor error that may be ignored.\<close>

definition step_result :: "Executor \<Rightarrow> cmd_error option \<Rightarrow> 'u run \<Rightarrow> 'u run" where
  "step_result d err r =
     (case err of
        None \<Rightarrow> r
      | Some e \<Rightarrow>
          (let r1 = (case e of
                       K8sSystemErr _ \<Rightarrow> r\<lparr>rn_syserr := Some (cmd_error_value e)\<rparr>
                     | _ \<Rightarrow> r\<lparr>rn_execerr := Some (cmd_error_value e)\<rparr>)
           in if rn_execerr r1 \<noteq> None \<and> ex_IgnoreError d then r1\<lparr>rn_execerr := None\<rparr> else r1))"

definition step_if_ok :: "'u DefaultWorker \<Rightarrow> ExecutorWriter \<Rightarrow> Executor \<Rightarrow> TaskCommand \<Rightarrow> 'u run \<Rightarrow> 'u run" where
  "step_if_ok W ew d cmd r =
     (case run_ok W r of
        (r1, False) \<Rightarrow> r1
      | (r1, True) \<Rightarrow> (case step_Run W ew cmd (rn_state r1) of (s, err) \<Rightarrow> step_result d err (r1\<lparr>rn_state := s\<rparr>)))"

fun run_executors :: "'u DefaultWorker \<Rightarrow> Resources \<Rightarrow> nat \<Rightarrow> Executor list \<Rightarrow> 'u run \<Rightarrow> 'u run flow" where
  "run_executors W resources i [] r = Next r"
| "run_executors W resources i (d # ds) r =
     (case run_ok W r of
        (r1, False) \<Rightarrow> Next r1
      | (r1, True) \<Rightarrow>
          (let task = rn_task r1; ew = NewExecutorWriter (task_writer task) (word_of_nat i)
           in if dw_Backend W = ''kubernetes''
              then (case ValidateResources (dw_ParseQuantity W) (Some resources) (dw_K8sResources W) of
                      Inl err \<Rightarrow> Return (Some err) r1
                    | Inr res \<Rightarrow>
                        (let task' = task\<lparr>t_Resources := Some res\<rparr>;
                             r2 = emit W (\<lambda>out now. out None (NewResources now (t_Id task) (Some res))) (r1\<lparr>rn_task := task'\<rparr>);
                             cmd = Kubernetes (kubernetes_command W task' (rn_mapper r2) i d res)
                         in run_executors W res (Suc i) ds (step_if_ok W ew d cmd r2)))
              else (case openStepLogs W ew (rn_mapper r1) d (rn_state r1) of
                      (s, Inl err) \<Rightarrow> run_executors W resources (Suc i) ds (fst (run_ok W (r1\<lparr>rn_state := s, rn_syserr := Some err\<rparr>)))
                    | (s, Inr (stdin, stdout, stderr)) \<Rightarrow>
                        (let cmd = Docker \<lparr>dc_Command = executor_command d (rn_mapper r1), dc_Name = t_Id task @ ''-'' @ show_nat i,
                               dc_RemoveContainer = True, dc_Resources = resources, dc_Stdin = stdin, dc_Stdout = stdout, dc_Stderr = stderr\<rparr>
                         in run_executors W resources (Suc i) ds (step_if_ok W ew d cmd (r1\<lparr>rn_state := s, rn_syserr := None\<rparr>))))))"

definition executors_part :: "'u DefaultWorker \<Rightarrow> 'u run \<Rightarrow> 'u run flow" where
  "executors_part W r =
     run_executors W (case t_Resources (rn_task r) of None \<Rightarrow> empty_resources | Some res \<Rightarrow> res) 0 (t_Executors (rn_task r)) r"

definition links_part :: "'u DefaultWorker \<Rightarrow> 'u run \<Rightarrow> 'u run flow" where
  "links_part W r =
     (if rn_syserr r \<noteq> None then Next r
      else let m = rn_mapper r;
               u = fold (\<lambda>output. fixLinks (dw_os W) m (out_Path output)) (fm_Outputs m) (fst (rn_state r))
           in Next (r\<lparr>rn_state := (u, snd (rn_state r)), rn_mapper := fst (resolveWildcards W m u)\<rparr>))"

definition scratch_out_part :: "'u DefaultWorker \<Rightarrow> 'u run \<Rightarrow> 'u run flow" where
  "scratch_out_part W r =
     (if rn_syserr r \<noteq> None \<or> dw_ScratchPath W = '''' then Next r
      else case CopyOutputsToWorkDir (dw_depth W) (dw_os W) (dw_cwd W) (rn_mapper r) (dw_ScratchPath W) (fst (rn_state r)) of
             None \<Rightarrow> Diverge
           | Some (u, err) \<Rightarrow>
               (let r1 = r\<lparr>rn_state := (u, snd (rn_state r))\<rparr> in case err of Some e \<Rightarrow> Return (Some e) r1 | None \<Rightarrow> Next r1))"

definition upload_part :: "'u DefaultWorker \<Rightarrow> 'u run \<Rightarrow> 'u run flow" where
  "upload_part W r =
     (if rn_syserr r \<noteq> None then Next r
      else case UploadOutputs W (task_writer (rn_task r)) (fm_Outputs (rn_mapper r)) (rn_state r) of
             (s, outputLog, uploadErr) \<Rightarrow>
               (let r1 = r\<lparr>rn_state := s\<rparr>;
                    logs = map (\<lambda>x. x\<lparr>ofl_Path := ContainerPath (rn_mapper r) (ofl_Path x)\<rparr>) outputLog;
                    ev = task_writer (rn_task r)
                in case uploadErr of
                     Some (Panic p) \<Rightarrow> panicked p r1
                   | _ \<Rightarrow>
                     (let r2 = (case uploadErr of
                          None \<Rightarrow> r1
                        | Some e \<Rightarrow>
                            if rn_execerr r1 \<noteq> None
                            then emit W (\<lambda>out now. TaskWriter_Error out now ev ''Failed to upload outputs after executor error'' [GStr ''error'', GErr e]) r1
                            else r1\<lparr>rn_syserr := Some e\<rparr>)
                      in Next (if logs \<noteq> [] then emit W (\<lambda>out now. TaskWriter_Outputs out now ev logs) r2 else r2))))"

text \<open>The deferred function: the end time, the final state, the removal of the working directory.\<close>

definition finish :: "'u DefaultWorker \<Rightarrow> go_error option \<Rightarrow> 'u run \<Rightarrow> 'u wstate \<times> go_error option" where
  "finish W runerr r0 =
     (let ev = task_writer (rn_task r0);
          r1 = emit W (\<lambda>out now. TaskWriter_EndTime out now ev now) r0;
          r = r1\<lparr>rn_state := advance_poll W (rn_state r1)\<rparr>;
          (r2, err) =
            (if po_canceled (wl_poll (snd (rn_state r)))
             then (emit W (\<lambda>out now. TaskWriter_State out now ev Canceled) (emit W (\<lambda>out now. TaskWriter_Info out now ev ''Canceled'' []) r),
                   Some (Errorf ''task canceled''))
             else case rn_syserr r of
               Some e \<Rightarrow> (emit W (\<lambda>out now. TaskWriter_State out now ev SystemError)
                   (emit W (\<lambda>out now. TaskWriter_Error out now ev ''System error'' [GStr ''error'', GErr e]) r), Some e)
             | None \<Rightarrow>
                 (case rn_execerr r of
                    Some e \<Rightarrow> (emit W (\<lambda>out now. TaskWriter_State out now ev ExecutorError)
                        (emit W (\<lambda>out now. TaskWriter_Error out now ev ''Exec error'' [GStr ''error'', GErr e]) r), Some e)
                  | None \<Rightarrow> (emit W (\<lambda>out now. TaskWriter_State out now ev Complete) r, runerr)));
          s = rn_state r2
      in if \<not> dw_LeaveWorkDir W then ((fst (Cleanup (dw_os W) (rn_mapper r2) (fst s)), snd s), err) else (s, err))"

definition run_parts :: "'u DefaultWorker \<Rightarrow> 'u run \<Rightarrow> 'u run flow" where
  "run_parts W r =
     (let f1 = if_ok W (map_part W) r;
          f2 = and_then f1 (if_ok W (validate_part W));
          f3 = and_then f2 (if_ok W (download_part W));
          f4 = and_then f3 (if_ok W (running_part W));
          f5 = and_then f4 (if_ok W (scratch_in_part W));
          f6 = and_then f5 (if_ok W (executors_part W));
          f7 = and_then f6 (links_part W);
          f8 = and_then f7 (scratch_out_part W)
      in and_then f8 (upload_part W))"

definition start_run :: "'u DefaultWorker \<Rightarrow> Task \<Rightarrow> 'u wstate \<Rightarrow> 'u run" where
  "start_run W task s =
     (let ev = task_writer task;
          dir = path_Join [dw_WorkDir W, t_Id task];
          m0 = NewFileMapper (dw_cwd W) dir;
          m = (if dw_ScratchPath W \<noteq> '''' then m0\<lparr>fm_ScratchDir := path_Join [filepath_Abs (dw_cwd W) (dw_ScratchPath W), dir]\<rparr> else m0);
          s1 = task_event W (\<lambda>out now. TaskWriter_Info out now ev ''Version'' (dw_version W)) s;
          s2 = task_event W (\<lambda>out now. TaskWriter_State out now ev Initializing) s1;
          s3 = task_event W (\<lambda>out now. TaskWriter_StartTime out now ev now) s2;
          s4 = (case dw_hostname W of Some name \<Rightarrow> task_event W (\<lambda>out now. TaskWriter_Metadata out now ev [(''hostname'', name)]) s3 | None \<Rightarrow> s3)
      in \<lparr>rn_syserr = None, rn_execerr = None, rn_mapper = m, rn_task = task, rn_state = s4\<rparr>)"

text \<open>\<^const>\<open>None\<close> when the run does not end.\<close>

definition Run :: "'u DefaultWorker \<Rightarrow> 'u \<Rightarrow> ('u wstate \<times> go_error option) option" where
  "Run W u =
     (case dw_Task W u of
        (u1, Inl err) \<Rightarrow>
          Some (fst (recorded (dw_EventWriter W) None (NewSystemLog (dw_now W) ''unknown'' 0 0 ''error'' ''failed to get task. ID unknown''
             [(''error'', error_string err)]) (u1, new_log)), Some err)
      | (u1, Inr task) \<Rightarrow>
          (case run_parts W (start_run W task (u1, new_log)) of
             Next r \<Rightarrow> Some (finish W None r)
           | Return e r \<Rightarrow> Some (finish W e r)
           | Diverge \<Rightarrow> None))"

section \<open>Lemmas: the events written\<close>

text \<open>The events that matter below: changes of the task's state, and starts of executors.\<close>

definition marked :: "Event \<Rightarrow> bool" where
  "marked ev \<longleftrightarrow> ev_Type ev = Type_TASK_STATE \<or> ev_Type ev = Type_EXECUTOR_START_TIME"

definition marks :: "'u wstate \<Rightarrow> Event list" where
  "marks s = filter marked (wl_events (snd s))"

named_theorems quiet \<open>operations that write no marked event\<close>

lemma marks_recorded [simp]: "marks (fst (recorded out ctx ev s)) = marks s @ (if marked ev then [ev] else [])"
  by (auto simp: marks_def recorded_def split: prod.splits)

lemmas writer_defs = TaskWriter_State_def TaskWriter_StartTime_def TaskWriter_EndTime_def TaskWriter_Outputs_def TaskWriter_Metadata_def
  TaskWriter_Info_def TaskWriter_Error_def TaskWriter_Warn_def ExecutorWriter_StartTime_def ExecutorWriter_EndTime_def
  ExecutorWriter_ExitCode_def ExecutorWriter_Stdout_def ExecutorWriter_Stderr_def ExecutorWriter_Error_def

lemma marked_events [simp]:
  "marked (NewState now i st)" "marked (NewExecutorStartTime now i a k t)"
  "\<not> marked (NewStartTime now i a t)" "\<not> marked (NewEndTime now i a t)" "\<not> marked (NewOutputs now i a outs)"
  "\<not> marked (NewMetadata now i a m)" "\<not> marked (NewExecutorEndTime now i a k t)" "\<not> marked (NewExitCode now i a k x)"
  "\<not> marked (NewStdout now i a k t)" "\<not> marked (NewStderr now i a k t)" "\<not> marked (NewResources now i res)"
  "\<not> marked (SystemLogGenerator_Info now g msg args)" "\<not> marked (SystemLogGenerator_Error now g msg args)"
  "\<not> marked (SystemLogGenerator_Warn now g msg args)"
  by (simp_all add: marked_def event_constructor_defs syslog_generator_defs Let_def)

lemma marks_pair [simp]: "marks (u, snd s) = marks s"
  by (simp add: marks_def)

lemma marks_update [simp]: "marks (u, (snd s)\<lparr>wl_results := x\<rparr>) = marks s" "marks (u, (snd s)\<lparr>wl_cancel := y, wl_results := x\<rparr>) = marks s"
  "marks (u, (snd s)\<lparr>wl_poll := z\<rparr>) = marks s"
  by (simp_all add: marks_def)

lemma marks_small [quiet]: "marks (advance_poll W s) = marks s" "marks (add_result err logs s) = marks s" "marks (cancel_downloads s) = marks s"
  by (simp_all add: marks_def advance_poll_def add_result_def cancel_downloads_def split: prod.splits)

lemma marks_fold: "(\<And>x s. marks (f x s) = marks s) \<Longrightarrow> marks (fold f xs s) = marks s"
  by (induction xs arbitrary: s) auto

lemma marks_Finished [quiet]: "marks (download_Finished W ev x objs s) = marks s" "marks (upload_Finished W ev objs s) = marks s"
  by (simp_all add: download_Finished_def upload_Finished_def marks_fold writer_defs)

lemma marks_transfer:
  assumes "\<And>s. marks (tr_Started x s) = marks s" "\<And>objs s. marks (tr_Finished x objs s) = marks s" "\<And>e s. marks (tr_Failed x e s) = marks s"
  shows "marks (download_one os ctx store x s) = marks s" "marks (upload_one ctx store x s) = marks s"
proof -
  obtain u l where s: "tr_Started x s = (u, l)" by force
  have "marks (u', l) = marks s" for u' using assms(1) [of s] s by (simp add: marks_def)
  then show "marks (download_one os ctx store x s) = marks s" "marks (upload_one ctx store x s) = marks s"
    by (auto simp: download_one_def upload_one_def s assms(2,3) split: prod.splits option.splits sum.splits)
qed

lemma marks_download_one: "marks (download_one os ctx store (download W ev x) s) = marks s"
  by (rule marks_transfer(1)) (simp_all add: download_def quiet writer_defs)

lemma marks_upload_one: "marks (upload_one ctx store (upload W ev x) s) = marks s"
  by (rule marks_transfer(2)) (simp_all add: upload_def quiet writer_defs)

lemma marks_transfers [quiet]:
  "marks (Download os ctx store (map (download W ev) xs) s) = marks s" "marks (Upload ctx store (map (upload W ev) ys) s) = marks s"
  unfolding Download_def Upload_def fold_map comp_def
  by (simp_all add: marks_fold marks_download_one marks_upload_one comp_def)

lemma marks_flatten_inputs [quiet]: "marks (fst (flatten_inputs W ev ins flat s)) = marks s"
  by (induction W ev ins flat s rule: flatten_inputs.induct)
    (auto simp: Let_def writer_defs split: FileType.splits sum.splits prod.splits)

lemma marks_flatten_outputs [quiet]: "marks (fst (flatten_outputs W ev outs flat s)) = marks s"
  by (induction W ev outs flat s rule: flatten_outputs.induct)
    (auto simp: writer_defs split: FileType.splits sum.splits go_error.splits)

lemma marks_DownloadInputs [quiet]: "marks (fst (DownloadInputs W ev ins s)) = marks s"
proof -
  obtain s1 r where f: "FlattenInputs W ev ins s = (s1, r)" by (rule prod.exhaust)
  with marks_flatten_inputs [of W ev ins "[]" s] have "marks s1 = marks s" by (simp add: FlattenInputs_def)
  with f show ?thesis by (cases r) (simp_all add: DownloadInputs_def quiet)
qed

lemma marks_UploadOutputs [quiet]: "marks (fst (UploadOutputs W ev outs s)) = marks s"
proof -
  obtain s1 r where f: "FlattenOutputs W ev outs s = (s1, r)" by (rule prod.exhaust)
  with marks_flatten_outputs [of W ev outs "[]" s] have "marks s1 = marks s" by (simp add: FlattenOutputs_def)
  with f show ?thesis by (cases r) (simp_all add: UploadOutputs_def quiet)
qed

lemma marks_open [quiet]: "marks (fst (open_stream W ew m p s)) = marks s" "marks (fst (openStepLogs W ew m d s)) = marks s"
proof -
  have one: "marks (fst (open_stream W ew m p s)) = marks s" for p s
    by (auto simp: open_stream_def writer_defs split: prod.splits sum.splits)
  show "marks (fst (open_stream W ew m p s)) = marks s" by (rule one)
  have one': "open_stream W ew m p s = (s', r) \<Longrightarrow> marks s' = marks s" for p s s' r using one [of p s] by simp
  show "marks (fst (openStepLogs W ew m d s)) = marks s"
    by (auto simp: openStepLogs_def one' split: prod.splits sum.splits)
qed

lemma marks_command_event [quiet]: "marks (command_event W ew e s) = marks s"
  by (cases e) (auto simp: command_event_def writer_defs)

lemma marks_step_Run: "marks (fst (step_Run W ew cmd s)) =
    marks s @ [NewExecutorStartTime (dw_now W) (ew_taskID ew) (ew_attempt ew) (ew_index ew) (dw_now W)]"
  by (auto simp: step_Run_def Let_def marks_fold quiet writer_defs split: prod.splits step_end.splits option.splits)

section \<open>Lemmas: the parts of a run\<close>

definition failed :: "'u run \<Rightarrow> bool" where
  "failed r \<longleftrightarrow> rn_syserr r \<noteq> None \<or> rn_execerr r \<noteq> None"

abbreviation rmarks :: "'u run \<Rightarrow> Event list" where
  "rmarks r \<equiv> marks (rn_state r)"


lemma run_ok_result:
  assumes "run_ok W r = (r', ok)"
  shows "rmarks r' = rmarks r" "rn_task r' = rn_task r" "ok \<longleftrightarrow> \<not> failed r'" "failed r \<Longrightarrow> failed r'" "rn_mapper r' = rn_mapper r"
  using assms by (auto simp: run_ok_def Let_def failed_def quiet split: option.splits)

lemma emit_simps [simp]: "rn_task (emit W f r) = rn_task r" "failed (emit W f r) = failed r" "rn_syserr (emit W f r) = rn_syserr r"
  "rn_execerr (emit W f r) = rn_execerr r" "rn_mapper (emit W f r) = rn_mapper r" "rn_state (emit W f r) = task_event W f (rn_state r)"
  by (simp_all add: emit_def failed_def)

lemma failed_state [simp]: "failed (r\<lparr>rn_state := s\<rparr>) = failed r" "failed (r\<lparr>rn_mapper := m\<rparr>) = failed r" "failed (r\<lparr>rn_task := t\<rparr>) = failed r"
  by (simp_all add: failed_def)

text \<open>The first parts write no marked event.\<close>

definition early :: "'u run \<Rightarrow> 'u run flow \<Rightarrow> bool" where
  "early r0 fl \<longleftrightarrow> (\<exists>r. fl = Next r \<and> rn_task r = rn_task r0 \<and> rmarks r = rmarks r0)"

lemma early_if_ok:
  assumes "early r0 fl" "\<And>r. \<exists>r'. f r = Next r' \<and> rn_task r' = rn_task r \<and> rmarks r' = rmarks r"
  shows "early r0 (and_then fl (if_ok W f))"
proof -
  from assms(1) obtain r where r: "fl = Next r" "rn_task r = rn_task r0" "rmarks r = rmarks r0" by (auto simp: early_def)
  obtain r1 ok where ok: "run_ok W r = (r1, ok)" by (rule prod.exhaust)
  from assms(2) [of r1] run_ok_result [OF ok] r show ?thesis by (auto simp: early_def if_ok_def ok)
qed

lemma early_parts:
  "\<exists>r'. map_part W r = Next r' \<and> rn_task r' = rn_task r \<and> rmarks r' = rmarks r"
  "\<exists>r'. validate_part W r = Next r' \<and> rn_task r' = rn_task r \<and> rmarks r' = rmarks r"
  "\<exists>r'. download_part W r = Next r' \<and> rn_task r' = rn_task r \<and> rmarks r' = rmarks r"
  using marks_DownloadInputs [of W "task_writer (rn_task r)" "fm_Inputs (rn_mapper r)" "rn_state r"]
  by (auto simp: map_part_def validate_part_def download_part_def split: prod.splits)

text \<open>The events of a run that has reached the executors.\<close>

definition init_mark :: "'u DefaultWorker \<Rightarrow> string \<Rightarrow> Event list" where
  "init_mark W i = [NewState (dw_now W) i Initializing]"

definition run_marks :: "'u DefaultWorker \<Rightarrow> string \<Rightarrow> nat \<Rightarrow> Event list" where
  "run_marks W i k = init_mark W i @ [NewState (dw_now W) i Running] @
     map (\<lambda>j. NewExecutorStartTime (dw_now W) i 0 (word_of_nat j) (dw_now W)) [0..<k]"

lemma run_marks_Suc: "run_marks W i (Suc k) = run_marks W i k @ [NewExecutorStartTime (dw_now W) i 0 (word_of_nat k) (dw_now W)]"
  by (simp add: run_marks_def)

definition early_return :: "'u DefaultWorker \<Rightarrow> bool" where
  "early_return W \<longleftrightarrow> dw_ScratchPath W \<noteq> '''' \<or> dw_Backend W = ''kubernetes''"

text \<open>
  What holds after a part, with \<open>n\<close> executors to be started by then: either the run failed before it
  reached the executors, or it has started the first \<open>k\<close> of them, all \<open>n\<close> unless it failed.
\<close>

definition good_run :: "'u DefaultWorker \<Rightarrow> Task \<Rightarrow> nat \<Rightarrow> 'u run \<Rightarrow> bool" where
  "good_run W task n r \<longleftrightarrow> t_Id (rn_task r) = t_Id task \<and> t_Executors (rn_task r) = t_Executors task \<and>
     (rmarks r = init_mark W (t_Id task) \<and> failed r \<or>
      (\<exists>k\<le>n. rmarks r = run_marks W (t_Id task) k \<and> (\<not> failed r \<longrightarrow> k = n)))"

definition good_return :: "'u DefaultWorker \<Rightarrow> Task \<Rightarrow> go_error option \<Rightarrow> 'u run \<Rightarrow> bool" where
  "good_return W task e r \<longleftrightarrow> t_Id (rn_task r) = t_Id task \<and>
     (rmarks r = init_mark W (t_Id task) \<and> failed r \<or>
      (\<exists>k\<le>length (t_Executors task). rmarks r = run_marks W (t_Id task) k)) \<and> (failed r \<or> e \<noteq> None \<and> early_return W)"

fun good :: "'u DefaultWorker \<Rightarrow> Task \<Rightarrow> nat \<Rightarrow> 'u run flow \<Rightarrow> bool" where
  "good W task n (Next r) = good_run W task n r"
| "good W task n (Return e r) = good_return W task e r"
| "good W task n Diverge = (dw_ScratchPath W \<noteq> '''')"

lemma good_and_then:
  assumes "good W task n fl" "\<And>r. good_run W task n r \<Longrightarrow> good W task m (f r)"
  shows "good W task m (and_then fl f)"
  using assms by (cases fl) auto

lemma good_run_weaken: "good_run W task n r \<Longrightarrow> failed r \<Longrightarrow> n \<le> m \<Longrightarrow> good_run W task m r"
  unfolding good_run_def by (meson le_trans)

lemma good_run_ok:
  assumes "good_run W task n r" "run_ok W r = (r', ok)"
  shows "good_run W task n r'" "ok \<longleftrightarrow> \<not> failed r'"
  using assms run_ok_result [OF assms(2)] by (auto simp: good_run_def)

lemma good_if_ok:
  assumes "good_run W task n r" "n \<le> m" "\<And>r. good_run W task n r \<Longrightarrow> \<not> failed r \<Longrightarrow> good W task m (f r)"
  shows "good W task m (if_ok W f r)"
proof -
  obtain r1 ok where ok: "run_ok W r = (r1, ok)" by (rule prod.exhaust)
  note g = good_run_ok [OF assms(1) ok]
  show ?thesis using g assms(3) [OF g(1)] good_run_weaken [OF g(1) _ assms(2)] by (auto simp: if_ok_def ok)
qed

lemma running_part_good:
  assumes "early r0 fl" "rn_task r0 = task" "rmarks r0 = init_mark W (t_Id task)"
  shows "good W task 0 (and_then fl (if_ok W (running_part W)))"
proof -
  from assms obtain r where r: "fl = Next r" "rn_task r = task" "rmarks r = init_mark W (t_Id task)" by (auto simp: early_def)
  obtain r1 ok where ok: "run_ok W r = (r1, ok)" by (rule prod.exhaust)
  show ?thesis using run_ok_result [OF ok] r
    by (auto simp: if_ok_def ok running_part_def good_run_def run_marks_def writer_defs task_writer_def)
qed

lemma scratch_in_good: "good_run W task 0 r \<Longrightarrow> \<not> failed r \<Longrightarrow> good W task 0 (scratch_in_part W r)"
  by (auto simp: scratch_in_part_def panicked_def good_run_def good_return_def early_return_def Let_def failed_def
      split: option.splits prod.splits go_error.splits)

lemma links_good: "good_run W task n r \<Longrightarrow> good W task n (links_part W r)"
  by (auto simp: links_part_def good_run_def Let_def failed_def)

lemma scratch_out_good: "good_run W task (length (t_Executors task)) r \<Longrightarrow> good W task (length (t_Executors task)) (scratch_out_part W r)"
  by (auto simp: scratch_out_part_def good_run_def good_return_def early_return_def Let_def failed_def
      split: option.splits prod.splits)

lemma upload_good:
  assumes "good_run W task (length (t_Executors task)) r"
  shows "good W task (length (t_Executors task)) (upload_part W r)"
proof (cases "rn_syserr r")
  case None
  obtain s logs err where up: "UploadOutputs W (task_writer (rn_task r)) (fm_Outputs (rn_mapper r)) (rn_state r) = (s, logs, err)"
    by (metis prod.exhaust)
  have marks: "marks s = rmarks r" using marks_UploadOutputs [of W "task_writer (rn_task r)" "fm_Outputs (rn_mapper r)" "rn_state r"] up by simp
  show ?thesis
  proof (cases "\<exists>p. err = Some (Panic p)")
    case True
    with assms None up marks show ?thesis
      by (auto simp: upload_part_def Let_def panicked_def good_run_def good_return_def failed_def)
  next
    case False
    then have "upload_part W r = (let r1 = r\<lparr>rn_state := s\<rparr>; ev = task_writer (rn_task r);
        logs = map (\<lambda>x. x\<lparr>ofl_Path := ContainerPath (rn_mapper r) (ofl_Path x)\<rparr>) logs;
        r2 = (case err of None \<Rightarrow> r1 | Some e \<Rightarrow> if rn_execerr r1 \<noteq> None
              then emit W (\<lambda>out now. TaskWriter_Error out now ev ''Failed to upload outputs after executor error'' [GStr ''error'', GErr e]) r1
              else r1\<lparr>rn_syserr := Some e\<rparr>)
        in Next (if logs \<noteq> [] then emit W (\<lambda>out now. TaskWriter_Outputs out now ev logs) r2 else r2))"
      using None up by (auto simp: upload_part_def Let_def split: option.splits go_error.splits)
    with assms None marks show ?thesis
      by (auto simp: Let_def good_run_def failed_def writer_defs split: option.splits)
  qed
qed (use assms in \<open>simp add: upload_part_def\<close>)

lemma step_good:
  assumes "t_Id (rn_task r) = t_Id task" "t_Executors (rn_task r) = t_Executors task" "rmarks r = run_marks W (t_Id task) i"
    "ew_taskID ew = t_Id task" "ew_attempt ew = 0" "ew_index ew = word_of_nat i"
  shows "good_run W task (Suc i) (step_if_ok W ew d cmd r)"
proof -
  obtain r1 ok where ok: "run_ok W r = (r1, ok)" by (rule prod.exhaust)
  obtain s err where step: "step_Run W ew cmd (rn_state r1) = (s, err)" by (rule prod.exhaust)
  note r1 = run_ok_result [OF ok]
  have "marks s = rmarks r1 @ [NewExecutorStartTime (dw_now W) (ew_taskID ew) (ew_attempt ew) (ew_index ew) (dw_now W)]"
    using marks_step_Run [of W ew cmd "rn_state r1"] step by simp
  then have s: "marks s = run_marks W (t_Id task) (Suc i)"
    using assms r1 by (simp add: run_marks_Suc)
  have res: "rn_task (step_result d err r') = rn_task r'" "rn_state (step_result d err r') = rn_state r'" for r' :: "'a run"
    by (auto simp: step_result_def Let_def split: option.splits cmd_error.splits)
  show ?thesis
  proof (cases ok)
    case True
    with assms r1 s show ?thesis by (auto simp: step_if_ok_def ok step good_run_def res)
  next
    case False
    with assms r1 have "\<exists>k\<le>Suc i. rmarks r1 = run_marks W (t_Id task) k" by (intro exI [of _ i]) simp
    with False assms r1 show ?thesis by (auto simp: step_if_ok_def ok good_run_def)
  qed
qed

lemma run_executors_good:
  assumes "good_run W task i r" "i + length ds = length (t_Executors task)"
  shows "good W task (length (t_Executors task)) (run_executors W res i ds r)"
  using assms
proof (induction ds arbitrary: i r res)
  case (Cons d ds)
  obtain r1 ok where ok: "run_ok W r = (r1, ok)" by (rule prod.exhaust)
  note g = good_run_ok [OF Cons(2) ok]
  show ?case
  proof (cases ok)
    case False
    with g good_run_weaken [OF g(1)] Cons(3) show ?thesis by (simp add: ok)
  next
    case True
    have r1: "t_Id (rn_task r1) = t_Id task" "t_Executors (rn_task r1) = t_Executors task" "rmarks r1 = run_marks W (t_Id task) i"
      using g True by (auto simp: good_run_def)
    have IH: "good_run W task (Suc i) r' \<Longrightarrow> good W task (length (t_Executors task)) (run_executors W res (Suc i) ds r')" for r' res
      by (rule Cons.IH) (use Cons(3) in simp_all)
    show ?thesis
    proof (cases "dw_Backend W = ''kubernetes''")
      case True
      have "good_return W task (Some e) r1" for e
        using r1 True Cons(3) by (auto simp: good_return_def early_return_def intro!: exI [of _ i])
      with True \<open>ok\<close> r1 show ?thesis
        by (auto simp: ok Let_def NewExecutorWriter_def task_writer_def split: sum.splits intro!: IH step_good)
    next
      case False
      obtain s l where logs: "openStepLogs W (NewExecutorWriter (task_writer (rn_task r1)) (word_of_nat i)) (rn_mapper r1) d (rn_state r1) = (s, l)"
        by (rule prod.exhaust)
      have s: "marks s = rmarks r1"
        using marks_open(2) [of W "NewExecutorWriter (task_writer (rn_task r1)) (word_of_nat i)" "rn_mapper r1" d "rn_state r1"] logs by simp
      have "good_run W task (Suc i) (fst (run_ok W (r1\<lparr>rn_state := s, rn_syserr := Some e\<rparr>)))" for e
      proof -
        obtain r2 ok2 where ok2: "run_ok W (r1\<lparr>rn_state := s, rn_syserr := Some e\<rparr>) = (r2, ok2)" by (rule prod.exhaust)
        from run_ok_result [OF ok2] r1 s show ?thesis by (auto simp: ok2 good_run_def failed_def intro!: exI [of _ i])
      qed
      with False \<open>ok\<close> logs r1 s show ?thesis
        by (auto simp: ok Let_def split: sum.splits prod.splits intro!: IH step_good) (simp_all add: NewExecutorWriter_def task_writer_def)
    qed
  qed
qed simp

lemma run_parts_good:
  assumes "rn_task r = task" "rmarks r = init_mark W (t_Id task)"
  shows "good W task (length (t_Executors task)) (run_parts W r)"
proof -
  have "early r (Next r)" by (simp add: early_def)
  from early_if_ok [OF this early_parts(1)] have f1: "early r (if_ok W (map_part W) r)" by simp
  note f2 = early_if_ok [OF f1 early_parts(2)]
  note f3 = early_if_ok [OF f2 early_parts(3)]
  note f4 = running_part_good [OF f3 assms]
  note f5 = good_and_then [OF f4 good_if_ok [OF _ order_refl scratch_in_good]]
  have ex: "good W task (length (t_Executors task)) (executors_part W r)" if "good_run W task 0 r" for r
    unfolding executors_part_def using that by (intro run_executors_good) (auto simp: good_run_def)
  note f6 = good_and_then [OF f5 good_if_ok [OF _ le0 ex]]
  note f7 = good_and_then [OF f6 links_good]
  note f8 = good_and_then [OF f7 scratch_out_good]
  from good_and_then [OF f8 upload_good] show ?thesis by (simp add: run_parts_def Let_def)
qed

text \<open>The final state: \<open>Complete\<close> exactly for a run that neither failed nor was marked as canceled.\<close>

definition final_of :: "'u DefaultWorker \<Rightarrow> 'u run \<Rightarrow> State" where
  "final_of W r =
     (let s = advance_poll W (rn_state (emit W (\<lambda>out now. TaskWriter_EndTime out now (task_writer (rn_task r)) now) r))
      in if po_canceled (wl_poll (snd s)) then Canceled
         else if rn_syserr r \<noteq> None then SystemError else if rn_execerr r \<noteq> None then ExecutorError else Complete)"

lemma finish_marks: "marks (fst (finish W e r)) = rmarks r @ [NewState (dw_now W) (t_Id (rn_task r)) (final_of W r)]"
  by (auto simp: finish_def final_of_def Let_def writer_defs task_writer_def quiet Cleanup_def split: option.splits prod.splits if_splits)

lemma finish_error: "final_of W r = Complete \<Longrightarrow> snd (finish W e r) = e"
  "final_of W r \<noteq> Complete \<Longrightarrow> snd (finish W e r) \<noteq> None"
  by (auto simp: finish_def final_of_def Let_def split: option.splits prod.splits if_splits)

lemma final_of_simps: "TerminalState (final_of W r)" "final_of W r = Complete \<Longrightarrow> \<not> failed r"
  by (auto simp: final_of_def Let_def TerminalState_def failed_def split: if_splits)

lemma start_run_simps:
  "rn_task (start_run W task (u, new_log)) = task"
  "rmarks (start_run W task (u, new_log)) = init_mark W (t_Id task)"
  by (auto simp: start_run_def Let_def init_mark_def writer_defs task_writer_def split: option.splits) (simp_all add: marks_def new_log_def)

section \<open>Properties\<close>

text \<open>
  C9: the life of a task in the worker.  Once the task is read, a run (which always ends unless a
  scratch directory is configured) writes exactly these state and executor-start events, in this
  order: \<open>Initializing\<close>; then, unless it fails before, \<open>Running\<close> and the start of the executors
  \<open>0, 1, \<dots>, k - 1\<close>; and last one terminal state.  Each change is a transition that the state machine
  accepts, starting from \<open>Queued\<close>.  The run returns without error exactly if the terminal state is
  \<open>Complete\<close> and every executor was started, provided it cannot return early (which takes a scratch
  directory or the Kubernetes executor).
\<close>

theorem worker_trace_sound:
  assumes "dw_Task W u = (u1, Inr task)"
  shows "(dw_ScratchPath W = '''' \<longrightarrow> Run W u \<noteq> None) \<and>
    (\<forall>s err. Run W u = Some (s, err) \<longrightarrow>
      (\<exists>k st. k \<le> length (t_Executors task) \<and> TerminalState st \<and>
        (marks s = [NewState (dw_now W) (t_Id task) Initializing, NewState (dw_now W) (t_Id task) st] \<and>
           st \<noteq> Complete \<and> err \<noteq> None \<and> ValidateTransition Initializing st = None \<or>
         marks s = [NewState (dw_now W) (t_Id task) Initializing, NewState (dw_now W) (t_Id task) Running] @
             map (\<lambda>j. NewExecutorStartTime (dw_now W) (t_Id task) 0 (word_of_nat j) (dw_now W)) [0..<k] @
             [NewState (dw_now W) (t_Id task) st] \<and>
           ValidateTransition Initializing Running = None \<and> ValidateTransition Running st = None \<and>
           (err = None \<longrightarrow> st = Complete \<and> k = length (t_Executors task)) \<and>
           (st = Complete \<and> dw_ScratchPath W = '''' \<and> dw_Backend W \<noteq> ''kubernetes'' \<longrightarrow> err = None))))"
  (is "?ends \<and> (\<forall>s err. ?runs s err \<longrightarrow> ?result s err)")
proof (intro conjI impI allI)
  let ?r = "start_run W task (u1, new_log)"
  note good = run_parts_good [OF start_run_simps(1,2), of W task u1]
  show "dw_ScratchPath W = '''' \<Longrightarrow> Run W u \<noteq> None"
    using good assms by (cases "run_parts W ?r") (auto simp: Run_def)
next
  fix s err assume run: "Run W u = Some (s, err)"
  let ?r = "start_run W task (u1, new_log)" and ?n = "length (t_Executors task)"
  obtain e r where fin: "finish W e r = (s, err)" and fl: "run_parts W ?r = Next r \<and> e = None \<or> run_parts W ?r = Return e r"
    using run assms by (auto simp: Run_def split: flow.splits)
  have id: "t_Id (rn_task r) = t_Id task" and
    ret: "failed r \<or> e = None \<or> early_return W" and
    ms: "rmarks r = init_mark W (t_Id task) \<and> failed r \<or>
      (\<exists>k\<le>?n. rmarks r = run_marks W (t_Id task) k \<and> (\<not> failed r \<and> e = None \<longrightarrow> k = ?n))"
    using run_parts_good [OF start_run_simps(1,2), of W task u1] fl by (auto simp: good_run_def good_return_def)
  let ?st = "final_of W r"
  have end_marks: "marks s = rmarks r @ [NewState (dw_now W) (t_Id task) ?st]" using finish_marks [where W = W and e = e and r = r] fin id by simp
  have err: "?st = Complete \<Longrightarrow> err = e" "?st \<noteq> Complete \<Longrightarrow> err \<noteq> None" using finish_error [where W = W and e = e and r = r] fin by auto
  have ok: "ValidateTransition Initializing ?st = None" "ValidateTransition Running ?st = None" "ValidateTransition Initializing Running = None"
    using final_of_simps(1) [of W r] by (auto simp: TerminalState_def ValidateTransition_def)
  from ms show "?result s err"
  proof (elim disjE exE conjE)
    assume "rmarks r = init_mark W (t_Id task)" "failed r"
    with end_marks err ok final_of_simps [of W r] show ?thesis
      by (intro exI [of _ 0] exI [of _ ?st]) (auto simp: init_mark_def)
  next
    fix k assume "k \<le> ?n" "rmarks r = run_marks W (t_Id task) k" "\<not> failed r \<and> e = None \<longrightarrow> k = ?n"
    with end_marks err ok ret final_of_simps [of W r] show ?thesis
      by (intro exI [of _ k] exI [of _ ?st]) (auto simp: init_mark_def run_marks_def early_return_def)
  qed
qed

section \<open>Samples\<close>

text \<open>A worker on a quiet file system, whose container succeeds.\<close>

definition sample_worker :: "unit DefaultWorker" where
  "sample_worker = \<lparr>dw_Backend = ''docker'', dw_K8sResources = None, dw_JobsNamespace = '''', dw_WorkDir = ''/work'', dw_ScratchPath = '''',
     dw_LeaveWorkDir = True, dw_Store = sample_store\<lparr>st_Unsupported := \<lambda>_ _. AllSupported\<rparr>, dw_mounted = (\<lambda>_ _. Inr None),
     dw_Task = (\<lambda>u. (u, Inr ((sample_files [] [''/in/a''] [])\<lparr>t_Id := ''t1''\<rparr>))), dw_EventWriter = Noop_WriteEvent,
     dw_Command = (\<lambda>_ u. (u, [], Returned None)), dw_os = quiet_os, dw_polls = (\<lambda>_. []), dw_parent_Err = (\<lambda>_. None),
     dw_ParseQuantity = (\<lambda>_. None), dw_JoinPath = (\<lambda>u p. Inr (u @ p)), dw_cwd = ''/'', dw_now = ''now'', dw_hostname = None,
     dw_version = [], dw_depth = 1\<rparr>"

theorem worker_trace_sound_witness:
  "\<exists>s err st. Run sample_worker () = Some (s, err) \<and> TerminalState st \<and> last (marks s) = NewState ''now'' ''t1'' st"
proof -
  have task: "dw_Task sample_worker () = ((), Inr ((sample_files [] [''/in/a''] [])\<lparr>t_Id := ''t1''\<rparr>))" by (simp add: sample_worker_def)
  have W: "dw_ScratchPath sample_worker = ''''" "dw_now sample_worker = ''now''" by (simp_all add: sample_worker_def)
  note sound = worker_trace_sound [OF task]
  from sound W(1) obtain s err where run: "Run sample_worker () = Some (s, err)" by auto
  with sound W(2) show ?thesis by fastforce
qed

text \<open>The same worker with a scratch directory, on a system where files cannot be opened.\<close>

definition scratch_worker :: "unit DefaultWorker" where
  "scratch_worker = sample_worker\<lparr>dw_ScratchPath := ''/scratch'',
     dw_os := quiet_os\<lparr>os_Stat := \<lambda>_ _. Inr \<lparr>fi_IsDir = False, fi_Symlink = False, fi_Size = 0, fi_Name = ''a''\<rparr>,
       os_Open := \<lambda>_ _. Some (Errorf ''permission denied'')\<rparr>\<rparr>"

lemma scratch_fields [simp]:
  "dw_ScratchPath scratch_worker = ''/scratch''" "dw_now scratch_worker = ''now''" "dw_cwd scratch_worker = ''/''" "dw_polls scratch_worker = (\<lambda>_. [])"
  "dw_parent_Err scratch_worker = (\<lambda>_. None)" "dw_EventWriter scratch_worker = Noop_WriteEvent" "dw_LeaveWorkDir scratch_worker"
  "dw_Store scratch_worker = sample_store\<lparr>st_Unsupported := \<lambda>_ _. AllSupported\<rparr>" "dw_depth scratch_worker = 1"
  "dw_WorkDir scratch_worker = ''/work''" "dw_version scratch_worker = []" "dw_hostname scratch_worker = None"
  by (simp_all add: scratch_worker_def sample_worker_def)

lemma scratch_os [simp]: "EnsureDir (dw_os scratch_worker) p w = (w, None)" "EnsurePath (dw_os scratch_worker) p w = (w, None)"
  "os_MkdirAll (dw_os scratch_worker) p w = (w, None)" "os_Open (dw_os scratch_worker) p w = Some (Errorf ''permission denied'')"
  "os_Stat (dw_os scratch_worker) p w = Inr \<lparr>fi_IsDir = False, fi_Symlink = False, fi_Size = 0, fi_Name = ''a''\<rparr>"
  by (simp_all add: EnsurePath_def EnsureDir_def exists_path_def scratch_worker_def quiet_os_def)

abbreviation scratch_input :: Input where
  "scratch_input \<equiv> sample_input ''/work/t1/in/a''"

text \<open>A run of that worker before the copy: nothing has failed, and nobody has canceled the task.\<close>

definition scratch_run :: "Event list \<Rightarrow> unit run \<Rightarrow> bool" where
  "scratch_run evs r \<longleftrightarrow> rn_syserr r = None \<and> rn_execerr r = None \<and> wl_poll (snd (rn_state r)) = wl_poll new_log \<and>
     t_Id (rn_task r) = ''t1'' \<and> rmarks r = evs"

lemma scratch_if_ok:
  assumes "scratch_run evs r"
  shows "\<exists>r'. scratch_run evs r' \<and> rn_mapper r' = rn_mapper r \<and> rn_task r' = rn_task r \<and> if_ok scratch_worker f r = f r'"
proof -
  let ?s = "advance_poll scratch_worker (rn_state r)"
  have poll: "wl_poll (snd ?s) = wl_poll (snd (rn_state r))" by (simp add: advance_poll_def split: prod.splits)
  with assms have ok: "run_ok scratch_worker r = (r\<lparr>rn_state := ?s\<rparr>, True)"
    by (simp add: run_ok_def ctx_Err_def Let_def scratch_run_def new_log_def)
  from assms poll show ?thesis
    by (intro exI [of _ "r\<lparr>rn_state := ?s\<rparr>"]) (simp add: if_ok_def ok scratch_run_def quiet)
qed

lemma scratch_task: "dw_Task scratch_worker () = ((), Inr ((sample_files [] [''/in/a''] [])\<lparr>t_Id := ''t1''\<rparr>))"
  by (simp add: scratch_worker_def sample_worker_def)

lemma scratch_validate:
  assumes "scratch_run evs r" "fm_Inputs (rn_mapper r) = [scratch_input]" "fm_Outputs (rn_mapper r) = []"
  shows "\<exists>r'. scratch_run evs r' \<and> fm_Inputs (rn_mapper r') = [scratch_input] \<and> if_ok scratch_worker (validate_part scratch_worker) r = Next r'"
  using scratch_if_ok [OF assms(1), of "validate_part scratch_worker"] assms(2,3)
  by (auto simp: validate_part_def validate_mapper_def AllSupported_def scratch_run_def)

lemma scratch_download:
  assumes "scratch_run evs r" "fm_Inputs (rn_mapper r) = [scratch_input]"
  shows "\<exists>r'. scratch_run evs r' \<and> fm_Inputs (rn_mapper r') = [scratch_input] \<and> if_ok scratch_worker (download_part scratch_worker) r = Next r'"
proof -
  from scratch_if_ok [OF assms(1), of "download_part scratch_worker"] obtain r1 where r1: "scratch_run evs r1" "rn_mapper r1 = rn_mapper r"
    "if_ok scratch_worker (download_part scratch_worker) r = download_part scratch_worker r1" by blast
  obtain l where s: "rn_state r1 = ((), l)" by (metis prod.collapse unit.exhaust)
  obtain s' err where dl: "DownloadInputs scratch_worker (task_writer (rn_task r1)) [scratch_input] ((), l) = (s', err)" by (rule prod.exhaust)
  have "err = None" "wl_poll (snd s') = wl_poll l"
    using dl by (auto simp: DownloadInputs_def FlattenInputs_def Download_def download_one_def download_def download_Finished_def add_result_def
        sample_input_def sample_store_def recorded_def writer_defs Noop_WriteEvent_def ToError_def IsNil_def)
  moreover have "marks s' = marks ((), l)" using marks_DownloadInputs [of scratch_worker "task_writer (rn_task r1)" "[scratch_input]" "((), l)"] dl by simp
  ultimately show ?thesis using r1 s dl assms(2) by (auto simp: download_part_def scratch_run_def)
qed

lemma scratch_running:
  assumes "scratch_run evs r" "fm_Inputs (rn_mapper r) = [scratch_input]"
  shows "\<exists>r'. scratch_run (evs @ [NewState ''now'' ''t1'' Running]) r' \<and> fm_Inputs (rn_mapper r') = [scratch_input] \<and>
    if_ok scratch_worker (running_part scratch_worker) r = Next r'"
proof -
  from scratch_if_ok [OF assms(1), of "running_part scratch_worker"] obtain r1 where r1: "scratch_run evs r1" "rn_mapper r1 = rn_mapper r"
    "if_ok scratch_worker (running_part scratch_worker) r = running_part scratch_worker r1" by blast
  have "wl_poll (snd (fst (recorded Noop_WriteEvent ctx ev s))) = wl_poll (snd s)" for ctx ev and s :: "unit wstate"
    by (simp add: recorded_def Noop_WriteEvent_def split: prod.splits)
  with r1 assms(2) show ?thesis by (auto simp: running_part_def scratch_run_def writer_defs task_writer_def)
qed

lemma scratch_copy:
  assumes "scratch_run evs r" "fm_Inputs (rn_mapper r) = [scratch_input]"
  shows "\<exists>r'. scratch_run evs r' \<and> if_ok scratch_worker (scratch_in_part scratch_worker) r =
    Return (Some (Errorf ''failed to copy input file to scratch directory: permission denied'')) r'"
  using scratch_if_ok [OF assms(1), of "scratch_in_part scratch_worker"] assms(2)
  by (auto simp: scratch_in_part_def CopyInputsToScratch_def copyFile_def Let_def scratch_run_def)


end
