(* ===== verification/Log_Tail.thy ===== *)
theory Log_Tail
  imports Events
begin

text \<open>
  The tails of an executor's output: the ring buffer of \<open>src/util/ring/ring.go\<close>, and \<open>LogTail\<close> and
  \<open>StreamLogTail\<close> of \<open>src/events/executor.go\<close>.

  The circular buffer of the third-party package is a record of operations; \<open>circular\<close> is the locale
  of what its documentation promises, that it keeps the last bytes written.  The goroutine that
  takes the input is a step relation: which case of a \<open>select\<close> is taken, and whether the rate limiter
  allows a flush, is left open.
\<close>

section \<open>The ring buffer\<close>

record 'c circbuf =
  cb_NewBuffer :: "int \<Rightarrow> go_error + 'c"
  cb_Write :: "string \<Rightarrow> 'c \<Rightarrow> 'c"
  cb_String :: "'c \<Rightarrow> string"
  cb_TotalWritten :: "'c \<Rightarrow> int"
  cb_Reset :: "'c \<Rightarrow> 'c"

record 'c Buffer =
  bu_Buffer :: 'c
  bu_newBytes :: int

text \<open>A size that is not positive panics.\<close>

definition NewBuffer :: "'c circbuf \<Rightarrow> int \<Rightarrow> go_error + 'c Buffer" where
  "NewBuffer C cap =
     (case cb_NewBuffer C cap of
        Inl err \<Rightarrow> Inl (Panic (error_string err))
      | Inr b \<Rightarrow> Inr \<lparr>bu_Buffer = b, bu_newBytes = 0\<rparr>)"

definition Buffer_Write :: "'c circbuf \<Rightarrow> string \<Rightarrow> 'c Buffer \<Rightarrow> 'c Buffer" where
  "Buffer_Write C buf b = \<lparr>bu_Buffer = cb_Write C buf (bu_Buffer b), bu_newBytes = bu_newBytes b + int (length buf)\<rparr>"

definition NewBytesWritten :: "'c Buffer \<Rightarrow> int" where
  "NewBytesWritten b = bu_newBytes b"

definition Buffer_Reset :: "'c circbuf \<Rightarrow> 'c Buffer \<Rightarrow> 'c Buffer" where
  "Buffer_Reset C b = \<lparr>bu_Buffer = cb_Reset C (bu_Buffer b), bu_newBytes = 0\<rparr>"

definition ResetNewBytesWritten :: "'c Buffer \<Rightarrow> 'c Buffer" where
  "ResetNewBytesWritten b = b\<lparr>bu_newBytes := 0\<rparr>"

section \<open>One event at the end\<close>

record stream_id =
  si_taskID :: string
  si_attempt :: "32 word"
  si_index :: "32 word"

fun stream_event :: "string \<Rightarrow> stream_id \<Rightarrow> EventType \<Rightarrow> string \<Rightarrow> Event option" where
  "stream_event now x Type_EXECUTOR_STDOUT s = Some (NewStdout now (si_taskID x) (si_attempt x) (si_index x) s)"
| "stream_event now x Type_EXECUTOR_STDERR s = Some (NewStderr now (si_taskID x) (si_attempt x) (si_index x) s)"
| "stream_event now x _ s = None"

definition flush_total :: "'c circbuf \<Rightarrow> string \<Rightarrow> stream_id \<Rightarrow> 'c Buffer \<Rightarrow> EventType \<Rightarrow> Event option" where
  "flush_total C now x buf t = (if cb_TotalWritten C (bu_Buffer buf) = 0 then None else stream_event now x t (cb_String C (bu_Buffer buf)))"

text \<open>
  What \<open>LogTail\<close> writes when its context is done, from the contents of the two buffers: the second
  flush, of type standard error, is given the buffer of the standard output, as in the source.
\<close>

definition LogTail_events :: "'c circbuf \<Rightarrow> string \<Rightarrow> stream_id \<Rightarrow> 'c Buffer \<Rightarrow> 'c Buffer \<Rightarrow> Event list" where
  "LogTail_events C now x stdoutbuf stderrbuf =
     List.map_filter id [flush_total C now x stdoutbuf Type_EXECUTOR_STDOUT, flush_total C now x stdoutbuf Type_EXECUTOR_STDERR]"

section \<open>A stream of events\<close>

text \<open>
  The state of the input goroutine: the buffers, the events handed to the writer goroutine in the
  order of the channel, the counters, and whether the channel is closed.
\<close>

record 'c tail =
  ts_out :: "'c Buffer"
  ts_err :: "'c Buffer"
  ts_sent :: "Event list"
  ts_outDropped :: int
  ts_errDropped :: int
  ts_total :: int
  ts_closed :: bool

text \<open>\<open>flush\<close>, with the outcome of its \<open>select\<close>: the channel accepted the event, or the timeout came first.\<close>

definition flush_out :: "'c circbuf \<Rightarrow> string \<Rightarrow> stream_id \<Rightarrow> bool \<Rightarrow> 'c tail \<Rightarrow> 'c tail" where
  "flush_out C now x accepted s =
     (if NewBytesWritten (ts_out s) = 0 then s
      else if accepted
      then s\<lparr>ts_sent := ts_sent s @ [NewStdout now (si_taskID x) (si_attempt x) (si_index x) (cb_String C (bu_Buffer (ts_out s)))],
             ts_out := ResetNewBytesWritten (ts_out s)\<rparr>
      else s\<lparr>ts_outDropped := ts_outDropped s + 1, ts_total := ts_total s + 1\<rparr>)"

definition flush_err :: "'c circbuf \<Rightarrow> string \<Rightarrow> stream_id \<Rightarrow> bool \<Rightarrow> 'c tail \<Rightarrow> 'c tail" where
  "flush_err C now x accepted s =
     (if NewBytesWritten (ts_err s) = 0 then s
      else if accepted
      then s\<lparr>ts_sent := ts_sent s @ [NewStderr now (si_taskID x) (si_attempt x) (si_index x) (cb_String C (bu_Buffer (ts_err s)))],
             ts_err := ResetNewBytesWritten (ts_err s)\<rparr>
      else s\<lparr>ts_errDropped := ts_errDropped s + 1, ts_total := ts_total s + 1\<rparr>)"

definition flushboth :: "'c circbuf \<Rightarrow> string \<Rightarrow> stream_id \<Rightarrow> bool \<Rightarrow> bool \<Rightarrow> 'c tail \<Rightarrow> 'c tail" where
  "flushboth C now x a b s = flush_err C now x b (flush_out C now x a s)"

text \<open>The cases of the loop: input on one of the channels, a tick, and the end.\<close>

datatype tail_input = OutBytes string | ErrBytes string | Tick | Done bool bool

inductive tail_step :: "'c circbuf \<Rightarrow> string \<Rightarrow> stream_id \<Rightarrow> 'c tail \<Rightarrow> tail_input \<Rightarrow> 'c tail \<Rightarrow> bool" for C now x where
  out_quiet: "\<not> ts_closed s \<Longrightarrow> tail_step C now x s (OutBytes b) (s\<lparr>ts_out := Buffer_Write C b (ts_out s)\<rparr>)"
| out_flush: "\<not> ts_closed s \<Longrightarrow> tail_step C now x s (OutBytes b) (flushboth C now x ao ae (s\<lparr>ts_out := Buffer_Write C b (ts_out s)\<rparr>))"
| err_quiet: "\<not> ts_closed s \<Longrightarrow> tail_step C now x s (ErrBytes b) (s\<lparr>ts_err := Buffer_Write C b (ts_err s)\<rparr>)"
| err_flush: "\<not> ts_closed s \<Longrightarrow> tail_step C now x s (ErrBytes b) (flushboth C now x ao ae (s\<lparr>ts_err := Buffer_Write C b (ts_err s)\<rparr>))"
| tick_quiet: "\<not> ts_closed s \<Longrightarrow> tail_step C now x s Tick s"
| tick_flush: "\<not> ts_closed s \<Longrightarrow> NewBytesWritten (ts_out s) + NewBytesWritten (ts_err s) > 0 \<Longrightarrow>
    tail_step C now x s Tick (flushboth C now x ao ae s)"
| finish: "\<not> ts_closed s \<Longrightarrow> tail_step C now x s (Done ao ae) ((flushboth C now x ao ae s)\<lparr>ts_closed := True\<rparr>)"

inductive_cases tail_stepE: "tail_step C now x s i s'"

inductive tail_run :: "'c circbuf \<Rightarrow> string \<Rightarrow> stream_id \<Rightarrow> 'c tail \<Rightarrow> tail_input list \<Rightarrow> 'c tail \<Rightarrow> bool" for C now x where
  start: "tail_run C now x s [] s"
| more: "tail_run C now x s is s' \<Longrightarrow> tail_step C now x s' i s'' \<Longrightarrow> tail_run C now x s (is @ [i]) s''"

definition StreamLogTail :: "'c circbuf \<Rightarrow> int \<Rightarrow> go_error + 'c tail" where
  "StreamLogTail C cap =
     (case NewBuffer C cap of
        Inl err \<Rightarrow> Inl err
      | Inr b \<Rightarrow> Inr \<lparr>ts_out = b, ts_err = b, ts_sent = [], ts_outDropped = 0, ts_errDropped = 0, ts_total = 0, ts_closed = False\<rparr>)"

text \<open>
  The goroutine that writes the events out, in the order of the channel until it is closed: the
  events, and the total with every event that was written without an error added.
\<close>

fun event_writer :: "(Event \<Rightarrow> 'w \<Rightarrow> 'w \<times> go_error option) \<Rightarrow> Event list \<Rightarrow> int \<Rightarrow> 'w \<Rightarrow> int \<times> 'w" where
  "event_writer out [] n w = (n, w)"
| "event_writer out (e # evs) n w =
     (case out e w of
        (w', None) \<Rightarrow> event_writer out evs (if ev_Type e \<in> {Type_EXECUTOR_STDOUT, Type_EXECUTOR_STDERR} then n + 1 else n) w'
      | (w', Some err) \<Rightarrow> event_writer out evs n w')"

text \<open>The bytes that a sequence of inputs writes to the two streams.\<close>

fun out_bytes :: "tail_input \<Rightarrow> string" where
  "out_bytes (OutBytes b) = b"
| "out_bytes _ = ''''"

fun err_bytes :: "tail_input \<Rightarrow> string" where
  "err_bytes (ErrBytes b) = b"
| "err_bytes _ = ''''"

definition tail_of :: "nat \<Rightarrow> string \<Rightarrow> string" where
  "tail_of n s = drop (length s - n) s"

definition stream_of :: "EventType \<Rightarrow> Event list \<Rightarrow> Event list" where
  "stream_of t evs = filter (\<lambda>e. ev_Type e = t) evs"

section \<open>What the circular buffer promises\<close>

locale circular =
  fixes C :: "'c circbuf" and written :: "'c \<Rightarrow> string" and cap :: "'c \<Rightarrow> nat"
  assumes new_buffer: "0 < n \<Longrightarrow> \<exists>b. cb_NewBuffer C n = Inr b \<and> written b = '''' \<and> cap b = nat n"
    and bad_buffer: "n \<le> 0 \<Longrightarrow> \<exists>err. cb_NewBuffer C n = Inl err"
    and written_write: "written (cb_Write C p b) = written b @ p" "cap (cb_Write C p b) = cap b"
    and string_tail: "cb_String C b = tail_of (cap b) (written b)"
    and total_written: "cb_TotalWritten C b = int (length (written b))"
begin

text \<open>
  The invariant: the buffers have seen the inputs; a counter at zero means that the last event of
  the stream shows the present tail (or nothing was written).
\<close>

definition tail_inv :: "nat \<Rightarrow> string \<Rightarrow> string \<Rightarrow> 'c tail \<Rightarrow> bool" where
  "tail_inv n outs errs s \<longleftrightarrow>
     written (bu_Buffer (ts_out s)) = outs \<and> written (bu_Buffer (ts_err s)) = errs \<and>
     cap (bu_Buffer (ts_out s)) = n \<and> cap (bu_Buffer (ts_err s)) = n \<and> 0 \<le> bu_newBytes (ts_out s) \<and> 0 \<le> bu_newBytes (ts_err s) \<and>
     (bu_newBytes (ts_out s) = 0 \<and> outs \<noteq> '''' \<longrightarrow>
        (\<exists>e evs. stream_of Type_EXECUTOR_STDOUT (ts_sent s) = evs @ [e] \<and> GetStdout e = tail_of n outs)) \<and>
     (bu_newBytes (ts_err s) = 0 \<and> errs \<noteq> '''' \<longrightarrow>
        (\<exists>e evs. stream_of Type_EXECUTOR_STDERR (ts_sent s) = evs @ [e] \<and> GetStderr e = tail_of n errs))"

lemma flush_out_inv:
  assumes "tail_inv n outs errs s"
  shows "tail_inv n outs errs (flush_out C now x a s)" "a \<Longrightarrow> bu_newBytes (ts_out (flush_out C now x a s)) = 0"
  using assms by (auto simp: tail_inv_def flush_out_def NewBytesWritten_def ResetNewBytesWritten_def stream_of_def NewStdout_def
      GetStdout_def string_tail)

lemma flush_err_inv:
  assumes "tail_inv n outs errs s"
  shows "tail_inv n outs errs (flush_err C now x a s)" "a \<Longrightarrow> bu_newBytes (ts_err (flush_err C now x a s)) = 0"
    "bu_newBytes (ts_out (flush_err C now x a s)) = bu_newBytes (ts_out s)"
  using assms by (auto simp: tail_inv_def flush_err_def NewBytesWritten_def ResetNewBytesWritten_def stream_of_def NewStderr_def
      GetStderr_def string_tail)

lemma flushboth_inv:
  assumes "tail_inv n outs errs s"
  shows "tail_inv n outs errs (flushboth C now x a b s)"
    "a \<Longrightarrow> b \<Longrightarrow> bu_newBytes (ts_out (flushboth C now x a b s)) = 0 \<and> bu_newBytes (ts_err (flushboth C now x a b s)) = 0"
  using flush_out_inv [OF assms, where now = now and x = x and a = a]
    flush_err_inv [OF flush_out_inv(1) [OF assms, where now = now and x = x and a = a], where now = now and x = x and a = b]
  by (auto simp: flushboth_def)

lemma write_inv:
  assumes "tail_inv n outs errs s"
  shows "tail_inv n (outs @ b) errs (s\<lparr>ts_out := Buffer_Write C b (ts_out s)\<rparr>)"
    "tail_inv n outs (errs @ b) (s\<lparr>ts_err := Buffer_Write C b (ts_err s)\<rparr>)"
proof -
  have zero: "0 \<le> k \<Longrightarrow> k + int (length b) = 0 \<longleftrightarrow> k = 0 \<and> b = ''''" for k by (cases b) auto
  show "tail_inv n (outs @ b) errs (s\<lparr>ts_out := Buffer_Write C b (ts_out s)\<rparr>)"
    "tail_inv n outs (errs @ b) (s\<lparr>ts_err := Buffer_Write C b (ts_err s)\<rparr>)"
    using assms unfolding tail_inv_def by (auto simp: Buffer_Write_def written_write zero)
qed

lemma tail_step_inv:
  assumes "tail_step C now x s i s'" "tail_inv n outs errs s"
  shows "tail_inv n (outs @ out_bytes i) (errs @ err_bytes i) s'"
proof -
  have closed: "tail_inv n outs errs (s\<lparr>ts_closed := c\<rparr>) = tail_inv n outs errs s" for s c by (simp add: tail_inv_def)
  from assms show ?thesis
    by (cases rule: tail_step.cases) (auto simp: closed intro: flushboth_inv(1) dest: write_inv)
qed

lemma tail_run_inv:
  "tail_run C now x s is s' \<Longrightarrow> tail_inv n '''' '''' s \<Longrightarrow> tail_inv n (concat (map out_bytes is)) (concat (map err_bytes is)) s'"
  by (induction rule: tail_run.induct) (auto dest: tail_step_inv)

lemma start_inv: "StreamLogTail C n = Inr s \<Longrightarrow> 0 < n \<Longrightarrow> tail_inv (nat n) '''' '''' s \<and> \<not> ts_closed s"
  using new_buffer [of n] by (auto simp: StreamLogTail_def NewBuffer_def tail_inv_def)

text \<open>After a last flush that was accepted, the last event of each stream has its whole tail.\<close>

lemma final_tail:
  assumes "StreamLogTail C n = Inr s" "0 < n" "tail_run C now x s (is @ [Done True True]) s'"
    "outs = concat (map out_bytes is)" "errs = concat (map err_bytes is)"
  shows "(outs \<noteq> '''' \<longrightarrow> (\<exists>e evs. stream_of Type_EXECUTOR_STDOUT (ts_sent s') = evs @ [e] \<and> GetStdout e = tail_of (nat n) outs)) \<and>
    (errs \<noteq> '''' \<longrightarrow> (\<exists>e evs. stream_of Type_EXECUTOR_STDERR (ts_sent s') = evs @ [e] \<and> GetStderr e = tail_of (nat n) errs))"
proof -
  from assms(3) obtain t where run: "tail_run C now x s is t" and last: "tail_step C now x t (Done True True) s'"
    by (cases rule: tail_run.cases) auto
  have t: "tail_inv (nat n) outs errs t" using tail_run_inv [OF run] start_inv [OF assms(1,2)] assms(4,5) by simp
  from last have s': "s' = (flushboth C now x True True t)\<lparr>ts_closed := True\<rparr>" by (cases rule: tail_step.cases) auto
  from flushboth_inv [OF t, where now = now and x = x and a = True and b = True] show ?thesis by (auto simp: tail_inv_def s')
qed

end

section \<open>A buffer that keeps everything\<close>

text \<open>The instance of the contract used for the witnesses: the size and all bytes written.\<close>

definition list_circbuf :: "(nat \<times> string) circbuf" where
  "list_circbuf = \<lparr>cb_NewBuffer = (\<lambda>n. if 0 < n then Inr (nat n, '''') else Inl (Errorf ''Size must be positive'')),
     cb_Write = (\<lambda>p (n, w). (n, w @ p)), cb_String = (\<lambda>(n, w). tail_of n w), cb_TotalWritten = (\<lambda>(n, w). int (length w)),
     cb_Reset = (\<lambda>(n, w). (n, ''''))\<rparr>"

interpretation list_circular: circular list_circbuf snd fst
  by unfold_locales (auto simp: list_circbuf_def split: prod.splits)

definition circbuf_laws :: "'c circbuf \<Rightarrow> ('c \<Rightarrow> string) \<Rightarrow> ('c \<Rightarrow> nat) \<Rightarrow> bool" where
  "circbuf_laws C written cap \<longleftrightarrow> circular C written cap"

section \<open>Properties\<close>

text \<open>
  C35: the streamed log is complete in the end.  However the writes, ticks and flushes interleave and
  whichever of them were dropped in between, when the last flush is accepted the last standard
  output event shows exactly the last \<open>n\<close> bytes of everything written to the standard output, and
  the same holds for the standard error.
\<close>

theorem StreamLogTail_final:
  assumes "circbuf_laws C written cap" "StreamLogTail C n = Inr s" "0 < n" "tail_run C now x s (is @ [Done True True]) s'"
  shows "(concat (map out_bytes is) \<noteq> '''' \<longrightarrow>
      GetStdout (last (stream_of Type_EXECUTOR_STDOUT (ts_sent s'))) = tail_of (nat n) (concat (map out_bytes is))) \<and>
    (concat (map err_bytes is) \<noteq> '''' \<longrightarrow>
      GetStderr (last (stream_of Type_EXECUTOR_STDERR (ts_sent s'))) = tail_of (nat n) (concat (map err_bytes is)))"
  using circular.final_tail [OF assms(1) [unfolded circbuf_laws_def] assms(2-4) refl refl] by auto

theorem StreamLogTail_final_witness:
  "\<exists>s s'. StreamLogTail list_circbuf 3 = Inr s \<and>
     tail_run list_circbuf ''now'' \<lparr>si_taskID = ''t1'', si_attempt = 0, si_index = 0\<rparr> s ([OutBytes ''abcde''] @ [Done True True]) s' \<and>
     GetStdout (last (stream_of Type_EXECUTOR_STDOUT (ts_sent s'))) = ''cde''"
proof -
  let ?x = "\<lparr>si_taskID = ''t1'', si_attempt = 0, si_index = 0\<rparr>"
  have laws: "circbuf_laws list_circbuf snd fst" unfolding circbuf_laws_def by unfold_locales
  obtain s where s: "StreamLogTail list_circbuf 3 = Inr s" "\<not> ts_closed s"
    by (auto simp: StreamLogTail_def NewBuffer_def list_circbuf_def)
  let ?s1 = "s\<lparr>ts_out := Buffer_Write list_circbuf ''abcde'' (ts_out s)\<rparr>"
  have "tail_run list_circbuf ''now'' ?x s ([] @ [OutBytes ''abcde'']) ?s1"
    by (rule tail_run.more [OF tail_run.start tail_step.out_quiet]) (rule s(2))
  then have run: "tail_run list_circbuf ''now'' ?x s ([OutBytes ''abcde''] @ [Done True True]) ((flushboth list_circbuf ''now'' ?x True True ?s1)\<lparr>ts_closed := True\<rparr>)"
    using s(2) by (intro tail_run.more [of list_circbuf "''now''" ?x s "[OutBytes ''abcde'']" ?s1] tail_step.finish) simp_all
  from StreamLogTail_final [OF laws s(1) _ run] have
    "GetStdout (last (stream_of Type_EXECUTOR_STDOUT (ts_sent ((flushboth list_circbuf ''now'' ?x True True ?s1)\<lparr>ts_closed := True\<rparr>)))) = ''cde''"
    by (simp add: tail_of_def)
  with s(1) run show ?thesis by blast
qed

text \<open>
  Without a rate, the standard error is lost.  \<open>LogTail\<close> flushes the buffer of the standard
  output twice: the event for the standard error shows the standard output, and what was written to
  the standard error never appears.
\<close>

theorem LogTail_stderr_lost:
  assumes "circbuf_laws C written cap" "written (bu_Buffer out) \<noteq> ''''"
  shows "LogTail_events C now x out err =
    [NewStdout now (si_taskID x) (si_attempt x) (si_index x) (cb_String C (bu_Buffer out)),
     NewStderr now (si_taskID x) (si_attempt x) (si_index x) (cb_String C (bu_Buffer out))]"
  using circular.total_written [OF assms(1) [unfolded circbuf_laws_def], of "bu_Buffer out"] assms(2)
  by (simp add: LogTail_events_def flush_total_def map_filter_simps)

theorem LogTail_stderr_lost_witness:
  "LogTail_events list_circbuf ''now'' \<lparr>si_taskID = ''t1'', si_attempt = 0, si_index = 0\<rparr>
     \<lparr>bu_Buffer = (9, ''out''), bu_newBytes = 3\<rparr> \<lparr>bu_Buffer = (9, ''err''), bu_newBytes = 3\<rparr> =
   [NewStdout ''now'' ''t1'' 0 0 ''out'', NewStderr ''now'' ''t1'' 0 0 ''out'']"
proof -
  have laws: "circbuf_laws list_circbuf snd fst" unfolding circbuf_laws_def by unfold_locales
  from LogTail_stderr_lost [OF laws, of "\<lparr>bu_Buffer = (9, ''out''), bu_newBytes = 3\<rparr>"] show ?thesis
    by (simp add: list_circbuf_def tail_of_def)
qed

end
