(* ===== verification/Hpc.thy ===== *)
theory Hpc
  imports Task_Service Fsutil
begin

text \<open>
  The backend shared by the batch schedulers, \<open>src/compute/hpc_backend.go\<close>: submission through a
  templated script, cancellation, and the reconciliation of the states in the database with the
  states that the scheduler reports.

  The commands of the scheduler, the files, the templates and the configuration of the request are
  operations of a record; the task database is the one the backend is given.  A command may start
  workers that write events of their own: what the proofs ask of the operations is that they change
  tasks only along the accepted transitions.
\<close>

section \<open>The backend\<close>

record HPCTaskState =
  ht_ID :: string
  ht_TESState :: State
  ht_State :: string
  ht_Reason :: string
  ht_Remove :: bool

text \<open>A finished command: its standard output, its standard error and the error of \<open>Run\<close>.\<close>

type_synonym 's exec = "string \<Rightarrow> string list \<Rightarrow> 's \<Rightarrow> 's \<times> string \<times> string \<times> go_error option"

record SubmitArgs =
  sa_TaskId :: string
  sa_WorkDir :: string
  sa_Cpus :: "32 word"
  sa_RamGb :: real
  sa_DiskGb :: real
  sa_Zone :: string
  sa_Args :: string

text \<open>
  \<open>hpc_Parse\<close> and \<open>hpc_Execute\<close> are those of \<open>text/template\<close>: what was written, and the error.
  \<open>hpc_ConfigFile\<close> writes the configuration that the context of the request carries, if any, to a
  file.
\<close>

record 's HPCBackend =
  hpc_Name :: string
  hpc_SubmitCmd :: string
  hpc_CancelCmd :: string
  hpc_Template :: string
  hpc_WorkDir :: string
  hpc_Event :: "'s writer"
  hpc_GetTask :: "go_ctx \<Rightarrow> GetTaskRequest \<Rightarrow> 's \<Rightarrow> go_error + Task"
  hpc_ListTasks :: "go_ctx \<Rightarrow> ListTasksRequest \<Rightarrow> 's \<Rightarrow> go_error + ListTasksResponse"
  hpc_ExtractID :: "string \<Rightarrow> string"
  hpc_MapStates :: "string list \<Rightarrow> 's \<Rightarrow> 's \<times> (go_error + HPCTaskState list)"
  hpc_exec :: "'s exec"
  hpc_os :: "'s os"
  hpc_cwd :: string
  hpc_Parse :: "string \<Rightarrow> go_error option"
  hpc_Execute :: "string \<Rightarrow> SubmitArgs \<Rightarrow> string \<times> go_error option"
  hpc_ConfigFile :: "go_ctx \<Rightarrow> (string \<Rightarrow> 's \<Rightarrow> 's \<times> go_error option) option"

definition getBackendTaskID :: "Task \<Rightarrow> string \<Rightarrow> string" where
  "getBackendTaskID task backend =
     (case t_Logs task of [] \<Rightarrow> '''' | l # _ \<Rightarrow> gomap_str (tl_Metadata l) (backend @ ''_id''))"

section \<open>Submission and cancellation\<close>

definition submit_args :: "Task \<Rightarrow> string \<Rightarrow> string \<Rightarrow> SubmitArgs" where
  "submit_args task workdir args =
     (let res = (case t_Resources task of None \<Rightarrow> empty_resources | Some r \<Rightarrow> r)
      in \<lparr>sa_TaskId = t_Id task, sa_WorkDir = workdir, sa_Cpus = res_CpuCores res, sa_RamGb = res_RamGb res,
          sa_DiskGb = res_DiskGb res, sa_Zone = (case res_Zones res of [] \<Rightarrow> '''' | z # _ \<Rightarrow> z), sa_Args = args\<rparr>)"

text \<open>The configuration file and the argument that names it.\<close>

definition config_args :: "'s HPCBackend \<Rightarrow> go_ctx \<Rightarrow> string \<Rightarrow> 's \<Rightarrow> 's \<times> (go_error + string)" where
  "config_args b ctx workdir s =
     (case hpc_ConfigFile b ctx of
        None \<Rightarrow> (s, Inr '''')
      | Some toYaml \<Rightarrow>
          (let configFile = path_Join [workdir, ''config.yaml''] in
           case toYaml configFile s of
             (s', Some err) \<Rightarrow> (s', Inl err)
           | (s', None) \<Rightarrow> (s', Inr (''--config '' @ configFile))))"

definition setupTemplatedHPCSubmit :: "'s HPCBackend \<Rightarrow> go_ctx \<Rightarrow> Task \<Rightarrow> 's \<Rightarrow> 's \<times> (go_error + string)" where
  "setupTemplatedHPCSubmit b ctx task s =
     (let workdir = filepath_Abs (hpc_cwd b) (path_Join [hpc_WorkDir b, t_Id task]) in
      case EnsureDir (hpc_os b) workdir s of
        (s1, Some err) \<Rightarrow> (s1, Inl err)
      | (s1, None) \<Rightarrow>
          (let submitPath = path_Join [workdir, hpc_Name b @ ''.submit''] in
           case os_Create (hpc_os b) submitPath s1 of
             (s2, Some err) \<Rightarrow> (s2, Inl err)
           | (s2, None) \<Rightarrow>
               (case hpc_Parse b (hpc_Template b) of
                  Some err \<Rightarrow> (s2, Inl err)
                | None \<Rightarrow>
                    (case config_args b ctx workdir s2 of
                       (s3, Inl err) \<Rightarrow> (s3, Inl err)
                     | (s3, Inr args) \<Rightarrow>
                         (let written = hpc_Execute b (hpc_Template b) (submit_args task workdir args) in
                          case os_WriteFile (hpc_os b) submitPath (fst written) s3 of
                            (s4, Some err) \<Rightarrow> (s4, Inl err)
                          | (s4, None) \<Rightarrow> (s4, case snd written of Some err \<Rightarrow> Inl err | None \<Rightarrow> Inr submitPath))))))"

definition submit_failed :: "'s HPCBackend \<Rightarrow> string \<Rightarrow> go_ctx \<Rightarrow> Task \<Rightarrow> go_error \<Rightarrow> string \<Rightarrow> string \<Rightarrow> 's \<Rightarrow> 's" where
  "submit_failed b now ctx task err stderr stdout s =
     fst (hpc_Event b ctx
       (NewSystemLog now (t_Id task) 0 0 ''error'' (''error submitting task to '' @ hpc_Name b)
          [(''error'', error_string err), (''stderr'', stderr), (''stdout'', stdout)])
       (fst (hpc_Event b ctx (NewState now (t_Id task) SystemError) s)))"

definition hpc_Submit :: "'s HPCBackend \<Rightarrow> string \<Rightarrow> go_ctx \<Rightarrow> Task \<Rightarrow> 's \<Rightarrow> 's \<times> go_error option" where
  "hpc_Submit b now ctx task s =
     (case setupTemplatedHPCSubmit b ctx task s of
        (s1, Inl err) \<Rightarrow> (s1, Some err)
      | (s1, Inr submitPath) \<Rightarrow>
          (case hpc_exec b (hpc_SubmitCmd b) [submitPath] s1 of
             (s2, stdout, stderr, Some err) \<Rightarrow> (submit_failed b now ctx task err stderr stdout s2, Some err)
           | (s2, stdout, stderr, None) \<Rightarrow>
               hpc_Event b ctx (NewMetadata now (t_Id task) 0 [(hpc_Name b @ ''_id'', hpc_ExtractID b stdout)]) s2))"

definition hpc_Cancel :: "'s HPCBackend \<Rightarrow> go_ctx \<Rightarrow> string \<Rightarrow> 's \<Rightarrow> 's \<times> go_error option" where
  "hpc_Cancel b ctx taskID s =
     (case hpc_GetTask b ctx \<lparr>gt_Id = taskID, gt_View = View_String Basic\<rparr> s of
        Inl err \<Rightarrow> (s, Some err)
      | Inr task \<Rightarrow>
          (let backendID = getBackendTaskID task (hpc_Name b) in
           if backendID = '''' then (s, Some (Errorf (''no '' @ hpc_Name b @ ''_id found in metadata for task '' @ taskID)))
           else (case hpc_exec b (hpc_CancelCmd b) [backendID] s of (s', _, _, err) \<Rightarrow> (s', err))))"

text \<open>A creation event without a task would be a nil dereference.\<close>

definition hpc_WriteEvent :: "'s HPCBackend \<Rightarrow> string \<Rightarrow> 's writer" where
  "hpc_WriteEvent b now ctx ev s =
     (if ev_Type ev = Type_TASK_CREATED
      then (case GetTask_of ev of Inl err \<Rightarrow> (s, Some err) | Inr task \<Rightarrow> hpc_Submit b now ctx task s)
      else if ev_Type ev = Type_TASK_STATE \<and> GetState ev = Canceled then hpc_Cancel b ctx (ev_Id ev) s
      else (s, None))"

section \<open>Reconciliation\<close>

text \<open>The tasks of a page by the identifier of the scheduler, and those identifiers.\<close>

fun collect_ids :: "string \<Rightarrow> Task list \<Rightarrow> Task gomap \<Rightarrow> string list \<Rightarrow> Task gomap \<times> string list" where
  "collect_ids name [] tmap ids = (tmap, ids)"
| "collect_ids name (t # ts) tmap ids =
     (let bid = getBackendTaskID t name in
      if bid \<noteq> '''' then collect_ids name ts (gomap_set tmap bid t) (ids @ [bid]) else collect_ids name ts tmap ids)"

definition report_error :: "'s HPCBackend \<Rightarrow> string \<Rightarrow> go_ctx \<Rightarrow> Task \<Rightarrow> HPCTaskState \<Rightarrow> 's \<Rightarrow> 's" where
  "report_error b now ctx task t s =
     (let s1 = fst (hpc_Event b ctx (NewState now (t_Id task) SystemError) s);
          s2 = fst (hpc_Event b ctx
                 (NewSystemLog now (t_Id task) 0 0 ''error'' (hpc_Name b @ '' reports system error for task'')
                    [(''error'', ht_Reason t), (hpc_Name b @ ''_id'', ht_ID t), (hpc_Name b @ ''_state'', ht_State t)]) s1)
      in if ht_Remove t then fst (hpc_exec b (hpc_CancelCmd b) [ht_ID t] s2) else s2)"

fun report_states :: "'s HPCBackend \<Rightarrow> string \<Rightarrow> go_ctx \<Rightarrow> Task gomap \<Rightarrow> HPCTaskState list \<Rightarrow> 's \<Rightarrow> 's" where
  "report_states b now ctx tmap [] s = s"
| "report_states b now ctx tmap (t # ts) s =
     (case gomap_get tmap (ht_ID t) of
        None \<Rightarrow> report_states b now ctx tmap ts s
      | Some task \<Rightarrow>
          report_states b now ctx tmap ts (if ht_TESState t = SystemError then report_error b now ctx task t s else s))"

text \<open>
  The loop over the pages of one state.  It returns whether the next state follows: an error of
  the database or of the scheduler ends the tick.  The loop ends a state only with an empty page
  token, with which the next state starts.
\<close>

definition page_request :: "State \<Rightarrow> string \<Rightarrow> ListTasksRequest" where
  "page_request st pageToken = \<lparr>lt_NamePrefix = '''', lt_State = st, lt_TagKey = [], lt_TagValue = [], lt_PageSize = 100,
     lt_PageToken = pageToken, lt_View = View_String Basic\<rparr>"

partial_function (option) reconcile_pages ::
    "'s HPCBackend \<Rightarrow> string \<Rightarrow> go_ctx \<Rightarrow> State \<Rightarrow> string \<Rightarrow> 's \<Rightarrow> ('s \<times> bool) option" where
  "reconcile_pages b now ctx st pageToken s =
     (case hpc_ListTasks b ctx (page_request st pageToken) s of
        Inl err \<Rightarrow> Some (s, False)
      | Inr lresp \<Rightarrow>
          (let token = ltr_NextPageToken lresp;
               (tmap, ids) = collect_ids (hpc_Name b) (ltr_Tasks lresp) [] []
           in if ids = [] then if token = '''' then Some (s, True) else reconcile_pages b now ctx st token s
              else (case hpc_MapStates b ids s of
                      (s1, Inl err) \<Rightarrow> Some (s1, False)
                    | (s1, Inr bmap) \<Rightarrow>
                        (let s2 = report_states b now ctx tmap bmap s1 in
                         if token = '''' then Some (s2, True) else reconcile_pages b now ctx st token s2))))"

fun reconcile_states :: "'s HPCBackend \<Rightarrow> string \<Rightarrow> go_ctx \<Rightarrow> State list \<Rightarrow> 's \<Rightarrow> 's option" where
  "reconcile_states b now ctx [] s = Some s"
| "reconcile_states b now ctx (st # sts) s =
     (case reconcile_pages b now ctx st '''' s of
        None \<Rightarrow> None
      | Some (s', True) \<Rightarrow> reconcile_states b now ctx sts s'
      | Some (s', False) \<Rightarrow> Some s')"

definition reconcile_tick :: "'s HPCBackend \<Rightarrow> string \<Rightarrow> go_ctx \<Rightarrow> 's \<Rightarrow> 's option" where
  "reconcile_tick b now ctx s = reconcile_states b now ctx [Queued, Initializing, Running] s"

text \<open>\<open>Reconcile\<close>: one tick for every time of the ticker until the context is done.\<close>

fun hpc_Reconcile :: "'s HPCBackend \<Rightarrow> go_ctx \<Rightarrow> string list \<Rightarrow> 's \<Rightarrow> 's option" where
  "hpc_Reconcile b ctx [] s = Some s"
| "hpc_Reconcile b ctx (now # ticks) s =
     (case reconcile_tick b now ctx s of None \<Rightarrow> None | Some s' \<Rightarrow> hpc_Reconcile b ctx ticks s')"

section \<open>What the environment promises\<close>

text \<open>
  The backend on a database that can be listed: the commands, the files and the scheduler's answers
  move tasks only along accepted transitions, for instance by a worker that they start.
\<close>

locale hpc_backend = task_listing "hpc_Event b" state_of inv "hpc_GetTask b" "hpc_ListTasks b"
  for b :: "'s HPCBackend" and state_of and inv +
  assumes exec_evolves: "evolves state_of inv s (fst (hpc_exec b cmd args s))"
    and files_evolve: "evolves state_of inv s (fst (os_MkdirAll (hpc_os b) p s))" "evolves state_of inv s (fst (os_Create (hpc_os b) p s))"
      "evolves state_of inv s (fst (os_WriteFile (hpc_os b) p text s))"
    and config_evolves: "hpc_ConfigFile b ctx = Some toYaml \<Longrightarrow> evolves state_of inv s (fst (toYaml p s))"
    and states_evolve: "evolves state_of inv s (fst (hpc_MapStates b ids s))"
begin

lemma exec_step: "hpc_exec b cmd args s = (s', r) \<Longrightarrow> evolves state_of inv s s'"
  using exec_evolves [of s cmd args] by simp

lemma setup_evolves: "evolves state_of inv s (fst (setupTemplatedHPCSubmit b ctx task s))"
proof -
  have dir: "evolves state_of inv s (fst (EnsureDir (hpc_os b) p s))" for p s
    using files_evolve(1) by (auto simp: EnsureDir_def split: prod.splits option.splits)
  have conf: "evolves state_of inv s (fst (config_args b ctx p s))" for p s
    using config_evolves [of ctx] by (auto simp: config_args_def Let_def split: prod.splits option.splits) (metis fst_conv)+
  show ?thesis
    unfolding setupTemplatedHPCSubmit_def Let_def
    by (auto intro!: evolves_case dir files_evolve(2,3) conf split: option.split sum.split)
qed

lemma log_evolves: "evolves state_of inv s (fst (hpc_Event b ctx (NewSystemLog now i a k lvl msg flds) s))"
  by (rule put_evolves) (simp add: NewSystemLog_def)

lemma state_evolves: "evolves state_of inv s (fst (hpc_Event b ctx (NewState now i st) s))"
  by (rule put_evolves) (simp add: NewState_def)

lemma metadata_evolves: "evolves state_of inv s (fst (hpc_Event b ctx (NewMetadata now i a m) s))"
  by (rule put_evolves) (simp add: NewMetadata_def)

lemma submit_evolves: "evolves state_of inv s (fst (hpc_Submit b now ctx task s))"
proof -
  have failed: "evolves state_of inv s (submit_failed b now ctx task err stderr stdout s)" for err stderr stdout s
    unfolding submit_failed_def by (rule evolves_trans [OF state_evolves log_evolves])
  show ?thesis
    unfolding hpc_Submit_def
    by (auto intro!: evolves_case setup_evolves failed metadata_evolves exec_evolves split: option.split sum.split)
qed

lemma WriteEvent_evolves: "evolves state_of inv s (fst (hpc_WriteEvent b now ctx ev s))"
  using submit_evolves
  by (auto simp: hpc_WriteEvent_def hpc_Cancel_def Let_def split: prod.splits option.splits sum.splits dest: exec_step)

lemma report_evolves: "evolves state_of inv s (report_states b now ctx tmap ts s)"
proof -
  have one: "evolves state_of inv s (report_error b now ctx task t s)" for task t s
    unfolding report_error_def Let_def
    using evolves_trans [OF state_evolves log_evolves] evolves_trans [OF evolves_trans [OF state_evolves log_evolves] exec_evolves]
    by simp
  show ?thesis
    by (induction ts arbitrary: s) (auto split: option.splits intro: evolves_trans [OF one])
qed

end

end
