(* ===== verification/Hpc_Reconcile.thy ===== *)
theory Hpc_Reconcile
  imports Hpc
begin

text \<open>
  One tick of the reconciliation of \<open>src/compute/hpc_backend.go\<close> does what its documentation says:
  a task that is queued, initializing or running becomes a system error exactly if the scheduler
  reports its job as failed, although the pages are read while the states change.

  The locale \<open>reconciler\<close> states what the loop relies on: exact pages, writes that succeed and a
  scheduler that answers.  The Badger database provides it.
\<close>

section \<open>Identifiers of a page\<close>

text \<open>The tasks in a state that follow a page token, newest first.\<close>

definition ids_after :: "(string \<Rightarrow> State option) \<Rightarrow> State \<Rightarrow> string \<Rightarrow> string list" where
  "ids_after S st tok = filter (\<lambda>i. S i = Some st \<and> (tok = '''' \<or> i < tok)) (rev (sorted_list_of_set (dom S)))"

definition next_token :: "string list \<Rightarrow> string" where
  "next_token ids = (if 100 \<le> length ids then ids ! 99 else '''')"

lemma rev_sorted_desc: "sorted_wrt (>) (rev (sorted_list_of_set (A :: string set)))"
  by (simp add: sorted_wrt_rev)

lemma set_ids_after: "finite (dom S) \<Longrightarrow> set (ids_after S st tok) = {i. S i = Some st \<and> (tok = '''' \<or> i < tok)}"
  by (auto simp: ids_after_def)

lemma ids_after_next:
  assumes fin: "finite (dom S)" and long: "100 \<le> length (ids_after S st tok)" and tok: "next_token (ids_after S st tok) \<noteq> ''''"
    and same: "dom S' = dom S" "\<And>i. i < next_token (ids_after S st tok) \<Longrightarrow> S' i = S i"
  shows "ids_after S' st (next_token (ids_after S st tok)) = drop 100 (ids_after S st tok)"
proof -
  let ?xs = "rev (sorted_list_of_set (dom S))" and ?P = "\<lambda>i. S i = Some st \<and> (tok = '''' \<or> i < tok)"
  let ?t = "next_token (ids_after S st tok)"
  have t: "?t = filter ?P ?xs ! (100 - 1)" using long by (simp add: next_token_def ids_after_def)
  have in_ids: "?t \<in> set (ids_after S st tok)" using long by (simp add: next_token_def)
  have "drop 100 (filter ?P ?xs) = filter ?P (filter (\<lambda>i. i < ?t) ?xs)"
    unfolding t by (rule desc_page [OF rev_sorted_desc]) (use long in \<open>simp_all add: ids_after_def\<close>)
  also have "\<dots> = filter (\<lambda>i. S' i = Some st \<and> (?t = '''' \<or> i < ?t)) ?xs"
    using in_ids same(2) tok by (auto simp: set_ids_after [OF fin] intro!: filter_cong)
  finally show ?thesis by (simp add: ids_after_def same(1))
qed

text \<open>The last page is the rest; after another page the rest follows, whatever happens to the tasks of the page.\<close>

lemma ids_after_desc: "sorted_wrt (>) (ids_after S st tok)"
  unfolding ids_after_def by (rule sorted_wrt_filter [OF rev_sorted_desc])

lemma last_page: "next_token (ids_after S st tok) = '''' \<Longrightarrow> take 100 (ids_after S st tok) = ids_after S st tok"
proof -
  let ?ids = "ids_after S st tok"
  assume tok: "next_token ?ids = ''''"
  have "\<not> 100 < length ?ids"
  proof
    assume "100 < length ?ids"
    with tok sorted_wrt_nth_less [OF ids_after_desc, of 99 100 S st tok] show False by (simp add: next_token_def)
  qed
  then show ?thesis by simp
qed

lemma next_page:
  assumes fin: "finite (dom S)" and tok: "next_token (ids_after S st tok) \<noteq> ''''"
    and same: "dom S' = dom S" "\<And>i. i \<notin> set (take 100 (ids_after S st tok)) \<Longrightarrow> S' i = S i"
  shows "ids_after S' st (next_token (ids_after S st tok)) = drop 100 (ids_after S st tok)"
    and "next_token (ids_after S st tok) \<in> dom S'" and "100 \<le> length (ids_after S st tok)"
proof -
  let ?ids = "ids_after S st tok"
  let ?t = "next_token ?ids"
  show long: "100 \<le> length ?ids" using tok by (auto simp: next_token_def split: if_splits)
  have t: "?t = ?ids ! 99" using long by (simp add: next_token_def)
  have above: "i \<notin> set (take 100 ?ids)" if "i < ?t" for i
  proof
    assume "i \<in> set (take 100 ?ids)"
    then obtain k where k: "k < 100" "i = ?ids ! k" by (auto simp: in_set_conv_nth)
    with sorted_wrt_nth_less [OF ids_after_desc, of k 99 S st tok] long that show False by (cases "k = 99") (auto simp: t)
  qed
  show "ids_after S' st ?t = drop 100 ?ids"
    using same(2) above by (intro ids_after_next [OF fin long tok same(1)]) blast
  have "?t \<in> set ?ids" unfolding t using long by simp
  then show "?t \<in> dom S'" unfolding same(1) by (auto simp: set_ids_after [OF fin])
qed

section \<open>The tasks of a page\<close>

lemma collect_ids_set:
  "collect_ids name ts m ids = (m', ids') \<Longrightarrow>
     set ids' = set ids \<union> {k. k \<noteq> '''' \<and> (\<exists>t\<in>set ts. getBackendTaskID t name = k)}"
  by (induction ts arbitrary: m ids) (auto simp: Let_def split: if_splits)

lemma collect_ids_sound:
  "collect_ids name ts m ids = (m', ids') \<Longrightarrow> gomap_get m' k = Some t \<Longrightarrow>
     gomap_get m k = Some t \<or> (t \<in> set ts \<and> getBackendTaskID t name = k \<and> k \<noteq> '''')"
proof (induction ts arbitrary: m ids)
  case (Cons a ts)
  show ?case
  proof (cases "getBackendTaskID a name = ''''")
    case True
    with Cons.IH [of m ids] Cons.prems show ?thesis by auto
  next
    case False
    with Cons.IH [of "gomap_set m (getBackendTaskID a name) a" "ids @ [getBackendTaskID a name]"] Cons.prems
    show ?thesis by (auto simp: Let_def gomap_simps split: if_splits)
  qed
qed simp

lemma collect_ids_complete:
  assumes "collect_ids name ts m ids = (m', ids')"
    and "t \<in> set ts \<or> gomap_get m (getBackendTaskID t name) = Some t" "getBackendTaskID t name \<noteq> ''''"
    and "\<forall>u\<in>set ts. getBackendTaskID u name = getBackendTaskID t name \<longrightarrow> u = t"
  shows "gomap_get m' (getBackendTaskID t name) = Some t"
  using assms by (induction ts arbitrary: m ids) (auto simp: Let_def gomap_simps split: if_splits)

section \<open>The contract of a tick\<close>

definition active :: "State \<Rightarrow> bool" where
  "active st \<longleftrightarrow> st \<in> {Queued, Initializing, Running}"

lemma active_step: "active st \<Longrightarrow> state_step st SystemError"
  by (auto simp: active_def state_step_iff ValidateTransition_def)

text \<open>Nothing that the loop looks at has changed.\<close>

definition same_tasks ::
    "('s \<Rightarrow> string \<Rightarrow> State option) \<Rightarrow> ('s \<Rightarrow> string \<Rightarrow> string) \<Rightarrow> ('s \<Rightarrow> bool) \<Rightarrow> 's \<Rightarrow> 's \<Rightarrow> bool" where
  "same_tasks state_of bid_of I s s' \<longleftrightarrow> I s' \<and> state_of s' = state_of s \<and> bid_of s' = bid_of s"

locale reconciler =
  fixes b :: "'s HPCBackend" and ctx :: go_ctx
    and state_of :: "'s \<Rightarrow> string \<Rightarrow> State option" and bid_of :: "'s \<Rightarrow> string \<Rightarrow> string" and inv :: "'s \<Rightarrow> bool"
    and failed :: "string \<Rightarrow> bool"
  assumes finite_tasks: "inv s \<Longrightarrow> finite (dom (state_of s))"
    and page: "inv s \<Longrightarrow> st \<noteq> Unknown \<Longrightarrow> tok = '''' \<or> tok \<in> dom (state_of s) \<Longrightarrow>
      \<exists>r. hpc_ListTasks b ctx (page_request st tok) s = Inr r \<and>
        map t_Id (ltr_Tasks r) = take 100 (ids_after (state_of s) st tok) \<and>
        ltr_NextPageToken r = next_token (ids_after (state_of s) st tok) \<and>
        (\<forall>t\<in>set (ltr_Tasks r). getBackendTaskID t (hpc_Name b) = bid_of s (t_Id t))"
    and put_error: "inv s \<Longrightarrow> state_of s i = Some st \<Longrightarrow> state_step st SystemError \<Longrightarrow>
      s' = fst (hpc_Event b ctx (NewState now i SystemError) s) \<Longrightarrow>
      inv s' \<and> state_of s' = (state_of s)(i \<mapsto> SystemError) \<and> bid_of s' = bid_of s"
    and put_log: "inv s \<Longrightarrow> same_tasks state_of bid_of inv s (fst (hpc_Event b ctx (NewSystemLog now i a k lvl msg flds) s))"
    and exec_same: "inv s \<Longrightarrow> same_tasks state_of bid_of inv s (fst (hpc_exec b cmd args s))"
    and answers: "inv s \<Longrightarrow> \<exists>s' ans. hpc_MapStates b ids s = (s', Inr ans) \<and> same_tasks state_of bid_of inv s s' \<and>
      (\<forall>k\<in>set ids. (\<exists>t\<in>set ans. ht_ID t = k \<and> ht_TESState t = SystemError) \<longleftrightarrow> failed k)"
begin

definition doomed :: "'s \<Rightarrow> string \<Rightarrow> bool" where
  "doomed s i \<longleftrightarrow> bid_of s i \<noteq> '''' \<and> failed (bid_of s i)"

definition marked :: "'s \<Rightarrow> (string \<Rightarrow> bool) \<Rightarrow> 's \<Rightarrow> bool" where
  "marked s P s' \<longleftrightarrow> inv s' \<and> bid_of s' = bid_of s \<and> state_of s' = (\<lambda>i. if P i then Some SystemError else state_of s i)"

lemma same_marked: "same_tasks state_of bid_of inv s s' \<Longrightarrow> marked s (\<lambda>_. False) s'"
  by (simp add: same_tasks_def marked_def)

lemma marked_trans: "marked s P s1 \<Longrightarrow> marked s1 Q s2 \<Longrightarrow> marked s (\<lambda>i. P i \<or> Q i) s2"
  by (auto simp: marked_def)

lemma report_error_exact:
  assumes "inv s" "state_of s (t_Id task) = Some st" "state_step st SystemError"
  shows "marked s (\<lambda>i. i = t_Id task) (report_error b now ctx task t s)"
proof -
  define s1 where "s1 = fst (hpc_Event b ctx (NewState now (t_Id task) SystemError) s)"
  have 1: "marked s (\<lambda>i. i = t_Id task) s1"
    using put_error [OF assms s1_def] by (auto simp: marked_def fun_eq_iff)
  define s2 where "s2 = fst (hpc_Event b ctx (NewSystemLog now (t_Id task) 0 0 ''error'' (hpc_Name b @ '' reports system error for task'')
     [(''error'', ht_Reason t), (hpc_Name b @ ''_id'', ht_ID t), (hpc_Name b @ ''_state'', ht_State t)]) s1)"
  have 2: "marked s (\<lambda>i. i = t_Id task) s2"
    using marked_trans [OF 1 same_marked [OF put_log]] 1 by (simp add: s2_def marked_def)
  have "marked s (\<lambda>i. i = t_Id task) (fst (hpc_exec b cmd args s2))" for cmd args
    using marked_trans [OF 2 same_marked [OF exec_same]] 2 by (simp add: marked_def)
  with 2 show ?thesis by (simp add: report_error_def Let_def s1_def [symmetric] s2_def [symmetric])
qed

lemma report_states_exact:
  assumes "inv s" "\<And>k task. gomap_get tmap k = Some task \<Longrightarrow> \<exists>st. state_of s (t_Id task) = Some st \<and> state_step st SystemError"
  shows "marked s (\<lambda>i. \<exists>t\<in>set ts. \<exists>task. gomap_get tmap (ht_ID t) = Some task \<and> t_Id task = i \<and> ht_TESState t = SystemError)
    (report_states b now ctx tmap ts s)"
  using assms
proof (induction ts arbitrary: s)
  case Nil
  then show ?case by (simp add: marked_def)
next
  case (Cons t ts)
  let ?P = "\<lambda>ts i. \<exists>t\<in>set ts. \<exists>task. gomap_get tmap (ht_ID t) = Some task \<and> t_Id task = i \<and> ht_TESState t = SystemError"
  show ?case
  proof (cases "\<exists>task. gomap_get tmap (ht_ID t) = Some task \<and> ht_TESState t = SystemError")
    case False
    then have "?P (t # ts) = ?P ts" "report_states b now ctx tmap (t # ts) s = report_states b now ctx tmap ts s"
      by (auto split: option.splits)
    with Cons.IH [OF Cons.prems] show ?thesis by simp
  next
    case True
    then obtain task where task: "gomap_get tmap (ht_ID t) = Some task" "ht_TESState t = SystemError" by blast
    let ?s = "report_error b now ctx task t s"
    from Cons.prems(2) [OF task(1)] obtain st where "state_of s (t_Id task) = Some st" "state_step st SystemError" by blast
    from report_error_exact [OF Cons.prems(1) this] have 1: "marked s (\<lambda>i. i = t_Id task) ?s" .
    have stay: "\<exists>st. state_of ?s (t_Id u) = Some st \<and> state_step st SystemError" if "gomap_get tmap k = Some u" for k u
      using Cons.prems(2) [OF that] 1 by (auto simp: marked_def state_step_iff ValidateTransition_def)
    have "inv ?s" using 1 by (simp add: marked_def)
    from marked_trans [OF 1 Cons.IH [OF this stay]]
    have "marked s (\<lambda>i. i = t_Id task \<or> ?P ts i) (report_states b now ctx tmap ts ?s)" .
    moreover have "(\<lambda>i. i = t_Id task \<or> ?P ts i) = ?P (t # ts)" using task by (auto simp: fun_eq_iff)
    ultimately show ?thesis using task by simp
  qed
qed

text \<open>No two active tasks share a job of the scheduler.\<close>

definition distinct_jobs :: "'s \<Rightarrow> bool" where
  "distinct_jobs s \<longleftrightarrow> (\<forall>i j st st'. state_of s i = Some st \<and> active st \<and> state_of s j = Some st' \<and> active st' \<and>
     bid_of s i \<noteq> '''' \<and> bid_of s i = bid_of s j \<longrightarrow> i = j)"

lemma distinct_jobs_marked:
  assumes "marked s P s'" "distinct_jobs s"
  shows "distinct_jobs s'"
proof -
  have "state_of s i = Some st" if "state_of s' i = Some st" "active st" for i st
    using assms(1) that by (auto simp: marked_def active_def split: if_splits)
  moreover have "bid_of s' = bid_of s" using assms(1) by (simp add: marked_def)
  ultimately show ?thesis using assms(2) unfolding distinct_jobs_def by metis
qed

definition page_step :: "string \<Rightarrow> Task list \<Rightarrow> 's \<Rightarrow> 's" where
  "page_step now tasks s =
     (let (tmap, ids) = collect_ids (hpc_Name b) tasks [] [] in
      if ids = [] then s
      else (case hpc_MapStates b ids s of (s1, Inl err) \<Rightarrow> s1 | (s1, Inr bmap) \<Rightarrow> report_states b now ctx tmap bmap s1))"

lemma pages_unfold:
  assumes "inv s" "hpc_ListTasks b ctx (page_request st tok) s = Inr r"
  shows "reconcile_pages b now ctx st tok s =
    (if ltr_NextPageToken r = '''' then Some (page_step now (ltr_Tasks r) s, True)
     else reconcile_pages b now ctx st (ltr_NextPageToken r) (page_step now (ltr_Tasks r) s))"
proof -
  obtain tmap ids where c: "collect_ids (hpc_Name b) (ltr_Tasks r) [] [] = (tmap, ids)" by force
  from answers [OF assms(1), of ids] obtain s' ans where "hpc_MapStates b ids s = (s', Inr ans)" by blast
  with assms(2) c show ?thesis
    by (subst reconcile_pages.simps) (simp add: page_step_def Let_def)
qed

lemma page_step_exact:
  assumes inv: "inv s" and act: "active st" and jobs: "distinct_jobs s"
    and r: "\<And>t. t \<in> set tasks \<Longrightarrow> state_of s (t_Id t) = Some st \<and> getBackendTaskID t (hpc_Name b) = bid_of s (t_Id t)"
    and dist: "distinct (map t_Id tasks)"
  shows "marked s (\<lambda>i. i \<in> t_Id ` set tasks \<and> doomed s i) (page_step now tasks s)"
proof -
  obtain tmap ids where c: "collect_ids (hpc_Name b) tasks [] [] = (tmap, ids)" by force
  note set_ids = collect_ids_set [OF c, simplified]
  from answers [OF inv, of ids] obtain s1 ans where ans: "hpc_MapStates b ids s = (s1, Inr ans)"
    "same_tasks state_of bid_of inv s s1"
    "\<forall>k\<in>set ids. (\<exists>t\<in>set ans. ht_ID t = k \<and> ht_TESState t = SystemError) \<longleftrightarrow> failed k" by blast
  show ?thesis
  proof (cases "ids = []")
    case True
    then have "\<not> (i \<in> t_Id ` set tasks \<and> doomed s i)" for i using set_ids r by (auto simp: doomed_def)
    with True c inv show ?thesis by (auto simp: page_step_def marked_def fun_eq_iff)
  next
    case False
    have tmap: "gomap_get tmap k = Some t \<longleftrightarrow> t \<in> set tasks \<and> bid_of s (t_Id t) = k \<and> k \<noteq> ''''" for k t
    proof
      assume "gomap_get tmap k = Some t"
      from collect_ids_sound [OF c this] r show "t \<in> set tasks \<and> bid_of s (t_Id t) = k \<and> k \<noteq> ''''" by auto
    next
      assume t: "t \<in> set tasks \<and> bid_of s (t_Id t) = k \<and> k \<noteq> ''''"
      have "u = t" if "u \<in> set tasks" "getBackendTaskID u (hpc_Name b) = getBackendTaskID t (hpc_Name b)" for u
        using that t r act jobs dist unfolding distinct_jobs_def distinct_map inj_on_def by metis
      with collect_ids_complete [OF c, of t] t r show "gomap_get tmap k = Some t" by auto
    qed
    let ?P = "\<lambda>i. \<exists>t\<in>set ans. \<exists>task. gomap_get tmap (ht_ID t) = Some task \<and> t_Id task = i \<and> ht_TESState t = SystemError"
    have "?P i \<longleftrightarrow> i \<in> t_Id ` set tasks \<and> doomed s i" for i
    proof -
      have "?P i \<longleftrightarrow> (\<exists>task\<in>set tasks. t_Id task = i \<and> bid_of s i \<noteq> '''' \<and> (\<exists>t\<in>set ans. ht_ID t = bid_of s i \<and> ht_TESState t = SystemError))"
        unfolding tmap by (intro iffI; elim bexE exE conjE; metis)
      also have "\<dots> \<longleftrightarrow> (\<exists>task\<in>set tasks. t_Id task = i \<and> doomed s i)"
        using ans(3) set_ids r by (fastforce simp: doomed_def)
      finally show ?thesis by auto
    qed
    then have P: "?P = (\<lambda>i. i \<in> t_Id ` set tasks \<and> doomed s i)" by (rule ext)
    have s1: "inv s1" "marked s (\<lambda>_. False) s1" using ans(2) by (auto simp: same_tasks_def marked_def)
    have "marked s1 ?P (report_states b now ctx tmap ans s1)"
      using s1 r active_step [OF act] by (intro report_states_exact) (auto simp: marked_def tmap)
    from marked_trans [OF s1(2) this] have "marked s ?P (report_states b now ctx tmap ans s1)" by simp
    with False c ans(1) show ?thesis unfolding P by (simp add: page_step_def)
  qed
qed

lemma pages_exact:
  assumes "inv s" "active st" "tok = '''' \<or> tok \<in> dom (state_of s)" "distinct_jobs s"
  shows "\<exists>s'. reconcile_pages b now ctx st tok s = Some (s', True) \<and>
    marked s (\<lambda>i. i \<in> set (ids_after (state_of s) st tok) \<and> doomed s i) s'"
  using assms
proof (induction "length (ids_after (state_of s) st tok)" arbitrary: s tok rule: less_induct)
  case less
  let ?ids = "ids_after (state_of s) st tok"
  note fin = finite_tasks [OF less.prems(1)]
  have "st \<noteq> Unknown" using less.prems(2) by (auto simp: active_def)
  from page [OF less.prems(1) this less.prems(3)] obtain r where
    r: "hpc_ListTasks b ctx (page_request st tok) s = Inr r" "map t_Id (ltr_Tasks r) = take 100 ?ids"
    "ltr_NextPageToken r = next_token ?ids" "\<forall>t\<in>set (ltr_Tasks r). getBackendTaskID t (hpc_Name b) = bid_of s (t_Id t)"
    by blast
  have img: "t_Id ` set (ltr_Tasks r) = set (take 100 ?ids)" using arg_cong [OF r(2), of set] by simp
  have listed: "state_of s (t_Id t) = Some st" if "t \<in> set (ltr_Tasks r)" for t
  proof -
    from that img have "t_Id t \<in> set (take 100 ?ids)" by (metis imageI)
    then have "t_Id t \<in> set ?ids" by (rule in_set_takeD)
    then show ?thesis by (simp add: set_ids_after [OF fin])
  qed
  have "distinct (map t_Id (ltr_Tasks r))" unfolding r(2) by (simp add: ids_after_def)
  from page_step_exact [OF less.prems(1,2,4) _ this, of now] listed r(4)
  have step: "marked s (\<lambda>i. i \<in> set (take 100 ?ids) \<and> doomed s i) (page_step now (ltr_Tasks r) s)" (is "marked s ?P ?s2")
    unfolding img by simp
  show ?case
  proof (cases "next_token ?ids = ''''")
    case True
    with step r(3) show ?thesis by (simp add: pages_unfold [OF less.prems(1) r(1)] last_page)
  next
    case False
    let ?t = "next_token ?ids"
    have dom: "dom (state_of ?s2) = dom (state_of s)"
      using step by (auto simp: marked_def set_ids_after [OF fin] dest!: in_set_takeD split: if_splits)
    have "state_of ?s2 i = state_of s i" if "i \<notin> set (take 100 ?ids)" for i using step that by (simp add: marked_def)
    from next_page [OF fin False dom this] have rest: "ids_after (state_of ?s2) st ?t = drop 100 ?ids"
      and tok: "?t \<in> dom (state_of ?s2)" and long: "100 \<le> length ?ids" by auto
    have inv2: "inv ?s2" "doomed ?s2 = doomed s" using step by (auto simp: marked_def doomed_def fun_eq_iff)
    have shorter: "length (ids_after (state_of ?s2) st ?t) < length ?ids" unfolding rest using long by simp
    from less.hyps [OF this inv2(1) less.prems(2) disjI2 [OF tok] distinct_jobs_marked [OF step less.prems(4)]]
    obtain s' where s': "reconcile_pages b now ctx st ?t ?s2 = Some (s', True)"
      "marked ?s2 (\<lambda>i. i \<in> set (drop 100 ?ids) \<and> doomed s i) s'"
      unfolding rest inv2 by blast
    have "set ?ids = set (take 100 ?ids) \<union> set (drop 100 ?ids)" by (metis append_take_drop_id set_append)
    then have "(\<lambda>i. ?P i \<or> i \<in> set (drop 100 ?ids) \<and> doomed s i) = (\<lambda>i. i \<in> set ?ids \<and> doomed s i)" by auto
    with marked_trans [OF step s'(2)] s'(1) r(3) False show ?thesis
      by (simp add: pages_unfold [OF less.prems(1) r(1)])
  qed
qed

text \<open>One tick, over the three active states.\<close>

lemma tick_exact:
  assumes "inv s" "distinct_jobs s"
  shows "\<exists>s'. reconcile_tick b now ctx s = Some s' \<and>
    marked s (\<lambda>i. (\<exists>st. state_of s i = Some st \<and> active st) \<and> doomed s i) s'"
proof -
  have pages: "\<exists>s'. reconcile_pages b now ctx st '''' s = Some (s', True) \<and> marked s (\<lambda>i. state_of s i = Some st \<and> doomed s i) s' \<and>
      distinct_jobs s'" if "inv s" "active st" "distinct_jobs s" for s st
    using pages_exact [OF that(1,2) _ that(3), of "''''" now] distinct_jobs_marked [OF _ that(3)]
    by (auto simp: set_ids_after [OF finite_tasks [OF that(1)]])
  have act: "active Queued" "active Initializing" "active Running" by (auto simp: active_def)
  from pages [OF assms(1) act(1) assms(2)] obtain s1 where 1: "reconcile_pages b now ctx Queued '''' s = Some (s1, True)"
    "marked s (\<lambda>i. state_of s i = Some Queued \<and> doomed s i) s1" "distinct_jobs s1" by blast
  have i1: "inv s1" using 1(2) by (simp add: marked_def)
  from pages [OF i1 act(2) 1(3)] obtain s2 where 2: "reconcile_pages b now ctx Initializing '''' s1 = Some (s2, True)"
    "marked s1 (\<lambda>i. state_of s1 i = Some Initializing \<and> doomed s1 i) s2" "distinct_jobs s2" by blast
  have i2: "inv s2" using 2(2) by (simp add: marked_def)
  from pages [OF i2 act(3) 2(3)] obtain s3 where 3: "reconcile_pages b now ctx Running '''' s2 = Some (s3, True)"
    "marked s2 (\<lambda>i. state_of s2 i = Some Running \<and> doomed s2 i) s3" by blast
  have "marked s (\<lambda>i. (\<exists>st. state_of s i = Some st \<and> active st) \<and> doomed s i) s3"
    using 1(2) 2(2) 3(2) by (auto simp: marked_def doomed_def active_def fun_eq_iff)
  with 1(1) 2(1) 3(1) show ?thesis by (simp add: reconcile_tick_def)
qed

end

section \<open>Badger provides the contract\<close>

text \<open>A store whose operations do not fail, and the database beside the rest of the world.\<close>

definition kv_reliable :: "('d, 'v) kv \<Rightarrow> bool" where
  "kv_reliable K \<longleftrightarrow>
     (\<forall>d. kv_readable K d) \<and> (\<forall>t. \<exists>v. kv_marshal K t = Inr v) \<and> (\<forall>d k v. \<exists>d'. kv_set K d k v = Inr d') \<and>
     (\<forall>d. \<exists>d'. kv_commit K d = Inr d')"

definition beside_put :: "'d writer \<Rightarrow> ('d \<times> 'w) writer" where
  "beside_put put ctx ev s = (case put ctx ev (fst s) of (d, r) \<Rightarrow> ((d, snd s), r))"

definition beside_list ::
    "(go_ctx \<Rightarrow> ListTasksRequest \<Rightarrow> 'd \<Rightarrow> go_error + ListTasksResponse) \<Rightarrow> go_ctx \<Rightarrow> ListTasksRequest \<Rightarrow> 'd \<times> 'w \<Rightarrow>
     go_error + ListTasksResponse" where
  "beside_list listing ctx req s = listing ctx req (fst s)"

definition beside :: "('w \<Rightarrow> 'w \<times> 'r) \<Rightarrow> 'd \<times> 'w \<Rightarrow> ('d \<times> 'w) \<times> 'r" where
  "beside f s = (case f (snd s) of (w, r) \<Rightarrow> ((fst s, w), r))"

lemma fst_beside [simp]: "fst (fst (beside f s)) = fst s"
  by (simp add: beside_def split: prod.split)

lemma beside_put_eq: "beside_put put ctx ev s = (s', r) \<longleftrightarrow> put ctx ev (fst s) = (fst s', r) \<and> snd s' = snd s"
  by (cases s') (auto simp: beside_put_def split: prod.splits)

lemma task_listing_beside:
  assumes "task_listing put state_of I get listing"
  shows "task_listing (beside_put put) (\<lambda>s. state_of (fst s)) (\<lambda>s. I (fst s)) (\<lambda>ctx req s. get ctx req (fst s)) (beside_list listing)"
proof -
  note db = task_listing.axioms(1) [OF assms]
  note st = task_db.axioms(1) [OF db]
  show ?thesis
    using task_store.write_inv [OF st] task_store.write_error [OF st] task_store.write_frame [OF st] task_store.write_state [OF st]
      task_store.write_other [OF st] task_db.get_state [OF db] task_db.get_missing [OF db]
      task_listing.finite_tasks [OF assms] task_listing.list_state [OF assms] task_listing.list_next [OF assms]
    by unfold_locales (simp_all add: beside_put_eq beside_list_def, (blast | metis)+)
qed

lemma evolves_beside: "fst s' = fst s \<Longrightarrow> evolves (\<lambda>s. state_of (fst s)) (\<lambda>s. I (fst s)) s s'"
  by (auto simp: evolves_def)

lemma beside_keeps: "beside f s = (s', r) \<Longrightarrow> fst s' = fst s"
  using fst_beside [of f s] by simp

definition job_id :: "('d, 'v) kv \<Rightarrow> string \<Rightarrow> 'd \<Rightarrow> string \<Rightarrow> string" where
  "job_id K name d i = (case badger_task K d i of None \<Rightarrow> '''' | Some t \<Rightarrow> getBackendTaskID t name)"

text \<open>
  The scheduler answers, reports a job as failed independently of the other jobs in the question, and
  neither its commands nor the others change the database.
\<close>

definition steady_scheduler :: "('d \<times> 'w) HPCBackend \<Rightarrow> (string \<Rightarrow> bool) \<Rightarrow> bool" where
  "steady_scheduler b failed \<longleftrightarrow>
     (\<forall>cmd args s. fst (fst (hpc_exec b cmd args s)) = fst s) \<and>
     (\<forall>ids s. \<exists>w ans. hpc_MapStates b ids s = ((fst s, w), Inr ans) \<and>
        (\<forall>k\<in>set ids. (\<exists>t\<in>set ans. ht_ID t = k \<and> ht_TESState t = SystemError) \<longleftrightarrow> failed k))"

lemma getBackendTaskID_at: "getBackendTaskID t name = gomap_str (tl_Metadata (tasklog_at t 0)) (name @ ''_id'')"
  by (cases "t_Logs t") (simp_all add: getBackendTaskID_def tasklog_at_def empty_tasklog_def gomap_str_def)

lemma getBackendTaskID_basic [simp]: "getBackendTaskID (GetBasicView t) name = getBackendTaskID t name"
  by (cases "t_Logs t") (simp_all add: getBackendTaskID_def GetBasicView_def basic_tasklog_def)

lemma getBackendTaskID_syslog [simp]: "getBackendTaskID (GetTaskLog t 0 (append_syslog m)) name = getBackendTaskID t name"
  by (simp add: getBackendTaskID_at tasklog_at_GetTaskLog append_syslog_def)

lemma getBackendTaskID_state [simp]: "getBackendTaskID (t\<lparr>t_State := st\<rparr>) name = getBackendTaskID t name"
  by (simp add: getBackendTaskID_def)

lemma reliable_write:
  assumes "kv_laws K" "backoff_law RN" "kv_reliable K" "badger_ok K d" "ev_Type ev \<noteq> Type_TASK_CREATED"
    "badger_task K d (ev_Id ev) = Some t" "badger_apply ev t = Inr t'" "badger_WriteEvent K RN mode None ev d = (d', r)"
  shows "r = None"
proof (rule Retry_rule [OF assms(2), where I = "\<lambda>s. kv_data K s = kv_data K d" and Q = "\<lambda>s' r. r = None"])
  show "Retry RN \<lparr>r_MaxTries = 50, r_ShouldRetry = Some badger_ShouldRetry\<rparr> (badger_writeEvent K mode None ev) d = (d', r)"
    using assms(8) by (simp add: badger_WriteEvent_def)
next
  fix s s' err
  assume same: "kv_data K s = kv_data K d" and run: "badger_writeEvent K mode None ev s = (s', err)"
  have task: "badger_task K s (ev_Id ev) = Some t" using assms(6) badger_task_cong [OF same] by simp
  have data: "kv_data K s (taskKey (ev_Id ev)) \<noteq> None" using task by (auto simp: badger_task_def split: option.splits)
  have "kv_readable K s" using assms(3) by (simp add: kv_reliable_def)
  then have get: "kv_get K s (taskKey (ev_Id ev)) = Inr True" and load: "load_task K s (taskKey (ev_Id ev)) = Inr t"
    using data load_task_eq [OF _ task] by (auto simp: kv_readable_def split: option.splits dest!: spec [of _ "taskKey (ev_Id ev)"])
  obtain v where v: "kv_marshal K t' = Inr v" using assms(3) unfolding kv_reliable_def by blast
  obtain d1 where d1: "kv_set K s (taskKey (t_Id t')) v = Inr d1" using assms(3) unfolding kv_reliable_def by blast
  obtain d2 where d2: "kv_commit K d1 = Inr d2" using assms(3) unfolding kv_reliable_def by blast
  have "badger_getTask K mode s (ev_Id ev) None = Inr t"
    using get load by (simp add: badger_getTask_def badger_isAccessible_def)
  with assms(5,7) v d1 d2 run show "err = None \<and> (err \<noteq> None \<longrightarrow> kv_data K s' = kv_data K d)"
    by (simp add: badger_writeEvent_def kv_Update_def badger_txn_def save_task_def wrap_err_def)
qed simp

lemma job_id_update:
  assumes "badger_task K d' = (badger_task K d)(i \<mapsto> t')" "badger_task K d i = Some t" "getBackendTaskID t' name = getBackendTaskID t name"
  shows "job_id K name d' = job_id K name d"
  using assms by (auto simp: job_id_def fun_eq_iff)

lemma badger_page_view:
  assumes "kv_laws K" "kv_reliable K" "badger_ok K d" "st \<noteq> Unknown" "tok = '''' \<or> tok \<in> dom (badger_state K d)"
  shows "\<exists>r. badger_ListTasks K mode None (page_request st tok\<lparr>lt_View := v\<rparr>) d = Inr r \<and>
    map t_Id (ltr_Tasks r) = take 100 (ids_after (badger_state K d) st tok) \<and>
    ltr_NextPageToken r = next_token (ids_after (badger_state K d) st tok) \<and>
    (v = View_String Basic \<longrightarrow> (\<forall>t\<in>set (ltr_Tasks r). getBackendTaskID t name = job_id K name d (t_Id t)))"
proof -
  let ?req = "page_request st tok\<lparr>lt_View := v\<rparr>"
  have dom: "dom (badger_state K d) = dom (badger_task K d)" by (auto simp: badger_state_def)
  have readable: "kv_readable K d" using assms(2) by (simp add: kv_reliable_def)
  have vis: "badger_visible K mode None ?req d i \<longleftrightarrow> badger_state K d i = Some st" for i
    using assms(4) by (auto simp: badger_visible_def badger_state_def page_request_def req_matches_def GetTags_def tags_match_def)
  have ids: "filter (badger_visible K mode None ?req d) (page_ids K d tok) = ids_after (badger_state K d) st tok" (is "_ = ?ids")
    by (auto simp: vis [abs_def] ids_after_def page_ids_def badger_ids_def dom filter_filter intro!: filter_cong)
  have n: "nat (GetPageSize (lt_PageSize ?req)) = 100" by (simp add: page_request_def GetPageSize_def)
  have "lt_PageToken ?req = tok" by (simp add: page_request_def)
  with badger_ListTasks_eq [OF assms(1,3) readable, of ?req mode None] assms(5) dom ids n
  have eq: "badger_ListTasks K mode None ?req d = Inr \<lparr>ltr_NextPageToken = (if 100 \<le> length ?ids then ?ids ! 99 else ''''),
      ltr_Tasks = map (viewed K ?req d) (take 100 ?ids)\<rparr>" by (simp add: Let_def)
  have "finite (dom (badger_state K d))" using badger_ids_sorted(2) [OF assms(1,3)] dom by (metis List.finite_set)
  then have stored: "\<exists>t. badger_task K d i = Some t \<and> t_Id t = i" if "i \<in> set (take 100 ?ids)" for i
    using in_set_takeD [OF that] badger_task_Id [OF assms(3)] by (auto simp: set_ids_after badger_state_def)
  have view: "t_Id (viewed K ?req d i) = i" "v = View_String Basic \<Longrightarrow> getBackendTaskID (viewed K ?req d i) name = job_id K name d i"
    if "i \<in> set (take 100 ?ids)" for i
    using stored [OF that] by (auto simp: viewed_def apply_view_def page_request_def job_id_def)
  show ?thesis
    using view unfolding eq by (auto simp: next_token_def intro!: map_idI)
qed

lemma badger_page:
  assumes "kv_laws K" "kv_reliable K" "badger_ok K d" "st \<noteq> Unknown" "tok = '''' \<or> tok \<in> dom (badger_state K d)"
  shows "\<exists>r. badger_ListTasks K mode None (page_request st tok) d = Inr r \<and>
    map t_Id (ltr_Tasks r) = take 100 (ids_after (badger_state K d) st tok) \<and>
    ltr_NextPageToken r = next_token (ids_after (badger_state K d) st tok) \<and>
    (\<forall>t\<in>set (ltr_Tasks r). getBackendTaskID t name = job_id K name d (t_Id t))"
proof -
  have "page_request st tok\<lparr>lt_View := View_String Basic\<rparr> = page_request st tok" by (simp add: page_request_def)
  with badger_page_view [OF assms, of mode "View_String Basic" name] show ?thesis by simp
qed

lemma badger_error_write:
  assumes laws: "kv_laws K" "backoff_law RN" "kv_reliable K" and ok: "badger_ok K d"
    and st: "badger_state K d i = Some st" "state_step st SystemError"
    and w: "badger_WriteEvent K RN mode None (NewState now i SystemError) d = (d', r)"
  shows "badger_ok K d'" "badger_state K d' = (badger_state K d)(i \<mapsto> SystemError)" "job_id K name d' = job_id K name d"
proof -
  from st(1) obtain t where t: "badger_task K d i = Some t" "t_State t = st" by (auto simp: badger_state_def)
  let ?ev = "NewState now i SystemError"
  have ev: "ev_Type ?ev \<noteq> Type_TASK_CREATED" "ev_Id ?ev = i" "badger_apply ?ev t = Inr (t\<lparr>t_State := SystemError\<rparr>)"
    using st(2) t(2) by (simp_all add: NewState_def badger_apply_def GetState_def state_step_iff)
  have "r = None" using reliable_write [OF laws ok ev(1) _ ev(3) w] t(1) ev(2) by simp
  with badger_WriteEvent_post [OF laws(1,2) ok w] ev t(1)
  have task: "badger_task K d' = (badger_task K d)(i \<mapsto> t\<lparr>t_State := SystemError\<rparr>)" and "badger_ok K d'"
    by (auto simp: badger_post_def badger_effect_def)
  then show "badger_ok K d'" "badger_state K d' = (badger_state K d)(i \<mapsto> SystemError)" "job_id K name d' = job_id K name d"
    using job_id_update [OF task t(1)] by (auto simp: badger_state_def fun_eq_iff)
qed

lemma badger_log_write:
  assumes laws: "kv_laws K" "backoff_law RN" and ok: "badger_ok K d"
    and w: "badger_WriteEvent K RN mode None (NewSystemLog now i a k lvl msg flds) d = (d', r)"
  shows "badger_ok K d'" "badger_state K d' = badger_state K d" "job_id K name d' = job_id K name d"
proof -
  let ?ev = "NewSystemLog now i a k lvl msg flds"
  note post = badger_WriteEvent_post [OF laws ok w]
  have "badger_state K d' = badger_state K d \<and> job_id K name d' = job_id K name d"
  proof (cases r)
    case (Some e)
    with post show ?thesis by (auto simp: badger_post_def badger_state_def job_id_def fun_eq_iff)
  next
    case None
    with post obtain t t' where t: "badger_task K d i = Some t" "badger_apply ?ev t = Inr t'"
      and task: "badger_task K d' = (badger_task K d)(i \<mapsto> t')"
      by (auto simp: badger_post_def badger_effect_def NewSystemLog_def)
    from t(2) have "t_State t' = t_State t" "getBackendTaskID t' name = getBackendTaskID t name"
      by (auto simp: badger_apply_def NewSystemLog_def split: sum.splits)
    then show ?thesis
      using t(1) task job_id_update [OF task t(1)] by (auto simp: badger_state_def fun_eq_iff)
  qed
  with post show "badger_ok K d'" "badger_state K d' = badger_state K d" "job_id K name d' = job_id K name d"
    by (simp_all add: badger_post_def)
qed

lemma badger_reconciler:
  assumes laws: "kv_laws K" "backoff_law RN" "kv_reliable K"
    and b: "hpc_Event b = beside_put (badger_WriteEvent K RN mode)" "hpc_ListTasks b = beside_list (badger_ListTasks K mode)"
    and sched: "steady_scheduler b failed"
  shows "reconciler b None (\<lambda>s. badger_state K (fst s)) (\<lambda>s. job_id K (hpc_Name b) (fst s)) (\<lambda>s. badger_ok K (fst s)) failed"
proof (unfold_locales, goal_cases)
  case (1 s)
  have "dom (badger_state K (fst s)) = dom (badger_task K (fst s))" by (auto simp: badger_state_def)
  then show ?case using badger_ids_sorted(2) [OF laws(1) 1] by (metis List.finite_set)
next
  case (2 s st tok)
  then show ?case using badger_page [OF laws(1,3) 2] by (simp add: b beside_list_def)
next
  case (3 s i st s' now)
  obtain d r where w: "badger_WriteEvent K RN mode None (NewState now i SystemError) (fst s) = (d, r)" by force
  with 3(4) have "fst s' = d" by (simp add: b beside_put_def)
  with badger_error_write [OF laws 3(1-3) w] show ?case by simp
next
  case (4 s now i a k lvl msg flds)
  obtain d r where w: "badger_WriteEvent K RN mode None (NewSystemLog now i a k lvl msg flds) (fst s) = (d, r)" by force
  with badger_log_write [OF laws(1,2) 4 w] show ?case by (simp add: same_tasks_def b beside_put_def)
next
  case (5 s cmd args)
  have "fst (fst (hpc_exec b cmd args s)) = fst s" using sched unfolding steady_scheduler_def by blast
  with 5 show ?case by (simp add: same_tasks_def)
next
  case (6 s ids)
  from sched obtain w ans where "hpc_MapStates b ids s = ((fst s, w), Inr ans)"
    "\<forall>k\<in>set ids. (\<exists>t\<in>set ans. ht_ID t = k \<and> ht_TESState t = SystemError) \<longleftrightarrow> failed k"
    unfolding steady_scheduler_def by blast
  with 6 show ?case by (intro exI [of _ "(fst s, w)"] exI [of _ ans]) (simp add: same_tasks_def)
qed

section \<open>An example\<close>

lemma mem_kv_reliable: "kv_reliable mem_kv"
  using mem_kv_readable by (auto simp: kv_reliable_def mem_kv_def)

text \<open>A scheduler that reports the jobs of a list as failed, on the in-memory store.\<close>

definition failing_backend :: "((string \<times> cell) list \<times> unit) os \<Rightarrow> string list \<Rightarrow> ((string \<times> cell) list \<times> unit) HPCBackend" where
  "failing_backend os bad =
     \<lparr>hpc_Name = ''slurm'', hpc_SubmitCmd = ''sbatch'', hpc_CancelCmd = ''scancel'', hpc_Template = '''', hpc_WorkDir = ''/work'',
      hpc_Event = beside_put (badger_WriteEvent mem_kv untimed_backoff AccessAll),
      hpc_GetTask = (\<lambda>ctx req s. badger_GetTask mem_kv AccessAll ctx req (fst s)),
      hpc_ListTasks = beside_list (badger_ListTasks mem_kv AccessAll), hpc_ExtractID = id,
      hpc_MapStates = (\<lambda>ids s. (s, Inr (map (\<lambda>k. \<lparr>ht_ID = k, ht_TESState = (if k \<in> set bad then SystemError else Running),
         ht_State = '''', ht_Reason = '''', ht_Remove = False\<rparr>) ids))),
      hpc_exec = (\<lambda>cmd args s. (s, '''', '''', None)), hpc_os = os, hpc_cwd = ''/'',
      hpc_Parse = (\<lambda>t. None), hpc_Execute = (\<lambda>t a. ('''', None)), hpc_ConfigFile = (\<lambda>ctx. None)\<rparr>"

lemma failing_backend_steady: "steady_scheduler (failing_backend os bad) (\<lambda>k. k \<in> set bad)"
  by (auto simp: steady_scheduler_def failing_backend_def)

interpretation failing: reconciler "failing_backend os bad" None "\<lambda>s. badger_state mem_kv (fst s)"
  "\<lambda>s. job_id mem_kv ''slurm'' (fst s)" "\<lambda>s. badger_ok mem_kv (fst s)" "\<lambda>k. k \<in> set bad" for os bad
  using badger_reconciler [OF mem_kv_laws untimed_backoff_law mem_kv_reliable _ _ failing_backend_steady]
  by (simp add: failing_backend_def)

definition slurm_task :: Task where
  "slurm_task = sample_task\<lparr>t_Logs := [empty_tasklog\<lparr>tl_Metadata := [(''slurm_id'', ''7'')]\<rparr>]\<rparr>"

definition slurm_db :: "(string \<times> cell) list" where
  "slurm_db = [(''ownerst1'', Bytes ''ann''), (''taskst1'', Encoded slurm_task)]"

section \<open>Properties\<close>

text \<open>
  C12: reconciliation is exact.  On a Badger database that does not fail and with a scheduler that
  answers, one tick ends, however many pages it reads while it changes the states they list; after
  it, the tasks that were queued, initializing or running and whose job the scheduler reports as
  failed are system errors, and every other task is in the state it had.  No two active tasks
  may share a job.
\<close>

theorem badger_reconcile_exact:
  assumes "kv_laws K" "backoff_law RN" "kv_reliable K"
    "hpc_Event b = beside_put (badger_WriteEvent K RN mode)" "hpc_ListTasks b = beside_list (badger_ListTasks K mode)"
    "steady_scheduler b failed" "badger_ok K d"
    "inj_on (job_id K (hpc_Name b) d) {i. (\<exists>st. badger_state K d i = Some st \<and> active st) \<and> job_id K (hpc_Name b) d i \<noteq> ''''}"
  shows "\<exists>d' w'. reconcile_tick b now None (d, w) = Some (d', w') \<and> badger_ok K d' \<and>
    badger_state K d' =
      (\<lambda>i. if (\<exists>st. badger_state K d i = Some st \<and> active st) \<and> job_id K (hpc_Name b) d i \<noteq> '''' \<and> failed (job_id K (hpc_Name b) d i)
           then Some SystemError else badger_state K d i)"
proof -
  note rec = badger_reconciler [OF assms(1-6)]
  have "reconciler.distinct_jobs (\<lambda>s. badger_state K (fst s)) (\<lambda>s. job_id K (hpc_Name b) (fst s)) (d, w)"
    using assms(8) unfolding reconciler.distinct_jobs_def [OF rec] inj_on_def by auto
  from reconciler.tick_exact [OF rec _ this, of now] assms(7) obtain s' where
    "reconcile_tick b now None (d, w) = Some s'"
    "reconciler.marked (\<lambda>s. badger_state K (fst s)) (\<lambda>s. job_id K (hpc_Name b) (fst s)) (\<lambda>s. badger_ok K (fst s)) (d, w)
      (\<lambda>i. (\<exists>st. badger_state K d i = Some st \<and> active st) \<and>
        reconciler.doomed (\<lambda>s. job_id K (hpc_Name b) (fst s)) failed (d, w) i) s'"
    by auto
  then show ?thesis
    unfolding reconciler.marked_def [OF rec] reconciler.doomed_def [OF rec] by (cases s') (simp cong: if_cong)
qed

theorem badger_reconcile_exact_witness:
  "badger_state mem_kv slurm_db ''t1'' = Some Queued \<and>
   (\<forall>os. \<exists>d' w'. reconcile_tick (failing_backend os [''7'']) ''now'' None (slurm_db, ()) = Some (d', w') \<and>
      badger_state mem_kv d' ''t1'' = Some SystemError)"
proof -
  have task: "badger_task mem_kv slurm_db i = (if i = ''t1'' then Some slurm_task else None)" for i
    by (auto simp: badger_task_def slurm_db_def mem_kv_def taskKey_def taskKeyPrefix_def)
  have st: "badger_state mem_kv slurm_db i = (if i = ''t1'' then Some Queued else None)" for i
    by (simp add: badger_state_def task slurm_task_def sample_task_def empty_task_def)
  have job: "job_id mem_kv ''slurm'' slurm_db i = (if i = ''t1'' then ''7'' else '''')" for i
    by (simp add: job_id_def task slurm_task_def getBackendTaskID_def gomap_str_def gomap_simps)
  have ok: "badger_ok mem_kv slurm_db"
    by (auto simp: badger_ok_def slurm_db_def mem_kv_def taskKey_def ownerKey_def taskKeyPrefix_def ownerKeyPrefix_def
        slurm_task_def sample_task_def empty_task_def)
  have fields: "hpc_Name (failing_backend os bad) = ''slurm''"
    "hpc_Event (failing_backend os bad) = beside_put (badger_WriteEvent mem_kv untimed_backoff AccessAll)"
    "hpc_ListTasks (failing_backend os bad) = beside_list (badger_ListTasks mem_kv AccessAll)" for os bad
    by (simp_all add: failing_backend_def)
  have inj: "inj_on (job_id mem_kv ''slurm'' slurm_db) {i. (\<exists>st. badger_state mem_kv slurm_db i = Some st \<and> active st) \<and>
      job_id mem_kv ''slurm'' slurm_db i \<noteq> ''''}" by (auto simp: inj_on_def st split: if_splits)
  have "\<exists>d' w'. reconcile_tick (failing_backend os [''7'']) ''now'' None (slurm_db, ()) = Some (d', w') \<and>
      badger_state mem_kv d' ''t1'' = Some SystemError" for os
    using badger_reconcile_exact [OF mem_kv_laws untimed_backoff_law mem_kv_reliable fields(2,3) failing_backend_steady ok,
        of os "[''7'']" "''now''" "()", unfolded fields, OF inj]
    by (auto simp: st job active_def)
  with st show ?thesis by simp
qed

end
