(* ===== verification/Schedulers.thy ===== *)
theory Schedulers
  imports Hpc_Reconcile
begin

text \<open>
  The batch schedulers: \<open>src/compute/slurm/backend.go\<close>, \<open>src/compute/pbs/backend.go\<close>,
  \<open>src/compute/htcondor/backend.go\<close> and \<open>src/compute/gridengine/backend.go\<close>.  Each is an instance of the
  shared backend with its commands, the extraction of the job identifier from the answer to a
  submission, and the reading of the states of jobs.

  The regular expressions are written out as what they match.  The decoders of JSON and XML, which
  map the answers of HTCondor and PBS to lists of records, are arguments.
\<close>

section \<open>Strings\<close>

text \<open>The lines of a \<open>bufio.Scanner\<close>, for lines below its limit of 64 KiB.\<close>

definition scan_lines :: "string \<Rightarrow> string list" where
  "scan_lines s =
     (let ls = Split (CHR 0x0A) s
      in map (\<lambda>l. TrimSuffix l [CHR 0x0D]) (if last ls = '''' then butlast ls else ls))"

text \<open>
  \<open>ReplaceAllString\<close> for an expression that ends with \<open>$\<close>: it matches at most once, at the first place
  where \<open>m\<close> accepts the rest of the text, and \<open>m\<close> gives the replacement.
\<close>

fun replace_tail :: "(string \<Rightarrow> string option) \<Rightarrow> string \<Rightarrow> string" where
  "replace_tail m [] = (case m [] of Some r \<Rightarrow> r | None \<Rightarrow> [])"
| "replace_tail m (c # s) = (case m (c # s) of Some r \<Rightarrow> r | None \<Rightarrow> c # replace_tail m s)"

definition newline :: string where "newline = [CHR 0x0A]"

section \<open>Making a backend\<close>

record 's hpc_env =
  he_exec :: "'s exec"
  he_os :: "'s os"
  he_ReadFile :: "string \<Rightarrow> go_error + string"
  he_cwd :: string
  he_Parse :: "string \<Rightarrow> go_error option"
  he_Execute :: "string \<Rightarrow> SubmitArgs \<Rightarrow> string \<times> go_error option"
  he_ConfigFile :: "go_ctx \<Rightarrow> (string \<Rightarrow> 's \<Rightarrow> 's \<times> go_error option) option"
  he_Event :: "'s writer"
  he_GetTask :: "go_ctx \<Rightarrow> GetTaskRequest \<Rightarrow> 's \<Rightarrow> go_error + Task"
  he_ListTasks :: "go_ctx \<Rightarrow> ListTasksRequest \<Rightarrow> 's \<Rightarrow> go_error + ListTasksResponse"

record HPCConf =
  hc_TemplateFile :: string
  hc_Template :: string
  hc_DisableReconciler :: bool
  hc_WorkDir :: string

definition load_template :: "'s hpc_env \<Rightarrow> HPCConf \<Rightarrow> go_error + string" where
  "load_template env conf =
     (if hc_TemplateFile conf \<noteq> ''''
      then (case he_ReadFile env (hc_TemplateFile conf) of
              Inl err \<Rightarrow> Inl (Errorf (''reading template: '' @ error_string err))
            | Inr content \<Rightarrow> Inr content)
      else Inr (hc_Template conf))"

definition hpc_new ::
    "'s hpc_env \<Rightarrow> HPCConf \<Rightarrow> string \<Rightarrow> string \<Rightarrow> string \<Rightarrow> string \<Rightarrow> (string \<Rightarrow> string) \<Rightarrow>
     (string list \<Rightarrow> 's \<Rightarrow> 's \<times> (go_error + HPCTaskState list)) \<Rightarrow> 's HPCBackend" where
  "hpc_new env conf name submit cancel template extract mapStates =
     \<lparr>hpc_Name = name, hpc_SubmitCmd = submit, hpc_CancelCmd = cancel, hpc_Template = template, hpc_WorkDir = hc_WorkDir conf,
      hpc_Event = he_Event env, hpc_GetTask = he_GetTask env, hpc_ListTasks = he_ListTasks env, hpc_ExtractID = extract,
      hpc_MapStates = mapStates, hpc_exec = he_exec env, hpc_os = he_os env, hpc_cwd = he_cwd env, hpc_Parse = he_Parse env,
      hpc_Execute = he_Execute env, hpc_ConfigFile = he_ConfigFile env\<rparr>"

definition state_or_unknown :: "(string \<times> State) list \<Rightarrow> string \<Rightarrow> State" where
  "state_or_unknown m s = (case map_of m s of None \<Rightarrow> Unknown | Some st \<Rightarrow> st)"

definition plain_state :: "string \<Rightarrow> State \<Rightarrow> string \<Rightarrow> HPCTaskState" where
  "plain_state i st raw = \<lparr>ht_ID = i, ht_TESState = st, ht_State = raw, ht_Reason = '''', ht_Remove = False\<rparr>"

definition failed_state :: "string \<Rightarrow> string \<Rightarrow> string \<Rightarrow> bool \<Rightarrow> HPCTaskState" where
  "failed_state i raw reason remove = \<lparr>ht_ID = i, ht_TESState = SystemError, ht_State = raw, ht_Reason = reason, ht_Remove = remove\<rparr>"

section \<open>Slurm\<close>

definition sacctStateMap :: "(string \<times> State) list" where
  "sacctStateMap = [(''PENDING'', Queued), (''CONFIGURING'', Queued), (''RUNNING'', Running), (''RESIZING'', Running),
     (''COMPLETING'', Running), (''SUSPENDED'', Running), (''COMPLETED'', Complete), (''CANCELLED'', SystemError),
     (''DEADLINE'', SystemError), (''FAILED'', SystemError), (''NODE_FAIL'', SystemError), (''PREEMPTED'', SystemError),
     (''TIMEOUT'', SystemError)]"

definition squeueStateMap :: "(string \<times> State) list" where
  "squeueStateMap = [(''PENDING'', Queued), (''CONFIGURING'', Queued), (''RUNNING'', Running), (''COMPLETING'', Running),
     (''SUSPENDED'', Running), (''COMPLETED'', Complete), (''CANCELLED'', SystemError), (''STOPPED'', SystemError),
     (''FAILED'', SystemError), (''TIMEOUT'', SystemError), (''PREEMPTED'', SystemError), (''NODE_FAIL'', SystemError),
     (''REVOKED'', SystemError), (''SPECIAL_EXIT'', SystemError)]"

text \<open>\<open>(Submitted batch job )([0-9]+)\n$\<close>, replaced by its second group.\<close>

definition slurm_match :: "string \<Rightarrow> string option" where
  "slurm_match s =
     (let r = TrimPrefix s ''Submitted batch job ''; ds = takeWhile is_digit r
      in if HasPrefix s ''Submitted batch job '' \<and> ds \<noteq> [] \<and> dropWhile is_digit r = newline then Some ds else None)"

definition slurm_extractID :: "string \<Rightarrow> string" where
  "slurm_extractID s = replace_tail slurm_match s"

definition squeue_state :: "string \<Rightarrow> string \<Rightarrow> string \<Rightarrow> HPCTaskState" where
  "squeue_state i st reason =
     (if st = ''PENDING''
      then if reason = ''PartitionConfig'' then failed_state i st ''No suitable partition available'' True
           else plain_state i Queued st
      else plain_state i (state_or_unknown squeueStateMap st) st)"

fun squeue_loop :: "string list \<Rightarrow> HPCTaskState list \<Rightarrow> go_error + HPCTaskState list" where
  "squeue_loop [] out = Inr out"
| "squeue_loop (l # ls) out =
     (case Fields l of
        [i, st, reason] \<Rightarrow> squeue_loop ls (out @ [squeue_state i st reason])
      | _ \<Rightarrow> Inl (Errorf ''failed to parse output from squeue''))"

fun sacct_loop :: "string list \<Rightarrow> HPCTaskState list \<Rightarrow> go_error + HPCTaskState list" where
  "sacct_loop [] out = Inr out"
| "sacct_loop (l # ls) out =
     (case Fields l of
        [i, st] \<Rightarrow> sacct_loop ls (out @ [plain_state i (state_or_unknown sacctStateMap st) st])
      | _ \<Rightarrow> Inl (Errorf ''failed to parse output from sacct''))"

definition squeue_args :: "string list \<Rightarrow> string list" where
  "squeue_args ids = [''--noheader'', ''--Format'', ''jobid,state,reason'', ''--job'', Join ids '','']"

definition sacct_args :: "string list \<Rightarrow> string list" where
  "sacct_args ids = [''--noheader'', ''--format'', ''jobid,state'', ''--job'', Join ids '','']"

definition slurm_mapStates :: "'s exec \<Rightarrow> string list \<Rightarrow> 's \<Rightarrow> 's \<times> (go_error + HPCTaskState list)" where
  "slurm_mapStates exec ids s =
     (case exec ''squeue'' (squeue_args ids) s of
        (s1, _, _, Some err) \<Rightarrow> (s1, Inl (Errorf (''squeue command failed: '' @ error_string err)))
      | (s1, stdout, _, None) \<Rightarrow>
          (case squeue_loop (scan_lines stdout) [] of
             Inl err \<Rightarrow> (s1, Inl err)
           | Inr output \<Rightarrow>
               (case exec ''sacct'' (sacct_args ids) s1 of
                  (s2, _, _, Some err) \<Rightarrow> (s2, Inl (Errorf (''sacct command failed: '' @ error_string err)))
                | (s2, stdout2, _, None) \<Rightarrow> (s2, sacct_loop (scan_lines stdout2) output))))"

text \<open>The backend, and whether its reconciler is started.\<close>

definition slurm_NewBackend :: "'s hpc_env \<Rightarrow> HPCConf \<Rightarrow> go_error + 's HPCBackend \<times> bool" where
  "slurm_NewBackend env conf =
     (case load_template env conf of
        Inl err \<Rightarrow> Inl err
      | Inr tpl \<Rightarrow>
          Inr (hpc_new env conf ''slurm'' ''sbatch'' ''scancel'' tpl slurm_extractID (slurm_mapStates (he_exec env)),
               \<not> hc_DisableReconciler conf))"

section \<open>PBS\<close>

record pbs_job =
  pj_JobID :: string
  pj_JobState :: string
  pj_ExitStatus :: int

definition pbs_stateMap :: "(string \<times> string) list" where
  "pbs_stateMap = [(''C'', ''Complete''), (''E'', ''Exiting''), (''H'', ''Held''), (''Q'', ''Queued''), (''R'', ''Running''),
     (''S'', ''Suspended''), (''T'', ''Moving''), (''W'', ''Waiting'')]"

definition pbsToTES :: "(string \<times> State) list" where
  "pbsToTES = [(''Queued'', Queued), (''Running'', Running), (''Exiting'', Running), (''Held'', Running),
     (''Suspended'', Running), (''Moving'', Running), (''Waiting'', Running), (''Complete'', Complete)]"

definition pbs_extractID :: "string \<Rightarrow> string" where
  "pbs_extractID s = s"

definition pbs_job_state :: "pbs_job \<Rightarrow> HPCTaskState" where
  "pbs_job_state j =
     (let state = gomap_str pbs_stateMap (pj_JobState j) in
      if state = ''Complete''
      then if pj_ExitStatus j = 0 then plain_state (pj_JobID j) Complete state
           else failed_state (pj_JobID j) state ''Funnel worker exited with non-zero status'' False
      else plain_state (pj_JobID j) (state_or_unknown pbsToTES state) state)"

definition pbs_mapStates ::
    "(string \<Rightarrow> go_error + pbs_job list) \<Rightarrow> 's exec \<Rightarrow> string list \<Rightarrow> 's \<Rightarrow> 's \<times> (go_error + HPCTaskState list)" where
  "pbs_mapStates unmarshal exec ids s =
     (case exec ''qstat'' [''-x''] s of
        (s1, _, _, Some err) \<Rightarrow> (s1, Inl (Errorf (''qstat command failed: '' @ error_string err)))
      | (s1, stdout, _, None) \<Rightarrow>
          (case unmarshal stdout of
             Inl err \<Rightarrow> (s1, Inl (Errorf (''failed to unmarshal qstat output: '' @ error_string err)))
           | Inr jobs \<Rightarrow> (s1, Inr (map pbs_job_state (filter (\<lambda>j. pj_JobID j \<in> set ids) jobs)))))"

definition pbs_NewBackend :: "(string \<Rightarrow> go_error + pbs_job list) \<Rightarrow> 's hpc_env \<Rightarrow> HPCConf \<Rightarrow> go_error + 's HPCBackend \<times> bool" where
  "pbs_NewBackend unmarshal env conf =
     (case load_template env conf of
        Inl err \<Rightarrow> Inl err
      | Inr tpl \<Rightarrow>
          Inr (hpc_new env conf ''pbs'' ''qsub'' ''qdel'' tpl pbs_extractID (pbs_mapStates unmarshal (he_exec env)),
               \<not> hc_DisableReconciler conf))"

section \<open>HTCondor\<close>

record condor_record =
  cr_ClusterId :: int
  cr_JobStatus :: int
  cr_ExitCode :: int

definition condor_stateMap :: "(int \<times> string) list" where
  "condor_stateMap = [(1, ''Idle''), (2, ''Running''), (3, ''Removed''), (4, ''Completed''), (5, ''Held''), (6, ''Submission_err'')]"

text \<open>
  \<open>(.*\.\n.*)([0-9]+)\.\n\<close>, replaced by its second group everywhere: two lines, both ended by a full
  stop and a newline, the second with a digit before the full stop.  The first group is greedy and
  leaves one digit for the second.
\<close>

definition ends_full_stop :: "string \<Rightarrow> bool" where
  "ends_full_stop l \<longleftrightarrow> HasSuffix l ''.''"

definition ends_digit_stop :: "string \<Rightarrow> char option" where
  "ends_digit_stop l =
     (case rev l of c # d # _ \<Rightarrow> if c = CHR ''.'' \<and> is_digit d then Some d else None | _ \<Rightarrow> None)"

fun condor_replace :: "string list \<Rightarrow> string" where
  "condor_replace [] = ''''"
| "condor_replace [l] = l"
| "condor_replace [l, m] = l @ newline @ m"
| "condor_replace (l # m # n # ls) =
     (if ends_full_stop l \<and> ends_digit_stop m \<noteq> None then the (ends_digit_stop m) # condor_replace (n # ls)
      else l @ newline @ condor_replace (m # n # ls))"

definition condor_extractID :: "string \<Rightarrow> string" where
  "condor_extractID s = condor_replace (Split (CHR 0x0A) s)"

definition checkIdleStatus :: "'s exec \<Rightarrow> string \<Rightarrow> 's \<Rightarrow> 's \<times> bool \<times> go_error option" where
  "checkIdleStatus exec i s =
     (case exec ''condor_q'' [''-analyze'', i] s of
        (s', stdout, _, err) \<Rightarrow>
          (s', Contains stdout ''No machines matched the jobs's constraints'',
           map_option (\<lambda>e. Errorf ([quote_char] @ ''condor_q -analyze '' @ i @ [quote_char] @ '' command failed: '' @ error_string e)) err))"

fun condor_states :: "'s exec \<Rightarrow> condor_record list \<Rightarrow> HPCTaskState list \<Rightarrow> 's \<Rightarrow> 's \<times> HPCTaskState list" where
  "condor_states exec [] output s = (s, output)"
| "condor_states exec (t # ts) output s =
     (let i = show_int (cr_ClusterId t);
          state = (case map_of condor_stateMap (cr_JobStatus t) of None \<Rightarrow> '''' | Some x \<Rightarrow> x)
      in if state = ''Idle'' then
           (case checkIdleStatus exec i s of
              (s', stuck, _) \<Rightarrow>
                condor_states exec ts
                  (output @ [if stuck then failed_state i state ''no machines matched the jobs's constraints'' True
                             else plain_state i Queued state]) s')
         else if state = ''Running'' \<or> state = ''Held'' then condor_states exec ts (output @ [plain_state i Running state]) s
         else if state = ''Removed'' then condor_states exec ts (output @ [failed_state i state ''htcondor job was removed'' False]) s
         else if state = ''Submission_err'' then
           condor_states exec ts (output @ [failed_state i state ''task encountered submission error'' False]) s
         else if state = ''Completed'' then
           condor_states exec ts
             (output @ [if cr_ExitCode t = 0 then plain_state i Complete state
                        else failed_state i state ''Funnel worker exited with non-zero status'' False]) s
         else condor_states exec ts output s)"

definition condor_args :: "string list \<Rightarrow> string list" where
  "condor_args ids = [''-json'', ''-attributes'', ''ClusterId,JobStatus,ExitCode'', Join ids '','']"

definition condor_mapStates ::
    "(string \<Rightarrow> go_error + condor_record list) \<Rightarrow> 's exec \<Rightarrow> string list \<Rightarrow> 's \<Rightarrow> 's \<times> (go_error + HPCTaskState list)" where
  "condor_mapStates unmarshal exec ids s =
     (case exec ''condor_q'' (condor_args ids) s of
        (s1, _, _, Some err) \<Rightarrow> (s1, Inl (Errorf (''condor_q command failed: '' @ error_string err)))
      | (s1, qout, _, None) \<Rightarrow>
          (case unmarshal qout of
             Inl err \<Rightarrow> (s1, Inl (Errorf (''failed to unmarshal condor_q output: '' @ error_string err)))
           | Inr qparsed \<Rightarrow>
               (case exec ''condor_history'' (condor_args ids) s1 of
                  (s2, _, _, Some err) \<Rightarrow> (s2, Inl (Errorf (''condor_history command failed: '' @ error_string err)))
                | (s2, hout, _, None) \<Rightarrow>
                    (case unmarshal hout of
                       Inl err \<Rightarrow> (s2, Inl (Errorf (''failed to unmarshal condor_history output: '' @ error_string err)))
                     | Inr hparsed \<Rightarrow> (case condor_states exec (qparsed @ hparsed) [] s2 of (s3, out) \<Rightarrow> (s3, Inr out))))))"

definition condor_NewBackend ::
    "(string \<Rightarrow> go_error + condor_record list) \<Rightarrow> 's hpc_env \<Rightarrow> HPCConf \<Rightarrow> go_error + 's HPCBackend \<times> bool" where
  "condor_NewBackend unmarshal env conf =
     (case load_template env conf of
        Inl err \<Rightarrow> Inl err
      | Inr tpl \<Rightarrow>
          Inr (hpc_new env conf ''htcondor'' ''condor_submit'' ''condor_rm'' tpl condor_extractID (condor_mapStates unmarshal (he_exec env)),
               \<not> hc_DisableReconciler conf))"

section \<open>Grid Engine\<close>

text \<open>\<open>(Your job )([0-9]+)( \(".*"\) has been submitted)\n$\<close>, replaced by its second group.\<close>

definition ge_tail :: string where
  "ge_tail = CHR 0x22 # '') has been submitted'' @ newline"

definition ge_match :: "string \<Rightarrow> string option" where
  "ge_match s =
     (let r = TrimPrefix s ''Your job ''; ds = takeWhile is_digit r; r2 = dropWhile is_digit r; opening = '' ('' @ [CHR 0x22];
          r3 = TrimPrefix r2 opening
      in if HasPrefix s ''Your job '' \<and> ds \<noteq> [] \<and> HasPrefix r2 opening \<and> HasSuffix r3 ge_tail \<and> CHR 0x0A \<notin> set (TrimSuffix r3 ge_tail)
         then Some ds else None)"

definition ge_extractID :: "string \<Rightarrow> string" where
  "ge_extractID s = replace_tail ge_match s"

text \<open>Without a function for the states, whose call would be a nil dereference; no reconciler is started.\<close>

definition ge_NewBackend :: "'s hpc_env \<Rightarrow> HPCConf \<Rightarrow> go_error + 's HPCBackend" where
  "ge_NewBackend env conf =
     (case load_template env conf of
        Inl err \<Rightarrow> Inl err
      | Inr tpl \<Rightarrow> Inr (hpc_new env conf ''gridengine'' ''qsub'' ''qdel'' tpl ge_extractID (\<lambda>ids s. (s, Inl nil_deref))))"

section \<open>Lemmas: identifiers\<close>

lemma replace_tail_here: "m s = Some r \<Longrightarrow> replace_tail m s = r"
  by (cases s) auto

lemma slurm_extractID_ok: "slurm_extractID (''Submitted batch job '' @ show_nat n @ newline) = show_nat n"
  unfolding slurm_extractID_def
  by (rule replace_tail_here)
    (use span_digits [OF not_digit(1), of n "[]"] in \<open>simp add: slurm_match_def Let_def newline_def del: append.simps\<close>)

lemma ge_extractID_ok:
  assumes "CHR 0x0A \<notin> set name"
  shows "ge_extractID (''Your job '' @ show_nat n @ '' ('' @ [CHR 0x22] @ name @ ge_tail) = show_nat n"
proof -
  let ?r3 = "name @ ge_tail"
  have r3: "HasSuffix ?r3 ge_tail" "TrimSuffix ?r3 ge_tail = name" by (auto simp: HasSuffix_def TrimSuffix_def)
  have "ge_match (''Your job '' @ show_nat n @ '' ('' @ [CHR 0x22] @ ?r3) = Some (show_nat n)"
    using span_digits [OF not_digit(2), of n "''('' @ [CHR 0x22] @ ?r3"] assms r3
      TrimPrefix_append [of "''Your job ''" "show_nat n @ '' ('' @ [CHR 0x22] @ ?r3"]
      HasPrefix_append [of "''Your job ''" "show_nat n @ '' ('' @ [CHR 0x22] @ ?r3"]
      TrimPrefix_append [of "'' ('' @ [CHR 0x22]" ?r3] HasPrefix_append [of "'' ('' @ [CHR 0x22]" ?r3]
    by (simp add: ge_match_def Let_def)
  then show ?thesis unfolding ge_extractID_def by (rule replace_tail_here)
qed

lemma condor_extractID_last:
  "condor_extractID (''Submitting job(s).'' @ newline @ ''1 job(s) submitted to cluster '' @ show_nat n @ ''.'' @ newline) = [last (show_nat n)]"
proof -
  let ?l = "''1 job(s) submitted to cluster '' @ show_nat n @ ''.''"
  have nl: "CHR 0x0A \<notin> set (show_nat n)" using show_nat_digits not_digit(1) by blast
  have rev: "rev (show_nat n) = last (show_nat n) # rev (butlast (show_nat n))"
    by (metis append_butlast_last_id rev.simps(2) rev_rev_ident rev_swap show_nat_not_Nil)
  have "ends_digit_stop ?l = Some (last (show_nat n))"
    using show_nat_digits [of "last (show_nat n)" n] by (simp add: ends_digit_stop_def rev)
  moreover have "Split (CHR 0x0A) (''Submitting job(s).'' @ newline @ ?l @ newline) = [''Submitting job(s).'', ?l, '''']"
    using Split_append [of "CHR 0x0A" "''Submitting job(s).''" "?l @ newline"] Split_append [of "CHR 0x0A" ?l "''''"] nl
    by (simp add: newline_def)
  ultimately show ?thesis by (simp add: condor_extractID_def ends_full_stop_def HasSuffix_def)
qed

section \<open>Lemmas: states of jobs\<close>

lemma squeue_loop_Inr:
  "squeue_loop ls out = Inr out' \<longleftrightarrow>
     (\<forall>l\<in>set ls. length (Fields l) = 3) \<and> out' = out @ map (\<lambda>l. squeue_state (Fields l ! 0) (Fields l ! 1) (Fields l ! 2)) ls"
  by (induction ls out rule: squeue_loop.induct)
    (auto split: list.splits simp: numeral_eq_Suc length_Suc_conv)

lemma sacct_loop_Inr:
  "sacct_loop ls out = Inr out' \<longleftrightarrow>
     (\<forall>l\<in>set ls. length (Fields l) = 2) \<and>
     out' = out @ map (\<lambda>l. plain_state (Fields l ! 0) (state_or_unknown sacctStateMap (Fields l ! 1)) (Fields l ! 1)) ls"
  by (induction ls out rule: sacct_loop.induct)
    (auto split: list.splits simp: numeral_eq_Suc length_Suc_conv)

text \<open>The states that count as a failure.\<close>

definition squeue_failure :: "string \<Rightarrow> string \<Rightarrow> bool" where
  "squeue_failure st reason \<longleftrightarrow>
     st \<in> {''CANCELLED'', ''STOPPED'', ''FAILED'', ''TIMEOUT'', ''PREEMPTED'', ''NODE_FAIL'', ''REVOKED'', ''SPECIAL_EXIT''} \<or>
     (st = ''PENDING'' \<and> reason = ''PartitionConfig'')"

definition sacct_failure :: "string \<Rightarrow> bool" where
  "sacct_failure st \<longleftrightarrow> st \<in> {''CANCELLED'', ''DEADLINE'', ''FAILED'', ''NODE_FAIL'', ''PREEMPTED'', ''TIMEOUT''}"

lemma squeue_state_failed: "ht_TESState (squeue_state i st reason) = SystemError \<longleftrightarrow> squeue_failure st reason"
  by (auto simp: squeue_state_def failed_state_def plain_state_def squeue_failure_def state_or_unknown_def squeueStateMap_def)

lemma sacct_state_failed: "state_or_unknown sacctStateMap st = SystemError \<longleftrightarrow> sacct_failure st"
  by (auto simp: sacct_failure_def state_or_unknown_def sacctStateMap_def)

lemma ht_ID_simps [simp]: "ht_ID (squeue_state i st reason) = i" "ht_ID (plain_state i x st) = i" "ht_TESState (plain_state i x st) = x"
  by (simp_all add: squeue_state_def failed_state_def plain_state_def)

section \<open>The database beside the world of the commands\<close>

definition beside_os :: "'w os \<Rightarrow> ('d \<times> 'w) os" where
  "beside_os os = \<lparr>os_Stat = (\<lambda>p s. os_Stat os p (snd s)), os_IsNotExist = os_IsNotExist os, os_MkdirAll = (\<lambda>p. beside (os_MkdirAll os p)),
     os_WriteFile = (\<lambda>p c. beside (os_WriteFile os p c)), os_Open = (\<lambda>p s. os_Open os p (snd s)), os_Create = (\<lambda>p. beside (os_Create os p)),
     io_Copy = (\<lambda>p q. beside (io_Copy os p q)), os_ReadDir = (\<lambda>p s. os_ReadDir os p (snd s)), os_Readlink = (\<lambda>p s. os_Readlink os p (snd s)),
     os_Remove = (\<lambda>p. beside (os_Remove os p)), os_Symlink = (\<lambda>p q. beside (os_Symlink os p q)), os_RemoveAll = (\<lambda>p. beside (os_RemoveAll os p)),
     os_Glob = (\<lambda>p s. os_Glob os p (snd s)), os_Walk = (\<lambda>p s. os_Walk os p (snd s))\<rparr>"

text \<open>The environment of a backend on a Badger database, with commands and files that have their own world.\<close>

definition badger_env ::
    "('d, 'v) kv \<Rightarrow> 'd retry_notify \<Rightarrow> string \<Rightarrow> 'w hpc_env \<Rightarrow> ('d \<times> 'w) hpc_env" where
  "badger_env K RN mode env =
     \<lparr>he_exec = (\<lambda>cmd args. beside (he_exec env cmd args)), he_os = beside_os (he_os env), he_ReadFile = he_ReadFile env,
      he_cwd = he_cwd env, he_Parse = he_Parse env, he_Execute = he_Execute env,
      he_ConfigFile = (\<lambda>ctx. map_option (\<lambda>f p. beside (f p)) (he_ConfigFile env ctx)),
      he_Event = beside_put (badger_WriteEvent K RN mode), he_GetTask = (\<lambda>ctx req s. badger_GetTask K mode ctx req (fst s)),
      he_ListTasks = beside_list (badger_ListTasks K mode)\<rparr>"

lemma hpc_backend_on_badger:
  assumes "kv_laws K" "backoff_law RN" "\<And>ids s. fst (fst (mapStates ids s)) = fst s"
  shows "hpc_backend (hpc_new (badger_env K RN mode env) conf name submit cancel tpl extract mapStates)
    (\<lambda>s. badger_state K (fst s)) (\<lambda>s. badger_ok K (fst s))"
proof (intro hpc_backend.intro hpc_backend_axioms.intro)
  show "task_listing (hpc_Event (hpc_new (badger_env K RN mode env) conf name submit cancel tpl extract mapStates))
      (\<lambda>s. badger_state K (fst s)) (\<lambda>s. badger_ok K (fst s))
      (hpc_GetTask (hpc_new (badger_env K RN mode env) conf name submit cancel tpl extract mapStates))
      (hpc_ListTasks (hpc_new (badger_env K RN mode env) conf name submit cancel tpl extract mapStates))"
    using task_listing_beside [OF badger_task_listing [OF assms(1,2)]] by (simp add: hpc_new_def badger_env_def)
qed (auto simp: hpc_new_def badger_env_def beside_os_def assms(3) intro!: evolves_beside)

text \<open>The schedulers only run commands, so their answers leave the database alone.\<close>

lemma slurm_mapStates_db: "fst (fst (slurm_mapStates (\<lambda>cmd args. beside (exec cmd args)) ids s)) = fst s"
  by (auto simp: slurm_mapStates_def split: prod.splits option.splits sum.splits dest!: beside_keeps)

lemma pbs_mapStates_db: "fst (fst (pbs_mapStates unmarshal (\<lambda>cmd args. beside (exec cmd args)) ids s)) = fst s"
  by (auto simp: pbs_mapStates_def split: prod.splits option.splits sum.splits dest!: beside_keeps)

lemma condor_states_db: "condor_states (\<lambda>cmd args. beside (exec cmd args)) ts out s = (s', out') \<Longrightarrow> fst s' = fst s"
proof (induction ts arbitrary: out s)
  case (Cons t ts)
  from Cons.prems obtain s1 out1 where "condor_states (\<lambda>cmd args. beside (exec cmd args)) ts out1 s1 = (s', out')" "fst s1 = fst s"
    by (auto simp: Let_def checkIdleStatus_def split: if_splits prod.splits dest!: beside_keeps)
  with Cons.IH show ?case by simp
qed simp

lemma condor_mapStates_db: "fst (fst (condor_mapStates unmarshal (\<lambda>cmd args. beside (exec cmd args)) ids s)) = fst s"
  by (auto simp: condor_mapStates_def split: prod.splits option.splits sum.splits dest!: beside_keeps condor_states_db)

lemma badger_env_exec: "he_exec (badger_env K RN mode env) = (\<lambda>cmd args. beside (he_exec env cmd args))"
  by (simp add: badger_env_def)

lemmas scheduler_db = slurm_mapStates_db pbs_mapStates_db condor_mapStates_db

interpretation slurm_on_badger: hpc_backend
  "hpc_new (badger_env mem_kv untimed_backoff mode env) conf ''slurm'' ''sbatch'' ''scancel'' tpl slurm_extractID
     (slurm_mapStates (he_exec (badger_env mem_kv untimed_backoff mode env)))"
  "\<lambda>s. badger_state mem_kv (fst s)" "\<lambda>s. badger_ok mem_kv (fst s)" for mode env conf tpl
  by (rule hpc_backend_on_badger [OF mem_kv_laws untimed_backoff_law]) (simp add: badger_env_exec scheduler_db)

interpretation pbs_on_badger: hpc_backend
  "hpc_new (badger_env mem_kv untimed_backoff mode env) conf ''pbs'' ''qsub'' ''qdel'' tpl pbs_extractID
     (pbs_mapStates xml (he_exec (badger_env mem_kv untimed_backoff mode env)))"
  "\<lambda>s. badger_state mem_kv (fst s)" "\<lambda>s. badger_ok mem_kv (fst s)" for mode env conf tpl xml
  by (rule hpc_backend_on_badger [OF mem_kv_laws untimed_backoff_law]) (simp add: badger_env_exec scheduler_db)

interpretation condor_on_badger: hpc_backend
  "hpc_new (badger_env mem_kv untimed_backoff mode env) conf ''htcondor'' ''condor_submit'' ''condor_rm'' tpl condor_extractID
     (condor_mapStates json (he_exec (badger_env mem_kv untimed_backoff mode env)))"
  "\<lambda>s. badger_state mem_kv (fst s)" "\<lambda>s. badger_ok mem_kv (fst s)" for mode env conf tpl json
  by (rule hpc_backend_on_badger [OF mem_kv_laws untimed_backoff_law]) (simp add: badger_env_exec scheduler_db)

section \<open>Properties\<close>

text \<open>
  A service on a Badger database whose compute backend is a batch scheduler keeps the promise of a
  cancel request, whatever the cancel command of the scheduler does.
\<close>

theorem hpc_cancel_terminal:
  assumes "kv_laws K" "backoff_law RN" "slurm_NewBackend (badger_env K RN mode env) conf = Inr (b, reconciles)"
    "ts_Event ts = hpc_Event b" "ts_Read ts = hpc_GetTask b" "ts_Compute ts = hpc_WriteEvent b now"
    "badger_ok K (fst s)" "CancelTask ts now md ctx i s = (s', None)"
  shows "\<exists>st. badger_state K (fst s') i = Some st \<and> TerminalState st"
proof -
  from assms(3) obtain tpl where b: "b = hpc_new (badger_env K RN mode env) conf ''slurm'' ''sbatch'' ''scancel'' tpl slurm_extractID
      (slurm_mapStates (he_exec (badger_env K RN mode env)))"
    by (auto simp: slurm_NewBackend_def split: sum.splits)
  have hpc: "hpc_backend b (\<lambda>s. badger_state K (fst s)) (\<lambda>s. badger_ok K (fst s))"
    unfolding b by (rule hpc_backend_on_badger [OF assms(1,2)]) (simp add: badger_env_exec scheduler_db)
  have "task_service ts (\<lambda>s. badger_state K (fst s)) (\<lambda>s. badger_ok K (fst s))"
    using task_listing.axioms(1) [OF hpc_backend.axioms(1) [OF hpc]] hpc_backend.WriteEvent_evolves [OF hpc]
    by (intro task_service.intro task_service_axioms.intro) (simp_all add: assms(4-6))
  from task_service.cancel_terminal [OF this assms(7,8)] show ?thesis .
qed

text \<open>
  What the backends record as the job of a task, for the documented answers to a submission.
  Slurm and Grid Engine record the job identifier; HTCondor records only the last digit of the
  cluster, and PBS the identifier with the newline that ends the answer.
\<close>

theorem recorded_jobs:
  assumes "CHR 0x0A \<notin> set name"
  shows "slurm_extractID (''Submitted batch job '' @ show_nat n @ newline) = show_nat n \<and>
    ge_extractID (''Your job '' @ show_nat n @ '' ('' @ [CHR 0x22] @ name @ ge_tail) = show_nat n \<and>
    condor_extractID (''Submitting job(s).'' @ newline @ ''1 job(s) submitted to cluster '' @ show_nat n @ ''.'' @ newline) =
      [last (show_nat n)] \<and>
    pbs_extractID (show_nat n @ newline) \<noteq> show_nat n"
  using slurm_extractID_ok ge_extractID_ok [OF assms] condor_extractID_last by (simp add: pbs_extractID_def newline_def)

theorem recorded_jobs_witness:
  "condor_extractID (''Submitting job(s).'' @ newline @ ''1 job(s) submitted to cluster '' @ ''127'' @ ''.'' @ newline) = ''7''"
proof -
  have "show_nat 127 = ''127''" by code_simp
  with recorded_jobs [of "''job''" 127] show ?thesis by simp
qed

text \<open>
  The failures that Slurm reports.  When both commands answer, a job is reported as failed exactly
  if \<open>squeue\<close> lists it in one of its failure states or as pending for want of a partition, or \<open>sacct\<close>
  lists it in one of its failure states; a state that is in neither map never counts as a failure.
\<close>

theorem slurm_failures_exact:
  assumes "slurm_mapStates exec ids s = (s', Inr out)"
  shows "\<exists>s1 qout qerr aout aerr. exec ''squeue'' (squeue_args ids) s = (s1, qout, qerr, None) \<and>
    exec ''sacct'' (sacct_args ids) s1 = (s', aout, aerr, None) \<and>
    (\<forall>k. (\<exists>t\<in>set out. ht_ID t = k \<and> ht_TESState t = SystemError) \<longleftrightarrow>
      (\<exists>l\<in>set (scan_lines qout). \<exists>st reason. Fields l = [k, st, reason] \<and> squeue_failure st reason) \<or>
      (\<exists>l\<in>set (scan_lines aout). \<exists>st. Fields l = [k, st] \<and> sacct_failure st))"
proof -
  from assms obtain s1 qout qerr aout aerr out1 where
    q: "exec ''squeue'' (squeue_args ids) s = (s1, qout, qerr, None)" "squeue_loop (scan_lines qout) [] = Inr out1" and
    a: "exec ''sacct'' (sacct_args ids) s1 = (s', aout, aerr, None)" "sacct_loop (scan_lines aout) out1 = Inr out"
    by (auto simp: slurm_mapStates_def split: prod.splits option.splits sum.splits)
  have three: "Fields l ! 0 = k \<and> squeue_failure (Fields l ! 1) (Fields l ! 2) \<longleftrightarrow> (\<exists>st reason. Fields l = [k, st, reason] \<and> squeue_failure st reason)"
    if "l \<in> set (scan_lines qout)" for l k
    using q(2) that by (auto simp: squeue_loop_Inr numeral_eq_Suc length_Suc_conv)
  have two: "Fields l ! 0 = k \<and> sacct_failure (Fields l ! 1) \<longleftrightarrow> (\<exists>st. Fields l = [k, st] \<and> sacct_failure st)"
    if "l \<in> set (scan_lines aout)" for l k
    using a(2) that by (auto simp: sacct_loop_Inr numeral_eq_Suc length_Suc_conv)
  have "(\<exists>t\<in>set out. ht_ID t = k \<and> ht_TESState t = SystemError) \<longleftrightarrow>
      (\<exists>l\<in>set (scan_lines qout). \<exists>st reason. Fields l = [k, st, reason] \<and> squeue_failure st reason) \<or>
      (\<exists>l\<in>set (scan_lines aout). \<exists>st. Fields l = [k, st] \<and> sacct_failure st)" for k
  proof -
    have "(\<exists>t\<in>set out1. ht_ID t = k \<and> ht_TESState t = SystemError) \<longleftrightarrow>
        (\<exists>l\<in>set (scan_lines qout). Fields l ! 0 = k \<and> squeue_failure (Fields l ! 1) (Fields l ! 2))"
      using q(2) by (auto simp: squeue_loop_Inr squeue_state_failed)
    also have "\<dots> \<longleftrightarrow> (\<exists>l\<in>set (scan_lines qout). \<exists>st reason. Fields l = [k, st, reason] \<and> squeue_failure st reason)"
      by (rule bex_cong [OF refl three])
    finally have 1: "(\<exists>t\<in>set out1. ht_ID t = k \<and> ht_TESState t = SystemError) \<longleftrightarrow>
        (\<exists>l\<in>set (scan_lines qout). \<exists>st reason. Fields l = [k, st, reason] \<and> squeue_failure st reason)" .
    have "(\<exists>t\<in>set out. ht_ID t = k \<and> ht_TESState t = SystemError) \<longleftrightarrow>
        (\<exists>t\<in>set out1. ht_ID t = k \<and> ht_TESState t = SystemError) \<or>
        (\<exists>l\<in>set (scan_lines aout). Fields l ! 0 = k \<and> sacct_failure (Fields l ! 1))"
      using a(2) by (auto simp: sacct_loop_Inr sacct_state_failed bex_Un)
    also have "(\<exists>l\<in>set (scan_lines aout). Fields l ! 0 = k \<and> sacct_failure (Fields l ! 1)) \<longleftrightarrow>
        (\<exists>l\<in>set (scan_lines aout). \<exists>st. Fields l = [k, st] \<and> sacct_failure st)"
      by (rule bex_cong [OF refl two])
    finally show ?thesis unfolding 1 .
  qed
  with q(1) a(1) show ?thesis by blast
qed

definition sample_exec :: "unit exec" where
  "sample_exec cmd args s =
     (s, if cmd = ''squeue'' then ''12 PENDING PartitionConfig'' @ newline else ''12 PENDING'' @ newline @ ''9 FAILED'' @ newline, '''', None)"

theorem slurm_failures_exact_witness:
  "\<exists>out. slurm_mapStates sample_exec [''12'', ''9''] () = ((), Inr out) \<and> (\<exists>t\<in>set out. ht_ID t = ''9'' \<and> ht_TESState t = SystemError)"
proof -
  define out1 where "out1 = [failed_state ''12'' ''PENDING'' ''No suitable partition available'' True]"
  define out where "out = out1 @ [plain_state ''12'' Queued ''PENDING'', plain_state ''9'' SystemError ''FAILED'']"
  let ?q = "''12 PENDING PartitionConfig'' @ newline" and ?a = "''12 PENDING'' @ newline @ ''9 FAILED'' @ newline"
  have q: "squeue_loop (scan_lines ?q) [] = Inr out1" unfolding out1_def by code_simp
  have a: "sacct_loop (scan_lines ?a) out1 = Inr out" unfolding out_def out1_def by code_simp
  have exec: "sample_exec ''squeue'' x () = ((), ?q, '''', None)" "sample_exec ''sacct'' x () = ((), ?a, '''', None)" for x
    by (simp_all add: sample_exec_def)
  have run: "slurm_mapStates sample_exec [''12'', ''9''] () = ((), Inr out)"
    unfolding slurm_mapStates_def by (simp only: exec q a prod.case option.case sum.case)
  have lines: "scan_lines ?a = [''12 PENDING'', ''9 FAILED'']" "Fields ''9 FAILED'' = [''9'', ''FAILED'']"
    by code_simp+
  obtain s1 :: unit and qout qerr aout aerr where
    *: "sample_exec ''sacct'' (sacct_args [''12'', ''9'']) s1 = ((), aout, aerr, None)"
    "(\<exists>t\<in>set out. ht_ID t = ''9'' \<and> ht_TESState t = SystemError) \<longleftrightarrow>
      (\<exists>l\<in>set (scan_lines qout). \<exists>st reason. Fields l = [''9'', st, reason] \<and> squeue_failure st reason) \<or>
      (\<exists>l\<in>set (scan_lines aout). \<exists>st. Fields l = [''9'', st] \<and> sacct_failure st)"
    using slurm_failures_exact [OF run] by (elim exE conjE allE [of _ "''9''"])
  from *(1) have "aout = ?a" by (simp add: exec)
  with lines have "\<exists>l\<in>set (scan_lines aout). \<exists>st. Fields l = [''9'', st] \<and> sacct_failure st" by (simp add: sacct_failure_def)
  with *(2) run show ?thesis by blast
qed

end
