(* ===== verification/Postgres.thy ===== *)
theory Postgres
  imports Task_Store Task_Builder
begin

text \<open>
  The PostgreSQL database: \<open>src/database/postgres/events.go\<close> and \<open>tes.go\<close>.  A task is a row of the
  table \<open>tasks\<close> with its state, owner and version in columns and the task itself as a JSON document.

  The statements that the sources send are the operations of a record \<open>pg\<close>; what the sources rely on
  is \<open>pg_laws\<close>, and \<open>jsonb_set_law\<close> for the documented behaviour of \<open>jsonb_set\<close>.  \<open>pg_others\<close> is what
  other clients do between the two statements of a state change.  \<open>encoding/json\<close> on the task
  structs is written out; decoding a document is an operation of the record.
\<close>

section \<open>JSON documents\<close>

datatype json = JNull | JBool bool | JNum int | JReal real | JStr string | JArr "json list" | JObj "(string \<times> json) list"

fun arr_at :: "string \<Rightarrow> nat \<Rightarrow> json list \<Rightarrow> json option" where
  "arr_at k i [] = None"
| "arr_at k i (j # js) = (if k = show_nat i then Some j else arr_at k (Suc i) js)"

text \<open>The element at a path, as the operator \<open>#>\<close> finds it.\<close>

fun json_at :: "string list \<Rightarrow> json \<Rightarrow> json option" where
  "json_at [] j = Some j"
| "json_at (k # ks) (JObj kvs) = (case map_of kvs k of None \<Rightarrow> None | Some j \<Rightarrow> json_at ks j)"
| "json_at (k # ks) (JArr js) = (case arr_at k 0 js of None \<Rightarrow> None | Some j \<Rightarrow> json_at ks j)"
| "json_at (k # ks) _ = None"

text \<open>The encodings of a field with the tag \<open>omitempty\<close>: the zero value is left out.\<close>

definition str_field :: "string \<Rightarrow> string \<Rightarrow> (string \<times> json) list" where
  "str_field k s = (if s = '''' then [] else [(k, JStr s)])"

definition bool_field :: "string \<Rightarrow> bool \<Rightarrow> (string \<times> json) list" where
  "bool_field k b = (if b then [(k, JBool True)] else [])"

definition int_field :: "string \<Rightarrow> int \<Rightarrow> (string \<times> json) list" where
  "int_field k n = (if n = 0 then [] else [(k, JNum n)])"

definition real_field :: "string \<Rightarrow> real \<Rightarrow> (string \<times> json) list" where
  "real_field k x = (if x = 0 then [] else [(k, JReal x)])"

definition list_field :: "string \<Rightarrow> ('a \<Rightarrow> json) \<Rightarrow> 'a list \<Rightarrow> (string \<times> json) list" where
  "list_field k f xs = (if xs = [] then [] else [(k, JArr (map f xs))])"

definition map_field :: "string \<Rightarrow> string gomap \<Rightarrow> (string \<times> json) list" where
  "map_field k m = (if m = [] then [] else [(k, JObj (map (\<lambda>(x, v). (x, JStr v)) m))])"

definition executor_json :: "Executor \<Rightarrow> json" where
  "executor_json e = JObj (list_field ''command'' JStr (ex_Command e) @ map_field ''env'' (ex_Env e) @
     bool_field ''ignore_error'' (ex_IgnoreError e) @ str_field ''image'' (ex_Image e) @ str_field ''stderr'' (ex_Stderr e) @
     str_field ''stdin'' (ex_Stdin e) @ str_field ''stdout'' (ex_Stdout e) @ str_field ''workdir'' (ex_Workdir e))"

definition executorlog_json :: "ExecutorLog \<Rightarrow> json" where
  "executorlog_json l = JObj (str_field ''end_time'' (el_EndTime l) @ int_field ''exit_code'' (sint (el_ExitCode l)) @
     str_field ''start_time'' (el_StartTime l) @ str_field ''stderr'' (el_Stderr l) @ str_field ''stdout'' (el_Stdout l))"

definition filetype_int :: "FileType \<Rightarrow> int" where
  "filetype_int t = (case t of File \<Rightarrow> 0 | Directory \<Rightarrow> 1)"

definition input_json :: "Input \<Rightarrow> json" where
  "input_json x = JObj (str_field ''content'' (in_Content x) @ str_field ''description'' (in_Description x) @
     str_field ''name'' (in_Name x) @ str_field ''path'' (in_Path x) @ bool_field ''streamable'' (in_Streamable x) @
     int_field ''type'' (filetype_int (in_Type x)) @ str_field ''url'' (in_Url x))"

definition output_json :: "Output \<Rightarrow> json" where
  "output_json x = JObj (str_field ''description'' (out_Description x) @ str_field ''name'' (out_Name x) @
     str_field ''path'' (out_Path x) @ str_field ''path_prefix'' (out_PathPrefix x) @
     int_field ''type'' (filetype_int (out_Type x)) @ str_field ''url'' (out_Url x))"

definition outputlog_json :: "OutputFileLog \<Rightarrow> json" where
  "outputlog_json x = JObj (str_field ''path'' (ofl_Path x) @ str_field ''size_bytes'' (ofl_SizeBytes x) @ str_field ''url'' (ofl_Url x))"

definition resources_json :: "Resources \<Rightarrow> json" where
  "resources_json r = JObj (map_field ''backend_parameters'' (res_BackendParameters r) @
     bool_field ''backend_parameters_strict'' (res_BackendParametersStrict r) @ int_field ''cpu_cores'' (sint (res_CpuCores r)) @
     real_field ''disk_gb'' (res_DiskGb r) @ bool_field ''preemptible'' (res_Preemptible r) @ real_field ''ram_gb'' (res_RamGb r) @
     list_field ''zones'' JStr (res_Zones r))"

definition tasklog_json :: "TaskLog \<Rightarrow> json" where
  "tasklog_json l = JObj (str_field ''end_time'' (tl_EndTime l) @ list_field ''logs'' executorlog_json (tl_Logs l) @
     map_field ''metadata'' (tl_Metadata l) @ list_field ''outputs'' outputlog_json (tl_Outputs l) @
     str_field ''start_time'' (tl_StartTime l) @ list_field ''system_logs'' JStr (tl_SystemLogs l))"

text \<open>The number of a state, which is its position among the enumerators.\<close>

fun State_num :: "State \<Rightarrow> int" where
  "State_num Unknown = 0" | "State_num Queued = 1" | "State_num Initializing = 2" | "State_num Running = 3"
| "State_num Paused = 4" | "State_num Complete = 5" | "State_num ExecutorError = 6" | "State_num SystemError = 7"
| "State_num Canceled = 8" | "State_num Preempted = 9" | "State_num Canceling = 10"

definition task_json :: "Task \<Rightarrow> json" where
  "task_json t = JObj (str_field ''creation_time'' (t_CreationTime t) @ str_field ''description'' (t_Description t) @
     list_field ''executors'' executor_json (t_Executors t) @ str_field ''id'' (t_Id t) @ list_field ''inputs'' input_json (t_Inputs t) @
     list_field ''logs'' tasklog_json (t_Logs t) @ str_field ''name'' (t_Name t) @ list_field ''outputs'' output_json (t_Outputs t) @
     (case t_Resources t of None \<Rightarrow> [] | Some r \<Rightarrow> [(''resources'', resources_json r)]) @
     int_field ''state'' (State_num (t_State t)) @ map_field ''tags'' (t_Tags t) @ list_field ''volumes'' JStr (t_Volumes t))"

section \<open>The statements\<close>

record pg_row =
  pr_state :: string
  pr_owner :: string
  pr_creation :: string
  pr_version :: int
  pr_data :: json

record pg_filter =
  pf_NamePrefix :: "string option"
  pf_State :: "State option"
  pf_Owner :: "string option"
  pf_Tags :: "(string \<times> string option) list"
  pf_Before :: "string option"
  pf_Limit :: nat

text \<open>
  \<open>pg_rows\<close> is the content of the table.  \<open>pg_update_state\<close> gives the number of rows that it changed.
  \<open>pg_cast\<close> is the cast of a text to a JSON document; \<open>pg_list\<close> runs the query of a listing, newest
  first, and gives the documents.
\<close>

record 'd pg =
  pg_rows :: "'d \<Rightarrow> string \<Rightarrow> pg_row option"
  pg_clock :: "'d \<Rightarrow> int"
  pg_insert :: "string \<Rightarrow> pg_row \<Rightarrow> 'd \<Rightarrow> 'd \<times> go_error option"
  pg_update_state :: "string \<Rightarrow> int \<Rightarrow> string \<Rightarrow> int \<Rightarrow> json \<Rightarrow> 'd \<Rightarrow> 'd \<times> (go_error + int)"
  pg_set_data :: "string list \<Rightarrow> json \<Rightarrow> string \<Rightarrow> 'd \<Rightarrow> 'd \<times> go_error option"
  pg_select :: "string \<Rightarrow> 'd \<Rightarrow> go_error + pg_row"
  pg_list :: "pg_filter \<Rightarrow> 'd \<Rightarrow> go_error + json list"
  pg_jsonb_set :: "string list \<Rightarrow> json \<Rightarrow> json \<Rightarrow> json"
  pg_cast :: "string \<Rightarrow> go_error + json"
  pg_unmarshal :: "json \<Rightarrow> go_error + Task"
  pg_unmarshal_logs :: "json \<Rightarrow> go_error + string list"
  pg_others :: "'d \<Rightarrow> 'd"

section \<open>Writing\<close>

definition pg_created_task :: "Task \<Rightarrow> Task" where
  "pg_created_task task =
     (if t_Logs task = []
      then task\<lparr>t_Logs := [empty_tasklog\<lparr>tl_Logs := replicate (length (t_Executors task)) empty_executorlog\<rparr>]\<rparr>
      else task)"

definition pg_insertTask :: "'d pg \<Rightarrow> string \<Rightarrow> Task \<Rightarrow> string \<Rightarrow> 'd \<Rightarrow> 'd \<times> go_error option" where
  "pg_insertTask P now task0 owner d =
     (let task = task0\<lparr>t_CreationTime := now, t_State := Queued\<rparr>
      in pg_insert P (t_Id task)
           \<lparr>pr_state = State_String (t_State task), pr_owner = owner, pr_creation = t_CreationTime task,
            pr_version = pg_clock P d, pr_data = task_json task\<rparr> d)"

definition pg_findTaskStateAndVersion :: "'d pg \<Rightarrow> string \<Rightarrow> 'd \<Rightarrow> go_error + State \<times> int \<times> string" where
  "pg_findTaskStateAndVersion P i d =
     (case pg_select P i d of
        Inl _ \<Rightarrow> Inl ErrNotFound
      | Inr r \<Rightarrow>
          (case State_value (pr_state r) of
             None \<Rightarrow> Inl (Errorf (''invalid state stored in database: '' @ pr_state r))
           | Some st \<Rightarrow> Inr (st, pr_version r, pr_owner r)))"

fun pg_ShouldRetry :: "go_error \<Rightarrow> bool" where
  "pg_ShouldRetry (StatusError code msg) \<longleftrightarrow> code \<noteq> InvalidArgument"
| "pg_ShouldRetry (TransitionError _ _) \<longleftrightarrow> False"
| "pg_ShouldRetry err \<longleftrightarrow> err \<noteq> ErrNotFound \<and> err \<noteq> ErrNotPermitted"

text \<open>One attempt to change the state: read it with its version, check the transition, and update the row if the version is still there.\<close>

definition pg_try_state :: "'d pg \<Rightarrow> string \<Rightarrow> go_ctx \<Rightarrow> Event \<Rightarrow> 'd \<Rightarrow> 'd \<times> go_error option" where
  "pg_try_state P mode ctx ev d =
     (case pg_findTaskStateAndVersion P (ev_Id ev) d of
        Inl _ \<Rightarrow> (d, Some ErrNotFound)
      | Inr (state, oldVersion, owner) \<Rightarrow>
          if \<not> IsAccessible mode (GetUser ctx) owner then (d, Some ErrNotPermitted)
          else (case ValidateTransition state (GetState ev) of
                  Some err \<Rightarrow> (d, Some err)
                | None \<Rightarrow>
                    (let d1 = pg_others P d in
                     case pg_update_state P (ev_Id ev) oldVersion (State_String (GetState ev)) (pg_clock P d1)
                            (JNum (State_num (GetState ev))) d1 of
                       (d2, Inl err) \<Rightarrow> (d2, Some (Errorf (''failed to update task state: '' @ error_string err)))
                     | (d2, Inr n) \<Rightarrow> (d2, if n = 0 then Some ErrConcurrentStateChange else None))))"

fun pg_metadata :: "'d pg \<Rightarrow> string \<Rightarrow> string \<Rightarrow> string gomap \<Rightarrow> 'd \<Rightarrow> 'd \<times> go_error option" where
  "pg_metadata P i attempt [] d = (d, None)"
| "pg_metadata P i attempt ((k, v) # m) d =
     (case pg_cast P ([CHR 0x22] @ v @ [CHR 0x22]) of
        Inl err \<Rightarrow> (d, Some err)
      | Inr j \<Rightarrow>
          (case pg_set_data P [''logs'', attempt, ''metadata'', k] j i d of
             (d', Some err) \<Rightarrow>
               (d', Some (Errorf (''failed to update task metadata '' @ [quote_char] @ ''{logs,'' @ attempt @ '',metadata,'' @ k @ ''}'' @
                  [quote_char] @ '': '' @ error_string err)))
           | (d', None) \<Rightarrow> pg_metadata P i attempt m d'))"

text \<open>The path and the value of the events that set one field; the value of the outputs is null when there are none.\<close>

definition pg_event_value :: "Event \<Rightarrow> go_error + string list \<times> json" where
  "pg_event_value ev =
     (let a = show_nat (ev_attempt ev); x = show_nat (ev_index ev) in
      case ev_Type ev of
        Type_TASK_START_TIME \<Rightarrow> Inr ([''logs'', a, ''start_time''], JStr (GetStartTime ev))
      | Type_TASK_END_TIME \<Rightarrow> Inr ([''logs'', a, ''end_time''], JStr (GetEndTime ev))
      | Type_TASK_OUTPUTS \<Rightarrow>
          (case GetOutputs_Value ev of
             Inl err \<Rightarrow> Inl err
           | Inr v \<Rightarrow> Inr ([''logs'', a, ''outputs''], if v = [] then JNull else JArr (map outputlog_json v)))
      | Type_EXECUTOR_START_TIME \<Rightarrow> Inr ([''logs'', a, ''logs'', x, ''start_time''], JStr (GetStartTime ev))
      | Type_EXECUTOR_END_TIME \<Rightarrow> Inr ([''logs'', a, ''logs'', x, ''end_time''], JStr (GetEndTime ev))
      | Type_EXECUTOR_EXIT_CODE \<Rightarrow> Inr ([''logs'', a, ''logs'', x, ''exit_code''], JNum (sint (GetExitCode ev)))
      | Type_EXECUTOR_STDOUT \<Rightarrow> Inr ([''logs'', a, ''logs'', x, ''stdout''], JStr (GetStdout ev))
      | _ \<Rightarrow> Inr ([''logs'', a, ''logs'', x, ''stderr''], JStr (GetStderr ev)))"

text \<open>The system log reads the lines of the first attempt and writes them, with the new one, to the attempt of the event.\<close>

definition pg_system_log :: "'d pg \<Rightarrow> Event \<Rightarrow> 'd \<Rightarrow> 'd \<times> go_error option" where
  "pg_system_log P ev d =
     (case SysLogString ev of
        Inl err \<Rightarrow> (d, Some err)
      | Inr line \<Rightarrow>
          (case pg_select P (ev_Id ev) d of
             Inl err \<Rightarrow> (d, Some (Errorf (''failed to read current system logs for task '' @ ev_Id ev @ '': '' @ error_string err)))
           | Inr r \<Rightarrow>
               (case (case json_at [''logs'', show_nat 0, ''system_logs''] (pr_data r) of None \<Rightarrow> Inr [] | Some j \<Rightarrow> pg_unmarshal_logs P j) of
                  Inl err \<Rightarrow> (d, Some (Errorf (''failed to unmarshal current system logs for task '' @ ev_Id ev @ '': '' @ error_string err)))
                | Inr current \<Rightarrow>
                    pg_set_data P [''logs'', show_nat (ev_attempt ev), ''system_logs''] (JArr (map JStr (current @ [line]))) (ev_Id ev)
                      (pg_others P d))))"

text \<open>
  \<open>WriteEvent\<close> starts by replacing the context of the request by one of its own, which carries no
  user; \<open>UnixNano\<close> and the clock of the database stand for the same time.
\<close>

definition pg_WriteEvent :: "'d pg \<Rightarrow> 'd retry_notify \<Rightarrow> string \<Rightarrow> string \<Rightarrow> 'd writer" where
  "pg_WriteEvent P RN mode now request_ctx ev d =
     (let ctx = (None :: go_ctx) in
      case ev_Type ev of
        Type_TASK_CREATED \<Rightarrow>
          (case GetTask_of ev of
             Inl err \<Rightarrow> (d, Some err)
           | Inr task \<Rightarrow> pg_insertTask P now (pg_created_task task) (GetUsername ctx) d)
      | Type_TASK_STATE \<Rightarrow> Retry RN (NewRetrier\<lparr>r_ShouldRetry := Some pg_ShouldRetry\<rparr>) (pg_try_state P mode ctx ev) d
      | Type_TASK_METADATA \<Rightarrow>
          (case GetMetadata_Value ev of
             Inl err \<Rightarrow> (d, Some err)
           | Inr m \<Rightarrow> pg_metadata P (ev_Id ev) (show_nat (ev_attempt ev)) m d)
      | Type_SYSTEM_LOG \<Rightarrow> pg_system_log P ev d
      | Type_UNKNOWN \<Rightarrow> (d, None)
      | Type_TASK_RESOURCES \<Rightarrow> (d, None)
      | _ \<Rightarrow>
          (case pg_event_value ev of
             Inl err \<Rightarrow> (d, Some err)
           | Inr (path, v) \<Rightarrow> pg_set_data P path v (ev_Id ev) d))"

section \<open>Reading\<close>

definition trimUnusedExecutorLogs :: "Task \<Rightarrow> Task" where
  "trimUnusedExecutorLogs task =
     task\<lparr>t_Logs := map (\<lambda>l. l\<lparr>tl_Logs := rev (dropWhile (\<lambda>x. el_StartTime x = '''') (rev (tl_Logs l)))\<rparr>) (t_Logs task)\<rparr>"

definition pg_applyView :: "Task \<Rightarrow> string \<Rightarrow> Task" where
  "pg_applyView task view =
     (if view = View_String Basic then GetBasicView task else if view = View_String Minimal then GetMinimalView task else task)"

definition pg_GetTask :: "'d pg \<Rightarrow> string \<Rightarrow> go_ctx \<Rightarrow> GetTaskRequest \<Rightarrow> 'd \<Rightarrow> go_error + Task" where
  "pg_GetTask P mode request_ctx req d =
     (let ctx = (None :: go_ctx) in
      case pg_select P (gt_Id req) d of
        Inl _ \<Rightarrow> Inl ErrNotFound
      | Inr r \<Rightarrow>
          if \<not> IsAccessible mode (GetUser ctx) (pr_owner r) then Inl ErrNotPermitted
          else (case pg_unmarshal P (pr_data r) of
                  Inl err \<Rightarrow> Inl (Errorf (''failed to unmarshal task JSON: '' @ error_string err))
                | Inr t \<Rightarrow>
                    (let task = t\<lparr>t_Id := gt_Id req, t_State := (case State_value (pr_state r) of None \<Rightarrow> Unknown | Some st \<Rightarrow> st)\<rparr>
                     in Inr (pg_applyView (trimUnusedExecutorLogs task) (gt_View req)))))"

definition pg_list_filter :: "string \<Rightarrow> go_ctx \<Rightarrow> ListTasksRequest \<Rightarrow> pg_filter" where
  "pg_list_filter mode request_ctx req =
     (let ctx = (None :: go_ctx); u = GetUser ctx in
      \<lparr>pf_NamePrefix = (if lt_NamePrefix req \<noteq> '''' then Some (lt_NamePrefix req) else None),
       pf_State = (if lt_State req \<noteq> Unknown then Some (lt_State req) else None),
       pf_Owner = (if \<not> CanSeeAllTasks mode u then Some (Username u) else None),
       pf_Tags = map (\<lambda>(k, v). (k, if v = '''' then None else Some v)) (case GetTags req of None \<Rightarrow> [] | Some m \<Rightarrow> m),
       pf_Before = (if lt_PageToken req \<noteq> '''' then Some (lt_PageToken req) else None),
       pf_Limit = nat (GetPageSize (lt_PageSize req))\<rparr>)"

text \<open>Documents that cannot be decoded are left out.\<close>

fun pg_decode_all :: "'d pg \<Rightarrow> json list \<Rightarrow> Task list" where
  "pg_decode_all P [] = []"
| "pg_decode_all P (j # js) = (case pg_unmarshal P j of Inl _ \<Rightarrow> pg_decode_all P js | Inr t \<Rightarrow> t # pg_decode_all P js)"

definition pg_ListTasks :: "'d pg \<Rightarrow> string \<Rightarrow> go_ctx \<Rightarrow> ListTasksRequest \<Rightarrow> 'd \<Rightarrow> go_error + ListTasksResponse" where
  "pg_ListTasks P mode request_ctx req d =
     (case pg_list P (pg_list_filter mode request_ctx req) d of
        Inl err \<Rightarrow> Inl err
      | Inr docs \<Rightarrow>
          (let tasks = map (\<lambda>t. pg_applyView (trimUnusedExecutorLogs t) (lt_View req)) (pg_decode_all P docs)
           in Inr \<lparr>ltr_NextPageToken = (if length tasks = nat (GetPageSize (lt_PageSize req)) then t_Id (last tasks) else ''''),
                   ltr_Tasks = tasks\<rparr>))"

section \<open>What the server promises\<close>

text \<open>
  A statement that fails changes nothing.  An insert needs a fresh key; an update changes the row it
  selects, if there is one.
\<close>

definition pg_laws :: "'d pg \<Rightarrow> bool" where
  "pg_laws P \<longleftrightarrow>
     (\<forall>i r d d' e. pg_insert P i r d = (d', Some e) \<longrightarrow> pg_rows P d' = pg_rows P d) \<and>
     (\<forall>i r d d'. pg_insert P i r d = (d', None) \<longrightarrow> pg_rows P d i = None \<and> pg_rows P d' = (pg_rows P d)(i \<mapsto> r)) \<and>
     (\<forall>i old st new j d d' e. pg_update_state P i old st new j d = (d', Inl e) \<longrightarrow> pg_rows P d' = pg_rows P d) \<and>
     (\<forall>i old st new j d d' n r. pg_update_state P i old st new j d = (d', Inr n) \<and> pg_rows P d i = Some r \<and> pr_version r = old \<longrightarrow>
        n = 1 \<and> pg_rows P d' = (pg_rows P d)(i \<mapsto> r\<lparr>pr_state := st, pr_version := new,
                    pr_data := pg_jsonb_set P [''state''] j (pr_data r)\<rparr>)) \<and>
     (\<forall>i old st new j d d' n. pg_update_state P i old st new j d = (d', Inr n) \<and>
        (\<forall>r. pg_rows P d i = Some r \<longrightarrow> pr_version r \<noteq> old) \<longrightarrow> n = 0 \<and> pg_rows P d' = pg_rows P d) \<and>
     (\<forall>p v i d d' e. pg_set_data P p v i d = (d', Some e) \<longrightarrow> pg_rows P d' = pg_rows P d) \<and>
     (\<forall>p v i d d'. pg_set_data P p v i d = (d', None) \<longrightarrow>
        pg_rows P d' = (case pg_rows P d i of None \<Rightarrow> pg_rows P d
          | Some r \<Rightarrow> (pg_rows P d)(i \<mapsto> r\<lparr>pr_data := pg_jsonb_set P p v (pr_data r)\<rparr>))) \<and>
     (\<forall>i d r. pg_select P i d = Inr r \<longrightarrow> pg_rows P d i = Some r)"

lemma pg_lawsD:
  assumes "pg_laws P"
  shows "pg_insert P i r d = (d', Some e) \<Longrightarrow> pg_rows P d' = pg_rows P d"
    and "pg_insert P i r d = (d', None) \<Longrightarrow> pg_rows P d i = None \<and> pg_rows P d' = (pg_rows P d)(i \<mapsto> r)"
    and "pg_update_state P i old st new j d = (d', Inl e) \<Longrightarrow> pg_rows P d' = pg_rows P d"
    and "pg_update_state P i old st new j d = (d', Inr n) \<Longrightarrow> pg_rows P d i = Some row \<Longrightarrow> pr_version row = old \<Longrightarrow>
      n = 1 \<and> pg_rows P d' = (pg_rows P d)(i \<mapsto> row\<lparr>pr_state := st, pr_version := new,
                    pr_data := pg_jsonb_set P [''state''] j (pr_data row)\<rparr>)"
    and "pg_update_state P i old st new j d = (d', Inr n) \<Longrightarrow> (\<And>row. pg_rows P d i = Some row \<Longrightarrow> pr_version row \<noteq> old) \<Longrightarrow>
      n = 0 \<and> pg_rows P d' = pg_rows P d"
    and "pg_set_data P p v i d = (d', Some e) \<Longrightarrow> pg_rows P d' = pg_rows P d"
    and "pg_set_data P p v i d = (d', None) \<Longrightarrow> pg_rows P d' = (case pg_rows P d i of None \<Rightarrow> pg_rows P d
          | Some r \<Rightarrow> (pg_rows P d)(i \<mapsto> r\<lparr>pr_data := pg_jsonb_set P p v (pr_data r)\<rparr>))"
    and "pg_select P i d = Inr row \<Longrightarrow> pg_rows P d i = Some row"
proof -
  note L = assms [unfolded pg_laws_def]
  note c = L [THEN conjunct1] L [THEN conjunct2, THEN conjunct1] L [THEN conjunct2, THEN conjunct2, THEN conjunct1]
    L [THEN conjunct2, THEN conjunct2, THEN conjunct2, THEN conjunct1] L [THEN conjunct2, THEN conjunct2, THEN conjunct2, THEN conjunct2, THEN conjunct1]
  note L5 = L [THEN conjunct2, THEN conjunct2, THEN conjunct2, THEN conjunct2, THEN conjunct2]
  show "pg_insert P i r d = (d', Some e) \<Longrightarrow> pg_rows P d' = pg_rows P d" by (rule c(1) [rule_format])
  show "pg_insert P i r d = (d', None) \<Longrightarrow> pg_rows P d i = None \<and> pg_rows P d' = (pg_rows P d)(i \<mapsto> r)" by (rule c(2) [rule_format])
  show "pg_update_state P i old st new j d = (d', Inl e) \<Longrightarrow> pg_rows P d' = pg_rows P d" by (rule c(3) [rule_format])
  show "pg_update_state P i old st new j d = (d', Inr n) \<Longrightarrow> pg_rows P d i = Some row \<Longrightarrow> pr_version row = old \<Longrightarrow>
      n = 1 \<and> pg_rows P d' = (pg_rows P d)(i \<mapsto> row\<lparr>pr_state := st, pr_version := new,
                    pr_data := pg_jsonb_set P [''state''] j (pr_data row)\<rparr>)" by (rule c(4) [rule_format]) simp
  show "pg_update_state P i old st new j d = (d', Inr n) \<Longrightarrow> (\<And>row. pg_rows P d i = Some row \<Longrightarrow> pr_version row \<noteq> old) \<Longrightarrow>
      n = 0 \<and> pg_rows P d' = pg_rows P d" using c(5) [rule_format, of i old st new j d d' n] by blast
  show "pg_set_data P p v i d = (d', Some e) \<Longrightarrow> pg_rows P d' = pg_rows P d" by (rule L5 [THEN conjunct1, rule_format])
  show "pg_set_data P p v i d = (d', None) \<Longrightarrow> pg_rows P d' = (case pg_rows P d i of None \<Rightarrow> pg_rows P d
          | Some r \<Rightarrow> (pg_rows P d)(i \<mapsto> r\<lparr>pr_data := pg_jsonb_set P p v (pr_data r)\<rparr>))"
    by (rule L5 [THEN conjunct2, THEN conjunct1, rule_format])
  show "pg_select P i d = Inr row \<Longrightarrow> pg_rows P d i = Some row" by (rule L5 [THEN conjunct2, THEN conjunct2, rule_format])
qed

text \<open>
  The documented behaviour of \<open>jsonb_set\<close> with the creation of missing elements: all steps of the
  path but the last have to be there, otherwise the document is returned unchanged; a key of an
  object is set.
\<close>

definition jsonb_set_law :: "(string list \<Rightarrow> json \<Rightarrow> json \<Rightarrow> json) \<Rightarrow> bool" where
  "jsonb_set_law jset \<longleftrightarrow>
     (\<forall>p k v j. json_at p j = None \<longrightarrow> jset (p @ [k]) v j = j) \<and>
     (\<forall>p k v j kvs. json_at p j = Some (JObj kvs) \<longrightarrow> json_at (p @ [k]) (jset (p @ [k]) v j) = Some v)"

text \<open>Other clients give a row a new version whenever they change its state.\<close>

definition versioned :: "'d pg \<Rightarrow> bool" where
  "versioned P \<longleftrightarrow> (\<forall>d i r r'. pg_rows P d i = Some r \<and> pg_rows P (pg_others P d) i = Some r' \<and> pr_version r' = pr_version r \<longrightarrow>
     pr_state r' = pr_state r)"

definition pg_alone :: "'d pg \<Rightarrow> bool" where
  "pg_alone P \<longleftrightarrow> (\<forall>d. pg_others P d = d)"

definition pg_state :: "'d pg \<Rightarrow> 'd \<Rightarrow> string \<Rightarrow> State option" where
  "pg_state P d i = (case pg_rows P d i of None \<Rightarrow> None | Some r \<Rightarrow> State_value (pr_state r))"

section \<open>Lemmas: writes\<close>

definition pg_ok :: "'d pg \<Rightarrow> 'd \<Rightarrow> bool" where
  "pg_ok P d \<longleftrightarrow> (\<forall>i r. pg_rows P d i = Some r \<longrightarrow> State_value (pr_state r) \<noteq> None)"

lemma pg_state_cong: "pg_rows P d = pg_rows P d' \<Longrightarrow> pg_state P d = pg_state P d' \<and> pg_ok P d = pg_ok P d'"
  by (simp add: pg_state_def pg_ok_def fun_eq_iff)

text \<open>An attempt that succeeds was valid for the state at the time of the update, whatever others did since the read.\<close>

lemma pg_try_state_sound:
  assumes laws: "pg_laws P" "versioned P" and run: "pg_try_state P mode ctx ev d = (d', r)"
  shows "r = None \<Longrightarrow> \<exists>from. pg_state P (pg_others P d) (ev_Id ev) = Some from \<and> state_step from (GetState ev) \<and>
      (\<exists>row. State_value (pr_state row) = Some (GetState ev) \<and> pg_rows P d' = (pg_rows P (pg_others P d))(ev_Id ev \<mapsto> row))"
    and "r = Some e \<Longrightarrow> pg_rows P d' = pg_rows P d \<or> pg_rows P d' = pg_rows P (pg_others P d)"
proof -
  let ?d1 = "pg_others P d" and ?to = "GetState ev"
  let ?upd = "\<lambda>v. pg_update_state P (ev_Id ev) v (State_String ?to) (pg_clock P ?d1) (JNum (State_num ?to)) ?d1"
  show "pg_rows P d' = pg_rows P d \<or> pg_rows P d' = pg_rows P ?d1" if "r = Some e"
  proof (cases "d' = d")
    case False
    with run obtain st v own where "pg_findTaskStateAndVersion P (ev_Id ev) d = Inr (st, v, own)"
      by (auto simp: pg_try_state_def split: sum.splits)
    with run that False obtain n where "?upd v = (d', n)" "\<not> isl n \<longrightarrow> projr n = 0"
      by (auto simp: pg_try_state_def Let_def split: sum.splits option.splits if_splits prod.splits)
    then have "pg_rows P d' = pg_rows P ?d1"
      using pg_lawsD(3) [OF laws(1)] pg_lawsD(4) [OF laws(1)] pg_lawsD(5) [OF laws(1)]
      by (cases n) (fastforce, metis isl_def sum.disc(2) sum.sel(2) zero_neq_one)
    then show ?thesis ..
  qed simp
  assume "r = None"
  with run obtain st v own n where find: "pg_findTaskStateAndVersion P (ev_Id ev) d = Inr (st, v, own)"
    and valid: "ValidateTransition st ?to = None" and upd: "?upd v = (d', Inr n)" "n \<noteq> 0"
    by (auto simp: pg_try_state_def Let_def split: sum.splits option.splits if_splits prod.splits)
  from find obtain row where row: "pg_rows P d (ev_Id ev) = Some row" "pr_version row = v" "State_value (pr_state row) = Some st"
    by (auto simp: pg_findTaskStateAndVersion_def split: sum.splits option.splits dest!: pg_lawsD(8) [OF laws(1)])
  from upd pg_lawsD(5) [OF laws(1) upd(1)] obtain row1 where row1: "pg_rows P ?d1 (ev_Id ev) = Some row1" "pr_version row1 = v"
    by blast
  with row laws(2) have "pr_state row1 = pr_state row" unfolding versioned_def by metis
  with row1(1) row(3) have "pg_state P ?d1 (ev_Id ev) = Some st" by (simp add: pg_state_def)
  moreover from pg_lawsD(4) [OF laws(1) upd(1) row1] have "pg_rows P d' = (pg_rows P ?d1)(ev_Id ev \<mapsto>
      row1\<lparr>pr_state := State_String ?to, pr_version := pg_clock P ?d1, pr_data := pg_jsonb_set P [''state''] (JNum (State_num ?to)) (pr_data row1)\<rparr>)"
    by simp
  ultimately show "\<exists>from. pg_state P ?d1 (ev_Id ev) = Some from \<and> state_step from ?to \<and>
      (\<exists>row. State_value (pr_state row) = Some ?to \<and> pg_rows P d' = (pg_rows P ?d1)(ev_Id ev \<mapsto> row))"
    using valid by (intro exI [of _ st]) (auto simp: state_step_iff intro!: exI)
qed

text \<open>The events that are not about the state change only the document.\<close>

definition same_columns :: "'d pg \<Rightarrow> 'd \<Rightarrow> 'd \<Rightarrow> bool" where
  "same_columns P d d' \<longleftrightarrow> (\<forall>i. map_option pr_state (pg_rows P d' i) = map_option pr_state (pg_rows P d i))"

lemma pg_state_column: "pg_state P d i = Option.bind (map_option pr_state (pg_rows P d i)) State_value"
  by (simp add: pg_state_def split: option.split)

lemma pg_ok_column: "pg_ok P d \<longleftrightarrow> (\<forall>i s. map_option pr_state (pg_rows P d i) = Some s \<longrightarrow> State_value s \<noteq> None)"
  by (auto simp: pg_ok_def)

lemma same_columns_state: "same_columns P d d' \<Longrightarrow> pg_state P d' = pg_state P d \<and> pg_ok P d' = pg_ok P d"
  by (simp add: same_columns_def pg_state_column pg_ok_column fun_eq_iff)

lemma pg_set_data_columns: "pg_laws P \<Longrightarrow> pg_set_data P p v i d = (d', r) \<Longrightarrow> same_columns P d d'"
  by (cases r) (auto simp: same_columns_def dest: pg_lawsD(6,7) split: option.splits)

lemma pg_metadata_columns: "pg_laws P \<Longrightarrow> pg_metadata P i a m d = (d', r) \<Longrightarrow> same_columns P d d'"
proof (induction m arbitrary: d)
  case (Cons kv m)
  obtain k v where kv: "kv = (k, v)" by force
  show ?case
  proof (cases "pg_cast P ([CHR 0x22] @ v @ [CHR 0x22])")
    case (Inl err)
    with Cons.prems kv show ?thesis by (simp add: same_columns_def)
  next
    case (Inr j)
    obtain d1 r1 where set: "pg_set_data P [''logs'', a, ''metadata'', k] j i d = (d1, r1)" by force
    from pg_set_data_columns [OF Cons.prems(1) this] have 1: "same_columns P d d1" .
    show ?thesis
    proof (cases r1)
      case None
      with Cons.IH [OF Cons.prems(1)] Cons.prems kv Inr set have "same_columns P d1 d'" by simp
      with 1 show ?thesis by (simp add: same_columns_def)
    qed (use 1 Cons.prems kv Inr set in simp)
  qed
qed (simp add: same_columns_def)

lemma pg_other_columns:
  assumes "pg_laws P" "pg_alone P" "pg_WriteEvent P RN mode now ctx ev d = (d', r)"
    "ev_Type ev \<noteq> Type_TASK_CREATED" "ev_Type ev \<noteq> Type_TASK_STATE"
  shows "same_columns P d d'"
proof -
  have refl: "same_columns P d d" by (simp add: same_columns_def)
  show ?thesis
  proof (cases "ev_Type ev = Type_TASK_METADATA \<or> ev_Type ev = Type_SYSTEM_LOG \<or> ev_Type ev = Type_UNKNOWN \<or> ev_Type ev = Type_TASK_RESOURCES")
    case True
    with assms refl show ?thesis
      by (auto simp: pg_WriteEvent_def pg_system_log_def pg_alone_def split: sum.splits option.splits
          dest: pg_metadata_columns [OF assms(1)] pg_set_data_columns [OF assms(1)])
  next
    case False
    with assms(3-5) have "(case pg_event_value ev of Inl err \<Rightarrow> (d, Some err) | Inr (path, v) \<Rightarrow> pg_set_data P path v (ev_Id ev) d) = (d', r)"
      by (auto simp: pg_WriteEvent_def split: EventType.splits)
    with refl show ?thesis by (auto split: sum.splits prod.splits dest: pg_set_data_columns [OF assms(1)])
  qed
qed

lemma pg_insert_columns:
  assumes "pg_laws P" "pg_insertTask P now task owner d = (d', r)"
  shows "if r = None then pg_rows P d (t_Id task) = None \<and> (\<exists>row. pg_rows P d' = (pg_rows P d)(t_Id task \<mapsto> row) \<and>
      pr_state row = State_String Queued \<and> pr_owner row = owner \<and> pr_data row = task_json (task\<lparr>t_CreationTime := now, t_State := Queued\<rparr>))
    else pg_rows P d' = pg_rows P d"
  using assms(2) unfolding pg_insertTask_def Let_def
  by (cases r) (auto dest: pg_lawsD(1,2) [OF assms(1)])

section \<open>PostgreSQL provides the contract\<close>

definition pg_post :: "'d pg \<Rightarrow> Event \<Rightarrow> 'd \<Rightarrow> 'd \<Rightarrow> go_error option \<Rightarrow> bool" where
  "pg_post P ev d d' r \<longleftrightarrow> pg_ok P d' \<and>
     (case r of
        None \<Rightarrow> \<exists>from. pg_state P d (ev_Id ev) = Some from \<and> state_step from (GetState ev) \<and>
                  pg_state P d' = (pg_state P d)(ev_Id ev \<mapsto> GetState ev)
      | Some e \<Rightarrow> pg_state P d' = pg_state P d)"

lemma pg_state_write:
  assumes "pg_laws P" "backoff_law RN" "pg_alone P" "pg_ok P d" "ev_Type ev = Type_TASK_STATE"
    "pg_WriteEvent P RN mode now ctx ev d = (d', r)"
  shows "pg_post P ev d d' r"
proof (rule Retry_rule [OF assms(2), where I = "\<lambda>s. pg_rows P s = pg_rows P d"])
  show "Retry RN (NewRetrier\<lparr>r_ShouldRetry := Some pg_ShouldRetry\<rparr>) (pg_try_state P mode None ev) d = (d', r)"
    using assms(5,6) by (simp add: pg_WriteEvent_def)
next
  fix s s' err
  assume same: "pg_rows P s = pg_rows P d" and run: "pg_try_state P mode None ev s = (s', err)"
  have ver: "versioned P" using assms(3) by (auto simp: versioned_def pg_alone_def)
  have alone: "pg_others P s = s" using assms(3) by (simp add: pg_alone_def)
  note cong = pg_state_cong [OF same]
  show "pg_post P ev d s' err \<and> (err \<noteq> None \<longrightarrow> pg_rows P s' = pg_rows P d)"
  proof (cases err)
    case (Some e)
    with pg_try_state_sound(2) [OF assms(1) ver run Some] have "pg_rows P s' = pg_rows P d" by (simp add: alone same)
    with Some assms(4) pg_state_cong [OF this] show ?thesis by (simp add: pg_post_def)
  next
    case None
    with pg_try_state_sound(1) [OF assms(1) ver run None] obtain from_state row where
      *: "pg_state P s (ev_Id ev) = Some from_state" "state_step from_state (GetState ev)"
      "State_value (pr_state row) = Some (GetState ev)" "pg_rows P s' = (pg_rows P s)(ev_Id ev \<mapsto> row)" by (auto simp: alone)
    then have "pg_state P s' = (pg_state P d)(ev_Id ev \<mapsto> GetState ev)" "pg_ok P s'"
      using assms(4) by (auto simp: pg_state_def pg_ok_def same fun_eq_iff)
    with * None cong show ?thesis by (auto simp: pg_post_def)
  qed
qed simp

lemma pg_applyView_state [simp]: "t_State (pg_applyView (trimUnusedExecutorLogs t) v) = t_State t"
  by (simp add: pg_applyView_def trimUnusedExecutorLogs_def)

lemma pg_task_db:
  assumes "pg_laws P" "backoff_law RN" "pg_alone P"
  shows "task_db (pg_WriteEvent P RN mode now) (pg_state P) (pg_ok P) (pg_GetTask P mode)"
proof -
  have create: "pg_ok P d' \<and> (r \<noteq> None \<longrightarrow> pg_state P d' = pg_state P d) \<and> (\<forall>i. i \<noteq> event_target ev \<longrightarrow> pg_state P d' i = pg_state P d i)"
    if "pg_ok P d" "ev_Type ev = Type_TASK_CREATED" "pg_WriteEvent P RN mode now ctx ev d = (d', r)" for d d' ev ctx r
  proof (cases "GetTask_of ev")
    case (Inl e)
    with that show ?thesis by (auto simp: pg_WriteEvent_def)
  next
    case (Inr t)
    then have target: "event_target ev = t_Id t" using that(2) by (auto simp: event_target_def GetTask_of_def split: EventData.splits)
    have tid: "t_Id (pg_created_task t) = t_Id t" by (simp add: pg_created_task_def)
    from that(2,3) Inr have ins: "pg_insertTask P now (pg_created_task t) (GetUsername None) d = (d', r)" by (simp add: pg_WriteEvent_def)
    show ?thesis
    proof (cases r)
      case None
      with pg_insert_columns [OF assms(1) ins] obtain row where "pg_rows P d' = (pg_rows P d)(t_Id t \<mapsto> row)" "pr_state row = State_String Queued"
        by (auto simp: tid)
      with None that(1) target State_value_String [of Queued] show ?thesis by (auto simp: pg_state_def pg_ok_def)
    next
      case (Some e)
      with pg_insert_columns [OF assms(1) ins] have "pg_rows P d' = pg_rows P d" by simp
      with that(1) pg_state_cong [OF this] show ?thesis by simp
    qed
  qed
  note state = pg_state_write [OF assms]
  have other: "pg_ok P d' = pg_ok P d \<and> pg_state P d' = pg_state P d"
    if "pg_WriteEvent P RN mode now ctx ev d = (d', r)" "ev_Type ev \<noteq> Type_TASK_CREATED" "ev_Type ev \<noteq> Type_TASK_STATE" for ctx ev d d' r
    using same_columns_state [OF pg_other_columns [OF assms(1,3) that]] by simp
  show ?thesis
  proof (unfold_locales, goal_cases)
    case (1 d ctx ev d' r)
    then show ?case using create [OF 1(1) _ 1(2)] state [OF 1(1) _ 1(2)] other [OF 1(2)] by (auto simp: pg_post_def)
  next
    case (2 d ctx ev d' e)
    then show ?case using create [OF 2(1) _ 2(2)] state [OF 2(1) _ 2(2)] other [OF 2(2)] by (auto simp: pg_post_def)
  next
    case (3 d ctx ev d' i)
    then show ?case using create [OF 3(1) _ 3(2)] state [OF 3(1) _ 3(2)] other [OF 3(2)]
      by (cases "ev_Type ev = Type_TASK_STATE") (auto simp: pg_post_def event_target_def split: EventType.splits)
  next
    case (4 d ctx ev d')
    then show ?case using state [OF 4(1,3,2)] by (auto simp: pg_post_def)
  next
    case (5 d ctx ev d')
    then show ?case using other [OF 5(2,4,3)] by simp
  next
    case (6 d ctx req t)
    from 6(2) obtain row where row: "pg_select P (gt_Id req) d = Inr row" by (auto simp: pg_GetTask_def split: sum.splits)
    note stored = pg_lawsD(8) [OF assms(1) row]
    with 6(1) obtain st where "State_value (pr_state row) = Some st" unfolding pg_ok_def by blast
    with 6(2) row stored show ?case by (auto simp: pg_GetTask_def pg_state_def Let_def split: sum.splits if_splits)
  next
    case (7 d req ctx)
    then have "pg_rows P d (gt_Id req) = None" unfolding pg_state_def pg_ok_def by (cases "pg_rows P d (gt_Id req)") fastforce+
    then have "\<nexists>r. pg_select P (gt_Id req) d = Inr r" using pg_lawsD(8) [OF assms(1)] by fastforce
    then show ?case by (cases "pg_select P (gt_Id req) d") (auto simp: pg_GetTask_def)
  qed
qed

section \<open>An in-memory table\<close>

text \<open>An instance of the parameters: the table as an association list with a clock, and \<open>jsonb_set\<close> by recursion on the path.\<close>

fun arr_set :: "string \<Rightarrow> nat \<Rightarrow> (json \<Rightarrow> json) \<Rightarrow> json list \<Rightarrow> json list" where
  "arr_set k i f [] = []"
| "arr_set k i f (j # js) = (if k = show_nat i then f j # js else j # arr_set k (Suc i) f js)"

definition obj_set :: "string \<Rightarrow> json \<Rightarrow> json \<Rightarrow> json" where
  "obj_set k v j = (case j of JObj kvs \<Rightarrow> JObj (AList.update k v kvs) | JArr js \<Rightarrow> JArr (arr_set k 0 (\<lambda>_. v) js) | _ \<Rightarrow> j)"

fun mem_jsonb_set :: "string list \<Rightarrow> json \<Rightarrow> json \<Rightarrow> json" where
  "mem_jsonb_set [] v j = j"
| "mem_jsonb_set [k] v j = obj_set k v j"
| "mem_jsonb_set (k # l # ks) v (JObj kvs) =
     JObj (case map_of kvs k of None \<Rightarrow> kvs | Some x \<Rightarrow> AList.update k (mem_jsonb_set (l # ks) v x) kvs)"
| "mem_jsonb_set (k # l # ks) v (JArr js) = JArr (arr_set k 0 (mem_jsonb_set (l # ks) v) js)"
| "mem_jsonb_set (k # l # ks) v j = j"

lemma arr_at_set:
  "arr_at k i js = Some x \<Longrightarrow> arr_at k i (arr_set k i f js) = Some (f x)"
  "arr_at k i js = None \<Longrightarrow> arr_set k i f js = js"
  by (induction js arbitrary: i) (auto split: if_splits)

lemma arr_set_id: "arr_at k i js = Some x \<Longrightarrow> f x = x \<Longrightarrow> arr_set k i f js = js"
  by (induction js arbitrary: i) (auto split: if_splits)

lemma update_id: "map_of kvs k = Some x \<Longrightarrow> AList.update k x kvs = kvs"
  by (induction kvs) (auto split: if_splits)

lemma mem_jsonb_set_deep:
  "ks \<noteq> [] \<Longrightarrow> mem_jsonb_set (k # ks) v j =
     (case j of
        JObj kvs \<Rightarrow> JObj (case map_of kvs k of None \<Rightarrow> kvs | Some x \<Rightarrow> AList.update k (mem_jsonb_set ks v x) kvs)
      | JArr js \<Rightarrow> JArr (arr_set k 0 (mem_jsonb_set ks v) js)
      | _ \<Rightarrow> j)"
  by (cases ks; cases j) auto

lemma mem_jsonb_set_missing: "json_at p j = None \<Longrightarrow> mem_jsonb_set (p @ [k]) v j = j"
proof (induction p arbitrary: j)
  case (Cons q ks)
  then show ?case
    by (cases j) (auto simp: mem_jsonb_set_deep update_id arr_at_set(2) arr_set_id split: option.splits)
qed simp

lemma mem_jsonb_set_there: "json_at p j = Some (JObj kvs) \<Longrightarrow> json_at (p @ [k]) (mem_jsonb_set (p @ [k]) v j) = Some v"
proof (induction p arbitrary: j)
  case Nil
  then show ?case by (simp add: obj_set_def update_conv')
next
  case (Cons q ks)
  then show ?case
    by (cases j) (auto simp: mem_jsonb_set_deep update_conv' arr_at_set(1) split: option.splits)
qed

lemma mem_jsonb_set_law: "jsonb_set_law mem_jsonb_set"
  by (simp add: jsonb_set_law_def mem_jsonb_set_missing mem_jsonb_set_there)

type_synonym mem_table = "(string \<times> pg_row) list \<times> int"

definition mem_pg :: "mem_table pg" where
  "mem_pg = \<lparr>pg_rows = (\<lambda>(t, n). map_of t), pg_clock = snd,
     pg_insert = (\<lambda>i r (t, n). case map_of t i of
        Some _ \<Rightarrow> ((t, n + 1), Some (Errorf ''duplicate key'')) | None \<Rightarrow> (((i, r) # t, n + 1), None)),
     pg_update_state = (\<lambda>i old st new j (t, n). case map_of t i of
        Some r \<Rightarrow> if pr_version r = old
          then ((AList.update i (r\<lparr>pr_state := st, pr_version := new, pr_data := mem_jsonb_set [''state''] j (pr_data r)\<rparr>) t, n + 1), Inr 1)
          else ((t, n + 1), Inr 0)
      | None \<Rightarrow> ((t, n + 1), Inr 0)),
     pg_set_data = (\<lambda>p v i (t, n). case map_of t i of
        Some r \<Rightarrow> ((AList.update i (r\<lparr>pr_data := mem_jsonb_set p v (pr_data r)\<rparr>) t, n + 1), None) | None \<Rightarrow> ((t, n + 1), None)),
     pg_select = (\<lambda>i (t, n). case map_of t i of Some r \<Rightarrow> Inr r | None \<Rightarrow> Inl (Errorf ''no rows'')),
     pg_list = (\<lambda>f (t, n). Inr (map (pr_data \<circ> snd) t)), pg_jsonb_set = mem_jsonb_set,
     pg_cast = (\<lambda>s. Inr (JStr s)), pg_unmarshal = (\<lambda>j. Inr empty_task), pg_unmarshal_logs = (\<lambda>j. Inr []), pg_others = (\<lambda>d. d)\<rparr>"

lemma mem_pg_laws: "pg_laws mem_pg" "pg_alone mem_pg"
  by (auto simp: pg_laws_def pg_alone_def mem_pg_def update_conv' fun_eq_iff split: option.splits if_splits)

interpretation mem_postgres: task_db "pg_WriteEvent mem_pg untimed_backoff mode now" "pg_state mem_pg" "pg_ok mem_pg"
  "pg_GetTask mem_pg mode" for mode now
  by (rule pg_task_db [OF mem_pg_laws(1) untimed_backoff_law mem_pg_laws(2)])

section \<open>Lemmas: documents\<close>

lemma map_of_field [simp]:
  "map_of (str_field k s) q = (if q = k \<and> s \<noteq> '''' then Some (JStr s) else None)"
  "map_of (bool_field k b) q = (if q = k \<and> b then Some (JBool True) else None)"
  "map_of (int_field k n) q = (if q = k \<and> n \<noteq> 0 then Some (JNum n) else None)"
  "map_of (real_field k x) q = (if q = k \<and> x \<noteq> 0 then Some (JReal x) else None)"
  "map_of (list_field k f xs) q = (if q = k \<and> xs \<noteq> [] then Some (JArr (map f xs)) else None)"
  "map_of (map_field k m) q = (if q = k \<and> m \<noteq> [] then Some (JObj (map (\<lambda>(x, v). (x, JStr v)) m)) else None)"
  by (auto simp: str_field_def bool_field_def int_field_def real_field_def list_field_def map_field_def)

lemma arr_at_index: "arr_at (show_nat x) i js = (if i \<le> x \<and> x < i + length js then Some (js ! (x - i)) else None)"
proof (induction js arbitrary: i)
  case (Cons j js)
  then show ?case by (cases "x = i") (auto simp: nth_Cons' dest!: show_nat_inj)
qed simp

lemma json_at_logs:
  "json_at (''logs'' # show_nat a # ks) (task_json t) =
     (if a < length (t_Logs t) then json_at ks (tasklog_json (t_Logs t ! a)) else None)"
  by (cases "t_Resources t") (simp_all add: task_json_def map_add_def arr_at_index)

lemma json_at_metadata: "tl_Metadata l = [] \<Longrightarrow> json_at [''metadata''] (tasklog_json l) = None"
  by (simp add: tasklog_json_def map_add_def)

lemma json_at_executor:
  "x < length (tl_Logs l) \<Longrightarrow> json_at [''logs'', show_nat x] (tasklog_json l) = Some (executorlog_json (tl_Logs l ! x))"
  by (auto simp: tasklog_json_def map_add_def arr_at_index)

lemma pg_metadata_lost:
  assumes "pg_laws P" "jsonb_set_law (pg_jsonb_set P)" "pg_rows P d i = Some row" "json_at [''logs'', a, ''metadata''] (pr_data row) = None"
    "pg_metadata P i a m d = (d', r)"
  shows "pg_rows P d' = pg_rows P d"
  using assms(3-5)
proof (induction m arbitrary: d)
  case (Cons kv m)
  obtain k v where kv: "kv = (k, v)" by force
  show ?case
  proof (cases "pg_cast P ([CHR 0x22] @ v @ [CHR 0x22])")
    case (Inl err)
    with Cons.prems kv show ?thesis by simp
  next
    case (Inr j)
    obtain d1 r1 where set: "pg_set_data P [''logs'', a, ''metadata'', k] j i d = (d1, r1)" by force
    have "pg_jsonb_set P ([''logs'', a, ''metadata''] @ [k]) j (pr_data row) = pr_data row"
      using assms(2) Cons.prems(2) unfolding jsonb_set_law_def by blast
    then have same: "pg_rows P d1 = pg_rows P d"
      using pg_lawsD(6,7) [OF assms(1)] set Cons.prems(1) by (cases r1) auto
    show ?thesis
    proof (cases r1)
      case None
      with Cons.IH [of d1] Cons.prems kv Inr set same show ?thesis by simp
    qed (use Cons.prems kv Inr set same in simp)
  qed
qed simp

section \<open>Examples\<close>

definition pg_sample_task :: Task where
  "pg_sample_task = empty_task\<lparr>t_Id := ''t1'', t_Executors := [empty_executor]\<rparr>"

definition pg_sample_db :: mem_table where
  "pg_sample_db = fst (pg_WriteEvent mem_pg untimed_backoff AccessOwner ''now'' None (NewTaskCreated ''now'' pg_sample_task) ([], 0))"

lemma pg_sample_created:
  "pg_WriteEvent mem_pg untimed_backoff AccessOwner ''now'' None (NewTaskCreated ''now'' pg_sample_task) ([], 0) = (pg_sample_db, None)"
proof -
  have "snd (pg_WriteEvent mem_pg untimed_backoff AccessOwner ''now'' None (NewTaskCreated ''now'' pg_sample_task) ([], 0)) = None"
    by (simp add: pg_WriteEvent_def NewTaskCreated_def GetTask_of_def pg_insertTask_def mem_pg_def Let_def)
  then show ?thesis unfolding pg_sample_db_def by (metis prod.collapse)
qed

lemma mem_pg_versioned: "versioned mem_pg"
  using mem_pg_laws(2) by (auto simp: versioned_def pg_alone_def)

section \<open>Properties\<close>



text \<open>
  The PostgreSQL database checks no access.  Its operations replace the context of the request,
  so that every task is stored under the name of the system user, no read is refused for want of
  permission and no listing is limited to the tasks of the user, in every access mode and for every
  user.
\<close>

theorem postgres_access_unchecked:
  "pg_GetTask P mode ctx req d \<noteq> Inl ErrNotPermitted \<and>
   pf_Owner (pg_list_filter mode ctx lreq) = None \<and>
   pg_WriteEvent P RN mode now ctx (NewTaskCreated now task) d = pg_insertTask P now (pg_created_task task) ''SYSTEM'' d"
proof -
  have "Username systemUserInfo = ''SYSTEM''" by (simp add: systemUserInfo_def)
  then show ?thesis
    by (auto simp: pg_GetTask_def pg_list_filter_def CanSeeAllTasks_def Let_def pg_WriteEvent_def NewTaskCreated_def GetTask_of_def
        GetUsername_def split: sum.splits)
qed

text \<open>
  What a new task keeps of the first events.  The output of an executor is stored in the slot
  that the creation made for it; metadata are lost without an error, because the empty map is left out
  of the document and \<open>jsonb_set\<close> does not make the object they would go into.
\<close>

theorem postgres_slots:
  assumes "pg_laws P" "jsonb_set_law (pg_jsonb_set P)" "t_Logs task = []"
    "pg_WriteEvent P RN mode now ctx (NewTaskCreated now task) d = (d1, None)"
  shows "(pg_WriteEvent P RN mode now ctx (NewMetadata now (t_Id task) a m) d1 = (d2, r) \<longrightarrow> pg_rows P d2 = pg_rows P d1) \<and>
    (unat x < length (t_Executors task) \<and> pg_WriteEvent P RN mode now ctx (NewStdout now (t_Id task) 0 x s) d1 = (d3, None) \<longrightarrow>
      (\<exists>row. pg_rows P d3 (t_Id task) = Some row \<and>
        json_at [''logs'', show_nat 0, ''logs'', show_nat (unat x), ''stdout''] (pr_data row) = Some (JStr s)))"
proof -
  have tid: "t_Id (pg_created_task task) = t_Id task" by (simp add: pg_created_task_def)
  have ins: "pg_insertTask P now (pg_created_task task) (GetUsername None) d = (d1, None)"
    using assms(4) by (simp add: pg_WriteEvent_def NewTaskCreated_def GetTask_of_def)
  obtain row where row: "pg_rows P d1 (t_Id task) = Some row"
    "pr_data row = task_json ((pg_created_task task)\<lparr>t_CreationTime := now, t_State := Queued\<rparr>)" (is "_ = task_json ?t")
    using pg_insert_columns [OF assms(1) ins] by (auto simp: tid)
  have logs: "t_Logs ?t = [empty_tasklog\<lparr>tl_Logs := replicate (length (t_Executors task)) empty_executorlog\<rparr>]"
    using assms(3) by (simp add: pg_created_task_def)
  have "json_at [''logs'', show_nat (unat a), ''metadata''] (pr_data row) = None"
    by (simp add: row(2) json_at_logs logs json_at_metadata empty_tasklog_def)
  from pg_metadata_lost [OF assms(1,2) row(1) this]
  have lost: "pg_WriteEvent P RN mode now ctx (NewMetadata now (t_Id task) a m) d1 = (d2, r) \<longrightarrow> pg_rows P d2 = pg_rows P d1"
    by (auto simp: pg_WriteEvent_def NewMetadata_def GetMetadata_Value_def)
  let ?path = "[''logs'', show_nat 0, ''logs'', show_nat (unat x)]"
  have "json_at (?path @ [''stdout'']) (pg_jsonb_set P (?path @ [''stdout'']) (JStr s) (pr_data row)) = Some (JStr s)"
    if "unat x < length (t_Executors task)"
  proof -
    have "json_at ?path (pr_data row) = Some (JObj [])"
      using that by (simp add: row(2) json_at_logs logs json_at_executor executorlog_json_def empty_executorlog_def
          str_field_def int_field_def)
    then show ?thesis using assms(2) unfolding jsonb_set_law_def by blast
  qed
  then have "unat x < length (t_Executors task) \<and> pg_WriteEvent P RN mode now ctx (NewStdout now (t_Id task) 0 x s) d1 = (d3, None) \<longrightarrow>
      (\<exists>row. pg_rows P d3 (t_Id task) = Some row \<and> json_at (?path @ [''stdout'']) (pr_data row) = Some (JStr s))"
    using row(1) by (auto simp: pg_WriteEvent_def NewStdout_def pg_event_value_def GetStdout_def dest!: pg_lawsD(7) [OF assms(1)])
  with lost show ?thesis by simp
qed

theorem postgres_slots_witness:
  "\<exists>d2. pg_WriteEvent mem_pg untimed_backoff AccessOwner ''now'' None (NewMetadata ''now'' ''t1'' 0 [(''slurm_id'', ''7'')]) pg_sample_db = (d2, None) \<and>
     pg_rows mem_pg d2 = pg_rows mem_pg pg_sample_db"
proof -
  let ?ev = "NewMetadata ''now'' ''t1'' 0 [(''slurm_id'', ''7'')]"
  obtain d2 r where run: "pg_WriteEvent mem_pg untimed_backoff AccessOwner ''now'' None ?ev pg_sample_db = (d2, r)" by (rule prod.exhaust)
  have "snd (pg_WriteEvent mem_pg untimed_backoff AccessOwner ''now'' None ?ev pg_sample_db) = None" by code_simp
  moreover have "jsonb_set_law (pg_jsonb_set mem_pg)" using mem_jsonb_set_law by (simp add: mem_pg_def)
  moreover have "t_Logs pg_sample_task = []" "t_Id pg_sample_task = ''t1''" by (simp_all add: pg_sample_task_def empty_task_def)
  ultimately show ?thesis
    using postgres_slots [OF mem_pg_laws(1) _ _ pg_sample_created, of 0 "[(''slurm_id'', ''7'')]" d2 r] run by auto
qed

end
