(* ===== verification/K8s_Resources.thy ===== *)
theory K8s_Resources
  imports Events
begin

text \<open>
  The Kubernetes objects of a task: \<open>src/compute/kubernetes/resources\<close>.  The calls of the client
  library, the templates of \<open>text/template\<close> and the decoding of YAML are the operations of a record
  \<open>k8s\<close>; a call may return a new state because others act on the cluster.  A deadline shows only as
  an error of a call.  An object has the kind it decodes to, the metadata that the sources read or
  set and a specification that stays abstract.  Pauses between calls are left out.
\<close>

section \<open>Label values\<close>

definition alnum :: "char \<Rightarrow> bool" where
  "alnum c \<longleftrightarrow> CHR ''A'' \<le> c \<and> c \<le> CHR ''Z'' \<or> CHR ''a'' \<le> c \<and> c \<le> CHR ''z'' \<or> is_digit c"

definition label_char :: "char \<Rightarrow> bool" where
  "label_char c \<longleftrightarrow> alnum c \<or> c = CHR ''.'' \<or> c = CHR ''_'' \<or> c = CHR ''-''"

fun labelInvalidChars :: "string \<Rightarrow> string" where
  "labelInvalidChars [] = []"
| "labelInvalidChars (c # cs) =
     (if label_char c then c # labelInvalidChars cs
      else CHR ''-'' # labelInvalidChars (drop (rune_width (c # cs) - 1) cs))"

definition labelEdgeTrim :: "string \<Rightarrow> string" where
  "labelEdgeTrim s = rev (dropWhile (\<lambda>c. \<not> alnum c) (rev (dropWhile (\<lambda>c. \<not> alnum c) s)))"

definition SanitizeLabelValue :: "string \<Rightarrow> string" where
  "SanitizeLabelValue s =
     (let s = labelInvalidChars s; s = (if 63 < length s then take 63 s else s) in labelEdgeTrim s)"

section \<open>Objects and the client\<close>

datatype Kind = K_Job | K_ServiceAccount | K_Role | K_RoleBinding | K_ConfigMap | K_PersistentVolume | K_PersistentVolumeClaim | K_Other string

record OwnerReference =
  or_APIVersion :: string
  or_Kind :: string
  or_Name :: string
  or_UID :: string
  or_BlockOwnerDeletion :: bool
  or_Controller :: bool

record 'spec object =
  ob_Kind :: Kind
  ob_Name :: string
  ob_UID :: string
  ob_Labels :: "string gomap"
  ob_Finalizers :: "string list"
  ob_OwnerReferences :: "OwnerReference list"
  ob_Spec :: 'spec

record ContainerWaiting =
  cw_Reason :: string
  cw_Message :: string

text \<open>Times are nanoseconds, 0 for the zero time.\<close>

record ContainerTerminated =
  ct_ExitCode :: "32 word"
  ct_Reason :: string
  ct_Message :: string
  ct_FinishedAt :: int

record ContainerStatus =
  cs_Waiting :: "ContainerWaiting option"
  cs_Terminated :: "ContainerTerminated option"

record PodCondition =
  pc_Type :: string
  pc_Status :: string
  pc_LastTransitionTime :: int

record Pod =
  pod_Name :: string
  pod_Images :: "string list"
  pod_Phase :: string
  pod_Conditions :: "PodCondition list"
  pod_ContainerStatuses :: "ContainerStatus list"
  pod_InitContainerStatuses :: "ContainerStatus list"
  pod_ResourceVersion :: string
  pod_Deleting :: bool

record JobCondition =
  jc_Type :: string
  jc_Status :: string

record JobStatus =
  js_Active :: "32 word"
  js_Succeeded :: "32 word"
  js_Failed :: "32 word"
  js_Conditions :: "JobCondition list"

record Job =
  job_Name :: string
  job_Status :: JobStatus

record KEvent =
  ke_Reason :: string
  ke_Message :: string
  ke_Count :: "32 word"
  ke_FirstTimestamp :: int
  ke_LastTimestamp :: int
  ke_CreationTimestamp :: int

section \<open>Configuration and templates\<close>

record Toleration =
  tn_Key :: string
  tn_Operator :: string
  tn_Value :: string
  tn_Effect :: string
  tn_TolerationSeconds :: "int option"

record GenericS3Storage =
  gs_Region :: string
  gs_Bucket :: string
  gs_KmsKeyID :: string

text \<open>The part of the configuration that the backend reads.\<close>

record Config =
  cf_WorkerTemplate :: string
  cf_PVTemplate :: string
  cf_PVCTemplate :: string
  cf_ConfigMapTemplate :: string
  cf_Namespace :: string
  cf_JobsNamespace :: string
  cf_ServiceAccountTemplate :: string
  cf_RoleTemplate :: string
  cf_RoleBindingTemplate :: string
  cf_DisableReconciler :: bool
  cf_DisableJobCleanup :: bool
  cf_NodeSelector :: "string gomap"
  cf_Tolerations :: "Toleration list"
  cf_Timeout :: "int option"
  cf_S3FilesFilesystemId :: string
  cf_GenericS3 :: "GenericS3Storage list"
  cf_Plugins :: bool

datatype tvalue = TStr string | TInt int | TFloat real | TBool bool | TMap "string gomap" | TTolerations "Toleration list"
  | TList "string list" | TVolumes "(string \<times> string \<times> bool) list"

type_synonym funcs = "(string \<times> (nat \<Rightarrow> string \<Rightarrow> string)) list"

text \<open>
  The calls of the client.  Selectors are given as the sources write them.  The delete options are
  the grace period and the propagation policy, when the source sets them.
\<close>

record ('s, 'spec) k8s =
  k_Parse :: "funcs \<Rightarrow> string \<Rightarrow> go_error option"
  k_Execute :: "funcs \<Rightarrow> string \<Rightarrow> (string \<times> tvalue) list \<Rightarrow> go_error + string"
  k_Decode :: "string \<Rightarrow> go_error + 'spec object"
  k_ToYaml :: "Config \<Rightarrow> go_error + string"
  k_Create :: "Kind \<Rightarrow> string \<Rightarrow> 'spec object \<Rightarrow> 's \<Rightarrow> 's \<times> (go_error + 'spec object)"
  k_Get :: "Kind \<Rightarrow> string \<Rightarrow> string \<Rightarrow> 's \<Rightarrow> 's \<times> (go_error + 'spec object)"
  k_Update :: "Kind \<Rightarrow> string \<Rightarrow> 'spec object \<Rightarrow> 's \<Rightarrow> 's \<times> go_error option"
  k_Delete :: "Kind \<Rightarrow> string \<Rightarrow> string \<Rightarrow> (int option \<times> string) option \<Rightarrow> 's \<Rightarrow> 's \<times> go_error option"
  k_List :: "Kind \<Rightarrow> string \<Rightarrow> string \<Rightarrow> 's \<Rightarrow> 's \<times> (go_error + 'spec object list)"
  k_Jobs :: "string \<Rightarrow> string \<Rightarrow> 's \<Rightarrow> 's \<times> (go_error + Job list)"
  k_Pods :: "string \<Rightarrow> string \<Rightarrow> string \<Rightarrow> 's \<Rightarrow> 's \<times> (go_error + Pod list)"
  k_Events :: "string \<Rightarrow> string \<Rightarrow> 's \<Rightarrow> 's \<times> (go_error + KEvent list)"
  k_IsNotFound :: "go_error \<Rightarrow> bool"
  k_IsConflict :: "go_error \<Rightarrow> bool"

text \<open>An execution, the decoding and the type assertion, with the errors as each caller words them.\<close>

definition render ::
    "('s, 'spec) k8s \<Rightarrow> funcs \<Rightarrow> string \<Rightarrow> (string \<times> tvalue) list \<Rightarrow> Kind \<Rightarrow> string \<Rightarrow> (go_error \<Rightarrow> go_error) \<Rightarrow> string \<Rightarrow>
     go_error + 'spec object" where
  "render K fs tpl data kind exec_msg decode_err cast_msg =
     (case k_Execute K fs tpl data of
        Inl err \<Rightarrow> Inl (errorf_v exec_msg err)
      | Inr text \<Rightarrow>
          (case k_Decode K text of
             Inl err \<Rightarrow> Inl (decode_err err)
           | Inr obj \<Rightarrow> if ob_Kind obj = kind then Inr obj else Inl (Errorf cast_msg)))"

definition own :: "OwnerReference option \<Rightarrow> 'spec object \<Rightarrow> 'spec object" where
  "own ownerRef obj = (case ownerRef of None \<Rightarrow> obj | Some r \<Rightarrow> obj\<lparr>ob_OwnerReferences := [r]\<rparr>)"

definition create_object :: "('s, 'spec) k8s \<Rightarrow> Kind \<Rightarrow> string \<Rightarrow> string \<Rightarrow> 'spec object \<Rightarrow> 's \<Rightarrow> 's \<times> go_error option" where
  "create_object K kind ns msg obj s =
     (case k_Create K kind ns obj s of (s', Inl err) \<Rightarrow> (s', Some (errorf_v msg err)) | (s', Inr _) \<Rightarrow> (s', None))"

definition worker_sa :: "Config \<Rightarrow> Task \<Rightarrow> string" where
  "worker_sa conf task =
     (case gomap_get (t_Tags task) ''_WORKER_SA'' of
        Some sa \<Rightarrow> if sa \<noteq> '''' then sa else ''funnel-worker-sa-'' @ cf_JobsNamespace conf @ ''-'' @ t_Id task
      | None \<Rightarrow> ''funnel-worker-sa-'' @ cf_JobsNamespace conf @ ''-'' @ t_Id task)"

section \<open>Jobs\<close>

definition task_resources :: "Task \<Rightarrow> Resources" where
  "task_resources task = (case t_Resources task of None \<Rightarrow> empty_resources | Some r \<Rightarrow> r)"

definition backoffLimit :: "Resources \<Rightarrow> int" where
  "backoffLimit res =
     (case gomap_get (res_BackendParameters res) ''backoff_limit'' of
        None \<Rightarrow> 10
      | Some v \<Rightarrow> if v = '''' then 10 else (case Atoi v of None \<Rightarrow> 10 | Some n \<Rightarrow> if 0 \<le> n then n else 10))"

definition needs_pvc :: "Task \<Rightarrow> bool" where
  "needs_pvc task \<longleftrightarrow> 0 < length (t_Inputs task) \<or> 0 < length (t_Outputs task) \<or> 0 < length (t_Volumes task)"

definition job_data :: "Config \<Rightarrow> Task \<Rightarrow> string \<Rightarrow> (string \<times> tvalue) list" where
  "job_data conf task img =
     (let res = task_resources task in
      [(''TaskId'', TStr (t_Id task)), (''TaskName'', TStr (t_Name task)),
       (''TaskNameLabel'', TStr (SanitizeLabelValue (t_Name task))), (''Namespace'', TStr (cf_Namespace conf)),
       (''JobsNamespace'', TStr (cf_JobsNamespace conf)), (''Cpus'', TInt (sint (res_CpuCores res))),
       (''RamGb'', TFloat (res_RamGb res)), (''DiskGb'', TFloat (res_DiskGb res)), (''Image'', TStr img),
       (''BackoffLimit'', TInt (backoffLimit res)), (''NeedsPVC'', TBool (needs_pvc task)),
       (''NodeSelector'', TMap (cf_NodeSelector conf)), (''Tolerations'', TTolerations (cf_Tolerations conf)),
       (''ServiceAccountName'', TStr (worker_sa conf task))])"

definition first_image :: "Pod list \<Rightarrow> string" where
  "first_image pods = (case pods of [] \<Rightarrow> '''' | p # _ \<Rightarrow> (case pod_Images p of [] \<Rightarrow> '''' | i # _ \<Rightarrow> i))"

definition CreateJob :: "('s, 'spec) k8s \<Rightarrow> Config \<Rightarrow> Task \<Rightarrow> 's \<Rightarrow> 's \<times> (go_error + 'spec object)" where
  "CreateJob K conf task s =
     (case k_Parse K [] (cf_WorkerTemplate conf) of
        Some err \<Rightarrow> (s, Inl (errorf_v '''' err))
      | None \<Rightarrow>
          (case k_Pods K (cf_Namespace conf) ''app=funnel'' '''' s of
             (s1, Inl err) \<Rightarrow> (s1, Inl (errorf_v ''failed to list pods: '' err))
           | (s1, Inr pods) \<Rightarrow>
               (case render K [] (cf_WorkerTemplate conf) (job_data conf task (first_image pods)) K_Job '''' (\<lambda>err. err)
                       ''failed to decode job spec'' of
                  Inl err \<Rightarrow> (s1, Inl err)
                | Inr job \<Rightarrow>
                    (case k_Create K K_Job (cf_JobsNamespace conf) job s1 of
                       (s2, Inl err) \<Rightarrow> (s2, Inl (errorf_v '''' err))
                     | (s2, Inr created) \<Rightarrow> (s2, Inr created)))))"

definition job_delete_opts :: "(int option \<times> string) option" where
  "job_delete_opts = Some (Some 0, ''Foreground'')"

fun delete_executor_jobs ::
    "('s, 'spec) k8s \<Rightarrow> string \<Rightarrow> string \<Rightarrow> Job list \<Rightarrow> go_error option \<Rightarrow> 's \<Rightarrow> 's \<times> go_error option" where
  "delete_executor_jobs K ns pre [] errs s = (s, errs)"
| "delete_executor_jobs K ns pre (job # jobs) errs s =
     (if length pre < length (job_Name job) \<and> take (length pre) (job_Name job) = pre
      then (case k_Delete K K_Job ns (job_Name job) job_delete_opts s of
              (s', r) \<Rightarrow>
                delete_executor_jobs K ns pre jobs
                  (case r of
                     Some e \<Rightarrow> if k_IsNotFound K e then errs
                               else Some (Errorf (''deleting executor job '' @ job_Name job @ '': '' @ error_string e))
                   | None \<Rightarrow> errs) s')
      else delete_executor_jobs K ns pre jobs errs s)"

definition DeleteExecutorJobs :: "('s, 'spec) k8s \<Rightarrow> Config \<Rightarrow> string \<Rightarrow> 's \<Rightarrow> 's \<times> go_error option" where
  "DeleteExecutorJobs K conf taskID s =
     (case k_Jobs K (cf_JobsNamespace conf) '''' s of
        (s1, Inl err) \<Rightarrow> (s1, Some (Errorf (''listing jobs to find executor jobs for task '' @ taskID @ '': '' @ error_string err)))
      | (s1, Inr jobs) \<Rightarrow> delete_executor_jobs K (cf_JobsNamespace conf) (taskID @ ''-'') jobs None s1)"

definition DeleteJob :: "('s, 'spec) k8s \<Rightarrow> Config \<Rightarrow> string \<Rightarrow> 's \<Rightarrow> 's \<times> go_error option" where
  "DeleteJob K conf taskID s =
     (case k_Delete K K_Job (cf_JobsNamespace conf) taskID job_delete_opts s of
        (s1, Some err) \<Rightarrow>
          if k_IsNotFound K err then DeleteExecutorJobs K conf taskID s1 else (s1, Some (errorf_v '''' err))
      | (s1, None) \<Rightarrow> DeleteExecutorJobs K conf taskID s1)"

section \<open>Service accounts\<close>

definition sa_data :: "Config \<Rightarrow> Task \<Rightarrow> (string \<times> tvalue) list" where
  "sa_data conf task =
     [(''TaskId'', TStr (t_Id task)), (''Namespace'', TStr (cf_JobsNamespace conf)),
      (''ServiceAccountName'', TStr (worker_sa conf task))] @
     (case gomap_get (t_Tags task) ''_FUNNEL_WORKER_ROLE_ARN'' of
        Some arn \<Rightarrow> if arn \<noteq> '''' then [(''IamRoleArn'', TStr arn)] else []
      | None \<Rightarrow> [])"

definition CreateServiceAccount ::
    "('s, 'spec) k8s \<Rightarrow> Config \<Rightarrow> Task \<Rightarrow> OwnerReference option \<Rightarrow> 's \<Rightarrow> 's \<times> go_error option" where
  "CreateServiceAccount K conf task ownerRef s =
     (case k_Parse K [] (cf_ServiceAccountTemplate conf) of
        Some err \<Rightarrow> (s, Some (errorf_v ''parsing template: '' err))
      | None \<Rightarrow>
          (case render K [] (cf_ServiceAccountTemplate conf) (sa_data conf task) K_ServiceAccount ''''
                  (errorf_v ''failed to decode ServiceAccount spec: '') ''failed to cast to ServiceAccount spec'' of
             Inl err \<Rightarrow> (s, Some err)
           | Inr sa \<Rightarrow> create_object K K_ServiceAccount (cf_JobsNamespace conf) ''failed to create ServiceAccount: '' (own ownerRef sa) s))"

definition isServiceAccountAttachedToPods ::
    "('s, 'spec) k8s \<Rightarrow> string \<Rightarrow> string \<Rightarrow> 's \<Rightarrow> 's \<times> (go_error + bool)" where
  "isServiceAccountAttachedToPods K saName ns s =
     (case k_Pods K ns '''' (''spec.serviceAccountName='' @ saName) s of
        (s', Inl err) \<Rightarrow> (s', Inl (Errorf (''listing pods using ServiceAccount '' @ saName @ '': '' @ error_string err)))
      | (s', Inr pods) \<Rightarrow> (s', Inr (list_ex (\<lambda>p. \<not> pod_Deleting p) pods)))"

record DeleteServiceAccountOptions =
  do_ServiceAccountName :: string
  do_SharedSA :: bool

definition delete_sa_name :: "string \<Rightarrow> string \<Rightarrow> DeleteServiceAccountOptions option \<Rightarrow> string" where
  "delete_sa_name taskID ns opts =
     (case opts of
        Some d \<Rightarrow> if do_ServiceAccountName d \<noteq> '''' then do_ServiceAccountName d else ''funnel-worker-'' @ ns @ ''-'' @ taskID
      | None \<Rightarrow> ''funnel-worker-'' @ ns @ ''-'' @ taskID)"

definition delete_object :: "('s, 'spec) k8s \<Rightarrow> Kind \<Rightarrow> string \<Rightarrow> string \<Rightarrow> string \<Rightarrow> 's \<Rightarrow> 's \<times> go_error option" where
  "delete_object K kind ns name msg s =
     (case k_Delete K kind ns name None s of
        (s', Some err) \<Rightarrow> (s', if k_IsNotFound K err then None else Some (errorf_v msg err))
      | (s', None) \<Rightarrow> (s', None))"

definition DeleteServiceAccount ::
    "('s, 'spec) k8s \<Rightarrow> string \<Rightarrow> string \<Rightarrow> DeleteServiceAccountOptions option \<Rightarrow> 's \<Rightarrow> 's \<times> go_error option" where
  "DeleteServiceAccount K taskID ns opts s =
     (let saName = delete_sa_name taskID ns opts;
          sharedSA = (case opts of Some d \<Rightarrow> do_SharedSA d | None \<Rightarrow> False);
          del = delete_object K K_ServiceAccount ns saName (''deleting ServiceAccount '' @ saName @ '': '')
      in if sharedSA
         then (case isServiceAccountAttachedToPods K saName ns s of
                 (s1, Inl err) \<Rightarrow>
                   (s1, Some (Errorf (''checking pod attachment for ServiceAccount '' @ saName @ '': '' @ error_string err)))
               | (s1, Inr inUse) \<Rightarrow> if inUse then (s1, None) else del s1)
         else del s)"

section \<open>Roles and role bindings\<close>

definition CreateRole :: "('s, 'spec) k8s \<Rightarrow> Config \<Rightarrow> Task \<Rightarrow> OwnerReference option \<Rightarrow> 's \<Rightarrow> 's \<times> go_error option" where
  "CreateRole K conf task ownerRef s =
     (case k_Parse K [] (cf_RoleTemplate conf) of
        Some err \<Rightarrow> (s, Some (errorf_v ''parsing template: '' err))
      | None \<Rightarrow>
          (case render K [] (cf_RoleTemplate conf) [(''TaskId'', TStr (t_Id task)), (''Namespace'', TStr (cf_JobsNamespace conf))]
                  K_Role '''' (errorf_v ''failed to decode Role spec: '') ''failed to verify Role spec'' of
             Inl err \<Rightarrow> (s, Some err)
           | Inr r \<Rightarrow> create_object K K_Role (cf_JobsNamespace conf) ''failed to create Role: '' (own ownerRef r) s))"

text \<open>A role that is gone by the time of its deletion is an error, a role binding is not.\<close>

fun delete_roles :: "('s, 'spec) k8s \<Rightarrow> string \<Rightarrow> 'spec object list \<Rightarrow> 's \<Rightarrow> 's \<times> go_error option" where
  "delete_roles K ns [] s = (s, None)"
| "delete_roles K ns (r # rs) s =
     (case k_Delete K K_Role ns (ob_Name r) None s of
        (s', Some err) \<Rightarrow> (s', Some (Errorf (''deleting Role '' @ ob_Name r @ '': '' @ error_string err)))
      | (s', None) \<Rightarrow> delete_roles K ns rs s')"

definition DeleteRole :: "('s, 'spec) k8s \<Rightarrow> string \<Rightarrow> string \<Rightarrow> 's \<Rightarrow> 's \<times> go_error option" where
  "DeleteRole K taskID ns s =
     (case k_List K K_Role ns (''app=funnel,taskId='' @ taskID) s of
        (s', Inl err) \<Rightarrow> (s', Some (Errorf (''listing Roles for task '' @ taskID @ '': '' @ error_string err)))
      | (s', Inr roles) \<Rightarrow> delete_roles K ns roles s')"

definition CreateRoleBinding ::
    "('s, 'spec) k8s \<Rightarrow> Config \<Rightarrow> Task \<Rightarrow> OwnerReference option \<Rightarrow> 's \<Rightarrow> 's \<times> go_error option" where
  "CreateRoleBinding K conf task ownerRef s =
     (case k_Parse K [] (cf_RoleBindingTemplate conf) of
        Some err \<Rightarrow> (s, Some (errorf_v ''parsing template: '' err))
      | None \<Rightarrow>
          (case render K [] (cf_RoleBindingTemplate conf)
                  [(''TaskId'', TStr (t_Id task)), (''Namespace'', TStr (cf_JobsNamespace conf)),
                   (''ServiceAccountName'', TStr (worker_sa conf task))]
                  K_RoleBinding '''' (errorf_v ''failed to decode Role spec: '') ''failed to decode RoleBinding spec'' of
             Inl err \<Rightarrow> (s, Some err)
           | Inr r \<Rightarrow> create_object K K_RoleBinding (cf_JobsNamespace conf) ''failed to create RoleBinding: '' (own ownerRef r) s))"

fun delete_role_bindings :: "('s, 'spec) k8s \<Rightarrow> string \<Rightarrow> 'spec object list \<Rightarrow> 's \<Rightarrow> 's \<times> go_error option" where
  "delete_role_bindings K ns [] s = (s, None)"
| "delete_role_bindings K ns (r # rs) s =
     (case delete_object K K_RoleBinding ns (ob_Name r) (''deleting RoleBinding '' @ ob_Name r @ '': '') s of
        (s', Some err) \<Rightarrow> (s', Some err)
      | (s', None) \<Rightarrow> delete_role_bindings K ns rs s')"

definition DeleteRoleBinding :: "('s, 'spec) k8s \<Rightarrow> string \<Rightarrow> string \<Rightarrow> 's \<Rightarrow> 's \<times> go_error option" where
  "DeleteRoleBinding K taskID ns s =
     (case k_List K K_RoleBinding ns (''app=funnel,taskId='' @ taskID) s of
        (s', Inl err) \<Rightarrow> (s', Some (Errorf (''listing RoleBindings for task '' @ taskID @ '': '' @ error_string err)))
      | (s', Inr rbs) \<Rightarrow> delete_role_bindings K ns rbs s')"

section \<open>Volumes and claims\<close>

definition s3_field :: "(GenericS3Storage \<Rightarrow> string) \<Rightarrow> Config \<Rightarrow> string" where
  "s3_field f conf = (case cf_GenericS3 conf of [] \<Rightarrow> '''' | g # _ \<Rightarrow> f g)"

definition CreatePV :: "('s, 'spec) k8s \<Rightarrow> Config \<Rightarrow> string \<Rightarrow> real \<Rightarrow> 's \<Rightarrow> 's \<times> go_error option" where
  "CreatePV K conf taskId diskGb s =
     (case k_Parse K [] (cf_PVTemplate conf) of
        Some err \<Rightarrow> (s, Some (errorf_v ''parsing template: '' err))
      | None \<Rightarrow>
          (case render K [] (cf_PVTemplate conf)
                  [(''TaskId'', TStr taskId), (''Namespace'', TStr (cf_JobsNamespace conf)), (''Bucket'', TStr (s3_field gs_Bucket conf)),
                   (''Region'', TStr (s3_field gs_Region conf)), (''KmsKeyID'', TStr (s3_field gs_KmsKeyID conf)),
                   (''DiskGb'', TFloat diskGb), (''S3FilesystemId'', TStr (cf_S3FilesFilesystemId conf))]
                  K_PersistentVolume '''' (errorf_v '''') ''failed to decode PV spec'' of
             Inl err \<Rightarrow> (s, Some err)
           | Inr pv \<Rightarrow> create_object K K_PersistentVolume '''' '''' pv s))"

text \<open>
  One of the tries that \<open>DeletePV\<close> and \<open>DeletePVC\<close> make: \<open>what\<close> is the word of the messages and \<open>mine\<close>
  the check of the labels.  \<open>n\<close> more tries follow.
\<close>

fun delete_finalized ::
    "('s, 'spec) k8s \<Rightarrow> Kind \<Rightarrow> string \<Rightarrow> string \<Rightarrow> ('spec object \<Rightarrow> bool) \<Rightarrow> string \<Rightarrow> nat \<Rightarrow> 's \<Rightarrow> 's \<times> go_error option" where
  "delete_finalized K kind what ns mine name 0 s =
     (s, Some (Errorf (''removing finalizers from '' @ what @ '' '' @ name @ '': exceeded max retries'')))"
| "delete_finalized K kind what ns mine name (Suc n) s =
     (case k_Get K kind ns name s of
        (s1, Inl err) \<Rightarrow>
          (s1, if k_IsNotFound K err then None else Some (Errorf (''getting '' @ what @ '' '' @ name @ '': '' @ error_string err)))
      | (s1, Inr obj) \<Rightarrow>
          if \<not> mine obj then (s1, None)
          else (let del = delete_object K kind ns name (''deleting '' @ what @ '' '' @ name @ '': '') in
                if ob_Finalizers obj \<noteq> []
                then (case k_Update K kind ns (obj\<lparr>ob_Finalizers := []\<rparr>) s1 of
                        (s2, Some err) \<Rightarrow>
                          if k_IsNotFound K err then (s2, None)
                          else if k_IsConflict K err \<and> 0 < n then delete_finalized K kind what ns mine name n s2
                          else (s2, Some (Errorf (''removing finalizers from '' @ what @ '' '' @ name @ '': '' @ error_string err)))
                      | (s2, None) \<Rightarrow> del s2)
                else del s1))"

definition DeletePV :: "('s, 'spec) k8s \<Rightarrow> string \<Rightarrow> string \<Rightarrow> 's \<Rightarrow> 's \<times> go_error option" where
  "DeletePV K taskID ns s =
     delete_finalized K K_PersistentVolume ''PV'' '''' (\<lambda>pv. gomap_str (ob_Labels pv) ''namespace'' = ns) (''funnel-worker-pv-'' @ taskID) 5 s"

definition CreatePVC ::
    "('s, 'spec) k8s \<Rightarrow> Config \<Rightarrow> string \<Rightarrow> real \<Rightarrow> OwnerReference option \<Rightarrow> 's \<Rightarrow> 's \<times> go_error option" where
  "CreatePVC K conf taskId diskGb ownerRef s =
     (case k_Parse K [] (cf_PVCTemplate conf) of
        Some err \<Rightarrow> (s, Some (errorf_v ''parsing template: '' err))
      | None \<Rightarrow>
          (case render K [] (cf_PVCTemplate conf)
                  [(''TaskId'', TStr taskId), (''Namespace'', TStr (cf_JobsNamespace conf)), (''Bucket'', TStr (s3_field gs_Bucket conf)),
                   (''Region'', TStr (s3_field gs_Region conf)), (''DiskGb'', TFloat diskGb)]
                  K_PersistentVolumeClaim '''' (errorf_v '''') ''failed to decode PVC spec'' of
             Inl err \<Rightarrow> (s, Some err)
           | Inr pvc \<Rightarrow> create_object K K_PersistentVolumeClaim (cf_JobsNamespace conf) '''' (own ownerRef pvc) s))"

definition DeletePVC :: "('s, 'spec) k8s \<Rightarrow> string \<Rightarrow> string \<Rightarrow> 's \<Rightarrow> 's \<times> go_error option" where
  "DeletePVC K taskID ns s =
     delete_finalized K K_PersistentVolumeClaim ''PVC'' ns (\<lambda>pvc. True) (''funnel-worker-pvc-'' @ taskID) 5 s"

section \<open>Configuration maps\<close>

text \<open>The template function \<open>indent\<close>.\<close>

definition indent :: "nat \<Rightarrow> string \<Rightarrow> string" where
  "indent spaces s =
     (let pad = replicate spaces (CHR '' '') in pad @ concat (map (\<lambda>c. if c = CHR 0x0A then c # pad else [c]) s))"

definition CreateConfigMap ::
    "('s, 'spec) k8s \<Rightarrow> Config \<Rightarrow> string \<Rightarrow> OwnerReference option \<Rightarrow> 's \<Rightarrow> 's \<times> go_error option" where
  "CreateConfigMap K conf taskId ownerRef s =
     (let funcMap = [(''indent'', indent)] in
      case k_Parse K funcMap (cf_ConfigMapTemplate conf) of
        Some err \<Rightarrow> (s, Some (errorf_v ''parsing ConfigMapTemplate: '' err))
      | None \<Rightarrow>
          (case k_ToYaml K conf of
             Inl err \<Rightarrow> (s, Some (errorf_v ''marshaling config to YAML: '' err))
           | Inr yaml \<Rightarrow>
               (case render K funcMap (cf_ConfigMapTemplate conf)
                       [(''TaskId'', TStr taskId), (''Namespace'', TStr (cf_JobsNamespace conf)), (''Config'', TStr yaml)]
                       K_ConfigMap ''executing ConfigMapTemplate: '' (errorf_v ''decoding ConfigMap spec: '')
                       ''ConfigMapTemplate did not produce a ConfigMap object'' of
                  Inl err \<Rightarrow> (s, Some err)
                | Inr cm \<Rightarrow> create_object K K_ConfigMap (cf_JobsNamespace conf) '''' (own ownerRef cm) s)))"

definition DeleteConfigMap :: "('s, 'spec) k8s \<Rightarrow> string \<Rightarrow> string \<Rightarrow> 's \<Rightarrow> 's \<times> go_error option" where
  "DeleteConfigMap K taskId ns s = delete_object K K_ConfigMap ns (''funnel-worker-config-'' @ taskId) '''' s"

section \<open>Lemmas: label values\<close>

definition valid_label :: "string \<Rightarrow> bool" where
  "valid_label v \<longleftrightarrow> length v \<le> 63 \<and> list_all label_char v \<and> (v = '''' \<or> alnum (hd v) \<and> alnum (last v))"

lemma labelInvalidChars_chars: "list_all label_char (labelInvalidChars s)"
  by (induction s rule: labelInvalidChars.induct) (auto simp: label_char_def)

lemma labelInvalidChars_id: "list_all label_char s \<Longrightarrow> labelInvalidChars s = s"
  by (induction s) auto

lemma trim_end_set: "set (labelEdgeTrim s) \<subseteq> set s"
  unfolding labelEdgeTrim_def by (auto dest!: set_dropWhileD)

lemma trim_end_length: "length (labelEdgeTrim s) \<le> length s"
  unfolding labelEdgeTrim_def by (metis length_dropWhile_le length_rev order.trans)

lemma trim_end_last: "rev (dropWhile (\<lambda>c. \<not> P c) (rev s)) \<noteq> [] \<Longrightarrow> P (last (rev (dropWhile (\<lambda>c. \<not> P c) (rev s))))"
  by (metis hd_dropWhile last_rev rev_is_Nil_conv)

lemma trim_end_hd: "rev (dropWhile Q (rev s)) \<noteq> [] \<Longrightarrow> hd (rev (dropWhile Q (rev s))) = hd s"
  by (metis append_self_conv2 hd_append2 rev_append rev_rev_ident takeWhile_dropWhile_id)

lemma trim_edges: "labelEdgeTrim s \<noteq> [] \<Longrightarrow> alnum (hd (labelEdgeTrim s)) \<and> alnum (last (labelEdgeTrim s))"
proof -
  let ?d = "dropWhile (\<lambda>c. \<not> alnum c) s"
  assume ne: "labelEdgeTrim s \<noteq> []"
  then have "?d \<noteq> []" by (metis dropWhile.simps(1) labelEdgeTrim_def rev.simps(1))
  then have "alnum (hd ?d)" using hd_dropWhile [of "\<lambda>c. \<not> alnum c" s] by simp
  with ne show ?thesis using trim_end_last [of alnum ?d] trim_end_hd [of "\<lambda>c. \<not> alnum c" ?d] by (simp add: labelEdgeTrim_def)
qed

lemma labelEdgeTrim_id: "s = '''' \<or> alnum (hd s) \<and> alnum (last s) \<Longrightarrow> labelEdgeTrim s = s"
  unfolding labelEdgeTrim_def
  by (metis (no_types, lifting) dropWhile.simps(1) dropWhile_eq_self_iff hd_rev rev_is_Nil_conv rev_rev_ident)

text \<open>
  C25: \<open>SanitizeLabelValue\<close> makes a valid label value of any text: at most 63 characters, all of them
  allowed, with alphanumeric characters at both ends; a value that is valid already is kept.
\<close>

theorem SanitizeLabelValue_valid:
  "valid_label (SanitizeLabelValue s) \<and> (SanitizeLabelValue s = s \<longleftrightarrow> valid_label s)"
proof -
  let ?t = "let t = labelInvalidChars s in if 63 < length t then take 63 t else t"
  have t: "SanitizeLabelValue s = labelEdgeTrim ?t" by (simp add: SanitizeLabelValue_def Let_def)
  have "set ?t \<subseteq> set (labelInvalidChars s)" by (auto simp: Let_def dest: in_set_takeD)
  then have "list_all label_char (SanitizeLabelValue s)"
    using labelInvalidChars_chars [of s] trim_end_set [of ?t] unfolding t by (auto simp: list_all_iff)
  moreover have "length (SanitizeLabelValue s) \<le> 63"
    unfolding t using trim_end_length [of ?t] by (auto simp: Let_def split: if_splits)
  ultimately have valid: "valid_label (SanitizeLabelValue s)"
    using trim_edges [of ?t] unfolding valid_label_def t by blast
  moreover have "SanitizeLabelValue s = s" if "valid_label s"
    using that by (simp add: valid_label_def SanitizeLabelValue_def labelInvalidChars_id labelEdgeTrim_id Let_def)
  ultimately show ?thesis by metis
qed

end
