(* ===== verification/K8s_Backend.thy ===== *)
theory K8s_Backend
  imports K8s_Resources Task_Store
begin

text \<open>
  The Kubernetes compute backend, \<open>src/compute/kubernetes/backend.go\<close>: the submission of a task as a
  worker job with its resources, cancellation, the detection of broken jobs, the reconciliation of
  tasks with jobs and the removal of orphaned resources.

  The cluster is the record \<open>k8s\<close>, the database the one the backend is given; both act on one state.
  The formatted clock of an event is \<open>now\<close> and the clock that the scheduling timeout reads is \<open>time\<close>.
  The order in which a \<open>range\<close> visits a map is the order of its association list.
\<close>

section \<open>The backend\<close>

text \<open>
  \<open>kb_PluginConfig\<close> is the configuration in the plugin response of the context, \<open>kb_Merge\<close> the library
  that merges it, \<open>kb_MultiError\<close> the library that joins errors, \<open>kb_CondsJSON\<close> is \<open>json.Marshal\<close> on
  conditions and \<open>kb_GoSyntax\<close> the format \<open>%#v\<close>.
\<close>

record ('s, 'spec) K8sBackend =
  kb_client :: "('s, 'spec) k8s"
  kb_event :: "'s writer"
  kb_has_database :: bool
  kb_GetTask :: "go_ctx \<Rightarrow> GetTaskRequest \<Rightarrow> 's \<Rightarrow> go_error + Task"
  kb_ListTasks :: "go_ctx \<Rightarrow> ListTasksRequest \<Rightarrow> 's \<Rightarrow> go_error + ListTasksResponse"
  kb_conf :: Config
  kb_PluginConfig :: "go_ctx \<Rightarrow> Config option"
  kb_Merge :: "Config \<Rightarrow> Config \<Rightarrow> go_error + Config"
  kb_MultiError :: "go_error list \<Rightarrow> go_error"
  kb_CondsJSON :: "JobCondition list \<Rightarrow> go_error + string"
  kb_GoSyntax :: "Task \<Rightarrow> string"

definition k8s_CheckBackendParameterSupport :: "Task \<Rightarrow> go_error option" where
  "k8s_CheckBackendParameterSupport task =
     (let res = GetResources_or_zero (t_Resources task) in
      if \<not> res_BackendParametersStrict res then None else check_params ([] :: string gomap) (res_BackendParameters res))"

section \<open>Clean-up of one task\<close>

definition sa_options :: "('s, 'spec) K8sBackend \<Rightarrow> go_ctx \<Rightarrow> string \<Rightarrow> 's \<Rightarrow> DeleteServiceAccountOptions" where
  "sa_options b ctx taskId s =
     (let none = \<lparr>do_ServiceAccountName = '''', do_SharedSA = False\<rparr> in
      if kb_has_database b
      then (case kb_GetTask b ctx \<lparr>gt_Id = taskId, gt_View = View_String Full\<rparr> s of
              Inl _ \<Rightarrow> none
            | Inr task \<Rightarrow>
                (let workerSA = gomap_str (t_Tags task) ''_WORKER_SA'' in
                 if workerSA \<noteq> '''' then \<lparr>do_ServiceAccountName = workerSA, do_SharedSA = True\<rparr> else none))
      else none)"

definition cleanResources :: "('s, 'spec) K8sBackend \<Rightarrow> go_ctx \<Rightarrow> string \<Rightarrow> 's \<Rightarrow> 's \<times> go_error option" where
  "cleanResources b ctx taskId s =
     (let ns = cf_JobsNamespace (kb_conf b);
          (s1, e1) = DeleteJob (kb_client b) (kb_conf b) taskId s;
          (s2, e2) = DeleteServiceAccount (kb_client b) taskId ns (Some (sa_options b ctx taskId s1)) s1;
          (s3, e3) = DeletePV (kb_client b) taskId ns s2;
          errs = List.map_filter (\<lambda>e. e) [e1, e2, e3]
      in (s3, if errs = [] then None else Some (kb_MultiError b errs)))"

definition k8s_Cancel :: "('s, 'spec) K8sBackend \<Rightarrow> go_ctx \<Rightarrow> string \<Rightarrow> 's \<Rightarrow> 's \<times> go_error option" where
  "k8s_Cancel b ctx taskID s = cleanResources b ctx taskID s"

section \<open>Submission\<close>

text \<open>
  What \<open>createResources\<close> does after each creation: on an error it cancels with a fresh context and
  returns the error, otherwise it goes on.
\<close>

definition or_cancel ::
    "('s, 'spec) K8sBackend \<Rightarrow> string \<Rightarrow> string \<Rightarrow> 's \<times> go_error option \<Rightarrow> ('s \<Rightarrow> 's \<times> go_error option) \<Rightarrow> 's \<times> go_error option" where
  "or_cancel b taskId what r continue =
     (case r of
        (s, Some err) \<Rightarrow> (fst (k8s_Cancel b None taskId s), Some (errorf_v (''creating Worker '' @ what @ '': '') err))
      | (s, None) \<Rightarrow> continue s)"

definition owner_ref :: "'spec object \<Rightarrow> OwnerReference" where
  "owner_ref job = \<lparr>or_APIVersion = ''batch/v1'', or_Kind = ''Job'', or_Name = ob_Name job, or_UID = ob_UID job,
     or_BlockOwnerDeletion = True, or_Controller = True\<rparr>"

definition shared_sa :: "Task \<Rightarrow> bool" where
  "shared_sa task \<longleftrightarrow> gomap_str (t_Tags task) ''_WORKER_SA'' \<noteq> ''''"

definition ensure_service_account ::
    "('s, 'spec) K8sBackend \<Rightarrow> Config \<Rightarrow> Task \<Rightarrow> OwnerReference \<Rightarrow> 's \<Rightarrow> 's \<times> go_error option" where
  "ensure_service_account b conf task ownerRef s =
     (case k_Get (kb_client b) K_ServiceAccount (cf_JobsNamespace conf) (worker_sa conf task) s of
        (s', Inl _) \<Rightarrow> CreateServiceAccount (kb_client b) conf task (if shared_sa task then None else Some ownerRef) s'
      | (s', Inr _) \<Rightarrow> (s', None))"

definition bucket_missing :: "Config \<Rightarrow> bool" where
  "bucket_missing conf = (case cf_GenericS3 conf of [] \<Rightarrow> True | g # _ \<Rightarrow> gs_Bucket g = '''' \<or> gs_Region g = '''')"

definition create_volumes ::
    "('s, 'spec) K8sBackend \<Rightarrow> Config \<Rightarrow> Task \<Rightarrow> OwnerReference \<Rightarrow> 's \<Rightarrow> 's \<times> go_error option" where
  "create_volumes b conf task ownerRef s =
     (if \<not> needs_pvc task then (s, None)
      else if bucket_missing conf
      then (s, Some (Errorf (''Bucket or Region not found in GenericS3 config when attempting to create resources for task: '' @ kb_GoSyntax b task)))
      else (let diskGb = res_DiskGb (task_resources task) in
            or_cancel b (t_Id task) ''PV'' (CreatePV (kb_client b) conf (t_Id task) diskGb s)
              (\<lambda>s1. or_cancel b (t_Id task) ''PVC'' (CreatePVC (kb_client b) conf (t_Id task) diskGb (Some ownerRef) s1)
                (\<lambda>s2. (s2, None)))))"

definition if_template :: "string \<Rightarrow> ('s \<Rightarrow> 's \<times> go_error option) \<Rightarrow> 's \<Rightarrow> 's \<times> go_error option" where
  "if_template tpl create s = (if tpl \<noteq> '''' then create s else (s, None))"

definition createResources :: "('s, 'spec) K8sBackend \<Rightarrow> Config \<Rightarrow> Task \<Rightarrow> 's \<Rightarrow> 's \<times> go_error option" where
  "createResources b conf task s =
     (case CreateJob (kb_client b) conf task s of
        (s1, Inl err) \<Rightarrow> (fst (k8s_Cancel b None (t_Id task) s1), Some (errorf_v ''creating Worker Job: '' err))
      | (s1, Inr job) \<Rightarrow>
          (let ref = owner_ref job; K = kb_client b; i = t_Id task in
           or_cancel b i ''ConfigMap'' (if_template (cf_ConfigMapTemplate conf) (CreateConfigMap K conf i (Some ref)) s1)
             (\<lambda>s2. or_cancel b i ''ServiceAccount'' (if_template (cf_ServiceAccountTemplate conf) (ensure_service_account b conf task ref) s2)
               (\<lambda>s3. or_cancel b i ''Role'' (if_template (cf_RoleTemplate conf) (CreateRole K conf task (Some ref)) s3)
                 (\<lambda>s4. or_cancel b i ''RoleBinding'' (if_template (cf_RoleBindingTemplate conf) (CreateRoleBinding K conf task (Some ref)) s4)
                   (\<lambda>s5. create_volumes b conf task ref s5))))))"

definition k8s_Submit :: "('s, 'spec) K8sBackend \<Rightarrow> string \<Rightarrow> go_ctx \<Rightarrow> Task \<Rightarrow> Config \<Rightarrow> 's \<Rightarrow> 's \<times> go_error option" where
  "k8s_Submit b now ctx task conf s =
     (case createResources b conf task s of
        (s1, None) \<Rightarrow> (s1, None)
      | (s1, Some err) \<Rightarrow>
          (fst (kb_event b None
             (NewSystemLog now (t_Id task) 0 0 ''error'' ''Kubernetes job in FAILED state'' [(''error'', error_string err)])
             (fst (kb_event b ctx (NewState now (t_Id task) SystemError) s1))),
           Some (errorf_v ''creating Worker resources: '' err)))"

text \<open>A creation event without a task would be a nil dereference.\<close>

definition task_config :: "('s, 'spec) K8sBackend \<Rightarrow> go_ctx \<Rightarrow> go_error + Config" where
  "task_config b ctx =
     (if cf_Plugins (kb_conf b)
      then (case kb_PluginConfig b ctx of
              None \<Rightarrow> Inl (Errorf ''Failed to unmarshal plugin response <nil>'')
            | Some c \<Rightarrow>
                (case kb_Merge b (kb_conf b) c of
                   Inl err \<Rightarrow> Inl (errorf_v ''Failed to merge plugin config '' err)
                 | Inr conf \<Rightarrow> Inr conf))
      else Inr (kb_conf b))"

definition k8s_WriteEvent :: "('s, 'spec) K8sBackend \<Rightarrow> string \<Rightarrow> 's writer" where
  "k8s_WriteEvent b now ctx ev s =
     (case task_config b ctx of
        Inl err \<Rightarrow> (s, Some err)
      | Inr conf \<Rightarrow>
          if ev_Type ev = Type_TASK_CREATED
          then (case GetTask_of ev of Inl err \<Rightarrow> (s, Some err) | Inr task \<Rightarrow> k8s_Submit b now ctx task conf s)
          else if ev_Type ev = Type_TASK_STATE \<and> GetState ev = Canceled then k8s_Cancel b ctx (ev_Id ev) s
          else (s, None))"

section \<open>Broken jobs\<close>

definition isJobDone :: "JobStatus \<Rightarrow> bool" where
  "isJobDone st = list_ex (\<lambda>c. jc_Status c = ''True'' \<and> (jc_Type c = ''Complete'' \<or> jc_Type c = ''Failed'')) (js_Conditions st)"

definition terminalWaitingReasons :: "string list" where
  "terminalWaitingReasons = [''CreateContainerConfigError'', ''InvalidImageName'', ''CreateContainerError'', ''ErrImagePull'',
     ''ImagePullBackOff'', ''RunContainerError'', ''StartError'']"

definition waiting_error :: "ContainerStatus \<Rightarrow> string option" where
  "waiting_error cs =
     (case cs_Waiting cs of
        None \<Rightarrow> None
      | Some w \<Rightarrow>
          if cw_Reason w \<in> set terminalWaitingReasons
          then Some (cw_Reason w @ '': '' @ (if cw_Message w = '''' then cw_Reason w else cw_Message w))
          else None)"

text \<open>The loop over pods and containers returns at the first error.\<close>

definition hasTerminalContainerWaitingError :: "Pod list \<Rightarrow> string option" where
  "hasTerminalContainerWaitingError pods =
     (case List.map_filter waiting_error (concat (map pod_ContainerStatuses pods)) of [] \<Rightarrow> None | r # _ \<Rightarrow> Some r)"

definition podWarningEventReasons :: "string list" where
  "podWarningEventReasons = [''Failed'', ''BackOff'', ''ErrImagePull'', ''ImagePullBackOff'', ''StartError'']"

text \<open>The loop over the events of one pod, with the keys seen and the messages so far.\<close>

fun pod_warnings :: "KEvent list \<Rightarrow> string list \<Rightarrow> string list \<Rightarrow> string list \<times> string list" where
  "pod_warnings [] seen msgs = (seen, msgs)"
| "pod_warnings (ev # evs) seen msgs =
     (let key = ke_Reason ev @ '':'' @ ke_Message ev in
      if ke_Reason ev \<notin> set podWarningEventReasons \<or> key \<in> set seen then pod_warnings evs seen msgs
      else pod_warnings evs (key # seen) (msgs @ [ke_Reason ev @ '': '' @ ke_Message ev]))"

fun warnings_of_pods ::
    "('s, 'spec) k8s \<Rightarrow> string \<Rightarrow> Pod list \<Rightarrow> string list \<Rightarrow> string list \<Rightarrow> 's \<Rightarrow> 's \<times> string list" where
  "warnings_of_pods K ns [] seen msgs s = (s, msgs)"
| "warnings_of_pods K ns (pod # pods) seen msgs s =
     (case k_Events K ns (''involvedObject.name='' @ pod_Name pod @ '',type=Warning'') s of
        (s', Inl _) \<Rightarrow> warnings_of_pods K ns pods seen msgs s'
      | (s', Inr evs) \<Rightarrow> (case pod_warnings evs seen msgs of (seen', msgs') \<Rightarrow> warnings_of_pods K ns pods seen' msgs' s'))"

definition FetchPodWarningEvents :: "('s, 'spec) k8s \<Rightarrow> string \<Rightarrow> Pod list \<Rightarrow> 's \<Rightarrow> 's \<times> string" where
  "FetchPodWarningEvents K ns pods s = (case warnings_of_pods K ns pods [] [] s of (s', msgs) \<Rightarrow> (s', Join msgs [CHR 0x0A]))"

fun pods_timed_out :: "int \<Rightarrow> int \<Rightarrow> Pod list \<Rightarrow> bool" where
  "pods_timed_out timeout time [] = False"
| "pods_timed_out timeout time (pod # pods) =
     (if pod_Phase pod \<noteq> ''Pending'' then False
      else if list_ex (\<lambda>c. pc_Type c = ''PodScheduled'' \<and> pc_Status c = ''False'' \<and> timeout \<le> time - pc_LastTransitionTime c) (pod_Conditions pod)
      then True
      else pods_timed_out timeout time pods)"

definition isJobSchedulingTimedOut :: "int \<Rightarrow> int \<Rightarrow> Pod list \<Rightarrow> bool" where
  "isJobSchedulingTimedOut timeout time pods = (if length pods = 0 then False else pods_timed_out timeout time pods)"

fun failed_container :: "ContainerStatus list \<Rightarrow> int \<Rightarrow> string \<Rightarrow> string" where
  "failed_container [] latestFinish result = result"
| "failed_container (cs # css) latestFinish result =
     (case cs_Terminated cs of
        None \<Rightarrow> failed_container css latestFinish result
      | Some t \<Rightarrow>
          if ct_ExitCode t = 0 then failed_container css latestFinish result
          else if latestFinish = 0 \<or> latestFinish < ct_FinishedAt t
          then failed_container css (ct_FinishedAt t)
                 (''exit code '' @ show_int (sint (ct_ExitCode t)) @ '' ('' @
                  (if ct_Reason t = '''' then ''ExitError'' else ct_Reason t) @ ''): '' @ ct_Message t)
          else failed_container css latestFinish result)"

definition getFailedPodInfo :: "Pod list \<Rightarrow> string" where
  "getFailedPodInfo pods = failed_container (concat (map pod_ContainerStatuses pods)) 0 ''''"

section \<open>Failed pod creations\<close>

definition failedCreateThreshold :: int where "failedCreateThreshold = 5"
definition minFailureSpan :: int where "minFailureSpan = 20 * 1000000000"

record failures =
  fl_firstFailed :: int
  fl_latestFailed :: int
  fl_latestMsg :: string
  fl_totalCount :: int
  fl_latestSuccess :: int

definition last_time :: "KEvent \<Rightarrow> int" where
  "last_time ev = (if ke_LastTimestamp ev = 0 then ke_CreationTimestamp ev else ke_LastTimestamp ev)"

definition first_time :: "KEvent \<Rightarrow> int" where
  "first_time ev = (if ke_FirstTimestamp ev = 0 then last_time ev else ke_FirstTimestamp ev)"

definition occurrences :: "KEvent \<Rightarrow> int" where
  "occurrences ev = (let c = sint (ke_Count ev) in if c < 1 then 1 else c)"

definition count_event :: "KEvent \<Rightarrow> failures \<Rightarrow> failures" where
  "count_event ev f =
     (if ke_Reason ev = ''FailedCreate''
      then (let f = f\<lparr>fl_totalCount := fl_totalCount f + occurrences ev\<rparr>;
                f = (if fl_firstFailed f = 0 \<or> first_time ev < fl_firstFailed f then f\<lparr>fl_firstFailed := first_time ev\<rparr> else f)
            in if fl_latestFailed f = 0 \<or> fl_latestFailed f < last_time ev
               then f\<lparr>fl_latestFailed := last_time ev, fl_latestMsg := ke_Message ev\<rparr> else f)
      else if ke_Reason ev = ''SuccessfulCreate''
      then if fl_latestSuccess f = 0 \<or> fl_latestSuccess f < last_time ev then f\<lparr>fl_latestSuccess := last_time ev\<rparr> else f
      else f)"

definition no_failures :: failures where
  "no_failures = \<lparr>fl_firstFailed = 0, fl_latestFailed = 0, fl_latestMsg = '''', fl_totalCount = 0, fl_latestSuccess = 0\<rparr>"

definition failed_create :: "KEvent list \<Rightarrow> int \<times> string" where
  "failed_create evs =
     (let f = fold count_event evs no_failures in
      if fl_totalCount f = 0 then (0, '''')
      else if fl_latestSuccess f \<noteq> 0 \<and> fl_latestFailed f < fl_latestSuccess f then (0, '''')
      else if fl_totalCount f < failedCreateThreshold \<or> fl_latestFailed f - fl_firstFailed f < minFailureSpan then (0, '''')
      else (fl_totalCount f, fl_latestMsg f))"

definition hasJobFailedCreateEvent :: "('s, 'spec) K8sBackend \<Rightarrow> string \<Rightarrow> 's \<Rightarrow> 's \<times> int \<times> string" where
  "hasJobFailedCreateEvent b jobName s =
     (case k_Events (kb_client b) (cf_JobsNamespace (kb_conf b)) (''involvedObject.name='' @ jobName) s of
        (s', Inl _) \<Rightarrow> (s', 0, '''')
      | (s', Inr evs) \<Rightarrow> (s', failed_create evs))"

section \<open>Reconciliation\<close>

fun jobs_by_name :: "Job list \<Rightarrow> Job gomap \<Rightarrow> Job gomap" where
  "jobs_by_name [] m = m"
| "jobs_by_name (j # js) m = jobs_by_name js (gomap_set m (job_Name j) j)"

definition listAllWorkerJobs :: "('s, 'spec) K8sBackend \<Rightarrow> 's \<Rightarrow> 's \<times> (go_error + Job gomap)" where
  "listAllWorkerJobs b s =
     (case k_Jobs (kb_client b) (cf_JobsNamespace (kb_conf b)) ''app=funnel-worker'' s of
        (s', Inl err) \<Rightarrow> (s', Inl err)
      | (s', Inr jobs) \<Rightarrow> (s', Inr (jobs_by_name jobs [])))"

definition cleanResourcesIfEnabled :: "('s, 'spec) K8sBackend \<Rightarrow> go_ctx \<Rightarrow> string \<Rightarrow> bool \<Rightarrow> 's \<Rightarrow> 's" where
  "cleanResourcesIfEnabled b ctx jobName disableCleanup s = (if \<not> disableCleanup then fst (cleanResources b ctx jobName s) else s)"

definition writeSystemError ::
    "('s, 'spec) K8sBackend \<Rightarrow> string \<Rightarrow> go_ctx \<Rightarrow> string \<Rightarrow> string gomap \<Rightarrow> string \<Rightarrow> 's \<Rightarrow> 's" where
  "writeSystemError b now ctx jobName attrs msg s =
     (let msg = (if msg = '''' then ''Kubernetes job in FAILED state'' else msg) in
      fst (kb_event b ctx (NewSystemLog now jobName 0 0 ''error'' msg attrs)
        (fst (kb_event b ctx (NewState now jobName SystemError) s))))"

text \<open>The three steps that follow the detection of a broken job.\<close>

definition fail_and_clean ::
    "('s, 'spec) K8sBackend \<Rightarrow> string \<Rightarrow> go_ctx \<Rightarrow> string \<Rightarrow> string gomap \<Rightarrow> string \<Rightarrow> bool \<Rightarrow> 's \<Rightarrow> 's" where
  "fail_and_clean b now ctx jobName attrs msg disableCleanup s =
     cleanResourcesIfEnabled b ctx jobName disableCleanup (writeSystemError b now ctx jobName attrs msg s)"

definition waiting_detail :: "('s, 'spec) K8sBackend \<Rightarrow> Pod list \<Rightarrow> string \<Rightarrow> 's \<Rightarrow> 's \<times> string" where
  "waiting_detail b pods reason s =
     (case FetchPodWarningEvents (kb_client b) (cf_JobsNamespace (kb_conf b)) pods s of
        (s', podEvents) \<Rightarrow> (s', if podEvents \<noteq> '''' then reason @ [CHR 0x0A] @ podEvents else reason))"

definition reconcile_active ::
    "('s, 'spec) K8sBackend \<Rightarrow> string \<Rightarrow> int \<Rightarrow> go_ctx \<Rightarrow> string \<Rightarrow> Pod list \<Rightarrow> bool \<Rightarrow> 's \<Rightarrow> 's" where
  "reconcile_active b now time ctx jobName pods disableCleanup s =
     (case hasTerminalContainerWaitingError pods of
        Some reason \<Rightarrow>
          (case waiting_detail b pods reason s of
             (s1, errDetail) \<Rightarrow>
               fail_and_clean b now ctx jobName [(''error'', errDetail)] ''Kubernetes worker pod has a terminal container waiting error'' disableCleanup s1)
      | None \<Rightarrow>
          (case hasJobFailedCreateEvent b jobName s of
             (s1, count, reason) \<Rightarrow>
               if 0 < count then fail_and_clean b now ctx jobName [(''error'', reason)] ''worker job failed to create pod'' disableCleanup s1
               else (case cf_Timeout (kb_conf b) of
                       None \<Rightarrow> s1
                     | Some timeout \<Rightarrow>
                         if isJobSchedulingTimedOut timeout time pods
                         then fail_and_clean b now ctx jobName [(''error'', ''worker pod scheduling timed out'')] '''' disableCleanup s1
                         else s1)))"

definition failed_details :: "('s, 'spec) K8sBackend \<Rightarrow> JobStatus \<Rightarrow> Pod list \<Rightarrow> string gomap" where
  "failed_details b st pods =
     (let conds = (case kb_CondsJSON b (js_Conditions st) of Inl _ \<Rightarrow> '''' | Inr j \<Rightarrow> j); podInfo = getFailedPodInfo pods
      in (''error'', conds) # (if podInfo \<noteq> '''' then [(''executor_error'', podInfo)] else []))"

definition reconcile_failed ::
    "('s, 'spec) K8sBackend \<Rightarrow> string \<Rightarrow> go_ctx \<Rightarrow> string \<Rightarrow> JobStatus \<Rightarrow> Pod list \<Rightarrow> bool \<Rightarrow> 's \<Rightarrow> 's" where
  "reconcile_failed b now ctx jobName st pods disableCleanup s =
     (if 0 < sint (js_Active st) then s
      else if \<not> isJobDone st then s
      else (let known = (case kb_GetTask b ctx \<lparr>gt_Id = jobName, gt_View = View_String Minimal\<rparr> s of
                           Inl _ \<Rightarrow> False | Inr task \<Rightarrow> t_State task = SystemError);
                s1 = (if known then s else writeSystemError b now ctx jobName (failed_details b st pods) '''' s)
            in cleanResourcesIfEnabled b ctx jobName disableCleanup s1))"

definition reconcileJob :: "('s, 'spec) K8sBackend \<Rightarrow> string \<Rightarrow> int \<Rightarrow> go_ctx \<Rightarrow> Job \<Rightarrow> bool \<Rightarrow> 's \<Rightarrow> 's" where
  "reconcileJob b now time ctx j disableCleanup s =
     (let jobName = job_Name j; st = job_Status j in
      case k_Pods (kb_client b) (cf_JobsNamespace (kb_conf b)) (''job-name='' @ jobName) '''' s of
        (s1, Inl _) \<Rightarrow> s1
      | (s1, Inr pods) \<Rightarrow>
          if 0 < sint (js_Active st) then reconcile_active b now time ctx jobName pods disableCleanup s1
          else if 0 < sint (js_Succeeded st) then cleanResourcesIfEnabled b ctx jobName disableCleanup s1
          else if 0 < sint (js_Failed st) then reconcile_failed b now ctx jobName st pods disableCleanup s1
          else (case hasJobFailedCreateEvent b jobName s1 of
                  (s2, count, reason) \<Rightarrow>
                    if 0 < count
                    then fail_and_clean b now ctx jobName [(''error'', reason)] ''Kubernetes worker job failed to create pod'' disableCleanup s2
                    else s2))"

definition gomap_delete :: "'v gomap \<Rightarrow> string \<Rightarrow> 'v gomap" where
  "gomap_delete m k = AList.delete k m"

text \<open>The tasks of one page: the jobs that are not matched yet are handed on.\<close>

fun reconcile_tasks ::
    "('s, 'spec) K8sBackend \<Rightarrow> string \<Rightarrow> int \<Rightarrow> go_ctx \<Rightarrow> bool \<Rightarrow> Task list \<Rightarrow> Job gomap \<Rightarrow> 's \<Rightarrow> 's \<times> Job gomap" where
  "reconcile_tasks b now time ctx disableCleanup [] jobs s = (s, jobs)"
| "reconcile_tasks b now time ctx disableCleanup (task # tasks) jobs s =
     reconcile_tasks b now time ctx disableCleanup tasks (gomap_delete jobs (t_Id task))
       (case gomap_get jobs (t_Id task) of
          Some j \<Rightarrow> reconcileJob b now time ctx j disableCleanup s
        | None \<Rightarrow> writeSystemError b now ctx (t_Id task) [(''error'', ''job not found'')] ''Kubernetes job not found for task'' s)"

definition k8s_page_request :: "State \<Rightarrow> string \<Rightarrow> ListTasksRequest" where
  "k8s_page_request st pageToken = \<lparr>lt_NamePrefix = '''', lt_State = st, lt_TagKey = [], lt_TagValue = [], lt_PageSize = 100,
     lt_PageToken = pageToken, lt_View = ''''\<rparr>"

partial_function (option) k8s_pages ::
    "('s, 'spec) K8sBackend \<Rightarrow> string \<Rightarrow> int \<Rightarrow> go_ctx \<Rightarrow> bool \<Rightarrow> State \<Rightarrow> string \<Rightarrow> Job gomap \<Rightarrow> 's \<Rightarrow> ('s \<times> Job gomap) option" where
  "k8s_pages b now time ctx disableCleanup st pageToken jobs s =
     (case kb_ListTasks b ctx (k8s_page_request st pageToken) s of
        Inl _ \<Rightarrow> Some (s, jobs)
      | Inr lresp \<Rightarrow>
          (case reconcile_tasks b now time ctx disableCleanup (ltr_Tasks lresp) jobs s of
             (s1, jobs1) \<Rightarrow>
               if ltr_NextPageToken lresp = '''' then Some (s1, jobs1)
               else k8s_pages b now time ctx disableCleanup st (ltr_NextPageToken lresp) jobs1 s1))"

fun k8s_states ::
    "('s, 'spec) K8sBackend \<Rightarrow> string \<Rightarrow> int \<Rightarrow> go_ctx \<Rightarrow> bool \<Rightarrow> State list \<Rightarrow> Job gomap \<Rightarrow> 's \<Rightarrow> ('s \<times> Job gomap) option" where
  "k8s_states b now time ctx disableCleanup [] jobs s = Some (s, jobs)"
| "k8s_states b now time ctx disableCleanup (st # sts) jobs s =
     (case k8s_pages b now time ctx disableCleanup st '''' jobs s of
        None \<Rightarrow> None
      | Some (s1, jobs1) \<Rightarrow> k8s_states b now time ctx disableCleanup sts jobs1 s1)"

fun clean_unmatched :: "('s, 'spec) K8sBackend \<Rightarrow> go_ctx \<Rightarrow> bool \<Rightarrow> Job gomap \<Rightarrow> 's \<Rightarrow> 's" where
  "clean_unmatched b ctx disableCleanup [] s = s"
| "clean_unmatched b ctx disableCleanup ((taskID, job) # jobs) s =
     clean_unmatched b ctx disableCleanup jobs
       (if \<not> isJobDone (job_Status job) then s else cleanResourcesIfEnabled b ctx taskID disableCleanup s)"

definition reconcileOnce :: "('s, 'spec) K8sBackend \<Rightarrow> string \<Rightarrow> int \<Rightarrow> go_ctx \<Rightarrow> bool \<Rightarrow> 's \<Rightarrow> 's option" where
  "reconcileOnce b now time ctx disableCleanup s =
     (case listAllWorkerJobs b s of
        (s1, Inl _) \<Rightarrow> Some s1
      | (s1, Inr jobs) \<Rightarrow>
          (case k8s_states b now time ctx disableCleanup [Queued, Initializing, Running] jobs s1 of
             None \<Rightarrow> None
           | Some (s2, rest) \<Rightarrow> Some (clean_unmatched b ctx disableCleanup rest s2)))"

text \<open>\<open>reconcile\<close>: one pass for every time of the ticker until the context is done.\<close>

fun k8s_reconcile :: "('s, 'spec) K8sBackend \<Rightarrow> go_ctx \<Rightarrow> bool \<Rightarrow> (string \<times> int) list \<Rightarrow> 's \<Rightarrow> 's option" where
  "k8s_reconcile b ctx disableCleanup [] s = Some s"
| "k8s_reconcile b ctx disableCleanup ((now, time) # ticks) s =
     (case reconcileOnce b now time ctx disableCleanup s of None \<Rightarrow> None | Some s' \<Rightarrow> k8s_reconcile b ctx disableCleanup ticks s')"

section \<open>Orphaned resources\<close>

definition LastIndexByte :: "string \<Rightarrow> char \<Rightarrow> nat option" where
  "LastIndexByte s c = (if c \<in> set s then Some (length s - 1 - length (takeWhile (\<lambda>x. x \<noteq> c) (rev s))) else None)"

definition extractTaskIDFromExecutorJobName :: "string \<Rightarrow> string" where
  "extractTaskIDFromExecutorJobName name =
     (case LastIndexByte name (CHR ''-'') of
        None \<Rightarrow> ''''
      | Some idx \<Rightarrow>
          if idx = 0 then ''''
          else (let suffix = drop (idx + 1) name in
                if \<not> list_all is_digit suffix then '''' else if length suffix = 0 then '''' else take idx name))"

text \<open>The error result of the source is always nil.\<close>

definition isResourceCleanupNeeded :: "('s, 'spec) K8sBackend \<Rightarrow> go_ctx \<Rightarrow> string \<Rightarrow> 's \<Rightarrow> bool" where
  "isResourceCleanupNeeded b ctx taskID s =
     (case kb_GetTask b ctx \<lparr>gt_Id = taskID, gt_View = View_String Minimal\<rparr> s of
        Inl _ \<Rightarrow> True
      | Inr task \<Rightarrow> t_State task \<in> {Complete, ExecutorError, SystemError, Canceled})"

definition add_ids :: "string list \<Rightarrow> string list \<Rightarrow> string list" where
  "add_ids new ids = fold List.insert new ids"

definition labelled_tasks :: "'spec object list \<Rightarrow> string list" where
  "labelled_tasks objs = List.map_filter (\<lambda>r. gomap_get (ob_Labels r) ''taskId'') objs"

definition executor_tasks :: "Job list \<Rightarrow> string list" where
  "executor_tasks jobs = filter (\<lambda>i. i \<noteq> '''') (map (\<lambda>j. extractTaskIDFromExecutorJobName (job_Name j)) jobs)"

definition orphan_candidates :: "('s, 'spec) K8sBackend \<Rightarrow> 's \<Rightarrow> 's \<times> string list" where
  "orphan_candidates b s =
     (let K = kb_client b; ns = cf_JobsNamespace (kb_conf b);
          (s1, pvs) = k_List K K_PersistentVolume '''' (''app=funnel,namespace='' @ ns) s;
          ids1 = (case pvs of Inl _ \<Rightarrow> [] | Inr items \<Rightarrow> add_ids (labelled_tasks items) []);
          (s2, sas) = k_List K K_ServiceAccount ns ''app=funnel'' s1;
          ids2 = (case sas of Inl _ \<Rightarrow> ids1 | Inr items \<Rightarrow> add_ids (labelled_tasks items) ids1);
          (s3, ejs) = k_Jobs K ns ''app=funnel-executor'' s2
      in (s3, case ejs of Inl _ \<Rightarrow> ids2 | Inr items \<Rightarrow> add_ids (executor_tasks items) ids2))"

fun clean_candidates :: "('s, 'spec) K8sBackend \<Rightarrow> go_ctx \<Rightarrow> string list \<Rightarrow> 's \<Rightarrow> 's" where
  "clean_candidates b ctx [] s = s"
| "clean_candidates b ctx (taskID # ids) s =
     clean_candidates b ctx ids (if isResourceCleanupNeeded b ctx taskID s then fst (cleanResources b ctx taskID s) else s)"

definition CleanOrphanedResources :: "('s, 'spec) K8sBackend \<Rightarrow> go_ctx \<Rightarrow> 's \<Rightarrow> 's" where
  "CleanOrphanedResources b ctx s = (case orphan_candidates b s of (s1, ids) \<Rightarrow> clean_candidates b ctx ids s1)"

fun clean_backlog_jobs :: "('s, 'spec) K8sBackend \<Rightarrow> go_ctx \<Rightarrow> Job gomap \<Rightarrow> 's \<Rightarrow> 's" where
  "clean_backlog_jobs b ctx [] s = s"
| "clean_backlog_jobs b ctx ((taskID, j) # jobs) s =
     clean_backlog_jobs b ctx jobs
       (let st = job_Status j in
        if 0 < sint (js_Succeeded st) \<or> 0 < sint (js_Failed st) then fst (cleanResources b ctx taskID s)
        else if 0 < sint (js_Active st)
        then (case kb_GetTask b ctx \<lparr>gt_Id = taskID, gt_View = View_String Minimal\<rparr> s of
                Inl _ \<Rightarrow> fst (cleanResources b ctx taskID s)
              | Inr _ \<Rightarrow> s)
        else s)"

definition cleanBacklog :: "('s, 'spec) K8sBackend \<Rightarrow> go_ctx \<Rightarrow> bool \<Rightarrow> 's \<Rightarrow> 's" where
  "cleanBacklog b ctx disableCleanup s =
     (if disableCleanup then s
      else case listAllWorkerJobs b s of
             (s1, Inl _) \<Rightarrow> s1
           | (s1, Inr jobs) \<Rightarrow> CleanOrphanedResources b ctx (clean_backlog_jobs b ctx jobs s1))"

text \<open>
  The construction: the backend with its client, and what its goroutine runs, if there is one.
  \<open>newClient\<close> is \<open>k8sutil.NewK8sClient\<close>.
\<close>

definition k8s_NewBackend ::
    "(Config \<Rightarrow> go_error + ('s, 'spec) k8s) \<Rightarrow> ('s, 'spec) K8sBackend \<Rightarrow> Config \<Rightarrow> go_error + ('s, 'spec) K8sBackend" where
  "k8s_NewBackend newClient b conf =
     (if cf_WorkerTemplate conf = '''' then Inl (Errorf ''invalid configuration; must provide a kubernetes job template'')
      else if cf_Namespace conf = '''' then Inl (Errorf ''invalid configuration; must provide a kubernetes namespace'')
      else (let conf = (if cf_JobsNamespace conf = '''' then conf\<lparr>cf_JobsNamespace := cf_Namespace conf\<rparr> else conf) in
            case newClient conf of
              Inl err \<Rightarrow> Inl (errorf_v ''creating kubernetes client: '' err)
            | Inr client \<Rightarrow> Inr (b\<lparr>kb_client := client, kb_conf := conf\<rparr>)))"

definition k8s_background :: "('s, 'spec) K8sBackend \<Rightarrow> go_ctx \<Rightarrow> (string \<times> int) list \<Rightarrow> 's \<Rightarrow> 's option" where
  "k8s_background b ctx ticks s =
     (let conf = kb_conf b in
      if cf_DisableReconciler conf then Some s
      else k8s_reconcile b ctx (cf_DisableJobCleanup conf) ticks (cleanBacklog b ctx (cf_DisableJobCleanup conf) s))"

section \<open>Lemmas: names of executor jobs\<close>

lemma LastIndexByte_append: "c \<notin> set t \<Longrightarrow> LastIndexByte (s @ c # t) c = Some (length s)"
proof -
  assume "c \<notin> set t"
  then have "takeWhile (\<lambda>x. x \<noteq> c) (rev t @ c # rev s) = rev t" by (subst takeWhile_append2) auto
  then show ?thesis by (simp add: LastIndexByte_def)
qed

text \<open>The name that the worker gives an executor job leads back to its task.\<close>

lemma extractTaskID_roundtrip:
  assumes "i \<noteq> ''''"
  shows "extractTaskIDFromExecutorJobName (i @ ''-'' @ show_nat n) = i"
proof -
  have "CHR ''-'' \<notin> set (show_nat n)" using show_nat_digits [of "CHR ''-''" n] by (auto simp: is_digit_def less_eq_char_def)
  moreover have "list_all is_digit (show_nat n)" using show_nat_digits by (auto simp: list_all_iff)
  ultimately show ?thesis
    using assms LastIndexByte_append [of "CHR ''-''" "show_nat n" i] by (simp add: extractTaskIDFromExecutorJobName_def)
qed

section \<open>Lemmas: failed pod creations\<close>

definition failed_events :: "KEvent list \<Rightarrow> KEvent list" where
  "failed_events evs = filter (\<lambda>e. ke_Reason e = ''FailedCreate'') evs"

definition success_events :: "KEvent list \<Rightarrow> KEvent list" where
  "success_events evs = filter (\<lambda>e. ke_Reason e = ''SuccessfulCreate'') evs"

definition total_failures :: "KEvent list \<Rightarrow> int" where
  "total_failures evs = sum_list (map occurrences (failed_events evs))"

text \<open>
  What the comment promises: enough failures over a long enough time, and no success after all of
  them.
\<close>

definition persistent_failure :: "KEvent list \<Rightarrow> bool" where
  "persistent_failure evs \<longleftrightarrow>
     failedCreateThreshold \<le> total_failures evs \<and>
     (\<exists>f\<in>set (failed_events evs). \<exists>g\<in>set (failed_events evs). minFailureSpan \<le> last_time f - first_time g) \<and>
     \<not> (\<exists>e\<in>set (success_events evs). \<forall>f\<in>set (failed_events evs). last_time f < last_time e)"

definition newest :: "KEvent list \<Rightarrow> int \<Rightarrow> bool" where
  "newest es t \<longleftrightarrow> (if es = [] then t = 0 else t \<in> last_time ` set es \<and> (\<forall>e\<in>set es. last_time e \<le> t))"

definition oldest :: "KEvent list \<Rightarrow> int \<Rightarrow> bool" where
  "oldest es t \<longleftrightarrow> (if es = [] then t = 0 else t \<in> first_time ` set es \<and> (\<forall>e\<in>set es. t \<le> first_time e))"

lemma newest_snoc:
  "newest es t \<Longrightarrow> \<forall>e\<in>set (e' # es). 0 < last_time e \<Longrightarrow> newest (es @ [e']) (if t = 0 \<or> t < last_time e' then last_time e' else t)"
  by (cases "es = []") (fastforce simp: newest_def)+

lemma oldest_snoc:
  "oldest es t \<Longrightarrow> \<forall>e\<in>set (e' # es). 0 < first_time e \<Longrightarrow> oldest (es @ [e']) (if t = 0 \<or> first_time e' < t then first_time e' else t)"
  by (cases "es = []") (fastforce simp: oldest_def)+

lemma newest_witness: "newest es t \<Longrightarrow> es \<noteq> [] \<Longrightarrow> \<exists>e\<in>set es. t = last_time e \<and> (\<forall>e'\<in>set es. last_time e' \<le> last_time e)"
  by (auto simp: newest_def)

lemma occurrences_pos: "1 \<le> occurrences ev"
  by (simp add: occurrences_def Let_def)

lemma total_failures_pos: "failed_events evs \<noteq> [] \<Longrightarrow> 0 < total_failures evs"
proof -
  assume "failed_events evs \<noteq> []"
  then obtain e es where e: "failed_events evs = e # es" by (cases "failed_events evs") auto
  have "0 \<le> sum_list (map occurrences es)"
    by (rule sum_list_nonneg) (auto simp: occurrences_def Let_def)
  with e occurrences_pos [of e] show ?thesis by (simp add: total_failures_def)
qed

definition counted :: "KEvent list \<Rightarrow> failures \<Rightarrow> bool" where
  "counted evs f \<longleftrightarrow> fl_totalCount f = total_failures evs \<and> oldest (failed_events evs) (fl_firstFailed f) \<and>
     newest (failed_events evs) (fl_latestFailed f) \<and> newest (success_events evs) (fl_latestSuccess f) \<and>
     (failed_events evs \<noteq> [] \<longrightarrow> (\<exists>e\<in>set (failed_events evs). last_time e = fl_latestFailed f \<and> ke_Message e = fl_latestMsg f))"

definition timed :: "KEvent list \<Rightarrow> bool" where
  "timed evs \<longleftrightarrow> (\<forall>e\<in>set evs. 0 < last_time e \<and> 0 < first_time e)"

lemma event_lists_snoc:
  "failed_events (evs @ [e]) = failed_events evs @ (if ke_Reason e = ''FailedCreate'' then [e] else [])"
  "success_events (evs @ [e]) = success_events evs @ (if ke_Reason e = ''SuccessfulCreate'' then [e] else [])"
  "total_failures (evs @ [e]) = total_failures evs + (if ke_Reason e = ''FailedCreate'' then occurrences e else 0)"
  by (simp_all add: failed_events_def success_events_def total_failures_def)

lemma count_event_counted:
  assumes "counted evs f" "timed (evs @ [e])"
  shows "counted (evs @ [e]) (count_event e f)"
proof -
  have pos: "\<forall>x\<in>set (e # failed_events evs). 0 < last_time x" "\<forall>x\<in>set (e # failed_events evs). 0 < first_time x"
    "\<forall>x\<in>set (e # success_events evs). 0 < last_time x"
    using assms(2) by (auto simp: timed_def failed_events_def success_events_def)
  consider "ke_Reason e = ''FailedCreate''" | "ke_Reason e = ''SuccessfulCreate''"
    | "ke_Reason e \<noteq> ''FailedCreate''" "ke_Reason e \<noteq> ''SuccessfulCreate''" by blast
  then show ?thesis
  proof cases
    case 1
    have "oldest (failed_events evs @ [e]) (if fl_firstFailed f = 0 \<or> first_time e < fl_firstFailed f then first_time e else fl_firstFailed f)"
      using oldest_snoc [OF _ pos(2)] assms(1) by (simp add: counted_def)
    moreover have "newest (failed_events evs @ [e]) (if fl_latestFailed f = 0 \<or> fl_latestFailed f < last_time e then last_time e else fl_latestFailed f)"
      using newest_snoc [OF _ pos(1)] assms(1) by (simp add: counted_def)
    moreover have "failed_events evs = [] \<Longrightarrow> fl_latestFailed f = 0" using assms(1) by (simp add: counted_def newest_def)
    ultimately show ?thesis using assms(1) 1 by (auto simp: counted_def count_event_def event_lists_snoc Let_def)
  next
    case 2
    have "newest (success_events evs @ [e]) (if fl_latestSuccess f = 0 \<or> fl_latestSuccess f < last_time e then last_time e else fl_latestSuccess f)"
      using newest_snoc [OF _ pos(3)] assms(1) by (simp add: counted_def)
    with 2 assms(1) show ?thesis by (auto simp: counted_def count_event_def event_lists_snoc)
  next
    case 3
    with assms(1) show ?thesis by (simp add: counted_def count_event_def event_lists_snoc)
  qed
qed

lemma fold_counted: "timed evs \<Longrightarrow> counted evs (fold count_event evs no_failures)"
proof (induction evs rule: rev_induct)
  case Nil
  show ?case by (simp add: counted_def no_failures_def failed_events_def success_events_def total_failures_def oldest_def newest_def)
next
  case (snoc e evs)
  then have "timed evs" by (simp add: timed_def)
  with snoc count_event_counted show ?case by simp
qed

text \<open>
  C26: When every event has its times set, the job is reported as unable to create pods exactly if
  there are at least five failures over at least twenty seconds and no success after all of them;
  the count is the number of failures and the message that of a latest failure.
\<close>

theorem failed_create_exact:
  assumes "timed evs"
  shows "(persistent_failure evs \<longrightarrow> fst (failed_create evs) = total_failures evs \<and> 0 < total_failures evs \<and>
       (\<exists>e\<in>set (failed_events evs). snd (failed_create evs) = ke_Message e \<and> (\<forall>g\<in>set (failed_events evs). last_time g \<le> last_time e))) \<and>
     (\<not> persistent_failure evs \<longrightarrow> failed_create evs = (0, ''''))"
proof (cases "failed_events evs = []")
  case True
  with fold_counted [OF assms] have "fl_totalCount (fold count_event evs no_failures) = 0" "\<not> persistent_failure evs"
    by (auto simp: counted_def total_failures_def persistent_failure_def)
  then show ?thesis by (simp add: failed_create_def)
next
  case False
  define f where "f = fold count_event evs no_failures"
  note c = fold_counted [OF assms, folded f_def, unfolded counted_def]
  note pos = total_failures_pos [OF False]
  have succ: "(fl_latestSuccess f \<noteq> 0 \<and> fl_latestFailed f < fl_latestSuccess f) \<longleftrightarrow>
      (\<exists>e\<in>set (success_events evs). \<forall>g\<in>set (failed_events evs). last_time g < last_time e)"
  proof (cases "success_events evs = []")
    case True
    with c show ?thesis by (simp add: newest_def)
  next
    case ne: False
    from c ne newest_witness obtain e where e: "e \<in> set (success_events evs)" "fl_latestSuccess f = last_time e"
      "\<forall>e'\<in>set (success_events evs). last_time e' \<le> last_time e" by metis
    from c False newest_witness obtain g where g: "g \<in> set (failed_events evs)" "fl_latestFailed f = last_time g"
      "\<forall>g'\<in>set (failed_events evs). last_time g' \<le> last_time g" by metis
    have "0 < last_time e" using assms e(1) by (auto simp: timed_def success_events_def)
    then have "(fl_latestSuccess f \<noteq> 0 \<and> fl_latestFailed f < fl_latestSuccess f) \<longleftrightarrow> last_time g < last_time e" using e g by simp
    also have "\<dots> \<longleftrightarrow> (\<exists>e'\<in>set (success_events evs). \<forall>g'\<in>set (failed_events evs). last_time g' < last_time e')"
      using e(1,3) g(1,3) by (meson le_less_trans less_le_trans)
    finally show ?thesis .
  qed
  have span: "minFailureSpan \<le> fl_latestFailed f - fl_firstFailed f \<longleftrightarrow>
      (\<exists>a\<in>set (failed_events evs). \<exists>g\<in>set (failed_events evs). minFailureSpan \<le> last_time a - first_time g)"
    using c False by (fastforce simp: newest_def oldest_def)
  have "persistent_failure evs \<longleftrightarrow> \<not> (fl_latestSuccess f \<noteq> 0 \<and> fl_latestFailed f < fl_latestSuccess f) \<and>
      \<not> (fl_totalCount f < failedCreateThreshold \<or> fl_latestFailed f - fl_firstFailed f < minFailureSpan)"
    unfolding persistent_failure_def succ span [symmetric] using c by auto
  moreover have "\<exists>e\<in>set (failed_events evs). fl_latestMsg f = ke_Message e \<and> (\<forall>g\<in>set (failed_events evs). last_time g \<le> last_time e)"
  proof -
    from c False obtain e where "e \<in> set (failed_events evs)" "last_time e = fl_latestFailed f" "ke_Message e = fl_latestMsg f" by blast
    then show ?thesis using c False by (intro bexI [of _ e]) (auto simp: newest_def)
  qed
  ultimately show ?thesis using c pos by (auto simp: failed_create_def Let_def f_def [symmetric])
qed

definition sample_failure :: "int \<Rightarrow> KEvent" where
  "sample_failure t = \<lparr>ke_Reason = ''FailedCreate'', ke_Message = ''forbidden'', ke_Count = 3, ke_FirstTimestamp = 1, ke_LastTimestamp = t,
     ke_CreationTimestamp = 1\<rparr>"

lemma failed_create_exact_witness:
  "timed [sample_failure 2, sample_failure 30000000000] \<and> persistent_failure [sample_failure 2, sample_failure 30000000000] \<and>
   failed_create [sample_failure 2, sample_failure 30000000000] = (6, ''forbidden'')"
proof -
  let ?evs = "[sample_failure 2, sample_failure 30000000000]"
  have t: "timed ?evs" by (simp add: timed_def sample_failure_def last_time_def first_time_def)
  have p: "persistent_failure ?evs"
    by (simp add: persistent_failure_def total_failures_def failed_events_def success_events_def sample_failure_def last_time_def first_time_def
        occurrences_def failedCreateThreshold_def minFailureSpan_def)
  from failed_create_exact [OF t] p t show ?thesis
    by (auto simp: total_failures_def failed_events_def sample_failure_def occurrences_def prod_eq_iff)
qed

end

