(* ===== verification/K8s_Reconcile.thy ===== *)
theory K8s_Reconcile
  imports K8s_Backend Hpc_Reconcile
begin

text \<open>
  What the Kubernetes backend of \<open>src/compute/kubernetes/backend.go\<close> does to tasks: it moves them only
  along accepted transitions (locale \<open>k8s_backend\<close>), and one pass of its reconciliation marks exactly
  the tasks whose worker job is missing or broken (locale \<open>k8s_reconciler\<close>), although it deletes jobs
  and changes states while it reads the pages.  The Badger database provides both contracts.
\<close>

section \<open>Whatever the cluster does\<close>

locale k8s_backend = task_listing "kb_event b" state_of inv "kb_GetTask b" "kb_ListTasks b"
  for b :: "('s, 'spec) K8sBackend" and state_of and inv +
  assumes create_evolves: "evolves state_of inv s (fst (k_Create (kb_client b) kind ns obj s))"
    and get_evolves: "evolves state_of inv s (fst (k_Get (kb_client b) kind ns name s))"
    and update_evolves: "evolves state_of inv s (fst (k_Update (kb_client b) kind ns obj s))"
    and delete_evolves: "evolves state_of inv s (fst (k_Delete (kb_client b) kind ns name opts s))"
    and jobs_evolve: "evolves state_of inv s (fst (k_Jobs (kb_client b) ns sel s))"
    and pods_evolve: "evolves state_of inv s (fst (k_Pods (kb_client b) ns sel field s))"
begin

lemma delete_object_evolves: "evolves state_of inv s (fst (delete_object (kb_client b) kind ns name msg s))"
  unfolding delete_object_def by (auto intro!: evolves_case delete_evolves split: option.split)

lemma delete_finalized_evolves: "evolves state_of inv s (fst (delete_finalized (kb_client b) kind what ns mine name n s))"
proof (induction n arbitrary: s)
  case (Suc n)
  show ?case
    by (auto intro!: evolves_case get_evolves update_evolves delete_object_evolves Suc.IH simp: Let_def split: sum.split option.split)
qed simp

lemma delete_executor_jobs_evolves: "evolves state_of inv s (fst (delete_executor_jobs (kb_client b) ns pre jobs errs s))"
  by (induction jobs arbitrary: errs s) (auto intro!: evolves_case delete_evolves)

lemma DeleteJob_evolves: "evolves state_of inv s (fst (DeleteJob (kb_client b) conf i s))"
  unfolding DeleteJob_def DeleteExecutorJobs_def
  by (auto intro!: evolves_case delete_evolves jobs_evolve delete_executor_jobs_evolves split: sum.split option.split)

lemma DeleteServiceAccount_evolves: "evolves state_of inv s (fst (DeleteServiceAccount (kb_client b) i ns opts s))"
  unfolding DeleteServiceAccount_def isServiceAccountAttachedToPods_def Let_def
  by (auto intro!: evolves_case pods_evolve delete_object_evolves split: sum.split)

lemma cleanResources_evolves: "evolves state_of inv s (fst (cleanResources b ctx i s))"
  unfolding cleanResources_def Let_def DeletePV_def
  by (intro evolves_case DeleteJob_evolves DeleteServiceAccount_evolves delete_finalized_evolves) simp

lemma create_object_evolves: "evolves state_of inv s (fst (create_object (kb_client b) kind ns msg obj s))"
  unfolding create_object_def by (auto intro!: evolves_case create_evolves split: sum.split)

lemmas create_evolve = create_object_evolves create_evolves get_evolves pods_evolve

lemma creations_evolve:
  "evolves state_of inv s (fst (CreateConfigMap (kb_client b) conf i owner s))"
  "evolves state_of inv s (fst (CreateServiceAccount (kb_client b) conf task owner s))"
  "evolves state_of inv s (fst (CreateRole (kb_client b) conf task owner s))"
  "evolves state_of inv s (fst (CreateRoleBinding (kb_client b) conf task owner s))"
  "evolves state_of inv s (fst (CreatePV (kb_client b) conf i disk s))"
  "evolves state_of inv s (fst (CreatePVC (kb_client b) conf i disk owner s))"
  "evolves state_of inv s (fst (CreateJob (kb_client b) conf task s))"
  unfolding CreateConfigMap_def CreateServiceAccount_def CreateRole_def CreateRoleBinding_def CreatePV_def CreatePVC_def CreateJob_def Let_def
  by (auto intro!: evolves_case create_evolve split: option.split sum.split)

lemma or_cancel_evolves:
  assumes "evolves state_of inv s (fst r)" "\<And>s'. evolves state_of inv s' (fst (k s'))"
  shows "evolves state_of inv s (fst (or_cancel b i what r k))"
  unfolding or_cancel_def k8s_Cancel_def using assms by (auto intro!: evolves_case cleanResources_evolves split: option.split)

lemma if_template_evolves:
  "(\<And>s. evolves state_of inv s (fst (f s))) \<Longrightarrow> evolves state_of inv s (fst (if_template tpl f s))"
  by (simp add: if_template_def)

lemma createResources_evolves: "evolves state_of inv s (fst (createResources b conf task s))"
proof -
  have sa: "evolves state_of inv s (fst (ensure_service_account b conf task ref s))" for ref s
    unfolding ensure_service_account_def by (auto intro!: evolves_case get_evolves creations_evolve split: sum.split)
  have vol: "evolves state_of inv s (fst (create_volumes b conf task ref s))" for ref s
    unfolding create_volumes_def Let_def by (auto intro!: or_cancel_evolves creations_evolve)
  show ?thesis
    unfolding createResources_def Let_def k8s_Cancel_def
    by (auto intro!: evolves_case or_cancel_evolves if_template_evolves creations_evolve cleanResources_evolves sa vol split: sum.split)
qed

lemma error_evolves: "evolves state_of inv s (fst (kb_event b ctx' (NewSystemLog now i 0 0 lvl msg flds) (fst (kb_event b ctx (NewState now i st) s))))"
  by (rule evolves_trans [OF put_evolves put_evolves]) (simp_all add: NewState_def NewSystemLog_def)

lemma WriteEvent_evolves: "evolves state_of inv s (fst (k8s_WriteEvent b now ctx ev s))"
  unfolding k8s_WriteEvent_def k8s_Submit_def k8s_Cancel_def
  by (auto intro!: evolves_case createResources_evolves cleanResources_evolves error_evolves split: sum.split option.split)

end

section \<open>A pass of the reconciliation\<close>

text \<open>What a pass reads of the pods and the events of a job decides whether the job is broken.\<close>

definition broken :: "Config \<Rightarrow> int \<Rightarrow> JobStatus \<Rightarrow> Pod list \<Rightarrow> KEvent list \<Rightarrow> bool" where
  "broken conf time st pods evs \<longleftrightarrow>
     (if 0 < sint (js_Active st)
      then (\<exists>p\<in>set pods. \<exists>c\<in>set (pod_ContainerStatuses p). waiting_error c \<noteq> None) \<or> 0 < fst (failed_create evs) \<or>
           (\<exists>timeout. cf_Timeout conf = Some timeout \<and> isJobSchedulingTimedOut timeout time pods)
      else if 0 < sint (js_Succeeded st) then False
      else if 0 < sint (js_Failed st) then isJobDone st
      else 0 < fst (failed_create evs))"

text \<open>Two task identifiers of which one would name an executor job of the other.\<close>

definition executor_clash :: "string set \<Rightarrow> bool" where
  "executor_clash I \<longleftrightarrow> (\<exists>i\<in>I. \<exists>n\<in>I. prefix (i @ ''-'') n)"

text \<open>
  The contract: exact pages, writes that succeed, queries that are answered and a cluster in which the
  pods and the events of a job change only if that job is deleted.
\<close>

definition k8s_keeps ::
    "('s \<Rightarrow> bool) \<Rightarrow> ('s \<Rightarrow> string \<Rightarrow> State option) \<Rightarrow> ('s \<Rightarrow> string \<Rightarrow> Pod list \<times> KEvent list) \<Rightarrow> (string \<Rightarrow> bool) \<Rightarrow> 's \<Rightarrow> 's \<Rightarrow> bool" where
  "k8s_keeps I state_of view P s s' \<longleftrightarrow> I s' \<and> state_of s' = state_of s \<and> (\<forall>n. P n \<longrightarrow> view s' n = view s n)"

locale k8s_reconciler =
  fixes b :: "('s, 'spec) K8sBackend" and ctx :: go_ctx
    and state_of :: "'s \<Rightarrow> string \<Rightarrow> State option" and inv :: "'s \<Rightarrow> bool"
    and view :: "'s \<Rightarrow> string \<Rightarrow> Pod list \<times> KEvent list"
  assumes finite_tasks: "inv s \<Longrightarrow> finite (dom (state_of s))"
    and page: "inv s \<Longrightarrow> st \<noteq> Unknown \<Longrightarrow> tok = '''' \<or> tok \<in> dom (state_of s) \<Longrightarrow>
      \<exists>r. kb_ListTasks b ctx (k8s_page_request st tok) s = Inr r \<and>
        map t_Id (ltr_Tasks r) = take 100 (ids_after (state_of s) st tok) \<and>
        ltr_NextPageToken r = next_token (ids_after (state_of s) st tok)"
    and get_state: "inv s \<Longrightarrow> kb_GetTask b ctx req s = Inr t \<Longrightarrow> state_of s (gt_Id req) = Some (t_State t)"
    and put_error: "inv s \<Longrightarrow> state_of s i = Some st \<Longrightarrow> state_step st SystemError \<Longrightarrow>
      s' = fst (kb_event b ctx (NewState now i SystemError) s) \<Longrightarrow>
      inv s' \<and> state_of s' = (state_of s)(i \<mapsto> SystemError) \<and> view s' = view s"
    and put_log: "inv s \<Longrightarrow> k8s_keeps inv state_of view (\<lambda>_. True) s (fst (kb_event b ctx (NewSystemLog now i a k lvl msg flds) s))"
    and get_same: "inv s \<Longrightarrow> k8s_keeps inv state_of view (\<lambda>_. True) s (fst (k_Get (kb_client b) kind ns name s))"
    and update_same: "inv s \<Longrightarrow> k8s_keeps inv state_of view (\<lambda>_. True) s (fst (k_Update (kb_client b) kind ns obj s))"
    and delete_same: "inv s \<Longrightarrow> k8s_keeps inv state_of view (\<lambda>n. kind = K_Job \<longrightarrow> n \<noteq> name) s (fst (k_Delete (kb_client b) kind ns name opts s))"
    and jobs_same: "inv s \<Longrightarrow> k8s_keeps inv state_of view (\<lambda>_. True) s (fst (k_Jobs (kb_client b) ns sel s))"
    and pods_same: "inv s \<Longrightarrow> k8s_keeps inv state_of view (\<lambda>_. True) s (fst (k_Pods (kb_client b) ns sel field s))"
    and events_same: "inv s \<Longrightarrow> k8s_keeps inv state_of view (\<lambda>_. True) s (fst (k_Events (kb_client b) ns field s))"
    and pods: "inv s \<Longrightarrow> snd (k_Pods (kb_client b) (cf_JobsNamespace (kb_conf b)) (''job-name='' @ n) '''' s) = Inr (fst (view s n))"
    and events: "inv s \<Longrightarrow> snd (k_Events (kb_client b) (cf_JobsNamespace (kb_conf b)) (''involvedObject.name='' @ n) s) = Inr (snd (view s n))"
begin

abbreviation keeps :: "(string \<Rightarrow> bool) \<Rightarrow> 's \<Rightarrow> 's \<Rightarrow> bool" where
  "keeps \<equiv> k8s_keeps inv state_of view"

lemma keeps_trans: "keeps P s t \<Longrightarrow> keeps Q t u \<Longrightarrow> keeps (\<lambda>n. P n \<and> Q n) s u"
  by (auto simp: k8s_keeps_def)

lemma keeps_weaken: "keeps P s t \<Longrightarrow> (\<And>n. Q n \<Longrightarrow> P n) \<Longrightarrow> keeps Q s t"
  by (auto simp: k8s_keeps_def)

lemma keeps_refl: "inv s \<Longrightarrow> keeps P s s"
  by (simp add: k8s_keeps_def)

lemma keeps_inv: "keeps P s t \<Longrightarrow> inv t"
  by (simp add: k8s_keeps_def)

lemma keeps_bind:
  assumes "keeps P s (fst r)" "\<And>s' x. r = (s', x) \<Longrightarrow> inv s' \<Longrightarrow> keeps P s' (fst (f s' x))"
  shows "keeps P s (fst (case r of (s', x) \<Rightarrow> f s' x))"
proof (cases r)
  case (Pair s' x)
  with assms keeps_inv have "keeps P s s'" "keeps P s' (fst (f s' x))" by auto
  from keeps_trans [OF this] Pair show ?thesis by simp
qed

lemmas keeps_all = keeps_weaken [OF get_same] keeps_weaken [OF update_same] keeps_weaken [OF jobs_same] keeps_weaken [OF pods_same]
  keeps_weaken [OF events_same]

text \<open>The clean-up of a task touches only the jobs of that task.\<close>

definition spared :: "string \<Rightarrow> string \<Rightarrow> bool" where
  "spared i n \<longleftrightarrow> n \<noteq> i \<and> \<not> prefix (i @ ''-'') n"

lemma delete_object_keeps: "inv s \<Longrightarrow> kind \<noteq> K_Job \<Longrightarrow> keeps P s (fst (delete_object (kb_client b) kind ns name msg s))"
  unfolding delete_object_def by (rule keeps_bind) (auto intro: keeps_weaken [OF delete_same] keeps_refl split: option.split)

lemma delete_finalized_keeps:
  "inv s \<Longrightarrow> kind \<noteq> K_Job \<Longrightarrow> keeps P s (fst (delete_finalized (kb_client b) kind what ns mine name n s))"
proof (induction n arbitrary: s)
  case (Suc n)
  have del: "inv s \<Longrightarrow> keeps P s (fst (delete_object (kb_client b) kind ns name msg s))" for msg s
    using delete_object_keeps Suc.prems(2) by blast
  show ?case
    unfolding delete_finalized.simps Let_def
    by (rule keeps_bind)
      (auto intro!: keeps_all keeps_bind [where r = "k_Update (kb_client b) k n x s" for k n x s] keeps_refl del Suc.IH Suc.prems
        split: sum.split option.split)
qed (simp add: keeps_refl)

lemma delete_executor_jobs_keeps:
  "inv s \<Longrightarrow> keeps (\<lambda>n. \<not> prefix pre n) s (fst (delete_executor_jobs (kb_client b) ns pre jobs errs s))"
proof (induction jobs arbitrary: errs s)
  case (Cons j jobs)
  show ?case
  proof (cases "length pre < length (job_Name j) \<and> take (length pre) (job_Name j) = pre")
    case True
    then have pre: "prefix pre (job_Name j)" by (metis take_is_prefix)
    have "keeps (\<lambda>n. \<not> prefix pre n) s (fst (k_Delete (kb_client b) K_Job ns (job_Name j) job_delete_opts s))"
      using pre by (intro keeps_weaken [OF delete_same [OF Cons.prems]]) auto
    with True show ?thesis by simp (intro keeps_bind, auto intro: Cons.IH)
  next
    case False
    with Cons.IH [OF Cons.prems] show ?thesis by auto
  qed
qed (simp add: keeps_refl)

lemma DeleteJob_keeps: "inv s \<Longrightarrow> keeps (spared i) s (fst (DeleteJob (kb_client b) conf i s))"
proof -
  assume inv: "inv s"
  have ex: "keeps (spared i) s (fst (DeleteExecutorJobs (kb_client b) conf i s))" if "inv s" for s
    unfolding DeleteExecutorJobs_def
    by (rule keeps_bind)
      (auto intro!: keeps_all keeps_refl keeps_weaken [OF delete_executor_jobs_keeps] that simp: spared_def split: sum.split)
  show ?thesis
    unfolding DeleteJob_def
    by (rule keeps_bind) (auto intro!: keeps_weaken [OF delete_same [OF inv]] ex keeps_refl simp: spared_def split: option.split)
qed

lemma DeleteServiceAccount_keeps: "inv s \<Longrightarrow> keeps P s (fst (DeleteServiceAccount (kb_client b) i ns opts s))"
proof -
  assume inv: "inv s"
  have att: "keeps P s (fst (isServiceAccountAttachedToPods (kb_client b) name ns s))" for name
    unfolding isServiceAccountAttachedToPods_def
    by (rule keeps_bind) (auto intro!: keeps_all keeps_refl inv split: sum.split)
  have del: "inv s \<Longrightarrow> keeps P s (fst (delete_object (kb_client b) K_ServiceAccount ns name msg s))" for name msg s
    by (rule delete_object_keeps) auto
  show ?thesis
    unfolding DeleteServiceAccount_def Let_def
    using inv by (auto intro!: keeps_bind [OF att] del keeps_refl split: sum.split)
qed

lemma cleanResources_keeps: "inv s \<Longrightarrow> keeps (spared i) s (fst (cleanResources b ctx i s))"
  unfolding cleanResources_def Let_def DeletePV_def
  by (intro keeps_bind DeleteJob_keeps DeleteServiceAccount_keeps delete_finalized_keeps)
    (auto intro!: keeps_refl)

lemma clean_if_keeps: "inv s \<Longrightarrow> keeps (spared i) s (cleanResourcesIfEnabled b ctx i off s)"
  by (simp add: cleanResourcesIfEnabled_def cleanResources_keeps keeps_refl)

end

context k8s_reconciler
begin

text \<open>
  A part of the pass that has visited the tasks of \<open>V\<close>: those of \<open>P\<close> are system errors, the others are as
  they were, and what is known of the jobs of the others has not changed.
\<close>

definition passed :: "'s \<Rightarrow> string set \<Rightarrow> (string \<Rightarrow> bool) \<Rightarrow> 's \<Rightarrow> bool" where
  "passed s V P s' \<longleftrightarrow> inv s' \<and> (\<forall>i. P i \<longrightarrow> i \<in> dom (state_of s)) \<and>
     state_of s' = (\<lambda>i. if P i then Some SystemError else state_of s i) \<and> (\<forall>n\<in>dom (state_of s). n \<notin> V \<longrightarrow> view s' n = view s n)"

lemma passed_dom: "passed s V P s' \<Longrightarrow> dom (state_of s') = dom (state_of s)"
  by (auto simp: passed_def dom_def)

lemma passed_trans: "passed s V P s1 \<Longrightarrow> passed s1 W Q s2 \<Longrightarrow> passed s (V \<union> W) (\<lambda>i. P i \<or> Q i) s2"
  using passed_dom [of s V P s1] by (auto simp: passed_def)

lemma keeps_passed: "keeps P s s' \<Longrightarrow> \<forall>n\<in>dom (state_of s). n \<notin> V \<longrightarrow> P n \<Longrightarrow> passed s V (\<lambda>_. False) s'"
  by (auto simp: passed_def k8s_keeps_def)

lemma writeSystemError_passed:
  assumes "inv s" "state_of s i = Some st" "state_step st SystemError"
  shows "passed s {} (\<lambda>n. n = i) (writeSystemError b now ctx i attrs msg s)"
proof -
  define s1 where "s1 = fst (kb_event b ctx (NewState now i SystemError) s)"
  have 1: "passed s {} (\<lambda>n. n = i) s1"
    using put_error [OF assms s1_def] assms(2) by (auto simp: passed_def)
  then have "inv s1" by (simp add: passed_def)
  from keeps_passed [OF put_log [OF this]] have "passed s1 {} (\<lambda>_. False) (fst (kb_event b ctx (NewSystemLog now i 0 0 ''error'' m attrs) s1))" for m
    by simp
  from passed_trans [OF 1 this] show ?thesis by (simp add: writeSystemError_def Let_def s1_def)
qed

lemma clean_passed:
  assumes "inv s" "i \<in> dom (state_of s)" "\<not> executor_clash (dom (state_of s))"
  shows "passed s {i} (\<lambda>_. False) (cleanResourcesIfEnabled b ctx i off s)"
  using assms by (intro keeps_passed [OF clean_if_keeps]) (auto simp: spared_def executor_clash_def)

lemma fail_and_clean_passed:
  assumes "inv s" "state_of s i = Some st" "state_step st SystemError" "\<not> executor_clash (dom (state_of s))"
  shows "passed s {i} (\<lambda>n. n = i) (fail_and_clean b now ctx i attrs msg off s)"
proof -
  note 1 = writeSystemError_passed [OF assms(1-3), of now attrs msg]
  have "inv (writeSystemError b now ctx i attrs msg s)" using 1 by (simp add: passed_def)
  from passed_trans [OF 1 clean_passed [OF this]] passed_dom [OF 1] assms show ?thesis
    by (auto simp: fail_and_clean_def)
qed

lemma warnings_keeps: "inv s \<Longrightarrow> keeps (\<lambda>_. True) s (fst (warnings_of_pods (kb_client b) ns ps seen msgs s))"
proof (induction ps arbitrary: seen msgs s)
  case (Cons p ps)
  show ?case
    unfolding warnings_of_pods.simps
    by (rule keeps_bind) (auto intro!: events_same Cons split: sum.split prod.split)
qed (simp add: keeps_refl)

lemma detail_keeps: "inv s \<Longrightarrow> keeps (\<lambda>_. True) s (fst (waiting_detail b ps reason s))"
  using warnings_keeps [of s "cf_JobsNamespace (kb_conf b)" ps "[]" "[]"]
  by (auto simp: waiting_detail_def FetchPodWarningEvents_def split: prod.split)

lemma keeps_view: "keeps (\<lambda>_. True) s s' \<Longrightarrow> inv s' \<and> state_of s' = state_of s \<and> view s' = view s"
  by (auto simp: k8s_keeps_def)

lemma passed_after: "keeps (\<lambda>_. True) s s1 \<Longrightarrow> passed s1 V P s2 \<Longrightarrow> passed s V P s2"
  using keeps_view [of s s1] by (auto simp: passed_def)

lemma passed_same: "inv s \<Longrightarrow> passed s V (\<lambda>_. False) s"
  by (simp add: passed_def)

lemma failed_create_read:
  assumes "inv s" "hasJobFailedCreateEvent b n s = (s', r)"
  shows "keeps (\<lambda>_. True) s s'" "r = failed_create (snd (view s n))"
proof -
  obtain s1 x where e: "k_Events (kb_client b) (cf_JobsNamespace (kb_conf b)) (''involvedObject.name='' @ n) s = (s1, x)" by force
  have "x = Inr (snd (view s n))" using events [OF assms(1), of n] e by simp
  with e assms(2) have "s' = s1" "r = failed_create (snd (view s n))" by (auto simp: hasJobFailedCreateEvent_def)
  with events_same [OF assms(1), of "cf_JobsNamespace (kb_conf b)" "''involvedObject.name='' @ n"] e
  show "keeps (\<lambda>_. True) s s'" "r = failed_create (snd (view s n))" by auto
qed

lemma waiting_iff:
  "hasTerminalContainerWaitingError ps = None \<longleftrightarrow> \<not> (\<exists>p\<in>set ps. \<exists>c\<in>set (pod_ContainerStatuses p). waiting_error c \<noteq> None)"
proof -
  have "hasTerminalContainerWaitingError ps = None \<longleftrightarrow> List.map_filter waiting_error (concat (map pod_ContainerStatuses ps)) = []"
    by (simp add: hasTerminalContainerWaitingError_def split: list.split)
  also have "\<dots> \<longleftrightarrow> (\<forall>c\<in>set (concat (map pod_ContainerStatuses ps)). waiting_error c = None)"
    by (auto simp: List.map_filter_def filter_empty_conv)
  finally show ?thesis by auto
qed

lemma active_passed:
  assumes inv: "inv s" and i: "state_of s i = Some st" "state_step st SystemError" and clash: "\<not> executor_clash (dom (state_of s))"
    and act: "0 < sint (js_Active jst)"
  shows "passed s {i} (\<lambda>n. n = i \<and> broken (kb_conf b) time jst (fst (view s i)) (snd (view s i)))
    (reconcile_active b now time ctx i (fst (view s i)) off s)"
proof -
  have fail: "passed s {i} (\<lambda>n. n = i) (fail_and_clean b now ctx i attrs msg off s')" if "keeps (\<lambda>_. True) s s'" for attrs msg s'
    using fail_and_clean_passed [of s' i st] keeps_view [OF that] i clash passed_after [OF that] by simp
  have same: "passed s {i} (\<lambda>_. False) s'" if "keeps (\<lambda>_. True) s s'" for s'
    using keeps_passed [OF that] by simp
  obtain s1 c m where ev: "hasJobFailedCreateEvent b i s = (s1, c, m)" by (rule prod.exhaust [of "hasJobFailedCreateEvent b i s"]) force
  note read = failed_create_read [OF inv ev]
  show ?thesis
  proof (cases "hasTerminalContainerWaitingError (fst (view s i))")
    case (Some reason)
    then have "broken (kb_conf b) time jst (fst (view s i)) (snd (view s i))"
      using waiting_iff [of "fst (view s i)"] act by (simp add: broken_def)
    with Some fail [OF detail_keeps [OF inv]] show ?thesis
      by (cases "waiting_detail b (fst (view s i)) reason s") (simp add: reconcile_active_def, metis fst_conv)
  next
    case None
    then have "broken (kb_conf b) time jst (fst (view s i)) (snd (view s i)) \<longleftrightarrow>
        0 < c \<or> (\<exists>timeout. cf_Timeout (kb_conf b) = Some timeout \<and> isJobSchedulingTimedOut timeout time (fst (view s i)))"
      using waiting_iff [of "fst (view s i)"] act arg_cong [OF read(2), of fst] by (simp add: broken_def)
    with None ev fail [OF read(1)] same [OF read(1)] show ?thesis by (simp add: reconcile_active_def split: option.split)
  qed
qed

lemma failed_passed:
  assumes inv: "inv s" and i: "state_of s i = Some st" "active st" and clash: "\<not> executor_clash (dom (state_of s))"
    and act: "\<not> 0 < sint (js_Active jst)"
  shows "passed s {i} (\<lambda>n. n = i \<and> isJobDone jst) (reconcile_failed b now ctx i jst ps off s)"
proof (cases "isJobDone jst")
  case False
  with act inv show ?thesis by (simp add: reconcile_failed_def passed_same)
next
  case True
  have "\<not> (case kb_GetTask b ctx \<lparr>gt_Id = i, gt_View = View_String Minimal\<rparr> s of Inl _ \<Rightarrow> False | Inr task \<Rightarrow> t_State task = SystemError)"
    using get_state [OF inv, of "\<lparr>gt_Id = i, gt_View = View_String Minimal\<rparr>"] i
    by (cases "kb_GetTask b ctx \<lparr>gt_Id = i, gt_View = View_String Minimal\<rparr> s") (auto simp: active_def)
  with True act have "reconcile_failed b now ctx i jst ps off s = fail_and_clean b now ctx i (failed_details b jst ps) '''' off s"
    by (simp add: reconcile_failed_def fail_and_clean_def)
  with True fail_and_clean_passed [OF inv i(1) active_step [OF i(2)] clash] show ?thesis by simp
qed

lemma reconcileJob_passed:
  assumes inv: "inv s" and i: "state_of s (job_Name j) = Some st" "active st" and clash: "\<not> executor_clash (dom (state_of s))"
  shows "passed s {job_Name j} (\<lambda>n. n = job_Name j \<and> broken (kb_conf b) time (job_Status j) (fst (view s n)) (snd (view s n)))
    (reconcileJob b now time ctx j off s)"
proof -
  let ?i = "job_Name j" and ?st = "job_Status j" and ?ps = "fst (view s (job_Name j))"
  obtain s1 x where p: "k_Pods (kb_client b) (cf_JobsNamespace (kb_conf b)) (''job-name='' @ ?i) '''' s = (s1, x)" by force
  have x: "x = Inr ?ps" using pods [OF inv, of ?i] p by simp
  have k: "keeps (\<lambda>_. True) s s1" using pods_same [OF inv, of "cf_JobsNamespace (kb_conf b)" "''job-name='' @ ?i" "''''"] p by simp
  note v = keeps_view [OF k]
  have i1: "inv s1" "state_of s1 ?i = Some st" "\<not> executor_clash (dom (state_of s1))" "view s1 = view s" using v i clash by auto
  obtain s2 c m where ev: "hasJobFailedCreateEvent b ?i s1 = (s2, c, m)" by (rule prod.exhaust [of "hasJobFailedCreateEvent b ?i s1"]) force
  note read = failed_create_read [OF i1(1) ev]
  let ?Q = "\<lambda>n. n = ?i \<and> broken (kb_conf b) time ?st (fst (view s n)) (snd (view s n))"
  have "passed s1 {?i} ?Q (reconcileJob b now time ctx j off s)"
  proof -
    consider (act) "0 < sint (js_Active ?st)" | (suc) "\<not> 0 < sint (js_Active ?st)" "0 < sint (js_Succeeded ?st)"
      | (fail) "\<not> 0 < sint (js_Active ?st)" "\<not> 0 < sint (js_Succeeded ?st)" "0 < sint (js_Failed ?st)"
      | (zero) "\<not> 0 < sint (js_Active ?st)" "\<not> 0 < sint (js_Succeeded ?st)" "\<not> 0 < sint (js_Failed ?st)" by blast
    then show ?thesis
    proof cases
      case act
      have "?Q = (\<lambda>n. n = ?i \<and> broken (kb_conf b) time ?st (fst (view s1 ?i)) (snd (view s1 ?i)))" using i1(4) by auto
      with active_passed [OF i1(1,2) active_step [OF i(2)] i1(3) act, of time now off] p x act i1(4) show ?thesis
        by (simp add: reconcileJob_def Let_def)
    next
      case suc
      then have "?Q = (\<lambda>_. False)" by (simp add: broken_def)
      moreover have "?i \<in> dom (state_of s1)" using i1(2) by blast
      ultimately show ?thesis using clean_passed [OF i1(1) _ i1(3), of ?i off] p x suc by (simp add: reconcileJob_def)
    next
      case fail
      then have "?Q = (\<lambda>n. n = ?i \<and> isJobDone ?st)" by (auto simp: broken_def)
      with failed_passed [OF i1(1,2) i(2) i1(3) fail(1), of now ?ps off] p x fail show ?thesis by (simp add: reconcileJob_def Let_def)
    next
      case zero
      have "c = fst (failed_create (snd (view s ?i)))" using read(2) i1(4) by (metis fst_conv)
      with zero have Q: "?Q = (\<lambda>n. n = ?i \<and> 0 < c)" by (auto simp: broken_def)
      note v2 = keeps_view [OF read(1)]
      have "passed s1 {?i} (\<lambda>n. n = ?i) (fail_and_clean b now ctx ?i attrs msg off s2)" for attrs msg
        using fail_and_clean_passed [of s2 ?i st] v2 i1 active_step [OF i(2)] passed_after [OF read(1)] by simp
      with keeps_passed [OF read(1)] p x zero ev show ?thesis unfolding Q by (simp add: reconcileJob_def)
    qed
  qed
  from passed_after [OF k this] show ?thesis .
qed

end

text \<open>The tasks, pages and states of a pass.  \<open>J\<close> holds the jobs that are not matched yet, by their name.\<close>

definition named :: "Job gomap \<Rightarrow> bool" where
  "named J \<longleftrightarrow> (\<forall>i j. gomap_get J i = Some j \<longrightarrow> job_Name j = i)"

definition without :: "Job gomap \<Rightarrow> string set \<Rightarrow> Job gomap \<Rightarrow> bool" where
  "without J V J' \<longleftrightarrow> (\<forall>i. gomap_get J' i = (if i \<in> V then None else gomap_get J i))"

lemma gomap_get_delete [gomap_simps]: "gomap_get (gomap_delete m k) k' = (if k' = k then None else gomap_get m k')"
  by (simp add: gomap_get_def gomap_delete_def delete_conv')

lemma jobs_by_name_get: "gomap_get (jobs_by_name js m) i = (case find (\<lambda>j. job_Name j = i) (rev js) of Some j \<Rightarrow> Some j | None \<Rightarrow> gomap_get m i)"
proof (induction js arbitrary: m)
  case (Cons j js)
  have "find P (xs @ [x]) = (case find P xs of Some y \<Rightarrow> Some y | None \<Rightarrow> if P x then Some x else None)" for P xs and x :: Job
    by (induction xs) auto
  with Cons show ?case by (auto simp: gomap_simps split: option.splits)
qed simp

lemma without_trans: "without J V J1 \<Longrightarrow> without J1 W J2 \<Longrightarrow> without J (V \<union> W) J2"
  by (simp add: without_def)

lemma without_named: "without J V J' \<Longrightarrow> named J \<Longrightarrow> named J'"
  by (auto simp: without_def named_def split: if_splits)

context k8s_reconciler
begin

definition lost :: "int \<Rightarrow> Job gomap \<Rightarrow> 's \<Rightarrow> string \<Rightarrow> bool" where
  "lost time J s i \<longleftrightarrow>
     (case gomap_get J i of None \<Rightarrow> True | Some j \<Rightarrow> broken (kb_conf b) time (job_Status j) (fst (view s i)) (snd (view s i)))"

lemma lost_later: "passed s V P s' \<Longrightarrow> without J V J' \<Longrightarrow> i \<in> dom (state_of s) \<Longrightarrow> i \<notin> V \<Longrightarrow> lost time J' s' i = lost time J s i"
proof -
  assume "passed s V P s'" "without J V J'" "i \<in> dom (state_of s)" "i \<notin> V"
  then have "view s' i = view s i" "gomap_get J' i = gomap_get J i" by (simp_all add: passed_def without_def)
  then show ?thesis by (simp add: lost_def split: option.split)
qed

lemma one_passed:
  assumes "inv s" "state_of s i = Some st" "active st" "\<not> executor_clash (dom (state_of s))" "named J"
  shows "passed s {i} (\<lambda>n. n = i \<and> lost time J s n)
    (case gomap_get J i of Some j \<Rightarrow> reconcileJob b now time ctx j off s
     | None \<Rightarrow> writeSystemError b now ctx i attrs msg s)"
proof (cases "gomap_get J i")
  case None
  then have "(\<lambda>n. n = i \<and> lost time J s n) = (\<lambda>n. n = i)" by (auto simp: lost_def)
  with None writeSystemError_passed [OF assms(1,2) active_step [OF assms(3)], of now attrs msg] show ?thesis by (simp add: passed_def)
next
  case (Some j)
  with assms(5) have n: "job_Name j = i" by (simp add: named_def)
  have "(\<lambda>n. n = i \<and> lost time J s n) = (\<lambda>n. n = i \<and> broken (kb_conf b) time (job_Status j) (fst (view s n)) (snd (view s n)))"
    using Some by (auto simp: lost_def)
  with reconcileJob_passed [of s j, unfolded n, OF assms(1-4), of time now off] Some show ?thesis by simp
qed

lemma tasks_passed:
  assumes "inv s" "\<forall>t\<in>set tasks. \<exists>st. state_of s (t_Id t) = Some st \<and> active st" "\<not> executor_clash (dom (state_of s))" "named J"
    "distinct (map t_Id tasks)" "reconcile_tasks b now time ctx off tasks J s = (s', J')"
  shows "passed s (t_Id ` set tasks) (\<lambda>i. i \<in> t_Id ` set tasks \<and> lost time J s i) s' \<and> without J (t_Id ` set tasks) J'"
  using assms
proof (induction tasks arbitrary: s J)
  case Nil
  then show ?case by (simp add: passed_same without_def)
next
  case (Cons t tasks)
  let ?i = "t_Id t" and ?J = "gomap_delete J (t_Id t)"
  define s1 where "s1 = (case gomap_get J ?i of Some j \<Rightarrow> reconcileJob b now time ctx j off s
     | None \<Rightarrow> writeSystemError b now ctx ?i [(''error'', ''job not found'')] ''Kubernetes job not found for task'' s)"
  from Cons.prems(2) obtain st where st: "state_of s ?i = Some st" "active st" by auto
  have 1: "passed s {?i} (\<lambda>n. n = ?i \<and> lost time J s n) s1"
    unfolding s1_def by (rule one_passed [OF Cons.prems(1) st Cons.prems(3,4)])
  have w: "without J {?i} ?J" by (simp add: without_def gomap_simps)
  have other: "t_Id u \<noteq> ?i" if "u \<in> set tasks" for u using Cons.prems(5) that by (metis distinct.simps(2) image_eqI list.simps(9) set_map)
  have act: "\<forall>u\<in>set tasks. \<exists>st. state_of s1 (t_Id u) = Some st \<and> active st"
    using 1 Cons.prems(2) other by (auto simp: passed_def)
  have "inv s1" using 1 by (simp add: passed_def)
  moreover have "distinct (map t_Id tasks)" "reconcile_tasks b now time ctx off tasks ?J s1 = (s', J')"
    using Cons.prems(5,6) by (simp_all add: s1_def)
  ultimately have IH: "passed s1 (t_Id ` set tasks) (\<lambda>i. i \<in> t_Id ` set tasks \<and> lost time ?J s1 i) s'" "without ?J (t_Id ` set tasks) J'"
    using Cons.IH [of s1 ?J] act Cons.prems(3) passed_dom [OF 1] without_named [OF w Cons.prems(4)] by auto
  have "lost time ?J s1 i = lost time J s i" if "i \<in> t_Id ` set tasks" for i
    using lost_later [OF 1 w] that Cons.prems(2) other by (metis domI imageE insertE list.simps(15) list.set_intros(2) singletonD)
  then have "(\<lambda>i. (i = ?i \<and> lost time J s i) \<or> i \<in> t_Id ` set tasks \<and> lost time ?J s1 i) = (\<lambda>i. i \<in> t_Id ` set (t # tasks) \<and> lost time J s i)"
    by (auto simp: fun_eq_iff)
  with passed_trans [OF 1 IH(1)] without_trans [OF w IH(2)] show ?case by simp
qed

lemma pages_passed:
  assumes "inv s" "active st" "tok = '''' \<or> tok \<in> dom (state_of s)" "\<not> executor_clash (dom (state_of s))" "named J"
  shows "\<exists>s' J'. k8s_pages b now time ctx off st tok J s = Some (s', J') \<and>
    passed s (set (ids_after (state_of s) st tok)) (\<lambda>i. i \<in> set (ids_after (state_of s) st tok) \<and> lost time J s i) s' \<and>
    without J (set (ids_after (state_of s) st tok)) J'"
  using assms
proof (induction "length (ids_after (state_of s) st tok)" arbitrary: s tok J rule: less_induct)
  case less
  let ?ids = "ids_after (state_of s) st tok"
  note fin = finite_tasks [OF less.prems(1)]
  have "st \<noteq> Unknown" using less.prems(2) by (auto simp: active_def)
  from page [OF less.prems(1) this less.prems(3)] obtain r where r: "kb_ListTasks b ctx (k8s_page_request st tok) s = Inr r"
    "map t_Id (ltr_Tasks r) = take 100 ?ids" "ltr_NextPageToken r = next_token ?ids" by blast
  have img: "t_Id ` set (ltr_Tasks r) = set (take 100 ?ids)" using arg_cong [OF r(2), of set] by simp
  have stored: "state_of s i = Some st" if "i \<in> set ?ids" for i using that by (simp add: set_ids_after [OF fin])
  then have listed: "\<forall>t\<in>set (ltr_Tasks r). \<exists>st. state_of s (t_Id t) = Some st \<and> active st"
    using img less.prems(2) by (metis imageI in_set_takeD)
  have dist: "distinct ?ids" "distinct (map t_Id (ltr_Tasks r))" unfolding r(2) by (simp_all add: ids_after_def)
  obtain s1 J1 where run: "reconcile_tasks b now time ctx off (ltr_Tasks r) J s = (s1, J1)" by force
  from tasks_passed [OF less.prems(1) listed less.prems(4,5) dist(2) run]
  have step: "passed s (set (take 100 ?ids)) (\<lambda>i. i \<in> set (take 100 ?ids) \<and> lost time J s i) s1" and w: "without J (set (take 100 ?ids)) J1"
    unfolding img by auto
  have unfold: "k8s_pages b now time ctx off st tok J s =
      (if next_token ?ids = '''' then Some (s1, J1) else k8s_pages b now time ctx off st (next_token ?ids) J1 s1)"
    by (subst k8s_pages.simps) (simp add: r run)
  show ?case
  proof (cases "next_token ?ids = ''''")
    case True
    with step w show ?thesis by (simp add: unfold last_page)
  next
    case False
    have "state_of s1 i = state_of s i" if "i \<notin> set (take 100 ?ids)" for i using step that by (simp add: passed_def)
    from next_page [OF fin False passed_dom [OF step] this] have rest: "ids_after (state_of s1) st (next_token ?ids) = drop 100 ?ids"
      and tok: "next_token ?ids \<in> dom (state_of s1)" and long: "100 \<le> length ?ids" by auto
    have "length (ids_after (state_of s1) st (next_token ?ids)) < length ?ids" unfolding rest using long by simp
    moreover have "inv s1" using step by (simp add: passed_def)
    ultimately obtain s2 J2 where 2: "k8s_pages b now time ctx off st (next_token ?ids) J1 s1 = Some (s2, J2)"
      "passed s1 (set (drop 100 ?ids)) (\<lambda>i. i \<in> set (drop 100 ?ids) \<and> lost time J1 s1 i) s2" "without J1 (set (drop 100 ?ids)) J2"
      using less.hyps [of s1 "next_token ?ids" J1] less.prems(2,4) tok passed_dom [OF step] without_named [OF w less.prems(5)]
      unfolding rest by auto
    have ids: "set ?ids = set (take 100 ?ids) \<union> set (drop 100 ?ids)" by (metis append_take_drop_id set_append)
    have "lost time J1 s1 i = lost time J s i" if "i \<in> set (drop 100 ?ids)" for i
    proof (rule lost_later [OF step w])
      show "i \<in> dom (state_of s)" using stored in_set_dropD [OF that] by blast
      show "i \<notin> set (take 100 ?ids)" using that dist(1) set_take_disj_set_drop_if_distinct [of ?ids 100 100] by blast
    qed
    then have "(\<lambda>i. (i \<in> set (take 100 ?ids) \<and> lost time J s i) \<or> i \<in> set (drop 100 ?ids) \<and> lost time J1 s1 i) =
        (\<lambda>i. i \<in> set ?ids \<and> lost time J s i)" unfolding ids by (auto simp: fun_eq_iff)
    with passed_trans [OF step 2(2)] without_trans [OF w 2(3)] 2(1) False show ?thesis unfolding ids [symmetric] by (simp add: unfold)
  qed
qed

lemma states_passed:
  assumes "inv s" "\<not> executor_clash (dom (state_of s))" "named J" "distinct sts" "\<forall>st\<in>set sts. active st"
  shows "\<exists>s' J'. k8s_states b now time ctx off sts J s = Some (s', J') \<and>
    passed s {i. \<exists>st\<in>set sts. state_of s i = Some st} (\<lambda>i. (\<exists>st\<in>set sts. state_of s i = Some st) \<and> lost time J s i) s' \<and>
    without J {i. \<exists>st\<in>set sts. state_of s i = Some st} J'"
  using assms
proof (induction sts arbitrary: s J)
  case Nil
  then show ?case by (simp add: passed_same without_def)
next
  case (Cons st sts)
  let ?V = "{i. state_of s i = Some st}" and ?W = "{i. \<exists>st\<in>set sts. state_of s i = Some st}"
  have ids: "set (ids_after (state_of s) st '''') = ?V" using set_ids_after [OF finite_tasks [OF Cons.prems(1)]] by simp
  from pages_passed [OF Cons.prems(1) _ _ Cons.prems(2,3), of st "''''" now time off] Cons.prems(5) obtain s1 J1 where
    1: "k8s_pages b now time ctx off st '''' J s = Some (s1, J1)" "passed s ?V (\<lambda>i. state_of s i = Some st \<and> lost time J s i) s1" "without J ?V J1"
    unfolding ids by auto
  have sys: "active st' \<Longrightarrow> st' \<noteq> SystemError" for st' by (auto simp: active_def)
  have W: "(\<exists>st'\<in>set sts. state_of s1 i = Some st') \<longleftrightarrow> (\<exists>st'\<in>set sts. state_of s i = Some st')" for i
    using 1(2) Cons.prems(4,5) sys by (auto simp: passed_def split: if_splits)
  from Cons.IH [of s1 J1] Cons.prems(2,4,5) 1(2) passed_dom [OF 1(2)] without_named [OF 1(3) Cons.prems(3)] obtain s2 J2 where
    2: "k8s_states b now time ctx off sts J1 s1 = Some (s2, J2)"
    "passed s1 ?W (\<lambda>i. (\<exists>st\<in>set sts. state_of s i = Some st) \<and> lost time J1 s1 i) s2" "without J1 ?W J2"
    unfolding W by (auto simp: passed_def)
  have lost: "lost time J1 s1 i = lost time J s i" if "\<exists>st\<in>set sts. state_of s i = Some st" for i
    using that Cons.prems(4) by (intro lost_later [OF 1(2,3)]) auto
  have "(\<lambda>i. (state_of s i = Some st \<and> lost time J s i) \<or> (\<exists>st\<in>set sts. state_of s i = Some st) \<and> lost time J1 s1 i) =
      (\<lambda>i. (\<exists>st'\<in>set (st # sts). state_of s i = Some st') \<and> lost time J s i)" using lost by (auto simp: fun_eq_iff)
  moreover have "?V \<union> ?W = {i. \<exists>st'\<in>set (st # sts). state_of s i = Some st'}" by auto
  ultimately show ?case
    using passed_trans [OF 1(2) 2(2)] without_trans [OF 1(3) 2(3)] 1(1) 2(1) by auto
qed

lemma unmatched_keeps: "inv s \<Longrightarrow> inv (clean_unmatched b ctx off J s) \<and> state_of (clean_unmatched b ctx off J s) = state_of s"
proof (induction J arbitrary: s)
  case (Cons p J)
  obtain i j where p: "p = (i, j)" by force
  let ?s = "if \<not> isJobDone (job_Status j) then s else cleanResourcesIfEnabled b ctx i off s"
  have "inv ?s \<and> state_of ?s = state_of s" using clean_if_keeps [OF Cons.prems, of i off] Cons.prems by (simp add: k8s_keeps_def)
  with Cons.IH [of ?s] show ?case by (simp add: p)
qed simp

lemma once_passed:
  assumes "inv s" "\<not> executor_clash (dom (state_of s))"
    "snd (k_Jobs (kb_client b) (cf_JobsNamespace (kb_conf b)) ''app=funnel-worker'' s) = Inr jobs"
  shows "\<exists>s'. reconcileOnce b now time ctx off s = Some s' \<and> inv s' \<and>
    state_of s' = (\<lambda>i. if (\<exists>st. state_of s i = Some st \<and> active st) \<and> lost time (jobs_by_name jobs []) s i then Some SystemError else state_of s i)"
proof -
  obtain s1 where s1: "k_Jobs (kb_client b) (cf_JobsNamespace (kb_conf b)) ''app=funnel-worker'' s = (s1, Inr jobs)"
    using assms(3) by (metis prod.collapse)
  let ?J = "jobs_by_name jobs []"
  have k: "keeps (\<lambda>_. True) s s1" using jobs_same [OF assms(1), of "cf_JobsNamespace (kb_conf b)" "''app=funnel-worker''"] s1 by simp
  have v: "inv s1" "state_of s1 = state_of s" "view s1 = view s" using keeps_view [OF k] by auto
  have "named ?J" by (auto simp: named_def jobs_by_name_get find_Some_iff split: option.splits)
  from states_passed [OF v(1) _ this, of "[Queued, Initializing, Running]" now time off] assms(2) v obtain s2 J2 where
    2: "k8s_states b now time ctx off [Queued, Initializing, Running] ?J s1 = Some (s2, J2)"
    "passed s1 {i. \<exists>st\<in>set [Queued, Initializing, Running]. state_of s i = Some st}
      (\<lambda>i. (\<exists>st\<in>set [Queued, Initializing, Running]. state_of s i = Some st) \<and> lost time ?J s1 i) s2"
    by (auto simp: active_def)
  have "inv s2" using 2(2) by (simp add: passed_def)
  note rest = unmatched_keeps [OF this, of off J2]
  have P: "(\<exists>st\<in>set [Queued, Initializing, Running]. state_of s i = Some st) \<and> lost time ?J s1 i \<longleftrightarrow>
      (\<exists>st. state_of s i = Some st \<and> active st) \<and> lost time ?J s i" for i
    using v(3) by (auto simp: active_def lost_def split: option.split)
  from 2(2) rest v(2) have "state_of (clean_unmatched b ctx off J2 s2) =
      (\<lambda>i. if (\<exists>st. state_of s i = Some st \<and> active st) \<and> lost time ?J s i then Some SystemError else state_of s i)"
    unfolding passed_def P v(2) by simp
  with rest s1 2(1) show ?thesis by (auto simp: reconcileOnce_def listAllWorkerJobs_def)
qed

end

section \<open>Badger provides the contracts\<close>

text \<open>The cluster leaves the database alone and the pods and events of a job as they are, unless the job is deleted.\<close>

definition quiet :: "('w \<Rightarrow> string \<Rightarrow> 'x) \<Rightarrow> (string \<Rightarrow> bool) \<Rightarrow> 'd \<times> 'w \<Rightarrow> 'd \<times> 'w \<Rightarrow> bool" where
  "quiet view P s s' \<longleftrightarrow> fst s' = fst s \<and> (\<forall>n. P n \<longrightarrow> view (snd s') n = view (snd s) n)"

definition steady_cluster :: "('d \<times> 'w, 'spec) K8sBackend \<Rightarrow> ('w \<Rightarrow> string \<Rightarrow> Pod list \<times> KEvent list) \<Rightarrow> bool" where
  "steady_cluster b view \<longleftrightarrow>
     (\<forall>kind ns name s. quiet view (\<lambda>_. True) s (fst (k_Get (kb_client b) kind ns name s))) \<and>
     (\<forall>kind ns obj s. quiet view (\<lambda>_. True) s (fst (k_Update (kb_client b) kind ns obj s))) \<and>
     (\<forall>kind ns name opts s. quiet view (\<lambda>n. kind = K_Job \<longrightarrow> n \<noteq> name) s (fst (k_Delete (kb_client b) kind ns name opts s))) \<and>
     (\<forall>ns sel s. quiet view (\<lambda>_. True) s (fst (k_Jobs (kb_client b) ns sel s))) \<and>
     (\<forall>ns sel field s. quiet view (\<lambda>_. True) s (fst (k_Pods (kb_client b) ns sel field s))) \<and>
     (\<forall>ns field s. quiet view (\<lambda>_. True) s (fst (k_Events (kb_client b) ns field s))) \<and>
     (\<forall>n s. snd (k_Pods (kb_client b) (cf_JobsNamespace (kb_conf b)) (''job-name='' @ n) '''' s) = Inr (fst (view (snd s) n))) \<and>
     (\<forall>n s. snd (k_Events (kb_client b) (cf_JobsNamespace (kb_conf b)) (''involvedObject.name='' @ n) s) = Inr (snd (view (snd s) n)))"

definition on_badger :: "('d, 'v) kv \<Rightarrow> 'd retry_notify \<Rightarrow> string \<Rightarrow> ('d \<times> 'w, 'spec) K8sBackend \<Rightarrow> bool" where
  "on_badger K RN mode b \<longleftrightarrow> kb_event b = beside_put (badger_WriteEvent K RN mode) \<and>
     kb_GetTask b = (\<lambda>ctx req s. badger_GetTask K mode ctx req (fst s)) \<and> kb_ListTasks b = beside_list (badger_ListTasks K mode)"

lemma badger_listing_beside:
  assumes "kv_laws K" "backoff_law RN" "on_badger K RN mode b"
  shows "task_listing (kb_event b) (\<lambda>s. badger_state K (fst s)) (\<lambda>s. badger_ok K (fst s)) (kb_GetTask b) (kb_ListTasks b)"
  using task_listing_beside [OF badger_task_listing [OF assms(1,2)]] assms(3) by (simp add: on_badger_def)

lemma badger_k8s_backend:
  assumes "kv_laws K" "backoff_law RN" "on_badger K RN mode b"
    "\<And>kind ns obj s. fst (fst (k_Create (kb_client b) kind ns obj s)) = fst s" "\<And>kind ns name s. fst (fst (k_Get (kb_client b) kind ns name s)) = fst s"
    "\<And>kind ns obj s. fst (fst (k_Update (kb_client b) kind ns obj s)) = fst s"
    "\<And>kind ns name opts s. fst (fst (k_Delete (kb_client b) kind ns name opts s)) = fst s"
    "\<And>ns sel s. fst (fst (k_Jobs (kb_client b) ns sel s)) = fst s" "\<And>ns sel field s. fst (fst (k_Pods (kb_client b) ns sel field s)) = fst s"
  shows "k8s_backend b (\<lambda>s. badger_state K (fst s)) (\<lambda>s. badger_ok K (fst s))"
  using badger_listing_beside [OF assms(1-3)] assms(4-9) by (intro k8s_backend.intro k8s_backend_axioms.intro evolves_beside) simp_all

lemma badger_k8s_reconciler:
  assumes laws: "kv_laws K" "backoff_law RN" "kv_reliable K" and b: "on_badger K RN mode b" and steady: "steady_cluster b view"
  shows "k8s_reconciler b None (\<lambda>s. badger_state K (fst s)) (\<lambda>s. badger_ok K (fst s)) (\<lambda>s. view (snd s))"
proof -
  note listing = badger_listing_beside [OF laws(1,2) b]
  have keep: "k8s_keeps (\<lambda>s. badger_ok K (fst s)) (\<lambda>s. badger_state K (fst s)) (\<lambda>s. view (snd s)) P s s'"
    if "badger_ok K (fst s)" "quiet view P s s'" for P s s'
    using that by (simp add: k8s_keeps_def quiet_def)
  have req: "k8s_page_request st tok = page_request st tok\<lparr>lt_View := ''''\<rparr>" for st tok
    by (simp add: k8s_page_request_def page_request_def)
  show ?thesis
  proof (unfold_locales, goal_cases)
    case (1 s)
    then show ?case using task_listing.finite_tasks [OF listing] by simp
  next
    case (2 s st tok)
    then show ?case using badger_page_view [OF laws(1,3) 2, of mode "''''"] b by (auto simp: on_badger_def beside_list_def req)
  next
    case (3 s req t)
    have "task_db (kb_event b) (\<lambda>s. badger_state K (fst s)) (\<lambda>s. badger_ok K (fst s)) (kb_GetTask b)"
      using listing by (rule task_listing.axioms(1))
    from task_db.get_state [OF this 3] show ?case .
  next
    case (4 s i st s' now)
    obtain d r where w: "badger_WriteEvent K RN mode None (NewState now i SystemError) (fst s) = (d, r)" by force
    with 4(4) b have "s' = (d, snd s)" by (simp add: on_badger_def beside_put_def)
    with badger_error_write [OF laws 4(1-3) w] show ?case by simp
  next
    case (5 s now i a k lvl msg flds)
    obtain d r where w: "badger_WriteEvent K RN mode None (NewSystemLog now i a k lvl msg flds) (fst s) = (d, r)" by force
    with badger_log_write [OF laws(1,2) 5 w] b show ?case by (simp add: k8s_keeps_def on_badger_def beside_put_def)
  qed (use steady in \<open>auto simp: steady_cluster_def intro!: keep\<close>)
qed

section \<open>An example\<close>

text \<open>A cluster in memory: the worker jobs with their status, their pods and their events.\<close>

type_synonym cluster = "(string \<times> JobStatus \<times> Pod list \<times> KEvent list) list"

definition cluster_view :: "cluster \<Rightarrow> string \<Rightarrow> Pod list \<times> KEvent list" where
  "cluster_view w n = (case map_of w n of None \<Rightarrow> ([], []) | Some (_, v) \<Rightarrow> v)"

definition mem_k8s :: "('d \<times> cluster, unit) k8s" where
  "mem_k8s =
     \<lparr>k_Parse = (\<lambda>fs t. None), k_Execute = (\<lambda>fs t data. Inr t),
      k_Decode = (\<lambda>t. Inr \<lparr>ob_Kind = K_Job, ob_Name = t, ob_UID = t, ob_Labels = [], ob_Finalizers = [], ob_OwnerReferences = [], ob_Spec = ()\<rparr>),
      k_ToYaml = (\<lambda>c. Inr ''''), k_Create = (\<lambda>kind ns obj s. (s, Inr obj)), k_Get = (\<lambda>kind ns name s. (s, Inl ErrNotFound)),
      k_Update = (\<lambda>kind ns obj s. (s, None)),
      k_Delete = (\<lambda>kind ns name opts. beside (\<lambda>w. (if kind = K_Job then AList.delete name w else w, None))),
      k_List = (\<lambda>kind ns sel s. (s, Inr [])),
      k_Jobs = (\<lambda>ns sel s. (s, Inr (map (\<lambda>(n, st, _). \<lparr>job_Name = n, job_Status = st\<rparr>) (snd s)))),
      k_Pods = (\<lambda>ns sel field s. (s, Inr (fst (cluster_view (snd s) (TrimPrefix sel ''job-name=''))))),
      k_Events = (\<lambda>ns field s. (s, Inr (snd (cluster_view (snd s) (TrimPrefix field ''involvedObject.name=''))))),
      k_IsNotFound = (\<lambda>e. e = ErrNotFound), k_IsConflict = (\<lambda>e. False)\<rparr>"

definition mem_k8s_backend :: "string \<Rightarrow> Config \<Rightarrow> ((string \<times> cell) list \<times> cluster, unit) K8sBackend" where
  "mem_k8s_backend mode conf =
     \<lparr>kb_client = mem_k8s, kb_event = beside_put (badger_WriteEvent mem_kv untimed_backoff mode), kb_has_database = True,
      kb_GetTask = (\<lambda>ctx req s. badger_GetTask mem_kv mode ctx req (fst s)), kb_ListTasks = beside_list (badger_ListTasks mem_kv mode),
      kb_conf = conf, kb_PluginConfig = (\<lambda>ctx. None), kb_Merge = (\<lambda>a c. Inr c), kb_MultiError = hd, kb_CondsJSON = (\<lambda>c. Inr ''[]''),
      kb_GoSyntax = (\<lambda>t. '''')\<rparr>"

lemma mem_backend_on_badger: "on_badger mem_kv untimed_backoff mode (mem_k8s_backend mode conf)"
  by (simp add: on_badger_def mem_k8s_backend_def)

lemma cluster_view_delete: "n \<noteq> name \<Longrightarrow> cluster_view (AList.delete name w) n = cluster_view w n"
  by (simp add: cluster_view_def delete_conv')

lemma mem_cluster_steady: "steady_cluster (mem_k8s_backend mode conf) cluster_view"
  by (auto simp: steady_cluster_def quiet_def mem_k8s_backend_def mem_k8s_def beside_def cluster_view_delete TrimPrefix_def HasPrefix_def)

interpretation k8s_on_badger: k8s_backend "mem_k8s_backend mode conf" "\<lambda>s. badger_state mem_kv (fst s)" "\<lambda>s. badger_ok mem_kv (fst s)"
  for mode conf
  by (rule badger_k8s_backend [OF mem_kv_laws untimed_backoff_law mem_backend_on_badger])
    (simp_all add: mem_k8s_backend_def mem_k8s_def)

interpretation k8s_pass: k8s_reconciler "mem_k8s_backend mode conf" None "\<lambda>s. badger_state mem_kv (fst s)" "\<lambda>s. badger_ok mem_kv (fst s)"
  "\<lambda>s. cluster_view (snd s)" for mode conf
  by (rule badger_k8s_reconciler [OF mem_kv_laws untimed_backoff_law mem_kv_reliable mem_backend_on_badger mem_cluster_steady])

section \<open>Properties\<close>

text \<open>
  C17: a pass of the Kubernetes reconciliation is exact.  On a Badger database that does not fail and a
  cluster that answers, one pass ends, however many pages it reads while it changes states and deletes
  jobs; after it, the tasks that were queued, initializing or running and that have no worker job or
  a broken one are system errors, and every other task is in the state it had.  No task identifier
  may be the name of an executor job of another task.
\<close>

theorem kubernetes_reconcile_exact:
  assumes "kv_laws K" "backoff_law RN" "kv_reliable K" "on_badger K RN mode b" "steady_cluster b view" "badger_ok K d"
    "\<not> executor_clash (dom (badger_state K d))"
    "snd (k_Jobs (kb_client b) (cf_JobsNamespace (kb_conf b)) ''app=funnel-worker'' (d, w)) = Inr jobs" "distinct (map job_Name jobs)"
  shows "\<exists>d' w'. reconcileOnce b now time None off (d, w) = Some (d', w') \<and> badger_ok K d' \<and>
    badger_state K d' =
      (\<lambda>i. if (\<exists>st. badger_state K d i = Some st \<and> active st) \<and>
              \<not> (\<exists>j\<in>set jobs. job_Name j = i \<and> \<not> broken (kb_conf b) time (job_Status j) (fst (view w i)) (snd (view w i)))
           then Some SystemError else badger_state K d i)"
proof -
  note rec = badger_k8s_reconciler [OF assms(1-5)]
  from k8s_reconciler.once_passed [OF rec, of "(d, w)" jobs now time off, unfolded fst_conv] assms(6-8) obtain s' where
    s': "reconcileOnce b now time None off (d, w) = Some s'" "badger_ok K (fst s')"
    "badger_state K (fst s') = (\<lambda>i. if (\<exists>st. badger_state K d i = Some st \<and> active st) \<and>
       k8s_reconciler.lost b (\<lambda>s. view (snd s)) time (jobs_by_name jobs []) (d, w) i then Some SystemError else badger_state K d i)"
    by auto
  have "k8s_reconciler.lost b (\<lambda>s. view (snd s)) time (jobs_by_name jobs []) (d, w) i \<longleftrightarrow>
      \<not> (\<exists>j\<in>set jobs. job_Name j = i \<and> \<not> broken (kb_conf b) time (job_Status j) (fst (view w i)) (snd (view w i)))" for i
  proof (cases "gomap_get (jobs_by_name jobs []) i")
    case None
    then have "find (\<lambda>j. job_Name j = i) (rev jobs) = None" by (simp add: jobs_by_name_get split: option.splits)
    then have "\<not> (\<exists>j\<in>set jobs. job_Name j = i)" by (simp add: find_None_iff)
    with None show ?thesis by (auto simp: k8s_reconciler.lost_def [OF rec])
  next
    case (Some j)
    then have "find (\<lambda>j. job_Name j = i) (rev jobs) = Some j" by (simp add: jobs_by_name_get split: option.splits)
    then have "j \<in> set (rev jobs)" "job_Name j = i" using find_Some_iff [of "\<lambda>j. job_Name j = i" "rev jobs" j] by (auto simp: nth_mem simp del: set_rev)
    then have "j \<in> set jobs" "job_Name j = i" by simp_all
    then have "j' = j" if "j' \<in> set jobs" "job_Name j' = i" for j'
      using assms(9) that by (metis distinct_map inj_onD)
    moreover have "k8s_reconciler.lost b (\<lambda>s. view (snd s)) time (jobs_by_name jobs []) (d, w) i \<longleftrightarrow>
        broken (kb_conf b) time (job_Status j) (fst (view w i)) (snd (view w i))"
      by (simp add: k8s_reconciler.lost_def [OF rec] Some)
    ultimately show ?thesis using \<open>j \<in> set jobs\<close> \<open>job_Name j = i\<close> by blast
  qed
  with s' show ?thesis by (cases s') simp
qed

definition plain_config :: Config where
  "plain_config = \<lparr>cf_WorkerTemplate = ''job'', cf_PVTemplate = '''', cf_PVCTemplate = '''', cf_ConfigMapTemplate = '''', cf_Namespace = ''funnel'',
     cf_JobsNamespace = ''jobs'', cf_ServiceAccountTemplate = '''', cf_RoleTemplate = '''', cf_RoleBindingTemplate = '''',
     cf_DisableReconciler = False, cf_DisableJobCleanup = False, cf_NodeSelector = [], cf_Tolerations = [], cf_Timeout = None,
     cf_S3FilesFilesystemId = '''', cf_GenericS3 = [], cf_Plugins = False\<rparr>"

definition job_status :: "32 word \<Rightarrow> 32 word \<Rightarrow> JobStatus" where
  "job_status a f = \<lparr>js_Active = a, js_Succeeded = 0, js_Failed = f, js_Conditions = [\<lparr>jc_Type = ''Failed'', jc_Status = ''True''\<rparr>]\<rparr>"

theorem kubernetes_reconcile_exact_witness:
  "badger_state mem_kv slurm_db ''t1'' = Some Queued \<and>
   (\<exists>d' w'. reconcileOnce (mem_k8s_backend AccessAll plain_config) ''now'' 0 None False (slurm_db, [(''t1'', job_status 1 0, [], [])]) = Some (d', w') \<and>
      badger_state mem_kv d' ''t1'' = Some Queued) \<and>
   (\<exists>d' w'. reconcileOnce (mem_k8s_backend AccessAll plain_config) ''now'' 0 None False (slurm_db, [(''t1'', job_status 0 1, [], [])]) = Some (d', w') \<and>
      badger_state mem_kv d' ''t1'' = Some SystemError)"
proof -
  have task: "badger_task mem_kv slurm_db i = (if i = ''t1'' then Some slurm_task else None)" for i
    by (auto simp: badger_task_def slurm_db_def mem_kv_def taskKey_def taskKeyPrefix_def)
  have st: "badger_state mem_kv slurm_db i = (if i = ''t1'' then Some Queued else None)" for i
    by (simp add: badger_state_def task slurm_task_def sample_task_def empty_task_def)
  have ok: "badger_ok mem_kv slurm_db"
    by (auto simp: badger_ok_def slurm_db_def mem_kv_def taskKey_def ownerKey_def taskKeyPrefix_def ownerKeyPrefix_def
        slurm_task_def sample_task_def empty_task_def)
  have clash: "\<not> executor_clash (dom (badger_state mem_kv slurm_db))"
    by (auto simp: executor_clash_def st split: if_splits)
  let ?b = "mem_k8s_backend AccessAll plain_config"
  have jobs: "snd (k_Jobs (kb_client ?b) (cf_JobsNamespace (kb_conf ?b)) ''app=funnel-worker'' (slurm_db, [(''t1'', js, [], [])])) =
      Inr [\<lparr>job_Name = ''t1'', job_Status = js\<rparr>]" for js
    by (simp add: mem_k8s_backend_def mem_k8s_def)
  have conf: "kb_conf ?b = plain_config" by (simp add: mem_k8s_backend_def)
  have run: "\<exists>d' w'. reconcileOnce ?b ''now'' 0 None False (slurm_db, [(''t1'', js, [], [])]) = Some (d', w') \<and>
      badger_state mem_kv d' ''t1'' = (if broken plain_config 0 js [] [] then Some SystemError else Some Queued)" for js
    using kubernetes_reconcile_exact [OF mem_kv_laws untimed_backoff_law mem_kv_reliable mem_backend_on_badger mem_cluster_steady ok clash jobs,
        of js "''now''" 0 False]
    by (auto simp: st active_def conf cluster_view_def split: if_splits)
  have "\<not> broken plain_config 0 (job_status 1 0) [] []" "broken plain_config 0 (job_status 0 1) [] []"
    by (simp_all add: broken_def job_status_def plain_config_def failed_create_def no_failures_def isJobDone_def)
  with run [of "job_status 1 0"] run [of "job_status 0 1"] st show ?thesis by simp
qed

section \<open>The service with this backend\<close>

definition k8s_service ::
    "('s, 'spec) K8sBackend \<Rightarrow> plugin_action option \<Rightarrow> KubernetesResources option \<Rightarrow> string \<Rightarrow> 's TaskService" where
  "k8s_service b plugins k8s now =
     \<lparr>ts_Event = kb_event b, ts_Compute = k8s_WriteEvent b now, ts_CheckParams = k8s_CheckBackendParameterSupport, ts_Read = kb_GetTask b,
      ts_Plugins = plugins, ts_Compute_name = ''kubernetes'', ts_K8s = k8s\<rparr>"

interpretation k8s_svc: task_service "k8s_service (mem_k8s_backend mode conf) plugins k8s now"
  "\<lambda>s. badger_state mem_kv (fst s)" "\<lambda>s. badger_ok mem_kv (fst s)" for mode conf plugins k8s now
  using k8s_on_badger.task_db_axioms [of mode conf] k8s_on_badger.WriteEvent_evolves
  by (intro task_service.intro task_service_axioms.intro) (simp_all add: k8s_service_def)

text \<open>The clean-up names another service account than the creation, for every task that brings none of its own.\<close>

lemma service_account_names_differ:
  assumes "\<not> shared_sa task"
  shows "delete_sa_name (t_Id task) (cf_JobsNamespace conf) (Some \<lparr>do_ServiceAccountName = '''', do_SharedSA = False\<rparr>) \<noteq> worker_sa conf task"
proof -
  have "worker_sa conf task = ''funnel-worker-sa-'' @ cf_JobsNamespace conf @ ''-'' @ t_Id task"
    using assms by (auto simp: worker_sa_def shared_sa_def gomap_str_def split: option.splits)
  then have "length (worker_sa conf task) =
      length (delete_sa_name (t_Id task) (cf_JobsNamespace conf) (Some \<lparr>do_ServiceAccountName = '''', do_SharedSA = False\<rparr>)) + 3"
    by (simp add: delete_sa_name_def)
  then show ?thesis by (metis n_not_Suc_n add_cancel_right_right numeral_neq_zero)
qed

end
