(* ===== verification/Runtimes.thy ===== *)
theory Runtimes
  imports Worker K8s_Backend
begin

text \<open>
  The two runtimes of an executor: a Kubernetes job (\<open>src/worker/kubernetes.go\<close>) and a Docker
  container (\<open>src/worker/docker.go\<close>).  The worker of theory \<open>Worker\<close> builds their commands and runs
  them through its operation \<open>dw_Command\<close>.

  The cluster is the record \<open>k8s\<close> with the watches of the worker beside it, the Docker side a record of
  the template engine, the splitting of a command line, the processes and the environment.  What
  \<open>select\<close> takes from the watch, the timer and the context is a list of items; a run that has not
  ended when the list is used up is \<^const>\<open>None\<close>.
\<close>

section \<open>Quoting\<close>

definition quote :: char where "quote = CHR 0x27"
definition backslash :: char where "backslash = CHR 0x5C"
definition dquote :: char where "dquote = CHR 0x22"

definition quote_arg :: "string \<Rightarrow> string" where
  "quote_arg arg = [quote] @ ReplaceAll arg [quote] [quote, backslash, quote, quote] @ [quote]"

text \<open>\<open>parses\<close> tells whether the parser of \<open>mvdan.cc/sh\<close> accepts the text.\<close>

definition normalizeShellCommand :: "(string \<Rightarrow> bool) \<Rightarrow> string \<Rightarrow> string" where
  "normalizeShellCommand parses s = (if parses s then s else Join (map quote_arg (Fields s)) '' '')"

definition hasRedirects :: "KubernetesCommand \<Rightarrow> bool" where
  "hasRedirects kcmd \<longleftrightarrow> kc_StdinFile kcmd \<noteq> '''' \<or> kc_StdoutFile kcmd \<noteq> '''' \<or> kc_StderrFile kcmd \<noteq> ''''"

definition redirected :: "KubernetesCommand \<Rightarrow> string" where
  "redirected kcmd =
     Join (map quote_arg (c_ShellCommand (kc_Command kcmd))) '' '' @
     (if kc_StdinFile kcmd \<noteq> '''' then '' < '' @ kc_StdinFile kcmd else '''') @
     (if kc_StdoutFile kcmd \<noteq> '''' then '' > '' @ kc_StdoutFile kcmd else '''') @
     (if kc_StderrFile kcmd \<noteq> '''' then '' 2> '' @ kc_StderrFile kcmd else '''')"

definition executor_cmd :: "(string \<Rightarrow> bool) \<Rightarrow> KubernetesCommand \<Rightarrow> string list" where
  "executor_cmd parses kcmd =
     (if hasRedirects kcmd then [redirected kcmd]
      else case c_ShellCommand (kc_Command kcmd) of
             [c] \<Rightarrow> [normalizeShellCommand parses c]
           | cmd \<Rightarrow> cmd)"

definition useShell :: "(string \<Rightarrow> bool) \<Rightarrow> KubernetesCommand \<Rightarrow> bool" where
  "useShell parses kcmd \<longleftrightarrow> length (executor_cmd parses kcmd) = 1 \<or> hasRedirects kcmd"

section \<open>Errors of an executor job\<close>

datatype k8s_err =
    KSystem string string "go_error option"
  | KExecutor int string string string
  | KPlain go_error

fun k8s_err_string :: "k8s_err \<Rightarrow> string" where
  "k8s_err_string (KExecutor exitCode reason msg jobName) =
     ''executor job '' @ jobName @ '' failed with exit code '' @ show_int exitCode @ '' ('' @
       (if reason = '''' \<or> reason = ''Error'' then ''ExitError'' else reason) @ ''): '' @ msg"
| "k8s_err_string (KSystem reason msg err) =
     ''kubernetes system error ('' @ reason @ ''): '' @ msg @ (case err of Some e \<Rightarrow> '': '' @ error_string e | None \<Rightarrow> '''')"
| "k8s_err_string (KPlain e) = error_string e"

text \<open>The error as the worker sees it.\<close>

fun k8s_cmd_error :: "k8s_err \<Rightarrow> cmd_error" where
  "k8s_cmd_error (KExecutor c r m j) = K8sExecutorErr c (k8s_err_string (KExecutor c r m j))"
| "k8s_cmd_error (KSystem r m e) = K8sSystemErr (k8s_err_string (KSystem r m e))"
| "k8s_cmd_error (KPlain e) = OtherErr e"

section \<open>Watching the pod\<close>

text \<open>
  What \<open>select\<close> yields: the closed channel, an error event with the reason and message of its status
  (or with another object), a pod with the type of the event, another object, the timer, the
  context.
\<close>

datatype watch_item =
    WClosed
  | WError "(string \<times> string) option"
  | WPod string Pod
  | WOther string
  | WTimer
  | WDone

record ('s, 'spec) kube_env =
  kx_client :: "('s, 'spec) k8s"
  kx_given :: bool
  kx_in_cluster :: "go_error option"
  kx_TaskTemplate :: string
  kx_Namespace :: string
  kx_JobsNamespace :: string
  kx_NodeSelector :: "string gomap"
  kx_Tolerations :: "Toleration list"
  kx_parses :: "string \<Rightarrow> bool"
  kx_Watch :: "string \<Rightarrow> string \<Rightarrow> string \<Rightarrow> 's \<Rightarrow> 's \<times> go_error option"
  kx_items :: "'s \<Rightarrow> watch_item list"
  kx_WatchJob :: "string \<Rightarrow> string \<Rightarrow> 's \<Rightarrow> 's \<times> (go_error + string list)"
  kx_Stream :: "string \<Rightarrow> string \<Rightarrow> 's \<Rightarrow> 's \<times> (go_error + string)"
  kx_Copy :: "string \<Rightarrow> 's \<Rightarrow> 's \<times> go_error option"

definition newPodWatcher :: "('s, 'spec) kube_env \<Rightarrow> string \<Rightarrow> string \<Rightarrow> 's \<Rightarrow> 's \<times> go_error option" where
  "newPodWatcher X sel rv s = kx_Watch X (kx_JobsNamespace X) sel rv s"

text \<open>The loop over the statuses of a pod: it ends the wait, or goes on.\<close>

fun pod_verdict :: "Pod \<Rightarrow> ContainerStatus list \<Rightarrow> (k8s_err + Pod) option" where
  "pod_verdict pod [] = None"
| "pod_verdict pod (cs # css) =
     (if cs_Terminated cs \<noteq> None then Some (Inr pod)
      else case cs_Waiting cs of
             Some w \<Rightarrow>
               if cw_Reason w \<in> set terminalWaitingReasons
               then Some (Inl (KSystem (cw_Reason w)
                      (''executor pod has a terminal container waiting error: '' @ (if cw_Message w = '''' then cw_Reason w else cw_Message w)) None))
               else pod_verdict pod css
           | None \<Rightarrow> pod_verdict pod css)"

definition rewatch_failed :: "string \<Rightarrow> go_error \<Rightarrow> k8s_err" where
  "rewatch_failed msg err = KSystem ''PodWatcherCreationFailed'' msg (Some err)"

text \<open>
  The loop with the last resource version and whether a pod has appeared; a timer that has been
  stopped does not fire.
\<close>

fun watch_loop ::
    "('s, 'spec) kube_env \<Rightarrow> string \<Rightarrow> string \<Rightarrow> bool \<Rightarrow> watch_item list \<Rightarrow> 's \<Rightarrow> ('s \<times> (k8s_err + Pod)) option" where
  "watch_loop X sel rv appeared [] s = None"
| "watch_loop X sel rv appeared (WClosed # items) s =
     (case newPodWatcher X sel rv s of
        (s', Some err) \<Rightarrow> Some (s', Inl (rewatch_failed ''Failed to re-establish pod watcher after watch timeout'' err))
      | (s', None) \<Rightarrow> watch_loop X sel rv appeared items s')"
| "watch_loop X sel rv appeared (WError st # items) s =
     (case st of
        None \<Rightarrow> Some (s, Inl (KPlain (Errorf ''unknown pod watch error'')))
      | Some (reason, msg) \<Rightarrow>
          if reason = ''Expired'' \<or> reason = ''Gone''
          then (case newPodWatcher X sel '''' s of
                  (s', Some err) \<Rightarrow> Some (s', Inl (rewatch_failed ''Failed to restart pod watcher after resourceVersion expiry'' err))
                | (s', None) \<Rightarrow> watch_loop X sel '''' appeared items s')
          else Some (s, Inl (KPlain (Errorf (''pod watch error: '' @ msg)))))"
| "watch_loop X sel rv appeared (WPod ty pod # items) s =
     (case pod_verdict pod (pod_ContainerStatuses pod @ pod_InitContainerStatuses pod) of
        Some r \<Rightarrow> Some (s, r)
      | None \<Rightarrow>
          if ty = ''DELETED'' then Some (s, Inl (KPlain (Errorf ''pod was deleted before container terminated'')))
          else watch_loop X sel (pod_ResourceVersion pod) True items s)"
| "watch_loop X sel rv appeared (WOther ty # items) s = watch_loop X sel rv appeared items s"
| "watch_loop X sel rv appeared (WTimer # items) s =
     (if appeared then watch_loop X sel rv appeared items s
      else Some (s, Inl (KPlain (Errorf ''timed out waiting for pod to appear''))))"
| "watch_loop X sel rv appeared (WDone # items) s =
     Some (s, Inl (KPlain (Errorf ''context cancelled while waiting for pod termination'')))"

definition waitForPodFinish :: "('s, 'spec) kube_env \<Rightarrow> string \<Rightarrow> 's \<Rightarrow> ('s \<times> (k8s_err + Pod)) option" where
  "waitForPodFinish X sel s =
     (case newPodWatcher X sel '''' s of
        (s', Some err) \<Rightarrow> Some (s', Inl (rewatch_failed ''Failed to create pod watcher'' err))
      | (s', None) \<Rightarrow> watch_loop X sel '''' False (kx_items X s') s')"

section \<open>The executor job\<close>

text \<open>The caller ignores the error.\<close>

definition worker_deleteJob :: "('s, 'spec) kube_env \<Rightarrow> string \<Rightarrow> 's \<Rightarrow> 's \<times> k8s_err option" where
  "worker_deleteJob X jobName s =
     (case k_Delete (kx_client X) K_Job (kx_JobsNamespace X) jobName job_delete_opts s of
        (s1, Some err) \<Rightarrow> (s1, Some (KSystem ''JobDeletionFailed'' ''Failed to delete job'' (Some err)))
      | (s1, None) \<Rightarrow>
          (case kx_WatchJob X (kx_JobsNamespace X) jobName s1 of
             (s2, Inl err) \<Rightarrow> (s2, Some (KPlain err))
           | (s2, Inr types) \<Rightarrow>
               (s2, if ''DELETED'' \<in> set types then None else Some (KPlain (Errorf ''timed out waiting for job deletion'')))))"

definition streamPodLogs :: "('s, 'spec) kube_env \<Rightarrow> string \<Rightarrow> 's \<Rightarrow> 's \<times> go_error option" where
  "streamPodLogs X podName s =
     (case kx_in_cluster X of
        Some err \<Rightarrow> (s, Some (errorf_v ''getting kubernetes clientset: '' err))
      | None \<Rightarrow>
          (case kx_Stream X (kx_JobsNamespace X) podName s of
             (s1, Inl err) \<Rightarrow> (s1, Some (Errorf (''streaming logs from pod '' @ podName @ '': '' @ error_string err)))
           | (s1, Inr podLogs) \<Rightarrow> kx_Copy X podLogs s1))"

definition executor_data :: "('s, 'spec) kube_env \<Rightarrow> KubernetesCommand \<Rightarrow> (string \<times> tvalue) list" where
  "executor_data X kcmd =
     (let c = kc_Command kcmd; res = kc_Resources kcmd; lims = kc_ResourceLimits kcmd in
      [(''TaskId'', TStr (kc_TaskId kcmd)), (''JobId'', TInt (int (kc_JobId kcmd))), (''Namespace'', TStr (kx_Namespace X)),
       (''JobsNamespace'', TStr (kx_JobsNamespace X)), (''Command'', TList (executor_cmd (kx_parses X) kcmd)),
       (''UseShell'', TBool (useShell (kx_parses X) kcmd)), (''Workdir'', TStr (c_Workdir c)),
       (''Volumes'', TVolumes (map (\<lambda>v. (v_HostPath v, v_ContainerPath v, v_Readonly v)) (c_Volumes c))), (''Env'', TMap (c_Env c)),
       (''Cpus'', TInt (sint (res_CpuCores res))), (''RamGb'', TFloat (res_RamGb res)), (''DiskGb'', TFloat (res_DiskGb res)),
       (''CpusLimit'', TInt (sint (res_CpuCores lims))), (''RamGbLimit'', TFloat (res_RamGb lims)), (''DiskGbLimit'', TFloat (res_DiskGb lims)),
       (''Image'', TStr (c_Image c)), (''ImagePullPolicy'', TStr (kc_ImagePullPolicy kcmd)), (''NeedsPVC'', TBool (kc_NeedsPVC kcmd)),
       (''NodeSelector'', TMap (kx_NodeSelector X)), (''Tolerations'', TTolerations (kx_Tolerations X)),
       (''ServiceAccountName'', TStr (kc_ServiceAccount kcmd))])"

definition executor_job :: "('s, 'spec) kube_env \<Rightarrow> KubernetesCommand \<Rightarrow> k8s_err + 'spec object" where
  "executor_job X kcmd =
     (case k_Parse (kx_client X) [] (kx_TaskTemplate X) of
        Some err \<Rightarrow> Inl (KSystem ''TemplateParsingFailed'' ''Failed to parse task template'' (Some err))
      | None \<Rightarrow>
          (case k_Execute (kx_client X) [] (kx_TaskTemplate X) (executor_data X kcmd) of
             Inl err \<Rightarrow> Inl (KSystem ''TemplateExecutionFailed'' ''Failed to execute task template'' (Some err))
           | Inr text \<Rightarrow>
               (case k_Decode (kx_client X) text of
                  Inl err \<Rightarrow>
                    Inl (KSystem ''JobCreationFailed'' ''Failed to create Kubernetes job (check templates, RBAC, resources)'' (Some err))
                | Inr obj \<Rightarrow>
                    if ob_Kind obj = K_Job then Inr obj
                    else Inl (KSystem ''JobCreationFailed'' ''Decoded object is not a Job'' (Some (Errorf ''decoded object is not a Job''))))))"

definition creation_failed :: "go_error \<Rightarrow> k8s_err" where
  "creation_failed err = KSystem ''JobCreationFailed'' ''Failed to create Kubernetes job'' (Some err)"

definition create_executor_job :: "('s, 'spec) kube_env \<Rightarrow> 'spec object \<Rightarrow> 's \<Rightarrow> 's \<times> k8s_err option" where
  "create_executor_job X job s =
     (case k_Create (kx_client X) K_Job (kx_JobsNamespace X) job s of
        (s1, Inr _) \<Rightarrow> (s1, None)
      | (s1, Inl err) \<Rightarrow>
          if error_string err = ''jobs.batch '' @ [dquote] @ ob_Name job @ [dquote] @ '' already exists''
          then (case k_Create (kx_client X) K_Job (kx_JobsNamespace X) job (fst (worker_deleteJob X (ob_Name job) s1)) of
                  (s2, Inr _) \<Rightarrow> (s2, None)
                | (s2, Inl err2) \<Rightarrow> (s2, Some (creation_failed err2)))
          else (s1, Some (creation_failed err)))"

definition executor_job_name :: "KubernetesCommand \<Rightarrow> string" where
  "executor_job_name kcmd = kc_TaskId kcmd @ ''-'' @ show_nat (kc_JobId kcmd)"

text \<open>What \<open>Run\<close> makes of an error of the wait.\<close>

definition wait_failed :: "('s, 'spec) kube_env \<Rightarrow> string \<Rightarrow> k8s_err \<Rightarrow> 's \<Rightarrow> 's \<times> k8s_err" where
  "wait_failed X sel err s =
     (case err of
        KSystem reason msg e \<Rightarrow>
          if reason \<in> set terminalWaitingReasons
          then (case k_Pods (kx_client X) (kx_JobsNamespace X) sel '''' s of
                  (s1, Inl _) \<Rightarrow> (s1, err)
                | (s1, Inr pods) \<Rightarrow>
                    (case FetchPodWarningEvents (kx_client X) (kx_JobsNamespace X) pods s1 of
                       (s2, evs) \<Rightarrow> (s2, if evs \<noteq> '''' then KSystem reason (msg @ [CHR 0x0A] @ evs) e else err)))
          else (s, KSystem ''PodWaitFailed'' ''Error waiting for pod to finish'' (Some (Errorf (k8s_err_string err))))
      | _ \<Rightarrow> (s, KSystem ''PodWaitFailed'' ''Error waiting for pod to finish'' (Some (Errorf (k8s_err_string err)))))"

definition exit_of_pod :: "KubernetesCommand \<Rightarrow> string \<Rightarrow> Pod \<Rightarrow> k8s_err option" where
  "exit_of_pod kcmd jobName pod =
     (case pod_ContainerStatuses pod of
        [] \<Rightarrow> Some (KSystem ''NoContainerStatuses'' (''No container statuses found for pod '' @ pod_Name pod) (Some (Errorf ''no container statuses found'')))
      | cs # _ \<Rightarrow>
          (case cs_Terminated cs of
             None \<Rightarrow> Some (KSystem ''ContainerNotTerminated'' (''executor job '' @ jobName @ '': container not in terminated state'')
                       (Some (Errorf ''container not in terminated state'')))
           | Some t \<Rightarrow>
               if sint (ct_ExitCode t) \<noteq> 0
               then Some (KExecutor (sint (ct_ExitCode t)) (ct_Reason t) (ct_Message t) (executor_job_name kcmd))
               else None))"

definition KubernetesCommand_Run :: "('s, 'spec) kube_env \<Rightarrow> KubernetesCommand \<Rightarrow> 's \<Rightarrow> ('s \<times> k8s_err option) option" where
  "KubernetesCommand_Run X kcmd s =
     (case executor_job X kcmd of
        Inl err \<Rightarrow> Some (s, Some err)
      | Inr job \<Rightarrow>
          if \<not> kx_given X \<and> kx_in_cluster X \<noteq> None
          then Some (s, Some (KSystem ''ClientsetCreationFailed'' ''Failed to get Kubernetes clientset'' (kx_in_cluster X)))
          else (case create_executor_job X job s of
                  (s1, Some err) \<Rightarrow> Some (s1, Some err)
                | (s1, None) \<Rightarrow>
                    (let sel = ''job-name='' @ executor_job_name kcmd in
                     case waitForPodFinish X sel s1 of
                       None \<Rightarrow> None
                     | Some (s2, Inl err) \<Rightarrow> (case wait_failed X sel err s2 of (s3, e) \<Rightarrow> Some (s3, Some e))
                     | Some (s2, Inr pod) \<Rightarrow>
                         (case streamPodLogs X (pod_Name pod) s2 of
                            (s3, Some err) \<Rightarrow>
                              Some (s3, Some (KSystem ''LogStreamingFailed'' (''Failed to stream logs from pod '' @ pod_Name pod) (Some err)))
                          | (s3, None) \<Rightarrow> Some (s3, exit_of_pod kcmd (ob_Name job) pod)))))"

definition KubernetesCommand_Stop :: "('s, 'spec) kube_env \<Rightarrow> KubernetesCommand \<Rightarrow> 's \<Rightarrow> 's \<times> go_error option" where
  "KubernetesCommand_Stop X kcmd s =
     (case kx_in_cluster X of
        Some err \<Rightarrow> (s, Some err)
      | None \<Rightarrow>
          (case k_Delete (kx_client X) K_Job (kx_JobsNamespace X) (executor_job_name kcmd) (Some (None, ''Background'')) s of
             (s1, Some err) \<Rightarrow> (s1, Some (errorf_v ''deleting job: '' err))
           | (s1, None) \<Rightarrow> (s1, None)))"

section \<open>Docker\<close>

definition MemoryMB :: "Resources option \<Rightarrow> int" where
  "MemoryMB res = (case res of None \<Rightarrow> 0 | Some r \<Rightarrow> if res_RamGb r \<le> 0 then 0 else \<lfloor>res_RamGb r * 1024 + 1 / 2\<rfloor>)"

definition formatVolumeArg :: "Volume \<Rightarrow> string" where
  "formatVolumeArg v = v_HostPath v @ '':'' @ v_ContainerPath v @ '':'' @ (if v_Readonly v then ''ro'' else ''rw'')"

text \<open>The loop over the characters of a text; a byte that starts no character is written as U+FFFD.\<close>

fun escape_runes :: "string \<Rightarrow> string" where
  "escape_runes [] = []"
| "escape_runes (c # cs) =
     (if c = quote then [quote, dquote, quote, dquote, quote] @ escape_runes cs
      else if of_char c < (128 :: nat) then c # escape_runes cs
      else if rune_width (c # cs) = 1 then [CHR 0xEF, CHR 0xBF, CHR 0xBD] @ escape_runes cs
      else c # take (rune_width (c # cs) - 1) cs @ escape_runes (drop (rune_width (c # cs) - 1) cs))"

definition shellEscape :: "string \<Rightarrow> string" where
  "shellEscape s = (if s = '''' then [quote, quote] else [quote] @ escape_runes s @ [quote])"

definition formatEnvVars :: "string gomap \<Rightarrow> string list" where
  "formatEnvVars env = map (\<lambda>(k, v). ''--env '' @ k @ ''='' @ shellEscape v) env"

definition GetEnvArgs :: "Command \<Rightarrow> string" where
  "GetEnvArgs c = Join (formatEnvVars (c_Env c)) '' ''"

text \<open>
  \<open>dx_Shlex\<close> is \<open>shlex.Split\<close>, \<open>dx_exec\<close> runs a process with the files of the command or without,
  \<open>dx_Output\<close> runs one and returns its output, and \<open>dx_inspections\<close> are the ticks of the goroutine that
  inspects the container: the context is done, or the output of \<open>docker inspect\<close>, decoded.
\<close>

record 's docker_env =
  dx_DriverCommand :: string
  dx_RunCommand :: string
  dx_PullCommand :: string
  dx_StopCommand :: string
  dx_Parse :: "string \<Rightarrow> go_error option"
  dx_Execute :: "string \<Rightarrow> DockerCommand \<Rightarrow> go_error + string"
  dx_Shlex :: "string \<Rightarrow> go_error + string list"
  dx_String :: "string list \<Rightarrow> string"
  dx_exec :: "string list \<Rightarrow> bool \<Rightarrow> 's \<Rightarrow> 's \<times> cmd_error option"
  dx_Output :: "string list \<Rightarrow> 's \<Rightarrow> 's \<times> (go_error + string)"
  dx_Getenv :: "string \<Rightarrow> 's \<Rightarrow> string"
  dx_Setenv :: "string \<Rightarrow> string \<Rightarrow> 's \<Rightarrow> 's"
  dx_Version :: "string \<Rightarrow> go_error + string \<times> string"
  dx_inspections :: "'s \<Rightarrow> (string \<times> string \<times> string) list option option list"

definition command_mark :: string where "command_mark = ''{{.Command}}''"

definition command_words :: "DockerCommand \<Rightarrow> string list" where
  "command_words dc = (case c_ShellCommand (dc_Command dc) of [c] \<Rightarrow> [''/bin/sh'', ''-c'', c] | cmd \<Rightarrow> cmd)"

text \<open>The driver without a word is an index out of range.\<close>

definition docker_argv :: "'s docker_env \<Rightarrow> DockerCommand \<Rightarrow> string \<Rightarrow> go_error + string list" where
  "docker_argv D dc commandTemplate =
     (let usingCommand = Contains commandTemplate command_mark;
          tpl = (if usingCommand then ReplaceAll commandTemplate command_mark '''' else commandTemplate)
      in case dx_Parse D tpl of
           Some err \<Rightarrow> Inl (errorf_v ''failed to parse template for command: '' err)
         | None \<Rightarrow>
             (case dx_Execute D tpl dc of
                Inl err \<Rightarrow> Inl (errorf_v ''failed to execute template for command: '' err)
              | Inr text \<Rightarrow>
                  (case dx_Shlex D text of
                     Inl err \<Rightarrow> Inl (errorf_v ''failed to parse command: '' err)
                   | Inr cmdParts \<Rightarrow>
                       (let parts = (if usingCommand then cmdParts @ command_words dc else cmdParts) in
                        case Fields (dx_DriverCommand D) of
                          [] \<Rightarrow> Inl (Panic ''index out of range'')
                        | driver # args \<Rightarrow> Inr (driver # args @ parts)))))"

text \<open>The first of at most five ticks whose output describes one container.\<close>

fun inspect_ticks :: "nat \<Rightarrow> (string \<times> string \<times> string) list option option list \<Rightarrow> (string \<times> string \<times> string) option" where
  "inspect_ticks 0 ticks = None"
| "inspect_ticks (Suc n) [] = None"
| "inspect_ticks (Suc n) (tick # ticks) =
     (case tick of
        None \<Rightarrow> None
      | Some (Some [meta]) \<Rightarrow> Some meta
      | Some _ \<Rightarrow> inspect_ticks n ticks)"

definition InspectContainer :: "'s docker_env \<Rightarrow> 's \<Rightarrow> cmd_event list" where
  "InspectContainer D s =
     (case inspect_ticks 5 (dx_inspections D s) of
        None \<Rightarrow> []
      | Some (i, n, h) \<Rightarrow> [CmdInfo ''container metadata''
          [GStr ''containerID'', GStr i, GStr ''containerName'', GStr n, GStr ''containerImageHash'', GStr h]])"

text \<open>The event of the goroutine is put after the one of the command.\<close>

definition executeCommand :: "'s docker_env \<Rightarrow> DockerCommand \<Rightarrow> string \<Rightarrow> bool \<Rightarrow> 's \<Rightarrow> 's \<times> cmd_event list \<times> cmd_error option" where
  "executeCommand D dc commandTemplate enableIO s =
     (case docker_argv D dc commandTemplate of
        Inl err \<Rightarrow> (s, [], Some (OtherErr err))
      | Inr argv \<Rightarrow>
          (let evs = (if Contains commandTemplate command_mark
                      then CmdInfo ''Running command'' [GStr ''cmd'', GStr (dx_String D argv)] # InspectContainer D s else [])
           in case dx_exec D argv enableIO s of (s', err) \<Rightarrow> (s', evs, err)))"

definition SyncAPIVersion :: "'s docker_env \<Rightarrow> 's \<Rightarrow> 's \<times> go_error option" where
  "SyncAPIVersion D s =
     (if dx_Getenv D ''DOCKER_API_VERSION'' s \<noteq> '''' then (s, None)
      else case Fields (dx_DriverCommand D) of
             [] \<Rightarrow> (s, Some (Panic ''index out of range''))
           | driver # rest \<Rightarrow>
               (let args = (if 1 < length (dx_DriverCommand D) then rest else []) @ [''version'', ''--format'',
                      ''{'' @ [dquote] @ ''Server'' @ [dquote] @ '': '' @ [dquote] @ ''{{.Server.APIVersion}}'' @ [dquote] @ '', '' @
                      [dquote] @ ''Client'' @ [dquote] @ '': '' @ [dquote] @ ''{{.Client.APIVersion}}'' @ [dquote] @ ''}'']
                in case dx_Output D (driver # args) s of
                     (s1, Inl err) \<Rightarrow> (s1, Some (errorf_v ''docker version command failed: '' err))
                   | (s1, Inr out) \<Rightarrow>
                       (case dx_Version D out of
                          Inl err \<Rightarrow> (s1, Some (errorf_v ''failed to unmarshal docker version: '' err))
                        | Inr (client, server) \<Rightarrow>
                            (if client \<noteq> server then dx_Setenv D ''DOCKER_API_VERSION'' server s1 else s1, None))))"

definition error_event :: "string \<Rightarrow> go_error option \<Rightarrow> goval list \<Rightarrow> cmd_event list" where
  "error_event msg err args = (case err of None \<Rightarrow> [] | Some e \<Rightarrow> [CmdError msg (GErr e # args)])"

definition DockerCommand_Run :: "'s docker_env \<Rightarrow> DockerCommand \<Rightarrow> 's \<Rightarrow> 's \<times> cmd_event list \<times> cmd_error option" where
  "DockerCommand_Run D dc s =
     (case SyncAPIVersion D s of
        (s1, Some (Panic p)) \<Rightarrow> (s1, [], Some (OtherErr (Panic p)))
      | (s1, e1) \<Rightarrow>
          (case executeCommand D dc (dx_PullCommand D) False s1 of
             (s2, evs2, e2) \<Rightarrow>
               (case executeCommand D dc (dx_RunCommand D) True s2 of
                  (s3, evs3, e3) \<Rightarrow>
                    (s3, error_event ''failed to sync docker client API version'' e1 [] @ evs2 @
                       error_event ''failed to pull docker image using command'' (map_option cmd_error_value e2) [GStr (dx_PullCommand D)] @
                       evs3 @ error_event ''failed to run docker container'' (map_option cmd_error_value e3) [], e3))))"

definition DockerCommand_Stop :: "'s docker_env \<Rightarrow> DockerCommand \<Rightarrow> 's \<Rightarrow> 's \<times> cmd_event list \<times> cmd_error option" where
  "DockerCommand_Stop D dc s =
     (case executeCommand D dc (dx_StopCommand D) False s of
        (s1, evs, e) \<Rightarrow>
          (s1, CmdInfo ''Stopping container'' [GStr ''container'', GStr (dc_Name dc)] # evs @
             error_event ''failed to stop docker container'' (map_option cmd_error_value e) [], e))"

section \<open>What a shell reads\<close>

text \<open>
  The words of a simple command in the POSIX shell language: \<^const>\<open>None\<close> if a quotation is not closed
  or a character would be an operator or an expansion.  A backslash keeps the next character.
\<close>

datatype shmode = Unquoted | Single | Double

definition blank :: "char \<Rightarrow> bool" where
  "blank c \<longleftrightarrow> c = CHR '' '' \<or> c = CHR 0x09"

definition special :: "char \<Rightarrow> bool" where
  "special c \<longleftrightarrow> c \<in> set (''|&;<>()$*?[#~!{}'' @ [CHR 0x60, CHR 0x0A])"

fun sh_read :: "shmode \<Rightarrow> string option \<Rightarrow> string \<Rightarrow> string list option" where
  "sh_read Unquoted w [] = Some (case w of None \<Rightarrow> [] | Some cur \<Rightarrow> [cur])"
| "sh_read Single w [] = None"
| "sh_read Double w [] = None"
| "sh_read Unquoted w (c # cs) =
     (let cur = (case w of None \<Rightarrow> '''' | Some v \<Rightarrow> v) in
      if blank c then (case w of None \<Rightarrow> sh_read Unquoted None cs | Some v \<Rightarrow> map_option (\<lambda>ws. v # ws) (sh_read Unquoted None cs))
      else if c = quote then sh_read Single (Some cur) cs
      else if c = dquote then sh_read Double (Some cur) cs
      else if c = backslash then (case cs of [] \<Rightarrow> None | d # ds \<Rightarrow> sh_read Unquoted (Some (cur @ [d])) ds)
      else if special c then None
      else sh_read Unquoted (Some (cur @ [c])) cs)"
| "sh_read Single w (c # cs) =
     (if c = quote then sh_read Unquoted w cs else sh_read Single (Some ((case w of None \<Rightarrow> '''' | Some v \<Rightarrow> v) @ [c])) cs)"
| "sh_read Double w (c # cs) =
     (if c = dquote then sh_read Unquoted w cs
      else if c = backslash \<or> special c then None
      else sh_read Double (Some ((case w of None \<Rightarrow> '''' | Some v \<Rightarrow> v) @ [c])) cs)"

definition sh_words :: "string \<Rightarrow> string list option" where
  "sh_words s = sh_read Unquoted None s"

section \<open>Lemmas: quoting\<close>

lemmas quote_chars = quote_def backslash_def dquote_def blank_def

lemma read_quoted_rest:
  "sh_read Single (Some v) (ReplaceAll arg [quote] [quote, backslash, quote, quote] @ quote # rest) = sh_read Unquoted (Some (v @ arg)) rest"
proof (induction arg arbitrary: v)
  case Nil
  then show ?case by simp
next
  case (Cons c cs)
  show ?case
  proof (cases "c = quote")
    case True
    with Cons [of "v @ [quote]"] show ?thesis by (simp add: HasPrefix_def quote_chars)
  next
    case False
    with Cons [of "v @ [c]"] show ?thesis by (simp add: HasPrefix_def)
  qed
qed

lemma read_quote_arg: "sh_read Unquoted None (quote_arg arg @ rest) = sh_read Unquoted (Some arg) rest"
  using read_quoted_rest [of "''''" arg rest] by (simp add: quote_arg_def quote_chars)

lemma words_quoted: "sh_words (Join (map quote_arg args) '' '') = Some args"
  unfolding sh_words_def
proof (induction args rule: induct_list012)
  case (2 x)
  then show ?case using read_quote_arg [of x "''''"] by simp
next
  case (3 x y zs)
  then show ?case using read_quote_arg [of x "'' '' @ Join (map quote_arg (y # zs)) '' ''"] by (simp add: blank_def)
qed simp

text \<open>Text in which every character is well-formed UTF-8.\<close>

fun utf8 :: "string \<Rightarrow> bool" where
  "utf8 [] \<longleftrightarrow> True"
| "utf8 (c # cs) \<longleftrightarrow> (of_char c < (128 :: nat) \<or> rune_width (c # cs) \<noteq> 1) \<and> utf8 (drop (rune_width (c # cs) - 1) cs)"


lemma read_plain: "quote \<notin> set xs \<Longrightarrow> sh_read Single (Some v) (xs @ rest) = sh_read Single (Some (v @ xs)) rest"
  by (induction xs arbitrary: v) auto

lemma rune_cases:
  assumes "rune_width (c # cs) \<noteq> 1"
  obtains d r where "cs = d # r" "rune_width (c # cs) = 2" "128 \<le> (of_char d :: nat)"
  | d e r where "cs = d # e # r" "rune_width (c # cs) = 3" "128 \<le> (of_char d :: nat)" "128 \<le> (of_char e :: nat)"
  | d e f r where "cs = d # e # f # r" "rune_width (c # cs) = 4" "128 \<le> (of_char d :: nat)" "128 \<le> (of_char e :: nat)" "128 \<le> (of_char f :: nat)"
proof -
  obtain d r where cs: "cs = d # r" using assms by (cases cs) (auto simp: rune_width_def)
  show ?thesis
  proof (cases "byte_in 0xC2 0xDF c \<and> byte_in 0x80 0xBF d")
    case True
    with cs show ?thesis by (intro that(1)) (auto simp: rune_width_def byte_in_def)
  next
    case no2: False
    then obtain e r' where r: "r = e # r'" using assms cs by (cases r) (auto simp: rune_width_def)
    let ?three = "(byte_in 0xE0 0xE0 c \<and> byte_in 0xA0 0xBF d \<or> byte_in 0xE1 0xEC c \<and> byte_in 0x80 0xBF d \<or>
                   byte_in 0xED 0xED c \<and> byte_in 0x80 0x9F d \<or> byte_in 0xEE 0xEF c \<and> byte_in 0x80 0xBF d) \<and> byte_in 0x80 0xBF e"
    show ?thesis
    proof (cases ?three)
      case True
      with cs r no2 show ?thesis by (intro that(2)) (auto simp: rune_width_def byte_in_def)
    next
      case no3: False
      then obtain f r'' where r': "r' = f # r''" using assms cs r no2 by (cases r') (auto simp: rune_width_def)
      have w: "rune_width (c # cs) = (if (byte_in 0xF0 0xF0 c \<and> byte_in 0x90 0xBF d \<or> byte_in 0xF1 0xF3 c \<and> byte_in 0x80 0xBF d \<or>
          byte_in 0xF4 0xF4 c \<and> byte_in 0x80 0x8F d) \<and> byte_in 0x80 0xBF e \<and> byte_in 0x80 0xBF f then 4 else 1)" (is "_ = (if ?four then _ else _)")
        using no2 no3 by (simp only: cs r r' rune_width_def list.case if_False)
      with assms have ?four by (auto split: if_splits)
      with w cs r r' show ?thesis by (intro that(3)) (auto simp: byte_in_def)
    qed
  qed
qed

lemma rune_tail:
  assumes "rune_width (c # cs) \<noteq> 1" "d \<in> set (take (rune_width (c # cs) - 1) cs)"
  shows "128 \<le> (of_char d :: nat)"
  using assms(1) by (rule rune_cases) (use assms(2) in \<open>auto simp: numeral_eq_Suc\<close>)

lemma not_quote_byte: "128 \<le> (of_char d :: nat) \<Longrightarrow> d \<noteq> quote"
  by (auto simp: quote_def)

lemma ascii_width: "(of_char c :: nat) < 128 \<Longrightarrow> rune_width (c # cs) = 1"
  by (auto simp: rune_width_def byte_in_def split: list.splits)

lemma read_escaped: "utf8 s \<Longrightarrow> sh_read Single (Some v) (escape_runes s @ rest) = sh_read Single (Some (v @ s)) rest"
proof (induction s arbitrary: v rule: escape_runes.induct)
  case (2 c cs)
  consider (quo) "c = quote" | (asc) "c \<noteq> quote" "of_char c < (128 :: nat)" | (multi) "c \<noteq> quote" "\<not> of_char c < (128 :: nat)" by blast
  then show ?case
  proof cases
    case quo
    then have "utf8 cs" using 2(5) ascii_width [of c cs] by (simp add: quote_def)
    with 2(1) [OF quo, of "v @ [quote]"] quo show ?thesis by (simp add: quote_chars special_def)
  next
    case asc
    then have "utf8 cs" using 2(5) ascii_width [of c cs] by simp
    with 2(2) [OF asc, of "v @ [c]"] asc show ?thesis by simp
  next
    case multi
    let ?w = "rune_width (c # cs) - 1"
    have w: "rune_width (c # cs) \<noteq> 1" and u: "utf8 (drop ?w cs)" using 2(5) multi by auto
    have "quote \<notin> set (take ?w cs)" using rune_tail [OF w] not_quote_byte by blast
    with 2(4) [OF multi w u, of "v @ c # take ?w cs"] multi w read_plain [of "take ?w cs" "v @ [c]"] show ?thesis by simp
  qed
qed simp

lemma shellEscape_word: "utf8 s \<Longrightarrow> sh_words (shellEscape s) = Some [s]"
  using read_escaped [of s "''''" "[quote]"] by (simp add: sh_words_def shellEscape_def quote_chars)

text \<open>A script of one element is run by a shell, but with a redirection it becomes the name of a command.\<close>

lemma script_quoted_whole:
  "c_ShellCommand (kc_Command kcmd) = [script] \<Longrightarrow> sh_words (Join (map quote_arg (c_ShellCommand (kc_Command kcmd))) '' '') = Some [script]"
  by (simp only: words_quoted)

section \<open>Lemmas: the watch\<close>

definition rewatches :: "('s, 'spec) kube_env \<Rightarrow> string \<Rightarrow> bool" where
  "rewatches X sel \<longleftrightarrow> (\<forall>rv s. snd (kx_Watch X (kx_JobsNamespace X) sel rv s) = None)"

lemma rewatches_step: "rewatches X sel \<Longrightarrow> \<exists>s'. newPodWatcher X sel rv s = (s', None)"
  unfolding rewatches_def newPodWatcher_def by (metis prod.collapse)

lemma watch_state_free:
  "rewatches X sel \<Longrightarrow> map_option snd (watch_loop X sel rv a items s) = map_option snd (watch_loop X sel rv' a items s')"
proof (induction items arbitrary: rv rv' a s s')
  case (Cons i items)
  obtain s1 s1' where 1: "newPodWatcher X sel rv s = (s1, None)" "newPodWatcher X sel rv' s' = (s1', None)"
    using rewatches_step [OF Cons.prems] by metis
  obtain s2 s2' where 2: "newPodWatcher X sel '''' s = (s2, None)" "newPodWatcher X sel '''' s' = (s2', None)"
    using rewatches_step [OF Cons.prems] by metis
  have IH: "map_option snd (watch_loop X sel rv a items s) = map_option snd (watch_loop X sel rv' a items s')" for rv rv' a s s'
    using Cons by blast
  show ?case
  proof (cases i)
    case (WPod ty pod)
    then show ?thesis using IH by (auto split: option.split)
  qed (use IH [of rv a s1 rv' s1'] IH [of "''''" a s2 "''''" s2'] IH 1 2 in \<open>auto split: option.split\<close>)
qed simp

lemma watch_ignores_closures:
  "rewatches X sel \<Longrightarrow> map_option snd (watch_loop X sel rv a items s) = map_option snd (watch_loop X sel rv a (filter (\<lambda>i. i \<noteq> WClosed) items) s)"
proof (induction items arbitrary: rv a s)
  case (Cons i items)
  obtain s1 where 1: "newPodWatcher X sel rv s = (s1, None)" using rewatches_step [OF Cons.prems] by metis
  obtain s2 where 2: "newPodWatcher X sel '''' s = (s2, None)" using rewatches_step [OF Cons.prems] by metis
  have IH: "map_option snd (watch_loop X sel rv a items s) = map_option snd (watch_loop X sel rv a (filter (\<lambda>i. i \<noteq> WClosed) items) s)" for rv a s
    using Cons by blast
  show ?case
  proof (cases i)
    case WClosed
    with IH [of rv a s1] 1 watch_state_free [OF Cons.prems, of rv a _ s1 rv s] show ?thesis by simp
  next
    case (WPod ty pod)
    then show ?thesis using IH by (auto split: option.split)
  qed (use IH 2 in \<open>auto split: option.split\<close>)
qed simp

lemma verdict_pod: "pod_verdict pod css = Some (Inr p) \<Longrightarrow> p = pod \<and> (\<exists>c\<in>set css. cs_Terminated c \<noteq> None)"
  by (induction css) (auto split: if_splits option.splits)

lemma watch_pod:
  "watch_loop X sel rv a items s = Some (s', Inr p) \<Longrightarrow>
     \<exists>ty. WPod ty p \<in> set items \<and> (\<exists>c\<in>set (pod_ContainerStatuses p @ pod_InitContainerStatuses p). cs_Terminated c \<noteq> None)"
proof (induction items arbitrary: rv a s)
  case (Cons i items)
  show ?case
  proof (cases i)
    case (WPod ty pod)
    show ?thesis
    proof (cases "pod_verdict pod (pod_ContainerStatuses pod @ pod_InitContainerStatuses pod)")
      case None
      with WPod Cons.prems have "watch_loop X sel (pod_ResourceVersion pod) True items s = Some (s', Inr p)" by (simp split: if_splits)
      from Cons.IH [OF this] show ?thesis by auto
    next
      case (Some r)
      with WPod Cons.prems have r: "r = Inr p" by simp
      from verdict_pod [OF Some [unfolded r]] WPod show ?thesis by auto
    qed
  qed (use Cons in \<open>auto split: option.splits prod.splits if_splits\<close>)
qed simp


definition quiet_watch :: "(unit, unit) kube_env" where
  "quiet_watch =
     \<lparr>kx_client = \<lparr>k_Parse = (\<lambda>fs t. None), k_Execute = (\<lambda>fs t data. Inr t), k_Decode = (\<lambda>t. Inl ErrNotFound), k_ToYaml = (\<lambda>c. Inr ''''),
         k_Create = (\<lambda>kind ns obj s. (s, Inr obj)), k_Get = (\<lambda>kind ns name s. (s, Inl ErrNotFound)), k_Update = (\<lambda>kind ns obj s. (s, None)),
         k_Delete = (\<lambda>kind ns name opts s. (s, None)), k_List = (\<lambda>kind ns sel s. (s, Inr [])), k_Jobs = (\<lambda>ns sel s. (s, Inr [])),
         k_Pods = (\<lambda>ns sel field s. (s, Inr [])), k_Events = (\<lambda>ns field s. (s, Inr [])), k_IsNotFound = (\<lambda>e. False), k_IsConflict = (\<lambda>e. False)\<rparr>,
      kx_given = True, kx_in_cluster = None, kx_TaskTemplate = '''', kx_Namespace = '''', kx_JobsNamespace = '''', kx_NodeSelector = [],
      kx_Tolerations = [], kx_parses = (\<lambda>s. True), kx_Watch = (\<lambda>ns sel rv s. (s, None)), kx_items = (\<lambda>s. []),
      kx_WatchJob = (\<lambda>ns name s. (s, Inr [])), kx_Stream = (\<lambda>ns name s. (s, Inr '''')), kx_Copy = (\<lambda>t s. (s, None))\<rparr>"

definition ended_pod :: Pod where
  "ended_pod = \<lparr>pod_Name = ''p'', pod_Images = [], pod_Phase = ''Succeeded'', pod_Conditions = [],
     pod_ContainerStatuses = [\<lparr>cs_Waiting = None, cs_Terminated = Some \<lparr>ct_ExitCode = 0, ct_Reason = '''', ct_Message = '''', ct_FinishedAt = 1\<rparr>\<rparr>],
     pod_InitContainerStatuses = [], pod_ResourceVersion = ''9'', pod_Deleting = False\<rparr>"


end
