(* ===== verification/Cloud_Batch.thy ===== *)
theory Cloud_Batch
  imports Hpc_Reconcile K8s_Resources Go_Path
begin

text \<open>
  The backends of the cloud batch services, \<open>src/compute/aws_batch/backend.go\<close> and
  \<open>src/compute/gcp_batch\<close>, and the local one, \<open>src/compute/local/backend.go\<close>.  The AWS backend starts a
  worker through a job definition; the Google backend translates the executors themselves into a job.

  The services are the operations of a record; a pointer of their answers that the sources
  dereference is an option, and the panic of a nil one is a value.  Pauses between calls are left out.
\<close>

section \<open>AWS Batch\<close>

definition job_name_char :: "char \<Rightarrow> bool" where
  "job_name_char c \<longleftrightarrow> alnum c \<or> c = CHR ''-'' \<or> c = CHR ''_''"

fun safeJobName :: "string \<Rightarrow> string" where
  "safeJobName [] = []"
| "safeJobName (c # cs) =
     (if job_name_char c then c # safeJobName cs else CHR ''_'' # safeJobName (drop (rune_width (c # cs) - 1) cs))"

record SubmitJobInput =
  si_JobDefinition :: string
  si_JobName :: string
  si_JobQueue :: string
  si_taskID :: string
  si_Memory :: "int option"
  si_Requirements :: "(string \<times> string) list"
  si_Vcpus :: "int option"

record AwsJob =
  aj_JobId :: string
  aj_Status :: string
  aj_StatusReason :: "string option"

record 's AwsBackend =
  aw_SubmitJob :: "SubmitJobInput \<Rightarrow> 's \<Rightarrow> 's \<times> (go_error + string)"
  aw_CancelJob :: "string \<Rightarrow> string \<Rightarrow> 's \<Rightarrow> 's \<times> go_error option"
  aw_DescribeJobs :: "string list \<Rightarrow> 's \<Rightarrow> 's \<times> (go_error + AwsJob list)"
  aw_JobDefinition :: string
  aw_JobQueue :: string
  aw_event :: "'s writer"
  aw_GetTask :: "go_ctx \<Rightarrow> GetTaskRequest \<Rightarrow> 's \<Rightarrow> go_error + Task"
  aw_ListTasks :: "go_ctx \<Rightarrow> ListTasksRequest \<Rightarrow> 's \<Rightarrow> go_error + ListTasksResponse"

text \<open>The conversion \<open>int64(x)\<close> of a number drops its fraction.\<close>

definition int64_of :: "real \<Rightarrow> int" where
  "int64_of x = (if 0 \<le> x then \<lfloor>x\<rfloor> else \<lceil>x\<rceil>)"

definition aws_request :: "'s AwsBackend \<Rightarrow> Task \<Rightarrow> SubmitJobInput" where
  "aws_request b task =
     (let req = \<lparr>si_JobDefinition = aw_JobDefinition b, si_JobName = safeJobName (t_Name task), si_JobQueue = aw_JobQueue b,
                 si_taskID = t_Id task, si_Memory = None, si_Requirements = [], si_Vcpus = None\<rparr>
      in case t_Resources task of
           None \<Rightarrow> req
         | Some res \<Rightarrow>
             (let ram = int64_of (res_RamGb res * 953674 / 1000); vcpus = sint (res_CpuCores res);
                  req = (if 0 < ram then req\<lparr>si_Memory := Some ram, si_Requirements := [(''MEMORY'', show_int ram)]\<rparr> else req)
              in if 0 < vcpus then req\<lparr>si_Vcpus := Some vcpus\<rparr> else req))"

text \<open>What both backends write when the service refuses a job.\<close>

definition submit_error :: "'s writer \<Rightarrow> string \<Rightarrow> string \<Rightarrow> string \<Rightarrow> go_error \<Rightarrow> 's \<Rightarrow> 's" where
  "submit_error put now i service err s =
     fst (put None (NewSystemLog now i 0 0 ''error'' (''error submitting task to '' @ service) [(''error'', error_string err)])
       (fst (put None (NewState now i SystemError) s)))"

definition aws_Submit :: "'s AwsBackend \<Rightarrow> string \<Rightarrow> Task \<Rightarrow> 's \<Rightarrow> 's \<times> go_error option" where
  "aws_Submit b now task s =
     (case aw_SubmitJob b (aws_request b task) s of
        (s1, Inl err) \<Rightarrow> (submit_error (aw_event b) now (t_Id task) ''AWSBatch'' err s1, Some err)
      | (s1, Inr jobId) \<Rightarrow> aw_event b None (NewMetadata now (t_Id task) 0 [(''awsbatch_id'', jobId)]) s1)"

definition getAWSTaskID :: "Task \<Rightarrow> string" where
  "getAWSTaskID task = (case t_Logs task of [] \<Rightarrow> '''' | l # _ \<Rightarrow> gomap_str (tl_Metadata l) ''awsbatch_id'')"

definition aws_Cancel :: "'s AwsBackend \<Rightarrow> go_ctx \<Rightarrow> string \<Rightarrow> 's \<Rightarrow> 's \<times> go_error option" where
  "aws_Cancel b ctx taskID s =
     (case aw_GetTask b ctx \<lparr>gt_Id = taskID, gt_View = View_String Basic\<rparr> s of
        Inl err \<Rightarrow> (s, Some err)
      | Inr task \<Rightarrow>
          if t_State task \<noteq> Queued then (s, None)
          else (let backendID = getAWSTaskID task in
                if backendID = '''' then (s, Some (Errorf (''no AWS Batch ID found in metadata for task '' @ taskID)))
                else aw_CancelJob b backendID ''User requested cancel'' s))"

definition aws_WriteEvent :: "'s AwsBackend \<Rightarrow> string \<Rightarrow> 's writer" where
  "aws_WriteEvent b now ctx ev s =
     (if ev_Type ev = Type_TASK_CREATED
      then (case GetTask_of ev of Inl err \<Rightarrow> (s, Some err) | Inr task \<Rightarrow> aws_Submit b now task s)
      else if ev_Type ev = Type_TASK_STATE \<and> GetState ev = Canceled then aws_Cancel b ctx (ev_Id ev) s
      else (s, None))"

fun aws_jobs :: "Task list \<Rightarrow> Task gomap \<Rightarrow> string list \<Rightarrow> Task gomap \<times> string list" where
  "aws_jobs [] tmap jobs = (tmap, jobs)"
| "aws_jobs (t # ts) tmap jobs =
     (let jobid = getAWSTaskID t in if jobid \<noteq> '''' then aws_jobs ts (gomap_set tmap jobid t) (jobs @ [jobid]) else aws_jobs ts tmap jobs)"

text \<open>How a page or a tick ends: with the next page or state, with the tick, or with a panic.\<close>

datatype tick_end = TickOn | TickOver | TickPanic go_error

fun aws_report :: "'s AwsBackend \<Rightarrow> string \<Rightarrow> go_ctx \<Rightarrow> Task gomap \<Rightarrow> AwsJob list \<Rightarrow> 's \<Rightarrow> 's \<times> tick_end" where
  "aws_report b now ctx tmap [] s = (s, TickOn)"
| "aws_report b now ctx tmap (j # js) s =
     (if aj_Status j = ''FAILED''
      then (case gomap_get tmap (aj_JobId j) of
              None \<Rightarrow> (s, TickPanic nil_deref)
            | Some task \<Rightarrow>
                (let s1 = fst (aw_event b ctx (NewState now (t_Id task) SystemError) s) in
                 case aj_StatusReason j of
                   None \<Rightarrow> (s1, TickPanic nil_deref)
                 | Some reason \<Rightarrow>
                     aws_report b now ctx tmap js
                       (fst (aw_event b ctx (NewSystemLog now (t_Id task) 0 0 ''error'' ''AWSBatch job in FAILED state''
                          [(''error'', reason), (''awsbatch_id'', aj_JobId j)]) s1))))
      else aws_report b now ctx tmap js s)"

partial_function (option) aws_pages ::
    "'s AwsBackend \<Rightarrow> string \<Rightarrow> go_ctx \<Rightarrow> State \<Rightarrow> string \<Rightarrow> 's \<Rightarrow> ('s \<times> tick_end) option" where
  "aws_pages b now ctx st pageToken s =
     (case aw_ListTasks b ctx (page_request st pageToken) s of
        Inl err \<Rightarrow> Some (s, TickOver)
      | Inr lresp \<Rightarrow>
          (let token = ltr_NextPageToken lresp; (tmap, jobs) = aws_jobs (ltr_Tasks lresp) [] [] in
           if jobs = [] then if token = '''' then Some (s, TickOn) else aws_pages b now ctx st token s
           else (case aw_DescribeJobs b jobs s of
                   (s1, Inl err) \<Rightarrow> Some (s1, TickOver)
                 | (s1, Inr js) \<Rightarrow>
                     (case aws_report b now ctx tmap js s1 of
                        (s2, TickOn) \<Rightarrow> if token = '''' then Some (s2, TickOn) else aws_pages b now ctx st token s2
                      | (s2, e) \<Rightarrow> Some (s2, e)))))"

text \<open>The states of one tick, given the loop over the pages of a state.\<close>

fun tick_states :: "(State \<Rightarrow> 's \<Rightarrow> ('s \<times> tick_end) option) \<Rightarrow> State list \<Rightarrow> 's \<Rightarrow> ('s \<times> tick_end) option" where
  "tick_states pages [] s = Some (s, TickOn)"
| "tick_states pages (st # sts) s =
     (case pages st s of
        None \<Rightarrow> None
      | Some (s', TickOn) \<Rightarrow> tick_states pages sts s'
      | Some (s', e) \<Rightarrow> Some (s', e))"

definition aws_tick :: "'s AwsBackend \<Rightarrow> string \<Rightarrow> go_ctx \<Rightarrow> 's \<Rightarrow> ('s \<times> tick_end) option" where
  "aws_tick b now ctx s = tick_states (\<lambda>st. aws_pages b now ctx st '''') [Queued, Initializing, Running] s"

text \<open>One tick after another; a panic ends the process.\<close>

fun run_ticks :: "(string \<Rightarrow> 's \<Rightarrow> ('s \<times> tick_end) option) \<Rightarrow> string list \<Rightarrow> 's \<Rightarrow> ('s \<times> tick_end) option" where
  "run_ticks tick [] s = Some (s, TickOn)"
| "run_ticks tick (now # ticks) s =
     (case tick now s of
        None \<Rightarrow> None
      | Some (s', TickPanic e) \<Rightarrow> Some (s', TickPanic e)
      | Some (s', _) \<Rightarrow> run_ticks tick ticks s')"

definition aws_reconcile :: "'s AwsBackend \<Rightarrow> go_ctx \<Rightarrow> string list \<Rightarrow> 's \<Rightarrow> ('s \<times> tick_end) option" where
  "aws_reconcile b ctx ticks s = run_ticks (\<lambda>now. aws_tick b now ctx) ticks s"

section \<open>Google Batch: paths and commands\<close>

definition gs_prefix :: string where "gs_prefix = ''gs://''"

definition extractBucketName :: "string \<Rightarrow> string" where
  "extractBucketName url = (if HasPrefix url gs_prefix then fst (cut_slash (TrimPrefix url gs_prefix)) else '''')"

definition extractGCSPath :: "string \<Rightarrow> string \<times> string" where
  "extractGCSPath url =
     (if HasPrefix url gs_prefix
      then (case cut_slash (TrimPrefix url gs_prefix) of (bucket, p) \<Rightarrow> (bucket, case p of None \<Rightarrow> '''' | Some q \<Rightarrow> q))
      else ('''', ''''))"

definition dangerousChars :: string where
  "dangerousChars = '';|&$'' @ [CHR 0x60, CHR 0x0A, CHR 0x0D] @ ''<>()''"

definition validatePath :: "string \<Rightarrow> go_error option" where
  "validatePath path =
     (if path = '''' then None
      else if list_ex (\<lambda>c. c \<in> set dangerousChars) path then Some (Errorf (''path contains dangerous shell metacharacters: '' @ path))
      else if \<not> HasPrefix path ''/'' then Some (Errorf (''path must be absolute (start with /): '' @ path))
      else None)"

text \<open>The two loops of \<open>detectPathCollisions\<close> over (path, url) pairs with the map of what was seen.\<close>

fun collide :: "(string \<times> string) list \<Rightarrow> string gomap \<Rightarrow> go_error + string gomap" where
  "collide [] seen = Inr seen"
| "collide ((path, url) # ps) seen =
     (if path = '''' then collide ps seen
      else case gomap_get seen path of
             Some u \<Rightarrow>
               if u \<noteq> url then Inl (Errorf (''path collision detected: '' @ path @ '' used by both '' @ u @ '' and '' @ url))
               else collide ps (gomap_set seen path url)
           | None \<Rightarrow> collide ps (gomap_set seen path url))"

definition input_pairs :: "Task \<Rightarrow> (string \<times> string) list" where
  "input_pairs task = map (\<lambda>i. (in_Path i, in_Url i)) (t_Inputs task)"

definition output_pairs :: "Task \<Rightarrow> (string \<times> string) list" where
  "output_pairs task = map (\<lambda>x. (out_Path x, out_Url x)) (t_Outputs task)"

definition detectPathCollisions :: "Task \<Rightarrow> go_error option" where
  "detectPathCollisions task =
     (case collide (input_pairs task) [] of
        Inl err \<Rightarrow> Some err
      | Inr seen \<Rightarrow> (case collide (output_pairs task) seen of Inl err \<Rightarrow> Some err | Inr _ \<Rightarrow> None))"

fun add_buckets :: "(string \<times> string) list \<Rightarrow> bool gomap \<Rightarrow> bool gomap" where
  "add_buckets [] m = m"
| "add_buckets ((path, url) # ps) m =
     (let bucket = extractBucketName url in add_buckets ps (if bucket \<noteq> '''' then gomap_set m bucket True else m))"

definition mount_path :: "string \<Rightarrow> string" where
  "mount_path bucket = ''/mnt/disks/'' @ bucket"

fun map_paths :: "string \<Rightarrow> (string \<times> string) list \<Rightarrow> string gomap \<Rightarrow> go_error + string gomap" where
  "map_paths what [] m = Inr m"
| "map_paths what ((path, url) # ps) m =
     (if path = '''' \<or> url = '''' then map_paths what ps m
      else case validatePath path of
             Some err \<Rightarrow> Inl (errorf_v (''invalid '' @ what @ '' path: '') err)
           | None \<Rightarrow>
               (case extractGCSPath url of
                  (bucket, objectPath) \<Rightarrow>
                    map_paths what ps (if bucket = '''' then m else gomap_set m path (mount_path bucket @ ''/'' @ objectPath))))"

definition rewriteArg :: "string gomap \<Rightarrow> string \<Rightarrow> string" where
  "rewriteArg pathMap s = foldl (\<lambda>s (userPath, mountedPath). ReplaceAll s userPath mountedPath) s pathMap"

record Runnable =
  rb_ImageUri :: string
  rb_Commands :: "string list"
  rb_Options :: string

definition gcp_commands :: "string gomap \<Rightarrow> Executor \<Rightarrow> string list" where
  "gcp_commands pathMap d =
     (let commands = map (rewriteArg pathMap) (ex_Command d) in
      if ex_Stdout d \<noteq> '''' \<or> ex_Stdin d \<noteq> '''' \<or> ex_Stderr d \<noteq> ''''
      then (let cmd = Join commands '' '';
                cmd = (if ex_Stdout d \<noteq> '''' then cmd @ '' | tee '' @ rewriteArg pathMap (ex_Stdout d) else cmd)
            in [''sh'', ''-c'', cmd])
      else commands)"

definition runnable :: "string gomap \<Rightarrow> Executor \<Rightarrow> Runnable" where
  "runnable pathMap d = \<lparr>rb_ImageUri = ex_Image d, rb_Commands = gcp_commands pathMap d,
     rb_Options = (if ex_Workdir d \<noteq> '''' then ''--workdir '' @ ex_Workdir d else '''')\<rparr>"

record CreateJobRequest =
  cj_Parent :: string
  cj_JobId :: string
  cj_Runnables :: "Runnable list"
  cj_CpuMilli :: int
  cj_MemoryMib :: int
  cj_Volumes :: "(string \<times> string) list"

text \<open>The request that \<open>Submit\<close> builds; the name and the UID of the job are the identifier of the task too.\<close>

definition gcp_request :: "string \<Rightarrow> string \<Rightarrow> Task \<Rightarrow> go_error + CreateJobRequest" where
  "gcp_request project location task =
     (let buckets = add_buckets (output_pairs task) (add_buckets (input_pairs task) []);
          volumes = map (\<lambda>(b, _). (b, mount_path b)) buckets
      in case detectPathCollisions task of
           Some err \<Rightarrow> Inl (errorf_v ''GCP Batch path collision: '' err)
         | None \<Rightarrow>
             (case map_paths ''input'' (input_pairs task) [] of
                Inl err \<Rightarrow> Inl err
              | Inr m1 \<Rightarrow>
                  (case map_paths ''output'' (output_pairs task) m1 of
                     Inl err \<Rightarrow> Inl err
                   | Inr pathMap \<Rightarrow>
                       Inr \<lparr>cj_Parent = ''projects/'' @ project @ ''/locations/'' @ location, cj_JobId = t_Id task,
                         cj_Runnables = map (runnable pathMap) (t_Executors task),
                         cj_CpuMilli = (case t_Resources task of None \<Rightarrow> 0 | Some r \<Rightarrow> sint (res_CpuCores r) * 1000),
                         cj_MemoryMib = (case t_Resources task of None \<Rightarrow> 0 | Some r \<Rightarrow> int64_of (res_RamGb r) * 1024),
                         cj_Volumes = volumes\<rparr>)))"

section \<open>Google Batch: the backend\<close>

text \<open>The status of a job is a pointer: its state and the descriptions of its events.\<close>

record GcpJob =
  gj_Name :: string
  gj_Uid :: string
  gj_Status :: "(string \<times> string list) option"

datatype payload = TextPayload string | JsonPayload string | ProtoPayload string | NoPayload

record LogEntry =
  le_Payload :: payload
  le_Timestamp :: string
  le_Severity :: int
  le_Resource :: "(string \<times> string gomap) option"
  le_Labels :: "string gomap"

text \<open>
  \<open>gc_ListJobs\<close> gives the jobs up to the end or the first error of the iterator, \<open>gc_Entries\<close> the entries and
  the error; \<open>gc_admin\<close> tells whether there is a logging client.
\<close>

record 's GcpBackend =
  gc_CreateJob :: "CreateJobRequest \<Rightarrow> 's \<Rightarrow> 's \<times> (go_error + string \<times> string)"
  gc_ListJobs :: "string \<Rightarrow> 's \<Rightarrow> 's \<times> GcpJob list"
  gc_admin :: bool
  gc_Entries :: "string \<Rightarrow> string \<Rightarrow> 's \<Rightarrow> 's \<times> LogEntry list \<times> go_error option"
  gc_SeverityName :: "int \<Rightarrow> string"
  gc_Project :: string
  gc_Location :: string
  gc_event :: "'s writer"
  gc_ListTasks :: "go_ctx \<Rightarrow> ListTasksRequest \<Rightarrow> 's \<Rightarrow> go_error + ListTasksResponse"

definition gcp_Submit :: "'s GcpBackend \<Rightarrow> string \<Rightarrow> Task \<Rightarrow> 's \<Rightarrow> 's \<times> go_error option" where
  "gcp_Submit b now task s =
     (case gcp_request (gc_Project b) (gc_Location b) task of
        Inl err \<Rightarrow> (s, Some err)
      | Inr req \<Rightarrow>
          (case gc_CreateJob b req s of
             (s1, Inl err) \<Rightarrow> (submit_error (gc_event b) now (t_Id task) ''GCP Batch'' err s1, Some err)
           | (s1, Inr (uid, name)) \<Rightarrow>
               gc_event b None (NewMetadata now (t_Id task) 0 [(''gcpbatch_uid'', uid), (''gcpbatch_name'', name)]) s1))"

definition gcp_Cancel :: "'s GcpBackend \<Rightarrow> go_ctx \<Rightarrow> string \<Rightarrow> 's \<Rightarrow> 's \<times> go_error option" where
  "gcp_Cancel b ctx taskID s = (s, None)"

definition gcp_WriteEvent :: "'s GcpBackend \<Rightarrow> string \<Rightarrow> 's writer" where
  "gcp_WriteEvent b now ctx ev s =
     (if ev_Type ev = Type_TASK_CREATED
      then (case GetTask_of ev of Inl err \<Rightarrow> (s, Some err) | Inr task \<Rightarrow> gcp_Submit b now task s)
      else if ev_Type ev = Type_TASK_STATE \<and> GetState ev = Canceled then gcp_Cancel b ctx (ev_Id ev) s
      else (s, None))"

definition getTaskID :: "Task \<Rightarrow> string" where
  "getTaskID task = (case t_Logs task of [] \<Rightarrow> '''' | l # _ \<Rightarrow> gomap_str (tl_Metadata l) ''gcpbatch_uid'')"

definition entry_fields :: "string \<Rightarrow> string \<Rightarrow> LogEntry \<Rightarrow> string gomap" where
  "entry_fields taskID uid entry =
     (let f = [(''gcpbatch_name'', taskID), (''gcpbatch_job_id'', uid), (''timestamp'', le_Timestamp entry)];
          f = (case le_Resource entry of
                 None \<Rightarrow> f
               | Some (ty, labels) \<Rightarrow> gomap_copy_into (gomap_set f ''resource_type'' ty) (map (\<lambda>(k, v). (''resource_'' @ k, v)) labels))
      in gomap_copy_into f (map (\<lambda>(k, v). (''label_'' @ k, v)) (le_Labels entry)))"

definition entry_log :: "'s GcpBackend \<Rightarrow> string \<Rightarrow> string \<Rightarrow> LogEntry \<Rightarrow> SystemLog" where
  "entry_log b taskID uid entry =
     \<lparr>sl_Msg = (case le_Payload entry of TextPayload m \<Rightarrow> m | JsonPayload m \<Rightarrow> m | ProtoPayload m \<Rightarrow> m | NoPayload \<Rightarrow> ''''),
      sl_Level = (if le_Severity entry \<noteq> 0 then gc_SeverityName b (le_Severity entry) else ''info''),
      sl_Fields = entry_fields taskID uid entry\<rparr>"

definition fetchLogs :: "'s GcpBackend \<Rightarrow> string \<Rightarrow> string \<Rightarrow> 's \<Rightarrow> 's \<times> (go_error + SystemLog list)" where
  "fetchLogs b taskID uid s =
     (if \<not> gc_admin b then (s, Inl (Errorf ''Cloud Logging Admin client not initialized - logs can be found in GCP Console''))
      else case gc_Entries b (''projects/'' @ gc_Project b) (''labels.job_uid='' @ [CHR 0x22] @ uid @ [CHR 0x22]) s of
             (s1, entries, Some err) \<Rightarrow> (s1, Inl (errorf_v ''failed to read log entries: '' err))
           | (s1, entries, None) \<Rightarrow>
               (s1, if entries = [] then Inl (Errorf (''no logs found for job '' @ taskID @ '' (job_uid: '' @ uid @ '')''))
                    else Inr (map (entry_log b taskID uid) entries)))"

fun write_logs :: "'s GcpBackend \<Rightarrow> string \<Rightarrow> go_ctx \<Rightarrow> string \<Rightarrow> SystemLog list \<Rightarrow> 's \<Rightarrow> 's" where
  "write_logs b now ctx i [] s = s"
| "write_logs b now ctx i (l # ls) s =
     write_logs b now ctx i ls (fst (gc_event b ctx (NewSystemLog now i 0 0 (sl_Level l) (sl_Msg l) (sl_Fields l)) s))"

definition copy_logs :: "'s GcpBackend \<Rightarrow> string \<Rightarrow> go_ctx \<Rightarrow> string \<Rightarrow> string \<Rightarrow> 's \<Rightarrow> 's" where
  "copy_logs b now ctx i uid s =
     (if gc_admin b
      then (case fetchLogs b i uid s of (s1, Inl _) \<Rightarrow> s1 | (s1, Inr logs) \<Rightarrow> write_logs b now ctx i logs s1)
      else s)"

definition failureReason :: "string list \<Rightarrow> string" where
  "failureReason descriptions = (case filter (\<lambda>d. d \<noteq> '''') descriptions of [] \<Rightarrow> ''GCP Batch job in FAILED state'' | d # _ \<Rightarrow> d)"

definition gcp_sync :: "'s GcpBackend \<Rightarrow> string \<Rightarrow> go_ctx \<Rightarrow> Task \<Rightarrow> GcpJob \<Rightarrow> string \<Rightarrow> string list \<Rightarrow> 's \<Rightarrow> 's" where
  "gcp_sync b now ctx task j st descriptions s =
     (let i = t_Id task; put = (\<lambda>ev s. fst (gc_event b ctx ev s)) in
      if st = ''FAILED''
      then (let s1 = copy_logs b now ctx i (gj_Uid j) s in
            if t_State task \<noteq> ExecutorError
            then put (NewSystemLog now i 0 0 ''error'' (failureReason descriptions)
                   [(''gcpbatch_id'', gj_Uid j), (''gcpbatch_name'', gj_Name j), (''gcpbatch_state'', st)])
                   (put (NewState now i ExecutorError) s1)
            else s1)
      else if st = ''SUCCEEDED''
      then (let s1 = copy_logs b now ctx i (gj_Uid j) s in if t_State task \<noteq> Complete then put (NewState now i Complete) s1 else s1)
      else if st = ''RUNNING''
      then (let s1 = copy_logs b now ctx i (gj_Uid j) s in if t_State task \<noteq> Running then put (NewState now i Running) s1 else s1)
      else s)"

fun gcp_report :: "'s GcpBackend \<Rightarrow> string \<Rightarrow> go_ctx \<Rightarrow> Task gomap \<Rightarrow> GcpJob list \<Rightarrow> 's \<Rightarrow> 's \<times> tick_end" where
  "gcp_report b now ctx tmap [] s = (s, TickOn)"
| "gcp_report b now ctx tmap (j # js) s =
     (case gomap_get tmap (path_Base (gj_Name j)) of
        None \<Rightarrow> gcp_report b now ctx tmap js s
      | Some task \<Rightarrow>
          (case gj_Status j of
             None \<Rightarrow> (s, TickPanic nil_deref)
           | Some (st, descriptions) \<Rightarrow> gcp_report b now ctx tmap js (gcp_sync b now ctx task j st descriptions s)))"

fun tasks_by_id :: "Task list \<Rightarrow> Task gomap \<Rightarrow> Task gomap" where
  "tasks_by_id [] m = m"
| "tasks_by_id (t # ts) m = tasks_by_id ts (gomap_set m (t_Id t) t)"

partial_function (option) gcp_pages ::
    "'s GcpBackend \<Rightarrow> string \<Rightarrow> go_ctx \<Rightarrow> State \<Rightarrow> string \<Rightarrow> 's \<Rightarrow> ('s \<times> tick_end) option" where
  "gcp_pages b now ctx st pageToken s =
     (case gc_ListTasks b ctx (page_request st pageToken\<lparr>lt_View := View_String Full\<rparr>) s of
        Inl err \<Rightarrow> Some (s, TickOver)
      | Inr lresp \<Rightarrow>
          (let token = ltr_NextPageToken lresp; tmap = tasks_by_id (ltr_Tasks lresp) [] in
           if tmap = [] then if token = '''' then Some (s, TickOn) else gcp_pages b now ctx st token s
           else (case gc_ListJobs b (''projects/'' @ gc_Project b @ ''/locations/'' @ gc_Location b) s of
                   (s1, jobs) \<Rightarrow>
                     (case gcp_report b now ctx tmap jobs s1 of
                        (s2, TickOn) \<Rightarrow> if token = '''' then Some (s2, TickOn) else gcp_pages b now ctx st token s2
                      | (s2, e) \<Rightarrow> Some (s2, e)))))"

definition gcp_tick :: "'s GcpBackend \<Rightarrow> string \<Rightarrow> go_ctx \<Rightarrow> 's \<Rightarrow> ('s \<times> tick_end) option" where
  "gcp_tick b now ctx s = tick_states (\<lambda>st. gcp_pages b now ctx st '''') [Queued, Initializing, Running] s"

definition gcp_reconcile :: "'s GcpBackend \<Rightarrow> go_ctx \<Rightarrow> string list \<Rightarrow> 's \<Rightarrow> ('s \<times> tick_end) option" where
  "gcp_reconcile b ctx ticks s = run_ticks (\<lambda>now. gcp_tick b now ctx) ticks s"

section \<open>The local backend\<close>

text \<open>
  \<open>lb_PluginConfig\<close> is the configuration in the plugin response of the context: \<^const>\<open>None\<close> without a
  response, \<^term>\<open>Some None\<close> for a response without a configuration.  Merging writes to the shared
  configuration, which is part of the state; its error is only logged.  \<open>lb_start\<close> starts the worker.
\<close>

record 's LocalBackend =
  lb_Plugins :: "'s \<Rightarrow> bool"
  lb_PluginConfig :: "go_ctx \<Rightarrow> ('s \<Rightarrow> 's) option option"
  lb_NewWorker :: "string \<Rightarrow> 's \<Rightarrow> 's \<times> go_error option"
  lb_start :: "string \<Rightarrow> 's \<Rightarrow> 's"

definition local_UpdateConfig :: "'s LocalBackend \<Rightarrow> go_ctx \<Rightarrow> 's \<Rightarrow> 's \<times> go_error option" where
  "local_UpdateConfig b ctx s =
     (case lb_PluginConfig b ctx of
        None \<Rightarrow> (s, Some (Errorf ''Failed to unmarshal plugin response <nil>''))
      | Some None \<Rightarrow> (s, None)
      | Some (Some merge) \<Rightarrow> (merge s, None))"

definition local_Submit :: "'s LocalBackend \<Rightarrow> Task \<Rightarrow> 's \<Rightarrow> 's \<times> go_error option" where
  "local_Submit b task s =
     (case lb_NewWorker b (t_Id task) s of
        (s1, Some err) \<Rightarrow> (s1, Some err)
      | (s1, None) \<Rightarrow> (lb_start b (t_Id task) s1, None))"

definition local_WriteEvent :: "'s LocalBackend \<Rightarrow> 's writer" where
  "local_WriteEvent b ctx ev s =
     (case (if lb_Plugins b s then local_UpdateConfig b ctx s else (s, None)) of
        (s1, Some err) \<Rightarrow> (s1, Some (errorf_v ''error updating config from plugin response: '' err))
      | (s1, None) \<Rightarrow>
          if ev_Type ev = Type_TASK_CREATED
          then (case GetTask_of ev of Inl err \<Rightarrow> (s1, Some err) | Inr task \<Rightarrow> local_Submit b task s1)
          else (s1, None))"

definition local_CheckBackendParameterSupport :: "Task \<Rightarrow> go_error option" where
  "local_CheckBackendParameterSupport task =
     (let res = GetResources_or_zero (t_Resources task) in
      if \<not> res_BackendParametersStrict res then None else check_params ([] :: string gomap) (res_BackendParameters res))"

section \<open>Lemmas: names and paths\<close>

lemma safeJobName_chars: "list_all job_name_char (safeJobName s)"
  by (induction s rule: safeJobName.induct) (auto simp: job_name_char_def)

lemma safeJobName_id: "list_all job_name_char s \<Longrightarrow> safeJobName s = s"
  by (induction s) auto

lemma extractGCSPath_join: "CHR ''/'' \<notin> set b \<Longrightarrow> extractGCSPath (gs_prefix @ b @ ''/'' @ p) = (b, p)"
  using cut_slash_join [of b p] by (simp add: extractGCSPath_def)

lemma bucket_of_path: "extractBucketName url = fst (extractGCSPath url)"
  by (simp add: extractBucketName_def extractGCSPath_def split: prod.split)

text \<open>The pairs agree with each other and with what was seen before.\<close>

definition agree :: "(string \<times> string) list \<Rightarrow> string gomap \<Rightarrow> bool" where
  "agree ps seen \<longleftrightarrow>
     (\<forall>p u v. p \<noteq> '''' \<and> (p, u) \<in> set ps \<and> (gomap_get seen p = Some v \<or> (p, v) \<in> set ps) \<longrightarrow> v = u)"

lemma agreeD: "agree ps seen \<Longrightarrow> p \<noteq> '''' \<Longrightarrow> (p, u) \<in> set ps \<Longrightarrow> gomap_get seen p = Some v \<or> (p, v) \<in> set ps \<Longrightarrow> v = u"
  by (simp add: agree_def)

lemma agree_skip: "agree (('''', u) # ps) seen \<longleftrightarrow> agree ps seen"
  unfolding agree_def list.set(2) insert_iff prod.inject by blast

lemma agree_clash: "p \<noteq> '''' \<Longrightarrow> gomap_get seen p = Some v \<Longrightarrow> v \<noteq> u \<Longrightarrow> \<not> agree ((p, u) # ps) seen"
  unfolding agree_def by (metis list.set_intros(1))

text \<open>A pair that does not clash can be moved to what was seen.\<close>

lemma agree_seen:
  assumes p: "p \<noteq> ''''" and get: "\<And>v. gomap_get seen p = Some v \<Longrightarrow> v = u"
  shows "agree ((p, u) # ps) seen \<longleftrightarrow> agree ps (gomap_set seen p u)"
proof
  assume l: "agree ((p, u) # ps) seen"
  show "agree ps (gomap_set seen p u)"
    unfolding agree_def
  proof (intro allI impI, elim conjE)
    fix q x v
    assume q: "q \<noteq> ''''" "(q, x) \<in> set ps" "gomap_get (gomap_set seen p u) q = Some v \<or> (q, v) \<in> set ps"
    then have "gomap_get seen q = Some v \<or> (q, v) \<in> set ((p, u) # ps)" by (auto simp: gomap_simps split: if_splits)
    from agreeD [OF l q(1) _ this] q(2) show "v = x" by simp
  qed
next
  assume r: "agree ps (gomap_set seen p u)"
  have new: "x = u" if "(p, x) \<in> set ps" for x
    using agreeD [OF r p that, of u] by (simp add: gomap_simps)
  show "agree ((p, u) # ps) seen"
    unfolding agree_def
  proof (intro allI impI, elim conjE)
    fix q x v
    assume q: "q \<noteq> ''''" "(q, x) \<in> set ((p, u) # ps)" "gomap_get seen q = Some v \<or> (q, v) \<in> set ((p, u) # ps)"
    show "v = x"
    proof (cases "q = p")
      case True
      with q(2,3) new get show ?thesis by auto
    next
      case False
      with q agreeD [OF r q(1), of x v] show ?thesis by (simp add: gomap_simps)
    qed
  qed
qed

lemma collide_exact:
  "(case collide ps seen of
      Inl _ \<Rightarrow> \<not> agree ps seen
    | Inr seen' \<Rightarrow> agree ps seen \<and> (\<forall>p v. p \<noteq> '''' \<longrightarrow> (gomap_get seen' p = Some v \<longleftrightarrow> gomap_get seen p = Some v \<or> (p, v) \<in> set ps)))"
proof (induction ps arbitrary: seen)
  case Nil
  then show ?case by (simp add: agree_def)
next
  case (Cons pu ps)
  obtain p u where pu: "pu = (p, u)" by force
  consider (skip) "p = ''''" | (clash) v where "p \<noteq> ''''" "gomap_get seen p = Some v" "v \<noteq> u"
    | (fresh) "p \<noteq> ''''" "\<And>v. gomap_get seen p = Some v \<Longrightarrow> v = u" by blast
  then show ?case
  proof cases
    case skip
    then have "collide (pu # ps) seen = collide ps seen" by (simp add: pu)
    with Cons [of seen] skip show ?thesis by (simp add: pu agree_skip split: sum.splits)
  next
    case clash
    then show ?thesis using agree_clash [OF clash] by (simp add: pu)
  next
    case fresh
    then have step: "collide (pu # ps) seen = collide ps (gomap_set seen p u)" by (auto simp: pu split: option.split)
    have get: "gomap_get (gomap_set seen p u) q = Some v \<or> (q, v) \<in> set ps \<longleftrightarrow> gomap_get seen q = Some v \<or> (q, v) \<in> set (pu # ps)"
      if "agree ps (gomap_set seen p u)" for q v
      using fresh by (cases "q = p") (auto simp: pu gomap_simps)
    show ?thesis
      using Cons [of "gomap_set seen p u"] unfolding step
      by (simp add: get pu agree_seen [OF fresh] split: sum.splits)
  qed
qed

text \<open>Both loops together.\<close>

lemma collisions_iff:
  "detectPathCollisions task = None \<longleftrightarrow>
     (\<forall>p u v. p \<noteq> '''' \<and> (p, u) \<in> set (input_pairs task @ output_pairs task) \<and> (p, v) \<in> set (input_pairs task @ output_pairs task) \<longrightarrow> u = v)"
  (is "_ \<longleftrightarrow> ?ok")
proof (cases "collide (input_pairs task) []")
  case (Inl err)
  with collide_exact [of "input_pairs task" "[]"] have "\<not> agree (input_pairs task) []" by simp
  then have "\<not> ?ok" by (fastforce simp: agree_def)
  with Inl show ?thesis by (simp add: detectPathCollisions_def)
next
  case (Inr seen)
  with collide_exact [of "input_pairs task" "[]"] have ins: "agree (input_pairs task) []"
    and seen: "\<And>p v. p \<noteq> '''' \<Longrightarrow> gomap_get seen p = Some v \<longleftrightarrow> (p, v) \<in> set (input_pairs task)" by auto
  have "detectPathCollisions task = None \<longleftrightarrow> agree (output_pairs task) seen"
    using collide_exact [of "output_pairs task" seen] Inr by (simp add: detectPathCollisions_def split: sum.splits)
  also have "\<dots> \<longleftrightarrow> ?ok"
  proof
    assume outs: "agree (output_pairs task) seen"
    show ?ok
    proof (intro allI impI, elim conjE)
      fix p u v
      assume p: "p \<noteq> ''''" "(p, u) \<in> set (input_pairs task @ output_pairs task)" "(p, v) \<in> set (input_pairs task @ output_pairs task)"
      have "v = u" if "(p, u) \<in> set (input_pairs task)" "(p, v) \<in> set (input_pairs task)"
        using agreeD [OF ins p(1) that(1)] that(2) by simp
      moreover have "v = u" if "(p, u) \<in> set (output_pairs task)"
        using agreeD [OF outs p(1) that] p(3) seen [OF p(1)] by simp
      moreover have "u = v" if "(p, v) \<in> set (output_pairs task)"
        using agreeD [OF outs p(1) that] p(2) seen [OF p(1)] by simp
      ultimately show "u = v" using p(2,3) by auto
    qed
  next
    assume ok: ?ok
    show "agree (output_pairs task) seen"
      unfolding agree_def
    proof (intro allI impI, elim conjE)
      fix p u v
      assume p: "p \<noteq> ''''" "(p, u) \<in> set (output_pairs task)" "gomap_get seen p = Some v \<or> (p, v) \<in> set (output_pairs task)"
      then have "(p, v) \<in> set (input_pairs task @ output_pairs task)" using seen [OF p(1)] by auto
      with ok p(1,2) show "v = u" by auto
    qed
  qed
  finally show ?thesis .
qed

text \<open>
  C29: the check for path collisions is exact.  A task passes if and only if no two of its inputs and
  outputs use the same path for different URLs; empty paths are left out.
\<close>

theorem detectPathCollisions_exact:
  "detectPathCollisions task = None \<longleftrightarrow>
     (\<nexists>p u v. p \<noteq> '''' \<and> (p, u) \<in> set (input_pairs task @ output_pairs task) \<and>
        (p, v) \<in> set (input_pairs task @ output_pairs task) \<and> u \<noteq> v)"
  unfolding collisions_iff by blast

text \<open>
  The order in which the paths are replaced matters: with one path inside another, and with a path that
  occurs in the place where another is mounted, the same command is rewritten in two ways.
\<close>

lemma rewriteArg_order:
  "rewriteArg [(''/in'', ''/mnt/disks/b/x''), (''/in/ref'', ''/mnt/disks/c/y'')] ''/in/ref'' = ''/mnt/disks/b/x/ref''"
  "rewriteArg [(''/in/ref'', ''/mnt/disks/c/y''), (''/in'', ''/mnt/disks/b/x'')] ''/in/ref'' = ''/mnt/disks/c/y''"
  by (simp_all add: rewriteArg_def HasPrefix_def)

lemma fraction_of_a_gigabyte: "0 \<le> r \<Longrightarrow> r < 1 \<Longrightarrow> int64_of r * 1024 = 0"
  by (simp add: int64_of_def floor_eq_iff)

section \<open>What the backends do to tasks\<close>

text \<open>A backend on a database that can be listed, with a service that leaves the tasks alone or moves them along.\<close>

locale aws_backend = task_listing "aw_event b" state_of inv "aw_GetTask b" "aw_ListTasks b"
  for b :: "'s AwsBackend" and state_of and inv +
  assumes submit_evolves: "evolves state_of inv s (fst (aw_SubmitJob b req s))"
    and cancel_evolves: "evolves state_of inv s (fst (aw_CancelJob b i reason s))"
begin

lemma error_evolves: "evolves state_of inv s (submit_error (aw_event b) now i service err s)"
  unfolding submit_error_def by (rule evolves_trans [OF put_evolves put_evolves]) (simp_all add: NewState_def NewSystemLog_def)

lemma WriteEvent_evolves: "evolves state_of inv s (fst (aws_WriteEvent b now ctx ev s))"
proof -
  have meta: "evolves state_of inv s (fst (aw_event b None (NewMetadata now i a m) s))" for i a m s
    by (rule put_evolves) (simp add: NewMetadata_def)
  show ?thesis
    unfolding aws_WriteEvent_def aws_Submit_def aws_Cancel_def Let_def
    by (auto intro!: evolves_case submit_evolves cancel_evolves error_evolves meta split: sum.split)
qed

text \<open>The service cancels a task before it asks the backend, which then finds nothing to cancel.\<close>

lemma cancel_too_late:
  assumes "inv s" "state_of s (ev_Id ev) = Some Canceled" "ev_Type ev = Type_TASK_STATE"
  shows "fst (aws_WriteEvent b now ctx ev s) = s"
proof (cases "GetState ev = Canceled")
  case True
  show ?thesis
  proof (cases "aw_GetTask b ctx \<lparr>gt_Id = ev_Id ev, gt_View = View_String Basic\<rparr> s")
    case (Inl err)
    with True assms(3) show ?thesis by (simp add: aws_WriteEvent_def aws_Cancel_def)
  next
    case (Inr task)
    with get_state [OF assms(1) Inr] assms(2) have "t_State task = Canceled" by simp
    with Inr True assms(3) show ?thesis by (simp add: aws_WriteEvent_def aws_Cancel_def)
  qed
qed (use assms(3) in \<open>simp add: aws_WriteEvent_def\<close>)

end

definition aws_service :: "'s AwsBackend \<Rightarrow> (Task \<Rightarrow> go_error option) \<Rightarrow> plugin_action option \<Rightarrow> string \<Rightarrow> 's TaskService" where
  "aws_service b check plugins now =
     \<lparr>ts_Event = aw_event b, ts_Compute = aws_WriteEvent b now, ts_CheckParams = check, ts_Read = aw_GetTask b, ts_Plugins = plugins,
      ts_Compute_name = ''aws-batch'', ts_K8s = None\<rparr>"

definition aws_on_badger ::
    "('d, 'v) kv \<Rightarrow> 'd retry_notify \<Rightarrow> string \<Rightarrow> (SubmitJobInput \<Rightarrow> 'w \<Rightarrow> 'w \<times> (go_error + string)) \<Rightarrow>
     (string \<Rightarrow> string \<Rightarrow> 'w \<Rightarrow> 'w \<times> go_error option) \<Rightarrow> (string list \<Rightarrow> 'w \<Rightarrow> 'w \<times> (go_error + AwsJob list)) \<Rightarrow> string \<Rightarrow> string \<Rightarrow> ('d \<times> 'w) AwsBackend" where
  "aws_on_badger K RN mode submit cancel describe def que =
     \<lparr>aw_SubmitJob = (\<lambda>req. beside (submit req)), aw_CancelJob = (\<lambda>i reason. beside (cancel i reason)),
      aw_DescribeJobs = (\<lambda>ids. beside (describe ids)), aw_JobDefinition = def, aw_JobQueue = que,
      aw_event = beside_put (badger_WriteEvent K RN mode), aw_GetTask = (\<lambda>ctx req s. badger_GetTask K mode ctx req (fst s)),
      aw_ListTasks = beside_list (badger_ListTasks K mode)\<rparr>"

lemma aws_backend_on_badger:
  assumes "kv_laws K" "backoff_law RN"
  shows "aws_backend (aws_on_badger K RN mode submit cancel describe def que) (\<lambda>s. badger_state K (fst s)) (\<lambda>s. badger_ok K (fst s))"
  using task_listing_beside [OF badger_task_listing [OF assms]]
  by (intro aws_backend.intro aws_backend_axioms.intro evolves_beside) (simp_all add: aws_on_badger_def)

interpretation aws_jobs_on_badger: aws_backend "aws_on_badger mem_kv untimed_backoff mode submit cancel describe def que"
  "\<lambda>s. badger_state mem_kv (fst s)" "\<lambda>s. badger_ok mem_kv (fst s)" for mode submit cancel describe def que
  by (rule aws_backend_on_badger [OF mem_kv_laws untimed_backoff_law])

context aws_backend
begin

text \<open>A cancel request does no more than write events.\<close>

lemma cancel_only_writes:
  assumes "inv s"
  shows "\<exists>evs. fst (CancelTask (aws_service b check plugins now) now md ctx i s) = write_all (aw_event b) evs s"
proof -
  let ?ts = "aws_service b check plugins now" and ?ev = "NewState now i Canceled"
  obtain s1 r1 where cancel: "aw_event b ctx ?ev s = (s1, r1)" by force
  obtain s2 r2 where comp: "aws_WriteEvent b now ctx ?ev s1 = (s2, r2)" by force
  have s2: "s2 = s1" if "r1 = None"
  proof -
    have "inv s1" "state_of s1 i = Some Canceled"
      using that write_inv [OF assms cancel] write_state [OF assms, of ctx ?ev s1] cancel by (auto simp: NewState_def GetState_def)
    with cancel_too_late [of s1 ?ev now ctx] comp show ?thesis by (simp add: NewState_def)
  qed
  have "fst (CancelTask ?ts now md ctx i s) = s \<or> fst (CancelTask ?ts now md ctx i s) = s1 \<or>
      (\<exists>ev. fst (CancelTask ?ts now md ctx i s) = fst (aw_event b ctx ev s1))"
    using cancel comp s2 by (auto simp: CancelTask_def aws_service_def split: sum.split option.split)
  moreover have "s = write_all (aw_event b) [] s" "s1 = write_all (aw_event b) [(ctx, ?ev)] s"
    "fst (aw_event b ctx ev s1) = write_all (aw_event b) [(ctx, ?ev), (ctx, ev)] s" for ev
    by (simp_all add: cancel)
  ultimately show ?thesis by metis
qed

end

lemma write_all_beside: "write_all (beside_put put) evs s = (write_all put evs (fst s), snd s)"
  by (induction evs arbitrary: s) (auto simp: beside_put_def split: prod.split)

text \<open>A service with this backend; the cloud beside the database is the other half of the state.\<close>

lemma aws_task_service:
  assumes "kv_laws K" "backoff_law RN"
  shows "task_service (aws_service (aws_on_badger K RN mode submit cancel describe def que) check plugins now)
    (\<lambda>s. badger_state K (fst s)) (\<lambda>s. badger_ok K (fst s))"
proof -
  note aws = aws_backend_on_badger [OF assms, of mode submit cancel describe def que]
  show ?thesis
    using task_listing.axioms(1) [OF aws_backend.axioms(1) [OF aws]] aws_backend.WriteEvent_evolves [OF aws]
    by (intro task_service.intro task_service_axioms.intro) (simp_all add: aws_service_def)
qed

interpretation aws_svc: task_service "aws_service (aws_on_badger mem_kv untimed_backoff mode submit cancel describe def que) check plugins now"
  "\<lambda>s. badger_state mem_kv (fst s)" "\<lambda>s. badger_ok mem_kv (fst s)" for mode submit cancel describe def que check plugins now
  by (rule aws_task_service [OF mem_kv_laws untimed_backoff_law])

section \<open>Properties\<close>

text \<open>
  C28: a cancel request never reaches the batch service.  \<open>CancelTask\<close> writes the state CANCELED before
  it calls the compute backend, and the AWS backend asks for the cancellation of queued tasks only:
  whatever the request returns, the jobs of the service are as before, the job of a queued task too.
\<close>

theorem aws_cancel_keeps_jobs:
  assumes "kv_laws K" "backoff_law RN" "badger_ok K d"
  shows "snd (fst (CancelTask (aws_service (aws_on_badger K RN mode submit cancel describe def que) check plugins now) now md ctx i (d, w))) = w"
proof -
  note aws = aws_backend_on_badger [OF assms(1,2), of mode submit cancel describe def que]
  have put: "aw_event (aws_on_badger K RN mode submit cancel describe def que) = beside_put (badger_WriteEvent K RN mode)"
    by (simp add: aws_on_badger_def)
  from aws_backend.cancel_only_writes [OF aws, of "(d, w)" check plugins now md ctx i] assms(3) show ?thesis
    by (auto simp: put write_all_beside)
qed

text \<open>A queued task with a job of the service: the request is answered with success, and the job stays.\<close>

definition aws_task :: Task where
  "aws_task = slurm_task\<lparr>t_Logs := [empty_tasklog\<lparr>tl_Metadata := [(''awsbatch_id'', ''7'')]\<rparr>]\<rparr>"

definition aws_db :: "(string \<times> cell) list" where
  "aws_db = [(''ownerst1'', Bytes ''ann''), (''taskst1'', Encoded aws_task)]"

text \<open>A batch service whose state is the list of its jobs.\<close>

definition aws_mem :: "((string \<times> cell) list \<times> string list) AwsBackend" where
  "aws_mem = aws_on_badger mem_kv untimed_backoff AccessOwner (\<lambda>req jobs. (jobs, Inr ''8''))
     (\<lambda>i reason jobs. (removeAll i jobs, None)) (\<lambda>ids jobs. (jobs, Inr [])) ''funnel'' ''queue''"

theorem aws_cancel_keeps_jobs_witness:
  "badger_state mem_kv aws_db ''t1'' = Some Queued \<and>
   snd (CancelTask (aws_service aws_mem noop_Backend_CheckParams None ''now'') ''now'' None sample_user ''t1'' (aws_db, [''7''])) = None \<and>
   snd (fst (CancelTask (aws_service aws_mem noop_Backend_CheckParams None ''now'') ''now'' None sample_user ''t1'' (aws_db, [''7'']))) = [''7'']"
proof (intro conjI)
  show "badger_state mem_kv aws_db ''t1'' = Some Queued"
    by (simp add: badger_state_def badger_task_def aws_db_def aws_task_def mem_kv_def taskKey_def taskKeyPrefix_def slurm_task_def sample_task_def empty_task_def)
  have ok: "badger_ok mem_kv aws_db"
    by (auto simp: badger_ok_def aws_db_def mem_kv_def taskKey_def ownerKey_def taskKeyPrefix_def ownerKeyPrefix_def
        aws_task_def slurm_task_def sample_task_def empty_task_def split: if_splits)
  show "snd (fst (CancelTask (aws_service aws_mem noop_Backend_CheckParams None ''now'') ''now'' None sample_user ''t1'' (aws_db, [''7'']))) = [''7'']"
    unfolding aws_mem_def by (rule aws_cancel_keeps_jobs [OF mem_kv_laws untimed_backoff_law ok])
  show "snd (CancelTask (aws_service aws_mem noop_Backend_CheckParams None ''now'') ''now'' None sample_user ''t1'' (aws_db, [''7''])) = None"
  proof -
    note defs = badger_GetTask_def badger_getTask_def Let_def mem_kv_def aws_db_def taskKey_def taskKeyPrefix_def
      ownerKey_def ownerKeyPrefix_def aws_task_def slurm_task_def sample_task_def empty_task_def getTaskOwner_def
      badger_isAccessible_def IsAccessible_def sample_user_def systemUserInfo_def owner_or_empty_def load_task_def wrap_err_def
    have read: "\<exists>task. badger_GetTask mem_kv AccessOwner sample_user \<lparr>gt_Id = ''t1'', gt_View = ''''\<rparr> aws_db = Inr task"
      by (simp add: defs)
    have "\<exists>d'. badger_writeEvent mem_kv AccessOwner sample_user (NewState ''now'' ''t1'' Canceled) aws_db = (d', None)"
      by (simp add: badger_writeEvent_def kv_Update_def badger_txn_def NewState_def badger_apply_def GetState_def save_task_def
          ValidateTransition_def defs)
    then have put: "snd (badger_WriteEvent mem_kv untimed_backoff AccessOwner sample_user (NewState ''now'' ''t1'' Canceled) aws_db) = None"
      by (auto simp: badger_WriteEvent_def Retry_def untimed_backoff_def withTries_eq numeral_eq_Suc)
    show ?thesis
      using read put by (auto simp: CancelTask_def aws_service_def aws_mem_def aws_on_badger_def run_plugin_def beside_put_def
          split: prod.split option.split)
  qed
qed

end
