(* ===== verification/Object_Storage.thy ===== *)
theory Object_Storage
  imports Storage
begin

text \<open>
  The storage backends that talk to a server: \<open>src/storage/generic_s3.go\<close>, \<open>amazon_s3.go\<close>, \<open>swift.go\<close>,
  \<open>google_cloud.go\<close>, \<open>ftp.go\<close> and the requests of \<open>http.go\<close>, with \<open>src/util/s3/endpoint.go\<close> and the list of
  backends that \<open>NewMux\<close> of \<open>mux.go\<close> makes.

  The client libraries, the parser of URLs and the copying of a stream are the operations of one
  record per backend; a pointer of an answer that the sources dereference is an option.  Dates of
  objects and the encryption of requests on the wire are left out.
\<close>

section \<open>URLs\<close>

record urlparts =
  up_bucket :: string
  up_path :: string

text \<open>The end that all parsers share: the bucket up to the first slash, and the path if there is one.\<close>

definition split_parts :: "string \<Rightarrow> urlparts" where
  "split_parts path =
     (case cut_slash path of (b, p) \<Rightarrow> \<lparr>up_bucket = b, up_path = (case p of None \<Rightarrow> '''' | Some q \<Rightarrow> q)\<rparr>)"

definition s3Protocol :: string where "s3Protocol = ''s3://''"

definition swiftProtocol :: string where "swiftProtocol = ''swift://''"

definition gsProtocol :: string where "gsProtocol = ''gs://''"

text \<open>
  The expression of \<open>ParseEndpoint\<close> takes off a scheme if what follows it can be a host: a character,
  one that is no slash, and no line break after the first slash.
\<close>

definition endpoint_rest :: "string \<Rightarrow> bool" where
  "endpoint_rest s \<longleftrightarrow>
     (case drop (rune_width s) s of
        [] \<Rightarrow> False
      | c # cs \<Rightarrow> hd s \<noteq> CHR 0x0A \<and> c \<noteq> CHR ''/'' \<and> CHR 0x0A \<notin> set (dropWhile (\<lambda>c. c \<noteq> CHR ''/'') (c # cs)))"

definition ParseEndpoint :: "string \<Rightarrow> string" where
  "ParseEndpoint url =
     (let endpoint =
        (if HasPrefix url ''https://'' \<and> endpoint_rest (TrimPrefix url ''https://'') then TrimPrefix url ''https://''
         else if HasPrefix url ''http://'' \<and> endpoint_rest (TrimPrefix url ''http://'') then TrimPrefix url ''http://''
         else url)
      in rev (dropWhile (\<lambda>c. c = CHR ''/'') (rev endpoint)))"

text \<open>How the error of a parser shows to a caller.\<close>

definition as_error :: "storage_error \<Rightarrow> go_error" where
  "as_error err = (case err of StorageErr e \<Rightarrow> e | _ \<Rightarrow> Errorf (storage_error_string err))"

definition join_url :: "string \<Rightarrow> string \<Rightarrow> string" where
  "join_url url path = TrimSuffix url ''/'' @ ''/'' @ path"

section \<open>Generic S3\<close>

record ObjectInfo =
  oi_Key :: string
  oi_ETag :: string
  oi_Size :: int

text \<open>
  The key of an encryption is an argument of the requests that use it, empty for none.
  \<open>mc_ListObjects\<close> gives the entries up to the first error; \<open>mc_Copy\<close> copies the stream of an object to
  an open file.  \<open>mc_flushing\<close> tells errors that a file system shows while it writes, and \<open>mc_Sleep\<close> is
  what happens during a pause.
\<close>

record 'w minio =
  mc_GetObject :: "string \<Rightarrow> string \<Rightarrow> string \<Rightarrow> 'w \<Rightarrow> 'w \<times> go_error option"
  mc_StatObject :: "string \<Rightarrow> string \<Rightarrow> 'w \<Rightarrow> 'w \<times> (go_error + ObjectInfo)"
  mc_ListObjects :: "string \<Rightarrow> string \<Rightarrow> 'w \<Rightarrow> 'w \<times> ObjectInfo list \<times> go_error option"
  mc_Copy :: "string \<Rightarrow> string \<Rightarrow> string \<Rightarrow> 'w \<Rightarrow> 'w \<times> go_error option"
  mc_FPutObject :: "string \<Rightarrow> string \<Rightarrow> string \<Rightarrow> string \<Rightarrow> 'w \<Rightarrow> 'w \<times> go_error option"
  mc_BucketExists :: "string \<Rightarrow> 'w \<Rightarrow> go_error + bool"
  mc_NewSSEKMS :: "string \<Rightarrow> go_error option"
  mc_Close :: "string \<Rightarrow> 'w \<Rightarrow> 'w \<times> go_error option"
  mc_flushing :: "go_error \<Rightarrow> bool"
  mc_Sleep :: "'w \<Rightarrow> 'w"
  mc_JoinPath :: "string \<Rightarrow> string \<Rightarrow> go_error + string"

record 'w GenericS3 =
  g_client :: "'w minio"
  g_endpoint :: string
  g_kmskeyId :: string
  g_MountedBucket :: string

record GenericS3Conf =
  gc_Endpoint :: string
  gc_KmsKeyID :: string
  gc_Bucket :: string

definition NewGenericS3 :: "(string \<Rightarrow> go_error + 'w minio) \<Rightarrow> GenericS3Conf \<Rightarrow> go_error + 'w GenericS3" where
  "NewGenericS3 connect conf =
     (let endpoint = (if gc_Endpoint conf \<noteq> '''' then ParseEndpoint (gc_Endpoint conf) else '''') in
      case connect endpoint of
        Inl err \<Rightarrow> Inl (errorf_v ''error creating generic s3 backend: '' err)
      | Inr client \<Rightarrow>
          Inr \<lparr>g_client = client, g_endpoint = endpoint @ ''/'', g_kmskeyId = gc_KmsKeyID conf, g_MountedBucket = gc_Bucket conf\<rparr>)"

definition IsThisBucketMounted :: "'w GenericS3 \<Rightarrow> string \<Rightarrow> bool" where
  "IsThisBucketMounted g bucketName \<longleftrightarrow> bucketName = g_MountedBucket g"

definition GetLocalMountedPath :: "'w GenericS3 \<Rightarrow> string \<Rightarrow> string" where
  "GetLocalMountedPath g url = ''/opt/funnel/funnel-work-dir/'' @ TrimPrefix url (''s3://'' @ g_MountedBucket g @ ''/'')"

definition generic_Parse :: "'w GenericS3 \<Rightarrow> string \<Rightarrow> storage_error + urlparts" where
  "generic_Parse g rawurl =
     (if \<not> HasPrefix rawurl s3Protocol then Inl (ErrUnsupportedProtocol ''genericS3'')
      else (let path = TrimPrefix (TrimPrefix rawurl s3Protocol) (g_endpoint g) in
            if path = '''' then Inl (ErrInvalidURL ''genericS3'') else Inr (split_parts path)))"

text \<open>The loop of \<open>isDir\<close> stops at the first object below the name, before it sees a later error.\<close>

definition generic_isDir :: "'w os \<Rightarrow> 'w GenericS3 \<Rightarrow> string \<Rightarrow> string \<Rightarrow> string \<Rightarrow> 'w \<Rightarrow> 'w \<times> (go_error + bool)" where
  "generic_isDir os g url bucketName objectName w =
     (if IsThisBucketMounted g bucketName
      then (w, case os_Stat os (GetLocalMountedPath g url) w of Inl err \<Rightarrow> Inl err | Inr fileInfo \<Rightarrow> Inr (fi_IsDir fileInfo))
      else if HasSuffix objectName ''/'' then (w, Inr True)
      else (case mc_ListObjects (g_client g) bucketName objectName w of
              (w1, infos, err) \<Rightarrow>
                (w1, if list_ex (\<lambda>x. HasPrefix (oi_Key x) objectName \<and> oi_Key x \<noteq> objectName) infos then Inr True
                     else case err of Some e \<Rightarrow> Inl e | None \<Rightarrow> Inr False)))"

definition generic_Stat :: "'w os \<Rightarrow> 'w GenericS3 \<Rightarrow> string \<Rightarrow> 'w \<Rightarrow> 'w \<times> (go_error + Object)" where
  "generic_Stat os g url w =
     (case generic_Parse g url of
        Inl err \<Rightarrow> (w, Inl (as_error err))
      | Inr u \<Rightarrow>
          if IsThisBucketMounted g (up_bucket u)
          then (w, case local_Stat os (GetLocalMountedPath g url) w of Inl err \<Rightarrow> Inl err | Inr obj \<Rightarrow> Inr (obj\<lparr>obj_URL := url\<rparr>))
          else (let what = up_path u @ '' in bucket '' @ up_bucket u @ '': '' in
            case mc_GetObject (g_client g) (up_bucket u) (up_path u) '''' w of
              (w1, Some err) \<Rightarrow> (w1, Inl (errorf_v (''genericS3: getting object '' @ what) err))
            | (w1, None) \<Rightarrow>
                (case generic_isDir os g url (up_bucket u) (up_path u) w1 of
                   (w2, Inl err) \<Rightarrow> (w2, Inl (errorf_v (''genericS3: stat object '' @ what) err))
                 | (w2, Inr True) \<Rightarrow> (w2, Inr \<lparr>obj_URL = url, obj_Name = up_path u, obj_ETag = '''', obj_Size = 0\<rparr>)
                 | (w2, Inr False) \<Rightarrow>
                     (case mc_StatObject (g_client g) (up_bucket u) (up_path u) w2 of
                        (w3, Inl err) \<Rightarrow> (w3, Inl (errorf_v (''genericS3: stat object '' @ what) err))
                      | (w3, Inr info) \<Rightarrow>
                          (w3, Inr \<lparr>obj_URL = url, obj_Name = oi_Key info, obj_ETag = oi_ETag info, obj_Size = oi_Size info\<rparr>)))))"

definition info_object :: "string \<Rightarrow> ObjectInfo \<Rightarrow> Object" where
  "info_object pre x = \<lparr>obj_URL = pre @ oi_Key x, obj_Name = oi_Key x, obj_ETag = oi_ETag x, obj_Size = oi_Size x\<rparr>"

definition generic_List :: "'w os \<Rightarrow> 'w GenericS3 \<Rightarrow> string \<Rightarrow> 'w \<Rightarrow> 'w \<times> (go_error + Object list)" where
  "generic_List os g url w =
     (case generic_Parse g url of
        Inl err \<Rightarrow> (w, Inl (as_error err))
      | Inr u \<Rightarrow>
          if IsThisBucketMounted g (up_bucket u) then (w, local_List os (GetLocalMountedPath g url) w)
          else (case mc_ListObjects (g_client g) (up_bucket u) (up_path u) w of
                  (w1, infos, Some err) \<Rightarrow> (w1, Inl err)
                | (w1, infos, None) \<Rightarrow>
                    (w1, Inr (map (info_object (''s3://'' @ up_bucket u @ ''/'')) (filter (\<lambda>x. \<not> HasSuffix (oi_Key x) ''/'') infos)))))"

text \<open>Waiting for a file to become readable: \<open>n\<close> is the number of polls that happen before the deadline.\<close>

fun wait_readable :: "nat \<Rightarrow> 'w os \<Rightarrow> 'w minio \<Rightarrow> string \<Rightarrow> 'w \<Rightarrow> 'w \<times> (go_error + FileInfo)" where
  "wait_readable n os c path w =
     (case os_Stat os path w of
        Inr info \<Rightarrow> (w, Inr info)
      | Inl err \<Rightarrow>
          (case n of
             0 \<Rightarrow> (w, Inl err)
           | Suc m \<Rightarrow> if mc_flushing c err then wait_readable m os c path (mc_Sleep c w) else (w, Inl err)))"

definition generic_download ::
    "nat \<Rightarrow> 'w os \<Rightarrow> 'w minio \<Rightarrow> string \<Rightarrow> string \<Rightarrow> string \<Rightarrow> string \<Rightarrow> 'w \<Rightarrow> 'w \<times> go_error option" where
  "generic_download n os c bucket objectPath filePath kmskeyId w =
     (case (if kmskeyId \<noteq> '''' then mc_NewSSEKMS c kmskeyId else None) of
        Some err \<Rightarrow> (w, Some (errorf_v ''genericS3: download(): creating SSEKMS: '' err))
      | None \<Rightarrow>
          (case mc_GetObject c bucket objectPath kmskeyId w of
             (w1, Some err) \<Rightarrow> (w1, Some (errorf_v ''failed getting object from S3: '' err))
           | (w1, None) \<Rightarrow>
               (case os_MkdirAll os (path_Dir filePath) w1 of
                  (w2, Some err) \<Rightarrow> (w2, Some (errorf_v ''failed creating directories: '' err))
                | (w2, None) \<Rightarrow>
                    (case os_Create os filePath w2 of
                       (w3, Some err) \<Rightarrow> (w3, Some (errorf_v ''failed creating file: '' err))
                     | (w3, None) \<Rightarrow>
                         (case mc_Copy c bucket objectPath filePath w3 of
                            (w4, Some err) \<Rightarrow> (fst (mc_Close c filePath w4), Some (errorf_v ''failed writing file: '' err))
                          | (w4, None) \<Rightarrow>
                              (case mc_Close c filePath w4 of
                                 (w5, Some err) \<Rightarrow> (w5, Some (errorf_v ''failed closing file: '' err))
                               | (w5, None) \<Rightarrow>
                                   (case wait_readable n os c filePath w5 of
                                      (w6, Inl err) \<Rightarrow> (w6, Some (errorf_v ''failed waiting for file to become readable: '' err))
                                    | (w6, Inr _) \<Rightarrow> (w6, None))))))))"

text \<open>
  \<open>_GetObject\<close> inside \<open>Get\<close>: for a mounted bucket it copies from the URL to the path of the call,
  whatever its own arguments are.
\<close>

definition generic_GetObject ::
    "nat \<Rightarrow> 'w os \<Rightarrow> 'w link_os \<Rightarrow> 'w GenericS3 \<Rightarrow> string \<Rightarrow> string \<Rightarrow> urlparts \<Rightarrow> string \<Rightarrow> string \<Rightarrow> 'w \<Rightarrow> 'w \<times> go_error option" where
  "generic_GetObject n os lk g url path u sourcePath destPath w =
     (if IsThisBucketMounted g (up_bucket u)
      then (case local_copyFile os lk (GetLocalMountedPath g url) path w of
              (w1, Some err) \<Rightarrow>
                (w1, Some (errorf_v (''genericS3: failed to copy file '' @ GetLocalMountedPath g url @ '' to '' @ path @ '': '') err))
            | (w1, None) \<Rightarrow> (w1, None))
      else (case generic_download n os (g_client g) (up_bucket u) sourcePath destPath (g_kmskeyId g) w of
              (w1, Some err) \<Rightarrow> (w1, Some (errorf_v (''genericS3: getting object '' @ url @ '': '') err))
            | (w1, None) \<Rightarrow> (w1, None)))"

fun generic_get_all ::
    "(string \<Rightarrow> string \<Rightarrow> 'w \<Rightarrow> 'w \<times> go_error option) \<Rightarrow> string \<Rightarrow> string \<Rightarrow> urlparts \<Rightarrow> Object list \<Rightarrow> 'w \<Rightarrow> 'w \<times> go_error option" where
  "generic_get_all getf url path u [] w = (w, None)"
| "generic_get_all getf url path u (obj # objects) w =
     (case filepath_Rel (up_path u) (obj_Name obj) of
        Inl err \<Rightarrow> (w, Some (errorf_v (''genericS3: computing relative path for '' @ obj_Name obj @ '': '') err))
      | Inr relPath \<Rightarrow>
          (case getf (obj_Name obj) (path_Join [path, relPath]) w of
             (w1, Some err) \<Rightarrow> (w1, Some (errorf_v (''genericS3: getting nested object '' @ url @ '': '') err))
           | (w1, None) \<Rightarrow> generic_get_all getf url path u objects w1))"

definition generic_Get :: "nat \<Rightarrow> 'w os \<Rightarrow> 'w link_os \<Rightarrow> 'w GenericS3 \<Rightarrow> string \<Rightarrow> string \<Rightarrow> 'w \<Rightarrow> 'w \<times> (go_error + Object)" where
  "generic_Get n os lk g url path w =
     (case generic_Stat os g url w of
        (w1, Inl err) \<Rightarrow> (w1, Inl err)
      | (w1, Inr obj) \<Rightarrow>
          (case generic_Parse g url of
             Inl err \<Rightarrow> (w1, Inl (as_error err))
           | Inr u \<Rightarrow>
               (case generic_isDir os g url (up_bucket u) (up_path u) w1 of
                  (w2, Inl err) \<Rightarrow> (w2, Inl (errorf_v (''genericS3: getting object from isDir '' @ url @ '': '') err))
                | (w2, Inr True) \<Rightarrow>
                    (case generic_List os g url w2 of
                       (w3, Inl err) \<Rightarrow> (w3, Inl err)
                     | (w3, Inr objects) \<Rightarrow>
                         (case generic_get_all (generic_GetObject n os lk g url path u) url path u objects w3 of
                            (w4, Some err) \<Rightarrow> (w4, Inl err)
                          | (w4, None) \<Rightarrow> (w4, Inr obj)))
                | (w2, Inr False) \<Rightarrow>
                    (case generic_GetObject n os lk g url path u (up_path u) path w2 of
                       (w3, Some err) \<Rightarrow> (w3, Inl err)
                     | (w3, None) \<Rightarrow> (w3, Inr obj)))))"

definition generic_PutObject ::
    "'w os \<Rightarrow> 'w link_os \<Rightarrow> 'w GenericS3 \<Rightarrow> string \<Rightarrow> urlparts \<Rightarrow> string \<Rightarrow> string \<Rightarrow> 'w \<Rightarrow> 'w \<times> go_error option" where
  "generic_PutObject os lk g url u sourcePath destPath w =
     (if IsThisBucketMounted g (up_bucket u)
      then (let localMountedPath = GetLocalMountedPath g destPath in
            case local_copyFile os lk sourcePath localMountedPath w of
              (w1, Some err) \<Rightarrow> (w1, Some (errorf_v (''genericS3: failed to copy file '' @ sourcePath @ '' to '' @ localMountedPath @ '': '') err))
            | (w1, None) \<Rightarrow> (w1, None))
      else (case mc_FPutObject (g_client g) (up_bucket u) destPath sourcePath (g_kmskeyId g) w of
              (w1, Some err) \<Rightarrow> (w1, Some (errorf_v (''genericS3: putting object '' @ url @ '': '') err))
            | (w1, None) \<Rightarrow> (w1, None)))"

text \<open>The callback of the walk over a directory, for the entries of the walk in order.\<close>

fun generic_put_all ::
    "'w os \<Rightarrow> 'w link_os \<Rightarrow> 'w GenericS3 \<Rightarrow> string \<Rightarrow> string \<Rightarrow> urlparts \<Rightarrow> (string \<times> FileInfo option \<times> go_error option) list \<Rightarrow>
     Object list \<Rightarrow> 'w \<Rightarrow> 'w \<times> (go_error + Object list)" where
  "generic_put_all os lk g url path u [] objs w = (w, Inr objs)"
| "generic_put_all os lk g url path u ((filePath, info, err) # es) objs w =
     (case err of
        Some e \<Rightarrow> (w, Inl e)
      | None \<Rightarrow>
          (case info of
             None \<Rightarrow> (w, Inl nil_deref)
           | Some fi \<Rightarrow>
               if fi_IsDir fi then generic_put_all os lk g url path u es objs w
               else (case filepath_Rel path filePath of
                       Inl e \<Rightarrow> (w, Inl e)
                     | Inr relativePath \<Rightarrow>
                         (case generic_PutObject os lk g url u filePath (path_Join [up_path u, relativePath]) w of
                            (w1, Some e) \<Rightarrow> (w1, Inl (errorf_v (''genericS3: putting nested object '' @ url @ '': '') e))
                          | (w1, None) \<Rightarrow>
                              (case mc_JoinPath (g_client g) url relativePath of
                                 Inl e \<Rightarrow> (w1, Inl (errorf_v (''genericS3: generating url for nested object '' @ url @ '' '' @ relativePath @ '': '') e))
                               | Inr fullUrl \<Rightarrow>
                                   (case generic_Stat os g fullUrl w1 of
                                      (w2, Inl e) \<Rightarrow> (w2, Inl e)
                                    | (w2, Inr obj) \<Rightarrow> generic_put_all os lk g url path u es (objs @ [obj]) w2))))))"

definition generic_Put :: "nat \<Rightarrow> 'w os \<Rightarrow> 'w link_os \<Rightarrow> 'w GenericS3 \<Rightarrow> string \<Rightarrow> string \<Rightarrow> 'w \<Rightarrow> 'w \<times> (go_error + Object list)" where
  "generic_Put n os lk g url path w =
     (case generic_Parse g url of
        Inl err \<Rightarrow> (w, Inl (as_error err))
      | Inr u \<Rightarrow>
          (case (if g_kmskeyId g \<noteq> '''' then mc_NewSSEKMS (g_client g) (g_kmskeyId g) else None) of
             Some err \<Rightarrow> (w, Inl (errorf_v ''genericS3: Put(): creating SSEKMS: '' err))
           | None \<Rightarrow>
               (case wait_readable n os (g_client g) path w of
                  (w1, Inl err) \<Rightarrow> (w1, Inl (errorf_v (''genericS3: putting object '' @ url @ '': '') err))
                | (w1, Inr fileInfo) \<Rightarrow>
                    if fi_IsDir fileInfo then generic_put_all os lk g url path u (os_Walk os path w1) [] w1
                    else (case generic_PutObject os lk g url u path (up_path u) w1 of
                            (w2, Some err) \<Rightarrow> (w2, Inl err)
                          | (w2, None) \<Rightarrow>
                              (case generic_Stat os g url w2 of (w3, Inl err) \<Rightarrow> (w3, Inl err) | (w3, Inr obj) \<Rightarrow> (w3, Inr [obj]))))))"

definition generic_Unsupported :: "'w GenericS3 \<Rightarrow> string \<Rightarrow> 'w \<Rightarrow> UnsupportedOperations" where
  "generic_Unsupported g url w =
     (case generic_Parse g url of
        Inl err \<Rightarrow> AllUnsupported err
      | Inr u \<Rightarrow>
          if IsThisBucketMounted g (up_bucket u) then AllSupported
          else (case mc_BucketExists (g_client g) (up_bucket u) w of
                  Inl err \<Rightarrow> AllUnsupported (StorageErr (errorf_v (''genericS3: failed to find bucket '' @ fmt_q (up_bucket u) @ '': '') err))
                | Inr ok \<Rightarrow>
                    if \<not> ok then AllUnsupported (StorageErr (Errorf (''genericS3: bucket does not exist: '' @ fmt_q (up_bucket u))))
                    else AllSupported))"

section \<open>Amazon S3\<close>

text \<open>
  The expression \<open>^s3.*\.amazonaws\.com/\<close> is greedy: with \<open>s3\<close> in front it takes off everything up to the
  last occurrence of the host name in the first line.
\<close>

fun after_last :: "string \<Rightarrow> string \<Rightarrow> string option" where
  "after_last pat [] = None"
| "after_last pat (c # cs) =
     (case (if c = CHR 0x0A then None else after_last pat cs) of
        Some r \<Rightarrow> Some r
      | None \<Rightarrow> if HasPrefix (c # cs) pat then Some (drop (length pat) (c # cs)) else None)"

definition strip_host :: "string \<Rightarrow> string" where
  "strip_host path =
     (if HasPrefix path ''s3''
      then (case after_last ''.amazonaws.com/'' (drop 2 path) of Some r \<Rightarrow> r | None \<Rightarrow> path)
      else path)"

text \<open>The key of the customer is given by its algorithm, the key and its checksum, which are set together.\<close>

record HeadOutput =
  ho_LastModified :: "string option"
  ho_ETag :: "string option"
  ho_ContentLength :: "int option"

record ListedObject =
  lo_Key :: "string option"
  lo_ETag :: "string option"
  lo_LastModified :: "string option"
  lo_Size :: "int option"

type_synonym sse_key = "(string \<times> string \<times> string) option"

record 'w aws_s3 =
  as_GetBucketRegion :: "string \<Rightarrow> 'w \<Rightarrow> go_error + string"
  as_HeadObject :: "string \<Rightarrow> string \<Rightarrow> string \<Rightarrow> sse_key \<Rightarrow> 'w \<Rightarrow> 'w \<times> (go_error + HeadOutput)"
  as_ListPages :: "string \<Rightarrow> string \<Rightarrow> string \<Rightarrow> 'w \<Rightarrow> 'w \<times> ListedObject list \<times> go_error option"
  as_Download :: "string \<Rightarrow> string \<Rightarrow> string \<Rightarrow> sse_key \<Rightarrow> string \<Rightarrow> 'w \<Rightarrow> 'w \<times> go_error option"
  as_Upload :: "string \<Rightarrow> string \<Rightarrow> string \<Rightarrow> sse_key \<Rightarrow> (string \<times> string) option \<Rightarrow> string option \<Rightarrow> 'w \<Rightarrow> 'w \<times> go_error option"
  as_Close :: "string \<Rightarrow> 'w \<Rightarrow> 'w \<times> go_error option"

record 'w AmazonS3 =
  a_client :: "'w aws_s3"
  a_endpoint :: string
  a_region :: string
  a_customer :: sse_key
  a_kms :: "(string \<times> string) option"

record AmazonS3Conf =
  ac_Endpoint :: string
  ac_Region :: string
  ac_SSE :: "(string \<times> string) option"

text \<open>The configuration of the encryption names a key file and a KMS key; \<open>checksum\<close> is the encoded MD5 sum.\<close>

definition NewAmazonS3 ::
    "(go_error + 'w aws_s3) \<Rightarrow> (string \<Rightarrow> go_error + string) \<Rightarrow> (string \<Rightarrow> string) \<Rightarrow> AmazonS3Conf \<Rightarrow> go_error + 'w AmazonS3" where
  "NewAmazonS3 sess readFile checksum conf =
     (case sess of
        Inl err \<Rightarrow> Inl (errorf_v ''error creating amazon s3 backend: '' err)
      | Inr client \<Rightarrow>
          (let endpoint = (if ac_Endpoint conf \<noteq> '''' then ParseEndpoint (ac_Endpoint conf) else '''');
               (keyFile, kmsKey) = (case ac_SSE conf of None \<Rightarrow> ('''', '''') | Some k \<Rightarrow> k)
           in if keyFile \<noteq> '''' \<and> kmsKey \<noteq> '''' then Inl (Errorf ''invalid SSE config: can't provide both Customer and KMS keys'')
              else case (if keyFile = '''' then Inr None else
                           case readFile keyFile of
                             Inl err \<Rightarrow> Inl (errorf_v ''error reading sse-c file: '' err)
                           | Inr key \<Rightarrow> Inr (Some (''AES256'', key, checksum key))) of
                     Inl err \<Rightarrow> Inl err
                   | Inr customer \<Rightarrow>
                       Inr \<lparr>a_client = client, a_endpoint = endpoint, a_region = ac_Region conf, a_customer = customer,
                            a_kms = (if kmsKey \<noteq> '''' then Some (''aws:kms'', kmsKey) else None)\<rparr>))"

definition amazon_parse :: "'w AmazonS3 \<Rightarrow> string \<Rightarrow> 'w \<Rightarrow> storage_error + urlparts \<times> string" where
  "amazon_parse a rawurl w =
     (if \<not> HasPrefix rawurl s3Protocol then Inl (ErrUnsupportedProtocol ''amazonS3'')
      else (let path0 = TrimPrefix rawurl s3Protocol;
                path = (if a_endpoint a \<noteq> '''' then TrimPrefix path0 (a_endpoint a) else strip_host path0) in
            if path = '''' then Inl (ErrInvalidURL ''amazonS3'')
            else (let url = split_parts path in
                  if a_endpoint a \<noteq> '''' \<and> a_region a \<noteq> '''' then Inr (url, a_region a)
                  else (case as_GetBucketRegion (a_client a) (up_bucket url) w of
                          Inl err \<Rightarrow> Inl (StorageErr (errorf_v (''amazonS3: failed to determine region for bucket '' @ fmt_q (up_bucket url) @ '': '') err))
                        | Inr region \<Rightarrow> Inr (url, region)))))"

definition head_object :: "string \<Rightarrow> string \<Rightarrow> HeadOutput \<Rightarrow> go_error + Object" where
  "head_object url path res =
     (case (ho_LastModified res, ho_ETag res, ho_ContentLength res) of
        (Some _, Some etag, Some len) \<Rightarrow> Inr \<lparr>obj_URL = url, obj_Name = path, obj_ETag = etag, obj_Size = len\<rparr>
      | _ \<Rightarrow> Inl nil_deref)"

text \<open>A request that fails with the key of the customer is sent again without it; the error is the first one.\<close>

definition amazon_Stat :: "'w AmazonS3 \<Rightarrow> string \<Rightarrow> 'w \<Rightarrow> 'w \<times> (go_error + Object)" where
  "amazon_Stat a url w =
     (case amazon_parse a url w of
        Inl err \<Rightarrow> (w, Inl (as_error err))
      | Inr (u, region) \<Rightarrow>
          (let c = a_client a; failed = (\<lambda>err. errorf_v (''amazonS3: calling stat on URL '' @ url @ '': '') err) in
           case as_HeadObject c region (up_bucket u) (up_path u) (a_customer a) w of
             (w1, Inr res) \<Rightarrow> (w1, head_object url (up_path u) res)
           | (w1, Inl err) \<Rightarrow>
               (case a_customer a of
                  None \<Rightarrow> (w1, Inl (failed err))
                | Some _ \<Rightarrow>
                    (case as_HeadObject c region (up_bucket u) (up_path u) None w1 of
                       (w2, Inl rerr) \<Rightarrow> (w2, Inl (failed err))
                     | (w2, Inr res) \<Rightarrow> (w2, head_object url (up_path u) res)))))"

text \<open>The callback over the pages: directory markers are left out, pointers are dereferenced.\<close>

fun listed_objects :: "urlparts \<Rightarrow> ListedObject list \<Rightarrow> go_error + Object list" where
  "listed_objects u [] = Inr []"
| "listed_objects u (x # xs) =
     (case lo_Key x of
        None \<Rightarrow> Inl nil_deref
      | Some key \<Rightarrow>
          if key = up_path u @ ''/'' \<or> HasSuffix key ''/'' then listed_objects u xs
          else (case (lo_ETag x, lo_LastModified x, lo_Size x) of
                  (Some etag, Some _, Some n) \<Rightarrow>
                    (case listed_objects u xs of
                       Inl err \<Rightarrow> Inl err
                     | Inr objs \<Rightarrow>
                         Inr (\<lparr>obj_URL = ''s3://'' @ up_bucket u @ ''/'' @ key, obj_Name = key, obj_ETag = etag, obj_Size = n\<rparr> # objs))
                | _ \<Rightarrow> Inl nil_deref))"

definition amazon_List :: "'w AmazonS3 \<Rightarrow> string \<Rightarrow> 'w \<Rightarrow> 'w \<times> (go_error + Object list)" where
  "amazon_List a url w =
     (case amazon_parse a url w of
        Inl err \<Rightarrow> (w, Inl (as_error err))
      | Inr (u, region) \<Rightarrow>
          (case as_ListPages (a_client a) region (up_bucket u) (up_path u) w of
             (w1, objs, err) \<Rightarrow>
               (w1, case listed_objects u objs of
                      Inl p \<Rightarrow> Inl p
                    | Inr objects \<Rightarrow> (case err of Some e \<Rightarrow> Inl e | None \<Rightarrow> Inr objects))))"

text \<open>Without a key of the customer nothing is sent again, and the error of the second request stays nil.\<close>

definition amazon_Get :: "'w os \<Rightarrow> 'w AmazonS3 \<Rightarrow> string \<Rightarrow> string \<Rightarrow> 'w \<Rightarrow> 'w \<times> (go_error + Object)" where
  "amazon_Get os a url path w =
     (case amazon_Stat a url w of
        (w1, Inl err) \<Rightarrow> (w1, Inl err)
      | (w1, Inr obj) \<Rightarrow>
          (case amazon_parse a url w1 of
             Inl err \<Rightarrow> (w1, Inl (as_error err))
           | Inr (u, region) \<Rightarrow>
               (case os_Create os path w1 of
                  (w2, Some err) \<Rightarrow> (w2, Inl (errorf_v ''amazonS3: creating file: '' err))
                | (w2, None) \<Rightarrow>
                    (let c = a_client a;
                         (w3, copyErr) = as_Download c region (up_bucket u) (up_path u) (a_customer a) path w2;
                         (w4, retryErr) = (if copyErr \<noteq> None \<and> a_customer a \<noteq> None
                           then as_Download c region (up_bucket u) (up_path u) None path w3 else (w3, None));
                         (w5, closeErr) = as_Close c path w4
                     in case (copyErr, retryErr) of
                          (Some err, Some _) \<Rightarrow> (w5, Inl (errorf_v ''amazonS3: copying file: '' err))
                        | _ \<Rightarrow>
                            (case closeErr of
                               Some err \<Rightarrow> (w5, Inl (errorf_v ''amazonS3: closing file: '' err))
                             | None \<Rightarrow> (w5, Inr obj))))))"

text \<open>With a wildcard in the path every match is opened, and the last one stays in the variable.\<close>

fun open_globs :: "'w os \<Rightarrow> string list \<Rightarrow> string option \<Rightarrow> 'w \<Rightarrow> go_error + string option" where
  "open_globs os [] hf w = Inr hf"
| "open_globs os (glob # globs) hf w =
     (case os_Open os glob w of
        Some err \<Rightarrow> Inl (errorf_v (''amazonS3: opening file '' @ glob @ '': '') err)
      | None \<Rightarrow> open_globs os globs (Some glob) w)"

definition upload_body :: "'w os \<Rightarrow> string \<Rightarrow> 'w \<Rightarrow> go_error + string option" where
  "upload_body os path w =
     (if Contains path ''*''
      then (case os_Glob os path w of
              Inl err \<Rightarrow> Inl (errorf_v (''amazonS3: failed to resolve path '' @ path @ '': '') err)
            | Inr globs \<Rightarrow> open_globs os globs None w)
      else open_globs os [path] None w)"

definition amazon_Put :: "'w os \<Rightarrow> 'w AmazonS3 \<Rightarrow> string \<Rightarrow> string \<Rightarrow> 'w \<Rightarrow> 'w \<times> (go_error + Object list)" where
  "amazon_Put os a url path w =
     (case amazon_parse a url w of
        Inl err \<Rightarrow> (w, Inl (as_error err))
      | Inr (u, region) \<Rightarrow>
          (case upload_body os path w of
             Inl err \<Rightarrow> (w, Inl err)
           | Inr body \<Rightarrow>
               (case as_Upload (a_client a) region (up_bucket u) (up_path u) (a_customer a) (a_kms a) body w of
                  (w1, Some err) \<Rightarrow> (w1, Inl (errorf_v ''amazonS3: copying file: '' err))
                | (w1, None) \<Rightarrow> (case amazon_Stat a url w1 of (w2, Inl err) \<Rightarrow> (w2, Inl err) | (w2, Inr obj) \<Rightarrow> (w2, Inr [obj])))))"

definition amazon_Unsupported :: "'w AmazonS3 \<Rightarrow> string \<Rightarrow> 'w \<Rightarrow> UnsupportedOperations" where
  "amazon_Unsupported a url w = (case amazon_parse a url w of Inl err \<Rightarrow> AllUnsupported err | Inr _ \<Rightarrow> AllSupported)"

text \<open>The backend as the multiplexer sees it.\<close>

definition amazon_Storage :: "'w os \<Rightarrow> 'w AmazonS3 \<Rightarrow> 'w Storage" where
  "amazon_Storage os a = \<lparr>
     st_Stat = (\<lambda>_. amazon_Stat a), st_List = (\<lambda>_. amazon_List a), st_Get = (\<lambda>_. amazon_Get os a), st_Put = (\<lambda>_. amazon_Put os a),
     st_Join = (\<lambda>url path w. Inr (join_url url path)), st_Unsupported = amazon_Unsupported a\<rparr>"

section \<open>Swift\<close>

record 'w swift =
  sw_Object :: "string \<Rightarrow> string \<Rightarrow> 'w \<Rightarrow> 'w \<times> (go_error + ObjectInfo)"
  sw_ObjectsAll :: "string \<Rightarrow> string \<Rightarrow> 'w \<Rightarrow> 'w \<times> (go_error + ObjectInfo list)"
  sw_ObjectOpen :: "string \<Rightarrow> string \<Rightarrow> 'w \<Rightarrow> 'w \<times> go_error option"
  sw_Receive :: "ctx_err \<Rightarrow> string \<Rightarrow> string \<Rightarrow> string \<Rightarrow> 'w \<Rightarrow> 'w \<times> go_error option"
  sw_ObjectCreate :: "string \<Rightarrow> string \<Rightarrow> int option \<Rightarrow> 'w \<Rightarrow> 'w \<times> go_error option"
  sw_Send :: "ctx_err \<Rightarrow> string \<Rightarrow> string \<Rightarrow> string \<Rightarrow> 'w \<Rightarrow> 'w \<times> go_error option"
  sw_CloseObject :: "string \<Rightarrow> string \<Rightarrow> 'w \<Rightarrow> 'w \<times> go_error option"
  sw_CloseFile :: "string \<Rightarrow> 'w \<Rightarrow> 'w \<times> go_error option"
  sw_Container :: "string \<Rightarrow> 'w \<Rightarrow> go_error option"
  sw_named :: "go_error \<Rightarrow> bool"
  sw_StatusCode :: "go_error \<Rightarrow> int option"

record 'w Swift =
  s_conn :: "'w swift"
  s_chunkSize :: int
  s_GB :: int

text \<open>The units of the library are arguments; \<open>env\<close> is the connection with the environment applied.\<close>

definition swift_chunk :: "int \<Rightarrow> int \<Rightarrow> int \<Rightarrow> int" where
  "swift_chunk mb gb bytes = (if bytes < 100 * mb then 500 * mb else if 5 * gb < bytes then 5 * gb else bytes)"

definition NewSwift :: "int \<Rightarrow> int \<Rightarrow> go_error + 'w swift \<Rightarrow> int \<Rightarrow> go_error + 'w Swift" where
  "NewSwift mb gb env chunkSizeBytes =
     (case env of
        Inl err \<Rightarrow> Inl err
      | Inr conn \<Rightarrow> Inr \<lparr>s_conn = conn, s_chunkSize = swift_chunk mb gb chunkSizeBytes, s_GB = gb\<rparr>)"

definition swift_shouldRetry :: "'w swift \<Rightarrow> go_error \<Rightarrow> bool" where
  "swift_shouldRetry c err =
     (case err of SwiftError msg url e \<Rightarrow> sw_named c e \<or> sw_StatusCode c e = Some 503 | _ \<Rightarrow> False)"

definition swift_parse :: "string \<Rightarrow> storage_error + urlparts" where
  "swift_parse rawurl =
     (if \<not> HasPrefix rawurl swiftProtocol then Inl (ErrUnsupportedProtocol ''swift'')
      else (let path = TrimPrefix rawurl swiftProtocol in if path = '''' then Inl (ErrInvalidURL ''swift'') else Inr (split_parts path)))"

definition swift_Stat :: "'w Swift \<Rightarrow> string \<Rightarrow> 'w \<Rightarrow> 'w \<times> (go_error + Object)" where
  "swift_Stat sw url w =
     (case swift_parse url of
        Inl err \<Rightarrow> (w, Inl (as_error err))
      | Inr u \<Rightarrow>
          (case sw_Object (s_conn sw) (up_bucket u) (up_path u) w of
             (w1, Inl err) \<Rightarrow> (w1, Inl (SwiftError ''getting object info'' url err))
           | (w1, Inr info) \<Rightarrow> (w1, Inr \<lparr>obj_URL = url, obj_Name = oi_Key info, obj_ETag = oi_ETag info, obj_Size = oi_Size info\<rparr>)))"

definition swift_List :: "'w Swift \<Rightarrow> string \<Rightarrow> 'w \<Rightarrow> 'w \<times> (go_error + Object list)" where
  "swift_List sw url w =
     (case swift_parse url of
        Inl err \<Rightarrow> (w, Inl (as_error err))
      | Inr u \<Rightarrow>
          (case sw_ObjectsAll (s_conn sw) (up_bucket u) (up_path u) w of
             (w1, Inl err) \<Rightarrow> (w1, Inl (SwiftError ''listing objects by prefix'' url err))
           | (w1, Inr infos) \<Rightarrow> (w1, Inr (map (info_object (swiftProtocol @ up_bucket u @ ''/'')) infos))))"

definition swift_Get :: "'w os \<Rightarrow> 'w Swift \<Rightarrow> ctx_err \<Rightarrow> string \<Rightarrow> string \<Rightarrow> 'w \<Rightarrow> 'w \<times> (go_error + Object)" where
  "swift_Get os sw ctx url path w =
     (case swift_parse url of
        Inl err \<Rightarrow> (w, Inl (as_error err))
      | Inr u \<Rightarrow>
          (case swift_Stat sw url w of
             (w1, Inl err) \<Rightarrow> (w1, Inl err)
           | (w1, Inr obj) \<Rightarrow>
               (case sw_ObjectOpen (s_conn sw) (up_bucket u) (up_path u) w1 of
                  (w2, Some err) \<Rightarrow> (w2, Inl (SwiftError ''initiating download'' url err))
                | (w2, None) \<Rightarrow>
                    (case os_Create os path w2 of
                       (w3, Some err) \<Rightarrow> (w3, Inl (SwiftError ''creating file'' url err))
                     | (w3, None) \<Rightarrow>
                         (let (w4, copyErr) = sw_Receive (s_conn sw) ctx (up_bucket u) (up_path u) path w3;
                              (w5, closeErr) = sw_CloseFile (s_conn sw) path w4
                          in (w5, case (copyErr, closeErr) of
                                    (Some err, _) \<Rightarrow> Inl (SwiftError ''copying file'' url err)
                                  | (None, Some err) \<Rightarrow> Inl (SwiftError ''closing file'' url err)
                                  | (None, None) \<Rightarrow> Inr obj))))))"

text \<open>Files of five gigabytes and more are sent in chunks.\<close>

definition swift_Put :: "'w os \<Rightarrow> 'w Swift \<Rightarrow> ctx_err \<Rightarrow> string \<Rightarrow> string \<Rightarrow> 'w \<Rightarrow> 'w \<times> (go_error + Object list)" where
  "swift_Put os sw ctx url path w =
     (case swift_parse url of
        Inl err \<Rightarrow> (w, Inl (as_error err))
      | Inr u \<Rightarrow>
          (case os_Open os path w of
             Some err \<Rightarrow> (w, Inl (SwiftError ''opening host file'' url err))
           | None \<Rightarrow>
               (let chunks = (if FileSize os path w < 5 * s_GB sw then None else Some (s_chunkSize sw)) in
                case sw_ObjectCreate (s_conn sw) (up_bucket u) (up_path u) chunks w of
                  (w1, Some err) \<Rightarrow> (w1, Inl (SwiftError ''creating object'' url err))
                | (w1, None) \<Rightarrow>
                    (let (w2, copyErr) = sw_Send (s_conn sw) ctx (up_bucket u) (up_path u) path w1;
                         (w3, closeErr) = sw_CloseObject (s_conn sw) (up_bucket u) (up_path u) w2
                     in case (copyErr, closeErr) of
                          (Some err, _) \<Rightarrow> (w3, Inl (SwiftError ''copying file'' url err))
                        | (None, Some err) \<Rightarrow> (w3, Inl (SwiftError ''closing file'' url err))
                        | (None, None) \<Rightarrow>
                            (case swift_Stat sw url w3 of (w4, Inl err) \<Rightarrow> (w4, Inl err) | (w4, Inr obj) \<Rightarrow> (w4, Inr [obj]))))))"

definition swift_Unsupported :: "'w Swift \<Rightarrow> string \<Rightarrow> 'w \<Rightarrow> UnsupportedOperations" where
  "swift_Unsupported sw url w =
     (case swift_parse url of
        Inl err \<Rightarrow> AllUnsupported err
      | Inr u \<Rightarrow>
          (case sw_Container (s_conn sw) (up_bucket u) w of
             Some err \<Rightarrow> AllUnsupported (StorageErr (SwiftError ''looking for bucket'' url err))
           | None \<Rightarrow> AllSupported))"

definition swift_Storage :: "'w os \<Rightarrow> 'w Swift \<Rightarrow> 'w Storage" where
  "swift_Storage os sw = \<lparr>
     st_Stat = (\<lambda>_. swift_Stat sw), st_List = (\<lambda>_. swift_List sw), st_Get = swift_Get os sw, st_Put = swift_Put os sw,
     st_Join = (\<lambda>url path w. Inr (join_url url path)), st_Unsupported = swift_Unsupported sw\<rparr>"

definition NewSwiftRetrier ::
    "('w \<times> Object option) retry_notify \<Rightarrow> ('w \<times> Object list option) retry_notify \<Rightarrow> 'w os \<Rightarrow> int \<Rightarrow> int \<Rightarrow> go_error + 'w swift \<Rightarrow> int \<Rightarrow> int \<Rightarrow>
     go_error + 'w Storage" where
  "NewSwiftRetrier RN RNs os mb gb env chunkSizeBytes maxRetries =
     (case NewSwift mb gb env chunkSizeBytes of
        Inl err \<Rightarrow> Inl err
      | Inr b \<Rightarrow>
          Inr (StorageRetrier RN RNs \<lparr>r_MaxTries = maxRetries, r_ShouldRetry = Some (swift_shouldRetry (s_conn b))\<rparr> (swift_Storage os b)))"

section \<open>Google Cloud Storage\<close>

record GsObject =
  go_Bucket :: string
  go_Name :: string
  go_Etag :: string
  go_Size :: int

record 'w gs_service =
  gs_Get :: "string \<Rightarrow> string \<Rightarrow> 'w \<Rightarrow> 'w \<times> (go_error + GsObject)"
  gs_Pages :: "string \<Rightarrow> string \<Rightarrow> 'w \<Rightarrow> 'w \<times> GsObject list \<times> go_error option"
  gs_Download :: "string \<Rightarrow> string \<Rightarrow> 'w \<Rightarrow> 'w \<times> go_error option"
  gs_Receive :: "ctx_err \<Rightarrow> string \<Rightarrow> string \<Rightarrow> string \<Rightarrow> 'w \<Rightarrow> 'w \<times> go_error option"
  gs_CloseFile :: "string \<Rightarrow> 'w \<Rightarrow> 'w \<times> go_error option"
  gs_Insert :: "ctx_err \<Rightarrow> string \<Rightarrow> string \<Rightarrow> string \<Rightarrow> 'w \<Rightarrow> 'w \<times> go_error option"
  gs_Bucket :: "string \<Rightarrow> 'w \<Rightarrow> go_error option"

text \<open>Creating the client: with a credentials file, which is read, or from the environment, whose failure is ignored.\<close>

definition NewGoogleCloud ::
    "(string \<Rightarrow> go_error + string) \<Rightarrow> (string \<Rightarrow> go_error + 'c) \<Rightarrow> (go_error + 'c) \<Rightarrow> 'c \<Rightarrow> ('c \<Rightarrow> go_error + 'w gs_service) \<Rightarrow> string \<Rightarrow>
     go_error + 'w gs_service" where
  "NewGoogleCloud readFile fromJSON defaultClient emptyClient newService credentialsFile =
     (case (if credentialsFile \<noteq> ''''
            then (case readFile credentialsFile of
                    Inl err \<Rightarrow> Inl err
                  | Inr bytes \<Rightarrow> (case fromJSON bytes of Inl err \<Rightarrow> Inl err | Inr client \<Rightarrow> Inr client))
            else (case defaultClient of Inl _ \<Rightarrow> Inr emptyClient | Inr client \<Rightarrow> Inr client)) of
        Inl err \<Rightarrow> Inl err
      | Inr client \<Rightarrow> newService client)"

definition google_parse :: "string \<Rightarrow> storage_error + urlparts" where
  "google_parse rawurl =
     (if \<not> HasPrefix rawurl gsProtocol then Inl (ErrUnsupportedProtocol ''googleStorage'')
      else (let path = TrimPrefix rawurl gsProtocol in if path = '''' then Inl (ErrInvalidURL ''googleStorage'') else Inr (split_parts path)))"

definition google_Stat :: "'w gs_service \<Rightarrow> string \<Rightarrow> 'w \<Rightarrow> 'w \<times> (go_error + Object)" where
  "google_Stat gs url w =
     (case google_parse url of
        Inl err \<Rightarrow> (w, Inl (as_error err))
      | Inr u \<Rightarrow>
          (case gs_Get gs (up_bucket u) (up_path u) w of
             (w1, Inl err) \<Rightarrow> (w1, Inl (errorf_v (''googleStorage: calling stat on object '' @ url @ '': '') err))
           | (w1, Inr x) \<Rightarrow> (w1, Inr \<lparr>obj_URL = url, obj_Name = go_Name x, obj_ETag = go_Etag x, obj_Size = go_Size x\<rparr>)))"

definition google_List :: "'w gs_service \<Rightarrow> string \<Rightarrow> 'w \<Rightarrow> 'w \<times> (go_error + Object list)" where
  "google_List gs url w =
     (case google_parse url of
        Inl err \<Rightarrow> (w, Inl (as_error err))
      | Inr u \<Rightarrow>
          (case gs_Pages gs (up_bucket u) (up_path u) w of
             (w1, items, Some err) \<Rightarrow> (w1, Inl err)
           | (w1, items, None) \<Rightarrow>
               (w1, Inr (map (\<lambda>x. \<lparr>obj_URL = gsProtocol @ go_Bucket x @ ''/'' @ go_Name x, obj_Name = go_Name x, obj_ETag = go_Etag x,
                                   obj_Size = go_Size x\<rparr>) (filter (\<lambda>x. \<not> HasSuffix (go_Name x) ''/'') items)))))"

definition google_Get :: "'w os \<Rightarrow> 'w gs_service \<Rightarrow> ctx_err \<Rightarrow> string \<Rightarrow> string \<Rightarrow> 'w \<Rightarrow> 'w \<times> (go_error + Object)" where
  "google_Get os gs ctx url path w =
     (case google_Stat gs url w of
        (w1, Inl err) \<Rightarrow> (w1, Inl err)
      | (w1, Inr obj) \<Rightarrow>
          (case google_parse url of
             Inl err \<Rightarrow> (w1, Inl (as_error err))
           | Inr u \<Rightarrow>
               (case gs_Download gs (up_bucket u) (up_path u) w1 of
                  (w2, Some err) \<Rightarrow> (w2, Inl (errorf_v (''googleStorage: getting object '' @ url @ '': '') err))
                | (w2, None) \<Rightarrow>
                    (case os_Create os path w2 of
                       (w3, Some err) \<Rightarrow> (w3, Inl (errorf_v (''googleStorage: creating file '' @ path @ '': '') err))
                     | (w3, None) \<Rightarrow>
                         (let (w4, copyErr) = gs_Receive gs ctx (up_bucket u) (up_path u) path w3;
                              (w5, closeErr) = gs_CloseFile gs path w4
                          in (w5, case (copyErr, closeErr) of
                                    (Some err, _) \<Rightarrow> Inl (errorf_v ''googleStorage: copying file: '' err)
                                  | (None, Some err) \<Rightarrow> Inl (errorf_v ''googleStorage: closing file: '' err)
                                  | (None, None) \<Rightarrow> Inr obj))))))"

definition google_Put :: "'w os \<Rightarrow> 'w gs_service \<Rightarrow> ctx_err \<Rightarrow> string \<Rightarrow> string \<Rightarrow> 'w \<Rightarrow> 'w \<times> (go_error + Object list)" where
  "google_Put os gs ctx url path w =
     (case google_parse url of
        Inl err \<Rightarrow> (w, Inl (as_error err))
      | Inr u \<Rightarrow>
          (case os_Open os path w of
             Some err \<Rightarrow> (w, Inl (errorf_v ''googleStorage: opening file: '' err))
           | None \<Rightarrow>
               (case gs_Insert gs ctx (up_bucket u) (up_path u) path w of
                  (w1, Some err) \<Rightarrow> (w1, Inl (errorf_v (''googleStorage: uploading object '' @ url @ '': '') err))
                | (w1, None) \<Rightarrow> (case google_Stat gs url w1 of (w2, Inl err) \<Rightarrow> (w2, Inl err) | (w2, Inr x) \<Rightarrow> (w2, Inr [x])))))"

definition google_Unsupported :: "'w gs_service \<Rightarrow> string \<Rightarrow> 'w \<Rightarrow> UnsupportedOperations" where
  "google_Unsupported gs url w =
     (case google_parse url of
        Inl err \<Rightarrow> AllUnsupported err
      | Inr u \<Rightarrow>
          (case gs_Bucket gs (up_bucket u) w of
             Some err \<Rightarrow> AllUnsupported (StorageErr (errorf_v (''googleStorage: failed to find bucket: '' @ up_bucket u @ ''. error: '') err))
           | None \<Rightarrow> AllSupported))"

definition google_Storage :: "'w os \<Rightarrow> 'w gs_service \<Rightarrow> 'w Storage" where
  "google_Storage os gs = \<lparr>
     st_Stat = (\<lambda>_. google_Stat gs), st_List = (\<lambda>_. google_List gs), st_Get = google_Get os gs, st_Put = google_Put os gs,
     st_Join = (\<lambda>url path w. Inr (join_url url path)), st_Unsupported = google_Unsupported gs\<rparr>"

section \<open>FTP\<close>

datatype entry_type = EntryTypeFile | EntryTypeFolder | EntryTypeLink

record Entry =
  en_Name :: string
  en_Type :: entry_type
  en_Size :: int

text \<open>The parts of a parsed URL that are used; the user has a name and perhaps a password.\<close>

record FtpUrl =
  fu_Scheme :: string
  fu_Host :: string
  fu_Port :: string
  fu_Path :: string
  fu_User :: "(string \<times> string option) option"

record 'w ftp =
  ft_Parse :: "string \<Rightarrow> go_error + FtpUrl"
  ft_Dial :: "string \<Rightarrow> 'w \<Rightarrow> 'w \<times> go_error option"
  ft_Login :: "string \<Rightarrow> string \<Rightarrow> 'w \<Rightarrow> 'w \<times> go_error option"
  ft_Close :: "'w \<Rightarrow> 'w"
  ft_List :: "string \<Rightarrow> 'w \<Rightarrow> 'w \<times> (go_error + Entry list)"
  ft_Retr :: "string \<Rightarrow> 'w \<Rightarrow> 'w \<times> go_error option"
  ft_Receive :: "ctx_err \<Rightarrow> string \<Rightarrow> string \<Rightarrow> 'w \<Rightarrow> 'w \<times> go_error option"
  ft_CloseFile :: "string \<Rightarrow> 'w \<Rightarrow> 'w \<times> go_error option"
  ft_ChangeDir :: "string \<Rightarrow> 'w \<Rightarrow> 'w \<times> go_error option"
  ft_MakeDir :: "string \<Rightarrow> 'w \<Rightarrow> 'w \<times> go_error option"
  ft_Stor :: "string \<Rightarrow> string \<Rightarrow> 'w \<Rightarrow> 'w \<times> go_error option"
  ft_unavailable :: "go_error \<Rightarrow> bool"
  ft_User :: string
  ft_Password :: string

definition ftp_supportsPrefix :: "string \<Rightarrow> storage_error option" where
  "ftp_supportsPrefix url =
     (if \<not> HasPrefix url ''ftp://'' \<and> \<not> HasPrefix url ''sftp://'' then Some (ErrUnsupportedProtocol ''ftpStorage'') else None)"

definition ftp_Unsupported :: "string \<Rightarrow> UnsupportedOperations" where
  "ftp_Unsupported url = (case ftp_supportsPrefix url of Some err \<Rightarrow> AllUnsupported err | None \<Rightarrow> AllSupported)"

definition ftp_host :: "FtpUrl \<Rightarrow> string" where
  "ftp_host u = (if fu_Port u = '''' then fu_Host u @ (if fu_Scheme u = ''sftp'' then '':22'' else '':21'') else fu_Host u)"

definition ftp_login :: "'w ftp \<Rightarrow> FtpUrl \<Rightarrow> string \<times> string" where
  "ftp_login c u = (case fu_User u of None \<Rightarrow> (ft_User c, ft_Password c) | Some (name, p) \<Rightarrow> (name, case p of None \<Rightarrow> '''' | Some q \<Rightarrow> q))"

definition ftp_parsed :: "'w ftp \<Rightarrow> string \<Rightarrow> go_error + FtpUrl" where
  "ftp_parsed c url = (case ft_Parse c url of Inl err \<Rightarrow> Inl (errorf_v ''ftpStorage: parsing URL: '' err) | Inr u \<Rightarrow> Inr u)"

definition ftp_connect :: "'w ftp \<Rightarrow> string \<Rightarrow> 'w \<Rightarrow> 'w \<times> go_error option" where
  "ftp_connect c url w =
     (case ftp_parsed c url of
        Inl err \<Rightarrow> (w, Some err)
      | Inr u \<Rightarrow>
          (case ft_Dial c (ftp_host u) w of
             (w1, Some err) \<Rightarrow> (w1, Some (errorf_v ''ftpStorage: connecting to server: '' err))
           | (w1, None) \<Rightarrow>
               (case ftp_login c u of
                  (user, pass) \<Rightarrow>
                    (case ft_Login c user pass w1 of
                       (w2, Some err) \<Rightarrow> (w2, Some (errorf_v ''ftpStorage: logging in: '' err))
                     | (w2, None) \<Rightarrow> (w2, None)))))"

definition file_object :: "string \<Rightarrow> FtpUrl \<Rightarrow> Entry \<Rightarrow> Object" where
  "file_object url u r = \<lparr>obj_URL = url, obj_Name = TrimPrefix (fu_Path u) ''/'', obj_ETag = '''', obj_Size = en_Size r\<rparr>"

definition ftp_client_Stat :: "'w ftp \<Rightarrow> string \<Rightarrow> 'w \<Rightarrow> 'w \<times> (go_error + Object)" where
  "ftp_client_Stat c url w =
     (case ftp_parsed c url of
        Inl err \<Rightarrow> (w, Inl err)
      | Inr u \<Rightarrow>
          (case ft_List c (fu_Path u) w of
             (w1, Inl err) \<Rightarrow> (w1, Inl (errorf_v (''ftpStorage: listing path: '' @ fmt_q (fu_Path u) @ '' '') err))
           | (w1, Inr [r]) \<Rightarrow>
               (w1, if en_Type r \<noteq> EntryTypeFile then Inl (Errorf (''ftpStorage: stat on non-regular file type: '' @ url))
                    else Inr (file_object url u r))
           | (w1, Inr _) \<Rightarrow> (w1, Inl (Errorf (''ftpStorage: object not found: '' @ url)))))"

definition ftp_client_Get :: "'w os \<Rightarrow> 'w ftp \<Rightarrow> ctx_err \<Rightarrow> string \<Rightarrow> string \<Rightarrow> 'w \<Rightarrow> 'w \<times> (go_error + Object)" where
  "ftp_client_Get os c ctx url path w =
     (case ftp_client_Stat c url w of
        (w1, Inl err) \<Rightarrow> (w1, Inl err)
      | (w1, Inr obj) \<Rightarrow>
          (case ft_Retr c (obj_Name obj) w1 of
             (w2, Some err) \<Rightarrow> (w2, Inl (errorf_v ''ftpStorage: executing RETR request: '' err))
           | (w2, None) \<Rightarrow>
               (case os_Create os path w2 of
                  (w3, Some err) \<Rightarrow> (w3, Inl (errorf_v ''ftpStorage: creating host file: '' err))
                | (w3, None) \<Rightarrow>
                    (let (w4, copyErr) = ft_Receive c ctx (obj_Name obj) path w3;
                         (w5, closeErr) = ft_CloseFile c path w4
                     in (w5, case (copyErr, closeErr) of
                               (Some err, _) \<Rightarrow> Inl (errorf_v ''ftpStorage: copying file: '' err)
                             | (None, Some err) \<Rightarrow> Inl (errorf_v ''ftpStorage: closing file: '' err)
                             | (None, None) \<Rightarrow> Inr obj)))))"

text \<open>A directory that is missing is created; that it was created meanwhile by another process is allowed for.\<close>

definition ftp_enter :: "'w ftp \<Rightarrow> string \<Rightarrow> 'w \<Rightarrow> 'w \<times> go_error option" where
  "ftp_enter c dir w =
     (case ft_ChangeDir c dir w of
        (w1, None) \<Rightarrow> (w1, None)
      | (w1, Some err) \<Rightarrow>
          if ft_unavailable c err
          then (case ft_MakeDir c dir w1 of
                  (w2, None) \<Rightarrow> ft_ChangeDir c dir w2
                | (w2, Some err2) \<Rightarrow> if ft_unavailable c err2 then ft_ChangeDir c dir w2 else (w2, Some err2))
          else (w1, Some err))"

fun ftp_enter_all :: "'w ftp \<Rightarrow> string list \<Rightarrow> 'w \<Rightarrow> 'w \<times> go_error option" where
  "ftp_enter_all c [] w = (w, None)"
| "ftp_enter_all c (dir # dirs) w =
     (case ftp_enter c dir w of
        (w1, Some err) \<Rightarrow> (w1, Some (errorf_v (''ftpStorage: changing directory to '' @ fmt_q dir @ '': '') err))
      | (w1, None) \<Rightarrow> ftp_enter_all c dirs w1)"

definition trim_slashes :: "string \<Rightarrow> string" where
  "trim_slashes s = rev (dropWhile (\<lambda>c. c = CHR ''/'') (rev (dropWhile (\<lambda>c. c = CHR ''/'') s)))"

definition ftp_client_Put :: "'w os \<Rightarrow> 'w ftp \<Rightarrow> string \<Rightarrow> string \<Rightarrow> 'w \<Rightarrow> 'w \<times> (go_error + Object list)" where
  "ftp_client_Put os c url hostPath w =
     (case ftp_parsed c url of
        Inl err \<Rightarrow> (w, Inl err)
      | Inr u \<Rightarrow>
          (case os_Open os hostPath w of
             Some err \<Rightarrow> (w, Inl (errorf_v (''ftpStorage: opening host file for '' @ fmt_q url @ '': '') err))
           | None \<Rightarrow>
               (case path_Split (fu_Path u) of
                  (dirpath, name) \<Rightarrow>
                    (case (if dirpath \<noteq> '''' then ftp_enter_all c (Split CHR ''/'' (trim_slashes dirpath)) w else (w, None)) of
                       (w1, Some err) \<Rightarrow> (w1, Inl err)
                     | (w1, None) \<Rightarrow>
                         (case ft_Stor c name hostPath w1 of
                            (w2, Some err) \<Rightarrow> (w2, Inl (errorf_v (''ftpStorage: uploading file for '' @ fmt_q url @ '': '') err))
                          | (w2, None) \<Rightarrow>
                              (case ftp_client_Stat c url w2 of (w3, Inl err) \<Rightarrow> (w3, Inl err) | (w3, Inr obj) \<Rightarrow> (w3, Inr [obj])))))))"

text \<open>
  Listing descends into the directories of the server, to a bounded depth; the loop over the entries
  is given the listing of a directory.
\<close>

fun ftp_entries ::
    "(string \<Rightarrow> 'w \<Rightarrow> ('w \<times> (go_error + Object list)) option) \<Rightarrow> string \<Rightarrow> FtpUrl \<Rightarrow> Entry list \<Rightarrow> Object list \<Rightarrow> 'w \<Rightarrow>
     ('w \<times> (go_error + Object list)) option" where
  "ftp_entries sub url u [] objects w = Some (w, Inr objects)"
| "ftp_entries sub url u (r # rs) objects w =
     (case en_Type r of
        EntryTypeFolder \<Rightarrow>
          if en_Name r = ''.'' \<or> en_Name r = ''..'' then ftp_entries sub url u rs objects w
          else (case sub (join_url url (en_Name r)) w of
                  None \<Rightarrow> None
                | Some (w1, Inl err) \<Rightarrow> Some (w1, Inl err)
                | Some (w1, Inr objs) \<Rightarrow> ftp_entries sub url u rs (objects @ objs) w1)
      | EntryTypeLink \<Rightarrow> ftp_entries sub url u rs objects w
      | EntryTypeFile \<Rightarrow>
          ftp_entries sub url u rs
            (objects @ [\<lparr>obj_URL = join_url url (en_Name r), obj_Name = TrimPrefix (path_Join [fu_Path u, en_Name r]) ''/'', obj_ETag = '''',
               obj_Size = en_Size r\<rparr>]) w)"

fun ftp_client_List :: "nat \<Rightarrow> 'w ftp \<Rightarrow> string \<Rightarrow> 'w \<Rightarrow> ('w \<times> (go_error + Object list)) option" where
  "ftp_client_List 0 c url w = None"
| "ftp_client_List (Suc n) c url w =
     (case ftp_parsed c url of
        Inl err \<Rightarrow> Some (w, Inl err)
      | Inr u \<Rightarrow>
          (case ft_List c (fu_Path u) w of
             (w1, Inl err) \<Rightarrow> Some (w1, Inl (errorf_v (''ftpStorage: listing path: '' @ fmt_q (fu_Path u) @ '' '') err))
           | (w1, Inr resp) \<Rightarrow>
               if length resp = 1 \<and> en_Type (hd resp) = EntryTypeFile then Some (w1, Inr [file_object url u (hd resp)])
               else ftp_entries (ftp_client_List n c) url u resp [] w1))"

text \<open>The operations of the backend open a connection of their own and close it.\<close>

definition ftp_session :: "'w ftp \<Rightarrow> string \<Rightarrow> ('w \<Rightarrow> 'w \<times> (go_error + 'a)) \<Rightarrow> 'w \<Rightarrow> 'w \<times> (go_error + 'a)" where
  "ftp_session c url f w =
     (case ftp_connect c url w of
        (w1, Some err) \<Rightarrow> (w1, Inl err)
      | (w1, None) \<Rightarrow> (case f w1 of (w2, r) \<Rightarrow> (ft_Close c w2, r)))"

definition ftp_Stat :: "'w ftp \<Rightarrow> string \<Rightarrow> 'w \<Rightarrow> 'w \<times> (go_error + Object)" where
  "ftp_Stat c url = ftp_session c url (ftp_client_Stat c url)"

definition ftp_Get :: "'w os \<Rightarrow> 'w ftp \<Rightarrow> ctx_err \<Rightarrow> string \<Rightarrow> string \<Rightarrow> 'w \<Rightarrow> 'w \<times> (go_error + Object)" where
  "ftp_Get os c ctx url path = ftp_session c url (ftp_client_Get os c ctx url path)"

definition ftp_Put :: "'w os \<Rightarrow> 'w ftp \<Rightarrow> string \<Rightarrow> string \<Rightarrow> 'w \<Rightarrow> 'w \<times> (go_error + Object list)" where
  "ftp_Put os c url hostPath = ftp_session c url (ftp_client_Put os c url hostPath)"

definition ftp_List :: "nat \<Rightarrow> 'w ftp \<Rightarrow> string \<Rightarrow> 'w \<Rightarrow> ('w \<times> (go_error + Object list)) option" where
  "ftp_List n c url w =
     (case ftp_connect c url w of
        (w1, Some err) \<Rightarrow> Some (w1, Inl err)
      | (w1, None) \<Rightarrow> (case ftp_client_List n c url w1 of None \<Rightarrow> None | Some (w2, r) \<Rightarrow> Some (ft_Close c w2, r)))"

section \<open>HTTP\<close>

record Response =
  rs_StatusCode :: int
  rs_ContentLength :: int
  rs_ETag :: string

text \<open>\<open>hc_RequestURI\<close> parses a URL and gives what \<open>RequestURI\<close> makes of it; the context is not passed on to the request.\<close>

record 'w http_client =
  hc_RequestURI :: "string \<Rightarrow> go_error + string"
  hc_NewRequest :: "string \<Rightarrow> string \<Rightarrow> go_error option"
  hc_Do :: "string \<Rightarrow> string \<Rightarrow> 'w \<Rightarrow> 'w \<times> (go_error + Response)"
  hc_Receive :: "ctx_err \<Rightarrow> string \<Rightarrow> string \<Rightarrow> 'w \<Rightarrow> 'w \<times> go_error option"
  hc_CloseFile :: "string \<Rightarrow> 'w \<Rightarrow> 'w \<times> go_error option"

definition http_request :: "'w http_client \<Rightarrow> string \<Rightarrow> string \<Rightarrow> 'w \<Rightarrow> 'w \<times> (go_error + string \<times> Response)" where
  "http_request c meth url w =
     (case hc_RequestURI c url of
        Inl err \<Rightarrow> (w, Inl (errorf_v ''httpStorage: parsing URL: '' err))
      | Inr uri \<Rightarrow>
          (case hc_NewRequest c meth url of
             Some err \<Rightarrow> (w, Inl (errorf_v (''httpStorage: creating '' @ meth @ '' request: '') err))
           | None \<Rightarrow>
               (case hc_Do c meth url w of
                  (w1, Inl err) \<Rightarrow> (w1, Inl (errorf_v (''httpStorage: executing '' @ meth @ '' request: '') err))
                | (w1, Inr resp) \<Rightarrow>
                    (w1, if rs_StatusCode resp \<noteq> 200
                         then Inl (Errorf (''httpStorage: '' @ meth @ '' request returned status code: '' @ show_int (rs_StatusCode resp)))
                         else Inr (uri, resp)))))"

definition response_object :: "string \<Rightarrow> string \<Rightarrow> Response \<Rightarrow> Object" where
  "response_object url uri resp = \<lparr>obj_URL = url, obj_Name = uri, obj_ETag = rs_ETag resp, obj_Size = rs_ContentLength resp\<rparr>"

definition http_Stat :: "'w http_client \<Rightarrow> string \<Rightarrow> 'w \<Rightarrow> 'w \<times> (go_error + Object)" where
  "http_Stat c url w =
     (case http_request c ''HEAD'' url w of
        (w1, Inl err) \<Rightarrow> (w1, Inl err)
      | (w1, Inr (uri, resp)) \<Rightarrow> (w1, Inr (response_object url uri resp)))"

definition http_Get :: "'w os \<Rightarrow> 'w http_client \<Rightarrow> ctx_err \<Rightarrow> string \<Rightarrow> string \<Rightarrow> 'w \<Rightarrow> 'w \<times> (go_error + Object)" where
  "http_Get os c ctx url path w =
     (case http_request c ''GET'' url w of
        (w1, Inl err) \<Rightarrow> (w1, Inl err)
      | (w1, Inr (uri, resp)) \<Rightarrow>
          (case os_Create os path w1 of
             (w2, Some err) \<Rightarrow> (w2, Inl (errorf_v ''httpStorage: creating host file: '' err))
           | (w2, None) \<Rightarrow>
               (let (w3, copyErr) = hc_Receive c ctx url path w2;
                    (w4, closeErr) = hc_CloseFile c path w3
                in (w4, case (copyErr, closeErr) of
                          (Some err, _) \<Rightarrow> Inl (errorf_v ''httpStorage: copying file: '' err)
                        | (None, Some err) \<Rightarrow> Inl (errorf_v ''httpStorage: closing file: '' err)
                        | (None, None) \<Rightarrow> Inr (response_object url uri resp)))))"

section \<open>The configured backends\<close>

text \<open>A part of the configuration that is not valid is absent; otherwise it comes with what its constructor returns.\<close>

record 'w MuxConf =
  mx_Local :: "(go_error + 'w Storage) option"
  mx_AmazonS3 :: "(go_error + 'w Storage) option"
  mx_Google :: "(go_error + 'w Storage) option"
  mx_Swift :: "(go_error + 'w Storage) option"
  mx_GenericS3 :: "(go_error + 'w Storage) option list"
  mx_HTTP :: "(go_error + 'w Storage) option"
  mx_FTP :: "(go_error + 'w Storage) option"

fun add_backends :: "(string \<times> (go_error + 'w Storage) option) list \<Rightarrow> 'w Storage list \<Rightarrow> 'w Storage list \<times> go_error option" where
  "add_backends [] bs = (bs, None)"
| "add_backends ((what, c) # cs) bs =
     (case c of
        None \<Rightarrow> add_backends cs bs
      | Some (Inl err) \<Rightarrow> (bs, Some (errorf_v (''failed to '' @ what @ '' storage backend: '') err))
      | Some (Inr b) \<Rightarrow> add_backends cs (bs @ [b]))"

definition NewMux :: "'w MuxConf \<Rightarrow> 'w Storage list \<times> go_error option" where
  "NewMux conf =
     (case add_backends [(''configure local'', mx_Local conf), (''configure Amazon S3'', mx_AmazonS3 conf)] [] of
        (bs, Some err) \<Rightarrow> (bs, Some err)
      | (bs, None) \<Rightarrow>
          (case mx_Google conf of
             Some (Inl err) \<Rightarrow> (bs, Some (errorf_v ''failed to configure Google Storage backend: '' err))
           | g \<Rightarrow>
               add_backends ((''config Swift'', mx_Swift conf) # map (\<lambda>c. (''config generic S3'', c)) (mx_GenericS3 conf) @
                   [(''config http'', mx_HTTP conf), (''config ftp'', mx_FTP conf)])
                 (case g of Some (Inr b) \<Rightarrow> bs @ [b] | _ \<Rightarrow> bs)))"

section \<open>Lemmas: URLs\<close>

lemma split_parts_join: "CHR ''/'' \<notin> set b \<Longrightarrow> split_parts (b @ ''/'' @ p) = \<lparr>up_bucket = b, up_path = p\<rparr>"
  using cut_slash_join [of b p] by (simp add: split_parts_def)

lemma split_parts_bucket: "CHR ''/'' \<notin> set (up_bucket (split_parts p))"
  by (auto simp: split_parts_def cut_slash_def dest: set_takeWhileD)

lemma bucket_no_slash:
  "generic_Parse g url = Inr u \<Longrightarrow> CHR ''/'' \<notin> set (up_bucket u)"
  "swift_parse url = Inr u \<Longrightarrow> CHR ''/'' \<notin> set (up_bucket u)"
  using split_parts_bucket by (auto simp: generic_Parse_def swift_parse_def Let_def split: if_splits)

lemma swift_parse_join: "CHR ''/'' \<notin> set b \<Longrightarrow> swift_parse (swiftProtocol @ b @ ''/'' @ p) = Inr \<lparr>up_bucket = b, up_path = p\<rparr>"
  using split_parts_join [of b p] by (simp add: swift_parse_def)

lemma generic_Parse_join:
  "CHR ''/'' \<notin> set b \<Longrightarrow> \<not> HasPrefix (b @ ''/'' @ p) (g_endpoint g) \<Longrightarrow>
     generic_Parse g (s3Protocol @ b @ ''/'' @ p) = Inr \<lparr>up_bucket = b, up_path = p\<rparr>"
  using split_parts_join [of b p] TrimPrefix_id [of "b @ ''/'' @ p" "g_endpoint g"] by (simp add: generic_Parse_def Let_def)

text \<open>A path of the file system is no URL of the bucket.\<close>

lemma mounted_url: "generic_Parse g (local_Join (GetLocalMountedPath g url) p) = Inl (ErrUnsupportedProtocol ''genericS3'')"
proof -
  have "IsAbs (local_Join (GetLocalMountedPath g url) p)"
  proof -
    let ?q = "GetLocalMountedPath g url"
    have "\<not> HasPrefix ?q ''file://''" "?q \<noteq> ''''" "IsAbs (?q @ ''/'' @ p)"
      by (simp_all add: GetLocalMountedPath_def HasPrefix_def IsAbs_def)
    then show ?thesis by (simp add: local_Join_def path_Join_def Clean_rooted)
  qed
  then have "\<not> HasPrefix (local_Join (GetLocalMountedPath g url) p) s3Protocol"
    by (cases "local_Join (GetLocalMountedPath g url) p") (auto simp: IsAbs_def HasPrefix_def s3Protocol_def)
  then show ?thesis by (simp add: generic_Parse_def)
qed

text \<open>The greedy expression also strips a bucket, and the endpoint of the documentation is found.\<close>

lemma strip_host_examples:
  "strip_host ''s3.us-west-2.amazonaws.com/bucket/key'' = ''bucket/key''"
  "strip_host ''s3-data/mirror.amazonaws.com/key'' = ''key''"
  by (simp_all add: strip_host_def HasPrefix_def)

lemma ParseEndpoint_examples:
  "ParseEndpoint ''http://example.com/path/'' = ''example.com/path''"
  "ParseEndpoint ''https://example.com'' = ''example.com''"
  "ParseEndpoint ''example.com/path'' = ''example.com/path''"
  "ParseEndpoint '''' = ''''"
  by (simp_all add: ParseEndpoint_def endpoint_rest_def HasPrefix_def TrimPrefix_def rune_width_def byte_in_def)

lemma swift_chunk_bounds: "0 \<le> mb \<Longrightarrow> 500 * mb \<le> 5 * gb \<Longrightarrow> 100 * mb \<le> swift_chunk mb gb n \<and> swift_chunk mb gb n \<le> 5 * gb"
  by (simp add: swift_chunk_def)

text \<open>For a mounted bucket the objects of a directory are not told apart: each is copied from the directory to the path of the call.\<close>

lemma mounted_get_ignores_names:
  "IsThisBucketMounted g (up_bucket u) \<Longrightarrow>
     generic_GetObject n os lk g url path u sourcePath destPath = generic_GetObject n os lk g url path u sourcePath' destPath'"
  by (simp add: generic_GetObject_def fun_eq_iff)

text \<open>Of the files that match a wildcard only the last one is uploaded.\<close>

lemma open_globs_last: "open_globs os (globs @ [glob]) hf w = Inr r \<Longrightarrow> r = Some glob"
  by (induction globs arbitrary: hf) (auto split: option.splits)

text \<open>An operation that Amazon S3 reports as unsupported fails at once.\<close>

lemma amazon_Stat_unsupported: "amazon_parse a url w = Inl err \<Longrightarrow> amazon_Stat a url w = (w, Inl (as_error err))"
  by (simp add: amazon_Stat_def)

interpretation amazon_guard: guarded_storage "amazon_Storage os a" for os :: "'w os" and a
  by unfold_locales
    (auto simp: amazon_Storage_def amazon_Unsupported_def AllSupported_def amazon_Get_def amazon_Put_def amazon_Stat_unsupported split: sum.splits)

section \<open>Properties\<close>

text \<open>
  C32: what a listing returns can be fetched.  The URL of every object that the Swift and the generic
  S3 backend list parses back to the bucket of the listing and the name of the object, for S3 unless
  bucket and name begin like the endpoint; in the mounted bucket no listed URL is accepted by the
  backend, since the listing returns paths of the file system.
\<close>

theorem listed_urls_parse:
  "(swift_parse url = Inr u \<and> swift_List sw url w = (w', Inr objs) \<and> x \<in> set objs \<longrightarrow>
      swift_parse (obj_URL x) = Inr \<lparr>up_bucket = up_bucket u, up_path = obj_Name x\<rparr>) \<and>
   (generic_Parse g url = Inr u \<and> generic_List os g url w = (w', Inr objs) \<and> x \<in> set objs \<and> \<not> IsThisBucketMounted g (up_bucket u) \<and>
      \<not> HasPrefix (up_bucket u @ ''/'' @ obj_Name x) (g_endpoint g) \<longrightarrow>
      generic_Parse g (obj_URL x) = Inr \<lparr>up_bucket = up_bucket u, up_path = obj_Name x\<rparr>) \<and>
   (generic_Parse g url = Inr u \<and> generic_List os g url w = (w', Inr objs) \<and> x \<in> set objs \<and> IsThisBucketMounted g (up_bucket u) \<longrightarrow>
      generic_Parse g (obj_URL x) = Inl (ErrUnsupportedProtocol ''genericS3''))"
proof (intro conjI impI; elim conjE)
  assume "swift_parse url = Inr u" "swift_List sw url w = (w', Inr objs)" "x \<in> set objs"
  then show "swift_parse (obj_URL x) = Inr \<lparr>up_bucket = up_bucket u, up_path = obj_Name x\<rparr>"
    using swift_parse_join [OF bucket_no_slash(2)]
    by (auto simp: swift_List_def info_object_def split: prod.splits sum.splits)
next
  assume "generic_Parse g url = Inr u" "generic_List os g url w = (w', Inr objs)" "x \<in> set objs" "\<not> IsThisBucketMounted g (up_bucket u)"
    "\<not> HasPrefix (up_bucket u @ ''/'' @ obj_Name x) (g_endpoint g)"
  then show "generic_Parse g (obj_URL x) = Inr \<lparr>up_bucket = up_bucket u, up_path = obj_Name x\<rparr>"
    using generic_Parse_join [OF bucket_no_slash(1), unfolded s3Protocol_def]
    by (auto simp: generic_List_def info_object_def split: prod.splits sum.splits option.splits)
next
  assume "generic_Parse g url = Inr u" "generic_List os g url w = (w', Inr objs)" "x \<in> set objs" "IsThisBucketMounted g (up_bucket u)"
  then show "generic_Parse g (obj_URL x) = Inl (ErrUnsupportedProtocol ''genericS3'')"
    using mounted_url by (auto simp: generic_List_def local_List_def split: sum.splits)
qed

text \<open>Servers that hold one object.\<close>

definition one_object :: ObjectInfo where
  "one_object = \<lparr>oi_Key = ''dir/a.txt'', oi_ETag = ''e'', oi_Size = 3\<rparr>"

definition one_swift :: "unit Swift" where
  "one_swift = \<lparr>s_conn = \<lparr>sw_Object = (\<lambda>_ _ w. (w, Inr one_object)), sw_ObjectsAll = (\<lambda>_ _ w. (w, Inr [one_object])), sw_ObjectOpen = (\<lambda>_ _ w. (w, None)),
     sw_Receive = (\<lambda>_ _ _ _ w. (w, None)), sw_ObjectCreate = (\<lambda>_ _ _ w. (w, None)), sw_Send = (\<lambda>_ _ _ _ w. (w, None)),
     sw_CloseObject = (\<lambda>_ _ w. (w, None)), sw_CloseFile = (\<lambda>_ w. (w, None)), sw_Container = (\<lambda>_ _. None), sw_named = (\<lambda>_. False),
     sw_StatusCode = (\<lambda>_. None)\<rparr>, s_chunkSize = 5, s_GB = 1\<rparr>"

definition one_s3 :: "string \<Rightarrow> unit GenericS3" where
  "one_s3 mounted = \<lparr>g_client = \<lparr>mc_GetObject = (\<lambda>_ _ _ w. (w, None)), mc_StatObject = (\<lambda>_ _ w. (w, Inr one_object)),
     mc_ListObjects = (\<lambda>_ _ w. (w, [one_object], None)), mc_Copy = (\<lambda>_ _ _ w. (w, None)), mc_FPutObject = (\<lambda>_ _ _ _ w. (w, None)),
     mc_BucketExists = (\<lambda>_ _. Inr True), mc_NewSSEKMS = (\<lambda>_. None), mc_Close = (\<lambda>_ w. (w, None)), mc_flushing = (\<lambda>_. False),
     mc_Sleep = (\<lambda>w. w), mc_JoinPath = (\<lambda>url p. Inr (join_url url p))\<rparr>,
     g_endpoint = ''s3.example.com/'', g_kmskeyId = '''', g_MountedBucket = mounted\<rparr>"

definition one_os :: "unit os" where
  "one_os = quiet_os\<lparr>os_Walk := (\<lambda>p _. [(p @ ''/a.txt'', Some \<lparr>fi_IsDir = False, fi_Symlink = False, fi_Size = 3, fi_Name = ''a.txt''\<rparr>, None)])\<rparr>"

lemma one_s3_fields [simp]:
  "g_MountedBucket (one_s3 m) = m" "mc_ListObjects (g_client (one_s3 m)) b p w = (w, [one_object], None)" "g_endpoint (one_s3 m) = ''s3.example.com/''"
  by (simp_all add: one_s3_def)

theorem listed_urls_parse_witness:
  "(\<exists>x. swift_List one_swift ''swift://b/dir'' () = ((), Inr [x]) \<and> swift_parse (obj_URL x) = Inr \<lparr>up_bucket = ''b'', up_path = ''dir/a.txt''\<rparr>) \<and>
   (\<exists>x. generic_List one_os (one_s3 ''m'') ''s3://b/dir'' () = ((), Inr [x]) \<and>
      generic_Parse (one_s3 ''m'') (obj_URL x) = Inr \<lparr>up_bucket = ''b'', up_path = ''dir/a.txt''\<rparr>) \<and>
   (\<exists>x. generic_List one_os (one_s3 ''b'') ''s3://b/dir'' () = ((), Inr [x]) \<and>
      generic_Parse (one_s3 ''b'') (obj_URL x) = Inl (ErrUnsupportedProtocol ''genericS3''))"
proof (intro conjI)
  have parts: "swift_parse ''swift://b/dir'' = Inr \<lparr>up_bucket = ''b'', up_path = ''dir''\<rparr>"
    "generic_Parse (one_s3 m) ''s3://b/dir'' = Inr \<lparr>up_bucket = ''b'', up_path = ''dir''\<rparr>" for m
    by (simp_all add: swift_parse_def generic_Parse_def swiftProtocol_def s3Protocol_def split_parts_def cut_slash_def TrimPrefix_def HasPrefix_def)
  have lists: "swift_List one_swift ''swift://b/dir'' () = ((), Inr [info_object ''swift://b/'' one_object])"
    "generic_List one_os (one_s3 ''m'') ''s3://b/dir'' () = ((), Inr [info_object ''s3://b/'' one_object])"
    by (simp_all add: swift_List_def generic_List_def parts one_swift_def swiftProtocol_def IsThisBucketMounted_def one_object_def HasSuffix_def)
  from parts lists show "\<exists>x. swift_List one_swift ''swift://b/dir'' () = ((), Inr [x]) \<and> swift_parse (obj_URL x) = Inr \<lparr>up_bucket = ''b'', up_path = ''dir/a.txt''\<rparr>"
    using listed_urls_parse [of "''swift://b/dir''" "\<lparr>up_bucket = ''b'', up_path = ''dir''\<rparr>" one_swift "()" "()" "[info_object ''swift://b/'' one_object]"
        "info_object ''swift://b/'' one_object"]
    by (simp add: info_object_def one_object_def)
  from parts lists show "\<exists>x. generic_List one_os (one_s3 ''m'') ''s3://b/dir'' () = ((), Inr [x]) \<and>
      generic_Parse (one_s3 ''m'') (obj_URL x) = Inr \<lparr>up_bucket = ''b'', up_path = ''dir/a.txt''\<rparr>"
    using listed_urls_parse [of "''s3://b/dir''" "\<lparr>up_bucket = ''b'', up_path = ''dir''\<rparr>" one_swift "()" "()" "[info_object ''s3://b/'' one_object]"
        "info_object ''s3://b/'' one_object" "one_s3 ''m''" one_os]
    by (simp add: info_object_def one_object_def IsThisBucketMounted_def HasPrefix_def)
  let ?path = "''/opt/funnel/funnel-work-dir/dir''"
  let ?x = "\<lparr>obj_URL = ?path @ ''/a.txt'', obj_Name = ''a.txt'', obj_ETag = '''', obj_Size = 3\<rparr>"
  have mounted: "generic_List one_os (one_s3 ''b'') ''s3://b/dir'' () = ((), Inr [?x])"
    by (simp add: generic_List_def parts IsThisBucketMounted_def local_List_def GetLocalMountedPath_def TrimPrefix_def HasPrefix_def
        WalkFiles_def one_os_def quiet_os_def getPath_def filepath_Rel_def Clean_def local_Join_def path_Join_def Let_def IsAbs_def path_comps_def)
  with parts show "\<exists>x. generic_List one_os (one_s3 ''b'') ''s3://b/dir'' () = ((), Inr [x]) \<and>
      generic_Parse (one_s3 ''b'') (obj_URL x) = Inl (ErrUnsupportedProtocol ''genericS3'')"
    using listed_urls_parse [of "''s3://b/dir''" "\<lparr>up_bucket = ''b'', up_path = ''dir''\<rparr>" one_swift "()" "()" "[?x]" ?x "one_s3 ''b''" one_os]
    by (simp add: IsThisBucketMounted_def)
qed

lemma amazon_Get_eq:
  assumes "a_customer a = None" "amazon_Stat a url w = (w1, Inr obj)" "amazon_parse a url w1 = Inr (u, region)" "os_Create os path w1 = (w2, None)"
    "as_Download (a_client a) region (up_bucket u) (up_path u) None path w2 = (w3, copyErr)" "as_Close (a_client a) path w3 = (w4, None)"
  shows "amazon_Get os a url path w = (w4, Inr obj)"
  using assms by (simp add: amazon_Get_def split: option.split)

lemma mux_single: "un_Get (st_Unsupported b url w) = None \<Longrightarrow> st_Get (Mux [b]) ctx url path w = st_Get b ctx url path w"
proof -
  assume "un_Get (st_Unsupported b url w) = None"
  then have "FindBackend [b] url GetOp w = Inr b" by (simp add: FindBackend_iff)
  then show ?thesis by (simp add: Mux_def mux_Get_def)
qed

text \<open>
  C13: a failed download from Amazon S3 is reported as finished.  Without a key of the customer the
  error of the download is dropped: the transfer ends with the information of the object, and the
  local file is what the failed download left of it.
\<close>

theorem amazon_failed_download_finishes:
  assumes "a_customer a = None" "tr_Started x s = (w, l)" "EnsurePath os (tr_Path x) w = (w1, None)"
    "amazon_Stat a (tr_URL x) w1 = (w2, Inr obj)" "amazon_parse a (tr_URL x) w2 = Inr (u, region)" "os_Create os (tr_Path x) w2 = (w3, None)"
    "as_Download (a_client a) region (up_bucket u) (up_path u) None (tr_Path x) w3 = (w4, Some err)" "as_Close (a_client a) (tr_Path x) w4 = (w5, None)"
  shows "download_one os ctx (Mux [amazon_Storage os a]) x s = tr_Finished x [obj] (w5, l)"
proof -
  have "un_Get (st_Unsupported (amazon_Storage os a) (tr_URL x) w1) = None"
    using assms(4) amazon_Stat_unsupported [of a "tr_URL x" w1]
    by (auto simp: amazon_Storage_def amazon_Unsupported_def AllSupported_def split: sum.split)
  from mux_single [OF this, of "ctx (w1, l)" "tr_Path x"]
  have "st_Get (Mux [amazon_Storage os a]) (ctx (w1, l)) (tr_URL x) (tr_Path x) w1 = amazon_Get os a (tr_URL x) (tr_Path x) w1"
    by (simp add: amazon_Storage_def)
  also have "\<dots> = (w5, Inr obj)" by (rule amazon_Get_eq [OF assms(1,4-8)])
  finally show ?thesis using assms(2,3) by (simp add: download_one_def)
qed

text \<open>A service that knows the object and breaks off its download.\<close>

definition broken_s3 :: "unit AmazonS3" where
  "broken_s3 = \<lparr>a_client = \<lparr>as_GetBucketRegion = (\<lambda>_ _. Inr ''us-east-1''),
      as_HeadObject = (\<lambda>_ _ _ _ w. (w, Inr \<lparr>ho_LastModified = Some '''', ho_ETag = Some ''e'', ho_ContentLength = Some 3\<rparr>)),
      as_ListPages = (\<lambda>_ _ _ w. (w, [], None)), as_Download = (\<lambda>_ _ _ _ _ w. (w, Some (Errorf ''connection reset''))),
      as_Upload = (\<lambda>_ _ _ _ _ _ w. (w, None)), as_Close = (\<lambda>_ w. (w, None))\<rparr>,
     a_endpoint = '''', a_region = '''', a_customer = None, a_kms = None\<rparr>"

definition logged_transfer :: "(unit, string list) Transfer" where
  "logged_transfer = \<lparr>tr_URL = ''s3://b/k'', tr_Path = ''/work/k'', tr_Started = (\<lambda>s. s),
     tr_Finished = (\<lambda>objs s. (fst s, snd s @ [''finished''])), tr_Failed = (\<lambda>err s. (fst s, snd s @ [''failed'']))\<rparr>"

theorem amazon_failed_download_finishes_witness:
  "as_Download (a_client broken_s3) ''us-east-1'' ''b'' ''k'' None ''/work/k'' () = ((), Some (Errorf ''connection reset'')) \<and>
   download_one quiet_os (\<lambda>_. None) (Mux [amazon_Storage quiet_os broken_s3]) logged_transfer ((), []) = ((), [''finished''])"
proof
  have parse: "amazon_parse broken_s3 ''s3://b/k'' () = Inr (\<lparr>up_bucket = ''b'', up_path = ''k''\<rparr>, ''us-east-1'')"
    by (simp add: amazon_parse_def broken_s3_def s3Protocol_def HasPrefix_def TrimPrefix_def strip_host_def split_parts_def cut_slash_def)
  have stat: "amazon_Stat broken_s3 ''s3://b/k'' () = ((), Inr \<lparr>obj_URL = ''s3://b/k'', obj_Name = ''k'', obj_ETag = ''e'', obj_Size = 3\<rparr>)"
    unfolding amazon_Stat_def parse by (simp add: broken_s3_def head_object_def)
  show down: "as_Download (a_client broken_s3) ''us-east-1'' ''b'' ''k'' None ''/work/k'' () = ((), Some (Errorf ''connection reset''))"
    by (simp add: broken_s3_def)
  have fields: "a_customer broken_s3 = None" "as_Close (a_client broken_s3) p () = ((), None)" "os_Create quiet_os p () = ((), None)"
    "tr_Started logged_transfer s = s" "tr_URL logged_transfer = ''s3://b/k''" "tr_Path logged_transfer = ''/work/k''" for p s
    by (simp_all add: broken_s3_def quiet_os_def logged_transfer_def)
  have "download_one quiet_os (\<lambda>_. None) (Mux [amazon_Storage quiet_os broken_s3]) logged_transfer ((), []) =
      tr_Finished logged_transfer [\<lparr>obj_URL = ''s3://b/k'', obj_Name = ''k'', obj_ETag = ''e'', obj_Size = 3\<rparr>] ((), [])"
    by (rule amazon_failed_download_finishes [where w = "()" and ?w1.0 = "()" and ?w2.0 = "()" and ?w3.0 = "()" and ?w4.0 = "()"
          and u = "\<lparr>up_bucket = ''b'', up_path = ''k''\<rparr>" and region = "''us-east-1''" and err = "Errorf ''connection reset''"])
      (simp_all add: parse stat down fields)
  then show "download_one quiet_os (\<lambda>_. None) (Mux [amazon_Storage quiet_os broken_s3]) logged_transfer ((), []) = ((), [''finished''])"
    by (simp add: logged_transfer_def)
qed

end
